(* ===== verification/Prelude.thy ===== *)
theory Prelude
  imports Main "HOL-Library.Word" "HOL-Library.Product_Lexorder"
begin

text \<open>
  The vocabulary every component shares: results that may fail, tables as lists of rows with the
  SQL statements the repositories issue, and the machine integers of Go and of the schema.

  \<^item> A fallible operation returns \<open>'e + 'a\<close>, \<open>Inl\<close> for the error; \<open>sbind\<close> is Go's
    \<open>if err != nil { return err }\<close>: it hands the first error on and otherwise goes on.
  \<^item> A table is the list of its rows in insertion order. \<open>update_where\<close>, \<open>delete_where\<close> and
    \<open>affected\<close> are \<open>UPDATE .. WHERE\<close>, \<open>DELETE .. WHERE\<close> and the \<open>RowsAffected\<close> both report.
  \<^item> \<open>int64\<close> and \<open>int32\<close> wrap an integer to the width of Go's types; \<open>in64\<close> and \<open>in32\<close>
    are the ranges of \<open>BIGINT\<close> and \<open>INT\<close>, outside which PostgreSQL reports an error instead.
\<close>

named_theorems tx_elims \<open>what a successful composite operation went through\<close>
named_theorems frame_simps \<open>what an operation leaves unchanged\<close>

section \<open>Results\<close>

definition sbind :: "'e + 'a \<Rightarrow> ('a \<Rightarrow> 'e + 'b) \<Rightarrow> 'e + 'b" where
  "sbind m f = (case m of Inl e \<Rightarrow> Inl e | Inr x \<Rightarrow> f x)"

definition require :: "bool \<Rightarrow> 'e \<Rightarrow> 'e + unit" where
  "require b e = (if b then Inr () else Inl e)"

lemma sbind_Inl [simp]: "sbind (Inl e) f = Inl e"
  by (simp add: sbind_def)

lemma sbind_Inr [simp]: "sbind (Inr x) f = f x"
  by (simp add: sbind_def)

lemma sbind_eq_Inr [tx_elims]: "sbind m f = Inr y \<longleftrightarrow> (\<exists>x. m = Inr x \<and> f x = Inr y)"
  by (cases m) auto

lemma sbind_InrE:
  assumes "sbind m f = Inr y"
  obtains x where "m = Inr x" "f x = Inr y"
  using assms by (auto simp: sbind_eq_Inr)

lemma sbind_eq_Inl: "sbind m f = Inl e \<longleftrightarrow> m = Inl e \<or> (\<exists>x. m = Inr x \<and> f x = Inl e)"
  by (cases m) auto

lemma sbind_cong [fundef_cong]:
  "m = n \<Longrightarrow> (\<And>x. n = Inr x \<Longrightarrow> f x = g x) \<Longrightarrow> sbind m f = sbind n g"
  by (cases n) auto

lemma sbind_assoc: "sbind (sbind m f) g = sbind m (\<lambda>x. sbind (f x) g)"
  by (cases m) auto

lemma require_True [simp]: "require True e = Inr ()"
  by (simp add: require_def)

lemma require_False [simp]: "require False e = Inl e"
  by (simp add: require_def)

lemma require_eq_Inr [tx_elims]: "require b e = Inr u \<longleftrightarrow> b"
  by (simp add: require_def)

lemma require_eq_Inl: "require b e = Inl e' \<longleftrightarrow> \<not> b \<and> e' = e"
  by (auto simp: require_def)

section \<open>Tables\<close>

definition update_where :: "('r \<Rightarrow> bool) \<Rightarrow> ('r \<Rightarrow> 'r) \<Rightarrow> 'r list \<Rightarrow> 'r list" where
  "update_where P f t = map (\<lambda>r. if P r then f r else r) t"

definition delete_where :: "('r \<Rightarrow> bool) \<Rightarrow> 'r list \<Rightarrow> 'r list" where
  "delete_where P t = filter (\<lambda>r. \<not> P r) t"

definition affected :: "('r \<Rightarrow> bool) \<Rightarrow> 'r list \<Rightarrow> nat" where
  "affected P t = length (filter P t)"

lemma update_where_Nil [simp]: "update_where P f [] = []"
  by (simp add: update_where_def)

lemma update_where_Cons [simp]:
  "update_where P f (r # t) = (if P r then f r else r) # update_where P f t"
  by (simp add: update_where_def)

lemma update_where_append [simp]:
  "update_where P f (s @ t) = update_where P f s @ update_where P f t"
  by (simp add: update_where_def)

lemma length_update_where [simp]: "length (update_where P f t) = length t"
  by (simp add: update_where_def)

lemma set_update_where: "set (update_where P f t) = (\<lambda>r. if P r then f r else r) ` set t"
  by (simp add: update_where_def)

lemma update_where_none: "(\<And>r. r \<in> set t \<Longrightarrow> \<not> P r) \<Longrightarrow> update_where P f t = t"
  by (induction t) auto

lemma map_update_where:
  "(\<And>r. P r \<Longrightarrow> g (f r) = g r) \<Longrightarrow> map g (update_where P f t) = map g t"
  by (induction t) auto

lemma filter_update_where:
  "(\<And>r. P r \<Longrightarrow> Q (f r) = Q r) \<Longrightarrow>
   filter Q (update_where P f t) = update_where P f (filter Q t)"
  by (induction t) auto

lemma find_update_where:
  assumes "\<And>r. P r \<Longrightarrow> Q (f r) = Q r"
  shows "find Q (update_where P f t) = map_option (\<lambda>r. if P r then f r else r) (find Q t)"
  using assms by (induction t) auto

lemma find_update_where_other:
  assumes "\<And>r. P r \<Longrightarrow> Q (f r) = Q r" and "\<And>r. P r \<Longrightarrow> \<not> Q r"
  shows "find Q (update_where P f t) = find Q t"
  using assms by (induction t) auto

lemma set_delete_where [simp]: "set (delete_where P t) = {r \<in> set t. \<not> P r}"
  by (simp add: delete_where_def)

lemma affected_0_iff: "affected P t = 0 \<longleftrightarrow> (\<forall>r\<in>set t. \<not> P r)"
  by (simp add: affected_def filter_empty_conv)

lemma find_SomeD: "find P xs = Some x \<Longrightarrow> x \<in> set xs \<and> P x"
  by (induction xs) (auto split: if_splits)

lemma find_append: "find P (xs @ ys) = (case find P xs of None \<Rightarrow> find P ys | Some x \<Rightarrow> Some x)"
  by (induction xs) auto

lemma find_None_filter: "find P xs = None \<longleftrightarrow> filter P xs = []"
  by (induction xs) auto

lemma find_hd_filter: "find P xs = (case filter P xs of [] \<Rightarrow> None | x # _ \<Rightarrow> Some x)"
  by (induction xs) auto

text \<open>A primary key: at most one row carries a key.\<close>

lemma distinct_map_unique:
  "distinct (map k t) \<Longrightarrow> r \<in> set t \<Longrightarrow> s \<in> set t \<Longrightarrow> k r = k s \<Longrightarrow> r = s"
  by (metis distinct_map inj_on_def)

lemma find_key:
  "distinct (map k t) \<Longrightarrow> r \<in> set t \<Longrightarrow> find (\<lambda>s. k s = k r) t = Some r"
  by (induction t) (auto simp: rev_image_eqI)

lemma find_key_None: "find (\<lambda>s. k s = x) t = None \<longleftrightarrow> x \<notin> k ` set t"
  by (induction t) auto

lemma notin_imageD: "x \<notin> f ` S \<Longrightarrow> s \<in> S \<Longrightarrow> f s \<noteq> x"
  by blast

section \<open>Queries\<close>

text \<open>
  \<open>ORDER BY k DESC\<close>, and gorm's \<open>Offset(o).Limit(n)\<close>: a non-positive offset is omitted, and so is a
  negative limit.
\<close>

definition sort_desc :: "('r \<Rightarrow> 'k::linorder) \<Rightarrow> 'r list \<Rightarrow> 'r list" where
  "sort_desc k t = rev (sort_key k t)"

definition offset_limit :: "int \<Rightarrow> int \<Rightarrow> 'r list \<Rightarrow> 'r list" where
  "offset_limit off lim t =
     (let t' = drop (nat off) t in if lim < 0 then t' else take (nat lim) t')"

lemma set_sort_desc [simp]: "set (sort_desc k t) = set t"
  by (simp add: sort_desc_def)

lemma length_sort_desc [simp]: "length (sort_desc k t) = length t"
  by (simp add: sort_desc_def)

lemma distinct_sort_desc [simp]: "distinct (sort_desc k t) = distinct t"
  by (simp add: sort_desc_def)

lemma sorted_sort_desc: "sorted_wrt (\<lambda>r s. k s \<le> k r) (sort_desc k t)"
proof -
  have "sorted (map k (sort_key k t))" by simp
  then show ?thesis by (simp add: sort_desc_def sorted_wrt_rev sorted_wrt_map)
qed

lemma length_offset_limit: "0 \<le> lim \<Longrightarrow> length (offset_limit off lim t) \<le> nat lim"
  by (simp add: offset_limit_def Let_def)

lemma set_offset_limit: "set (offset_limit off lim t) \<subseteq> set t"
  by (auto simp: offset_limit_def Let_def dest: in_set_takeD in_set_dropD)

lemma offset_limit_zero: "offset_limit 0 lim t = (if lim < 0 then t else take (nat lim) t)"
  by (simp add: offset_limit_def)

text \<open>Turning the pages shows every row once, in order.\<close>

lemma pages_concat:
  "concat (map (\<lambda>i. take n (drop (i * n) t)) [0..<m]) = take (m * n) t"
proof (induction m)
  case (Suc m)
  have "take (Suc m * n) t = take (m * n) t @ take n (drop (m * n) t)"
    using take_add[of "m * n" n t] by (simp add: add.commute)
  then show ?case using Suc by simp
qed simp

section \<open>Machine integers\<close>

definition int64 :: "int \<Rightarrow> int" where
  "int64 x = (x + 2 ^ 63) mod 2 ^ 64 - 2 ^ 63"

definition int32 :: "int \<Rightarrow> int" where
  "int32 x = (x + 2 ^ 31) mod 2 ^ 32 - 2 ^ 31"

definition in64 :: "int \<Rightarrow> bool" where
  "in64 x \<longleftrightarrow> - (2 ^ 63) \<le> x \<and> x < 2 ^ 63"

definition in32 :: "int \<Rightarrow> bool" where
  "in32 x \<longleftrightarrow> - (2 ^ 31) \<le> x \<and> x < 2 ^ 31"

definition max_int64 :: int where
  "max_int64 = 9223372036854775807"

definition min_int64 :: int where
  "min_int64 = - 9223372036854775808"

definition max_int32 :: int where
  "max_int32 = 2147483647"

lemma int64_id [simp]: "in64 x \<Longrightarrow> int64 x = x"
  by (simp add: int64_def in64_def)

lemma int32_id [simp]: "in32 x \<Longrightarrow> int32 x = x"
  by (simp add: int32_def in32_def)

lemma in64_int64 [simp]: "in64 (int64 x)"
proof -
  have "0 \<le> (x + 2 ^ 63) mod 2 ^ 64" and "(x + 2 ^ 63) mod 2 ^ 64 < (2 ^ 64 :: int)"
    by (rule pos_mod_sign, simp) (rule pos_mod_bound, simp)
  then show ?thesis by (simp add: int64_def in64_def)
qed

text \<open>The wrap is the two's complement reading of a 64-bit word.\<close>

lemma int64_eq_sint: "int64 x = sint (word_of_int x :: 64 word)"
  by (simp add: int64_def sint_word_ariths signed_take_bit_eq_take_bit_shift take_bit_eq_mod
      signed_of_int)

lemma int32_eq_sint: "int32 x = sint (word_of_int x :: 32 word)"
  by (simp add: int32_def signed_take_bit_eq_take_bit_shift take_bit_eq_mod signed_of_int)

section \<open>Sums over tables\<close>

lemma sum_list_filter_append:
  "sum_list (map f (filter P (xs @ ys))) =
   sum_list (map f (filter P xs)) + sum_list (map f (filter P ys))"
  for f :: "'r \<Rightarrow> int"
  by simp

end
