(* ===== verification/GoText.thy ===== *)
theory GoText
  imports Prelude
begin

text \<open>
  The part of Go's \<open>strings\<close>, \<open>unicode/utf8\<close> and \<open>strconv\<close> the services use. A Go string is a
  sequence of bytes, a \<open>string\<close> here; \<open>len(s)\<close> is \<open>length\<close>.

  \<^item> \<open>runes s\<close> splits a string the way \<open>range\<close> and \<open>[]rune(s)\<close> do: a well-formed UTF-8
    sequence is one rune, every byte that starts none is one rune of width 1. \<open>rune_count\<close> is
    \<open>len([]rune(s))\<close>.
  \<^item> \<open>trim_space\<close> is \<open>strings.TrimSpace\<close>: it strips the code points of \<open>unicode.IsSpace\<close>.
    A well-formed sequence is never swallowed by bytes before it, so the scan from the right that
    Go makes sees the same runes.
  \<^item> \<open>btrim\<close> is PostgreSQL's function of that name, which strips the space character only.
  \<^item> \<open>parse_int64\<close> and \<open>format_int\<close> are \<open>strconv.ParseInt(_, 10, 64)\<close> and \<open>FormatInt(_, 10)\<close>.
\<close>

section \<open>Runes\<close>

definition byte :: "char \<Rightarrow> nat" where
  "byte c = of_char c"

definition utf8_need :: "nat \<Rightarrow> nat" where
  "utf8_need b =
     (if 194 \<le> b \<and> b \<le> 223 then 1
      else if 224 \<le> b \<and> b \<le> 239 then 2
      else if 240 \<le> b \<and> b \<le> 244 then 3 else 0)"

definition utf8_lo :: "nat \<Rightarrow> nat" where
  "utf8_lo b = (if b = 224 then 160 else if b = 240 then 144 else 128)"

definition utf8_hi :: "nat \<Rightarrow> nat" where
  "utf8_hi b = (if b = 237 then 159 else if b = 244 then 143 else 191)"

definition utf8_cont :: "nat \<Rightarrow> bool" where
  "utf8_cont b \<longleftrightarrow> 128 \<le> b \<and> b \<le> 191"

fun rune_width :: "string \<Rightarrow> nat" where
  "rune_width [] = 0"
| "rune_width (c # cs) =
     (let b = byte c; n = utf8_need b; t = map byte (take n cs)
      in if 0 < n \<and> length t = n \<and> utf8_lo b \<le> hd t \<and> hd t \<le> utf8_hi b \<and> list_all utf8_cont t
         then Suc n else 1)"

lemma rune_width_pos: "s \<noteq> [] \<Longrightarrow> 0 < rune_width s"
  by (cases s) (simp_all add: Let_def)

function runes :: "string \<Rightarrow> string list" where
  "runes [] = []"
| "runes (c # cs) =
     take (rune_width (c # cs)) (c # cs) # runes (drop (rune_width (c # cs)) (c # cs))"
  by pat_completeness auto
termination
  by (relation "measure length") (use rune_width_pos in \<open>auto simp del: rune_width.simps\<close>)

declare rune_width.simps(2) [simp del]

definition rune_count :: "string \<Rightarrow> nat" where
  "rune_count s = length (runes s)"

definition ascii :: "string \<Rightarrow> bool" where
  "ascii s \<longleftrightarrow> list_all (\<lambda>c. byte c < 128) s"

lemma rune_width_ascii: "byte c < 128 \<Longrightarrow> rune_width (c # cs) = 1"
  by (simp add: rune_width.simps utf8_need_def)

lemma runes_ascii: "ascii s \<Longrightarrow> runes s = map (\<lambda>c. [c]) s"
  by (induction s rule: runes.induct) (simp_all add: ascii_def rune_width_ascii)

lemma rune_count_ascii: "ascii s \<Longrightarrow> rune_count s = length s"
  by (simp add: rune_count_def runes_ascii)

lemma concat_runes [simp]: "concat (runes s) = s"
  by (induction s rule: runes.induct) simp_all

lemma rune_count_le_length: "rune_count s \<le> length s"
proof (induction s rule: runes.induct)
  case 1
  then show ?case by (simp add: rune_count_def)
next
  case (2 c cs)
  have "0 < rune_width (c # cs)" by (rule rune_width_pos) simp
  with "2.IH" show ?case by (simp add: rune_count_def)
qed

section \<open>Trimming\<close>

definition space_runes :: "nat list list" where
  "space_runes =
     [[9], [10], [11], [12], [13], [32], [194, 133], [194, 160], [225, 154, 128],
      [226, 128, 128], [226, 128, 129], [226, 128, 130], [226, 128, 131], [226, 128, 132],
      [226, 128, 133], [226, 128, 134], [226, 128, 135], [226, 128, 136], [226, 128, 137],
      [226, 128, 138], [226, 128, 168], [226, 128, 169], [226, 128, 175], [226, 129, 159],
      [227, 128, 128]]"

definition is_space :: "string \<Rightarrow> bool" where
  "is_space r \<longleftrightarrow> map byte r \<in> set space_runes"

definition strip :: "('a \<Rightarrow> bool) \<Rightarrow> 'a list \<Rightarrow> 'a list" where
  "strip P xs = rev (dropWhile P (rev (dropWhile P xs)))"

definition trim_space :: "string \<Rightarrow> string" where
  "trim_space s = concat (strip is_space (runes s))"

definition btrim :: "string \<Rightarrow> string" where
  "btrim s = strip (\<lambda>c. c = CHR '' '') s"

lemma strip_Nil [simp]: "strip P [] = []"
  by (simp add: strip_def)

lemma strip_eq_Nil: "strip P xs = [] \<longleftrightarrow> list_all P xs"
proof -
  have "(\<forall>x\<in>set (dropWhile P xs). P x) \<longleftrightarrow> dropWhile P xs = []"
    by (induction xs) auto
  moreover have "dropWhile P xs = [] \<longleftrightarrow> (\<forall>x\<in>set xs. P x)"
    by (rule dropWhile_eq_Nil_conv)
  ultimately show ?thesis
    by (simp add: strip_def list_all_iff)
qed

lemma length_strip_le: "length (strip P xs) \<le> length xs"
  unfolding strip_def by (metis length_dropWhile_le length_rev order_trans)

lemma set_strip_subset: "set (strip P xs) \<subseteq> set xs"
  unfolding strip_def by (metis set_dropWhileD set_rev subsetI)

lemma strip_id: "xs = [] \<or> (\<not> P (hd xs) \<and> \<not> P (last xs)) \<Longrightarrow> strip P xs = xs"
proof -
  assume a: "xs = [] \<or> (\<not> P (hd xs) \<and> \<not> P (last xs))"
  then have "dropWhile P xs = xs" by (cases xs) auto
  moreover from a have "dropWhile P (rev xs) = rev xs" by (cases xs rule: rev_cases) auto
  ultimately show ?thesis by (simp add: strip_def)
qed

lemma runes_nonempty: "r \<in> set (runes s) \<Longrightarrow> r \<noteq> []"
proof (induction s rule: runes.induct)
  case (2 c cs)
  have "0 < rune_width (c # cs)" by (rule rune_width_pos) simp
  with 2 show ?case by auto
qed simp

lemma trim_space_eq_Nil: "trim_space s = [] \<longleftrightarrow> list_all is_space (runes s)"
proof -
  have ne: "concat xs = [] \<longleftrightarrow> xs = []" if "\<And>r. r \<in> set xs \<Longrightarrow> r \<noteq> []" for xs :: "string list"
    using that by (cases xs) auto
  have "r \<noteq> []" if "r \<in> set (strip is_space (runes s))" for r
    using that set_strip_subset runes_nonempty by (metis subsetD)
  then have "trim_space s = [] \<longleftrightarrow> strip is_space (runes s) = []"
    unfolding trim_space_def by (rule ne)
  then show ?thesis by (simp add: strip_eq_Nil)
qed

lemma trim_space_Nil [simp]: "trim_space [] = []"
  by (simp add: trim_space_def)

text \<open>A string that starts and ends with a printable ASCII character is not changed.\<close>

lemma is_space_ascii: "byte c < 128 \<Longrightarrow> is_space [c] \<longleftrightarrow> byte c \<in> {9, 10, 11, 12, 13, 32}"
  by (auto simp: is_space_def space_runes_def)

lemma trim_space_ascii:
  assumes "ascii s"
  shows "trim_space s = strip (\<lambda>c. byte c \<in> {9, 10, 11, 12, 13, 32}) s"
proof -
  let ?P = "\<lambda>c. byte c \<in> {9, 10, 11, 12, 13, 32}"
  have dw: "dropWhile is_space (map (\<lambda>c. [c]) t) = map (\<lambda>c. [c]) (dropWhile ?P t)"
    if "ascii t" for t
    using that by (induction t) (simp_all add: ascii_def is_space_ascii)
  have as: "ascii (rev (dropWhile ?P s))"
    using assms unfolding ascii_def list_all_iff by (metis set_dropWhileD set_rev)
  have "strip is_space (map (\<lambda>c. [c]) s) = map (\<lambda>c. [c]) (strip ?P s)"
    by (simp only: strip_def dw [OF assms] rev_map dw [OF as, unfolded rev_map])
  moreover have "concat (map (\<lambda>c. [c]) t) = t" for t :: string
    by (induction t) auto
  ultimately show ?thesis
    by (simp only: trim_space_def runes_ascii [OF assms])
qed

text \<open>Evaluation takes the short way for ASCII text, whose runes are its characters.\<close>

definition ascii_char :: "char \<Rightarrow> bool" where
  "ascii_char c = (case c of Char b0 b1 b2 b3 b4 b5 b6 b7 \<Rightarrow> \<not> b7)"

definition ascii_space :: "char \<Rightarrow> bool" where
  "ascii_space c \<longleftrightarrow> c \<in> {CHR 0x09, CHR 0x0A, CHR 0x0B, CHR 0x0C, CHR 0x0D, CHR '' ''}"

lemma ascii_char_byte: "ascii_char c \<longleftrightarrow> byte c < 128"
  by (cases c) (auto simp: ascii_char_def byte_def of_char_def split: bool.splits)

lemma ascii_space_byte: "byte c \<in> {9, 10, 11, 12, 13, 32} \<longleftrightarrow> ascii_space c"
proof -
  have "byte c = byte e \<longleftrightarrow> c = e" for e by (simp add: byte_def)
  note eq = this[of "CHR 0x09"] this[of "CHR 0x0A"] this[of "CHR 0x0B"] this[of "CHR 0x0C"]
    this[of "CHR 0x0D"] this[of "CHR '' ''"]
  show ?thesis using eq by (simp add: ascii_space_def byte_def)
qed

lemma ascii_code [code]: "ascii s \<longleftrightarrow> list_all ascii_char s"
  by (simp add: ascii_def ascii_char_byte list_all_iff)

lemma rune_count_code [code]: "rune_count s = (if ascii s then length s else length (runes s))"
  by (simp add: rune_count_ascii) (simp add: rune_count_def)

lemma trim_space_code [code]:
  "trim_space s = (if ascii s then strip ascii_space s else concat (strip is_space (runes s)))"
proof -
  have "(\<lambda>c. byte c \<in> {9, 10, 11, 12, 13, 32}) = ascii_space"
    by (simp only: ascii_space_byte)
  then show ?thesis using trim_space_ascii[of s] by (simp add: trim_space_def)
qed

section \<open>Prefixes\<close>

definition has_prefix :: "string \<Rightarrow> string \<Rightarrow> bool" where
  "has_prefix s p \<longleftrightarrow> take (length p) s = p"

lemma has_prefix_append [simp]: "has_prefix (p @ s) p"
  by (simp add: has_prefix_def)

section \<open>Decimal integers\<close>

definition is_digit :: "char \<Rightarrow> bool" where
  "is_digit c \<longleftrightarrow> 48 \<le> byte c \<and> byte c \<le> 57"

definition digit_of :: "nat \<Rightarrow> char" where
  "digit_of n = char_of (48 + n mod 10)"

definition digits_value :: "string \<Rightarrow> nat" where
  "digits_value s = foldl (\<lambda>n c. 10 * n + (byte c - 48)) 0 s"

fun format_nat :: "nat \<Rightarrow> string" where
  "format_nat n = (if n < 10 then [digit_of n] else format_nat (n div 10) @ [digit_of n])"

declare format_nat.simps [simp del]

definition format_int :: "int \<Rightarrow> string" where
  "format_int i = (if i < 0 then CHR ''-'' # format_nat (nat (- i)) else format_nat (nat i))"

text \<open>\<open>ParseInt\<close> takes an optional sign and at least one digit, and reports values out of range.\<close>

definition parse_int64 :: "string \<Rightarrow> int option" where
  "parse_int64 s =
     (let neg = (s \<noteq> [] \<and> hd s = CHR ''-'');
          body = (if s \<noteq> [] \<and> (hd s = CHR ''-'' \<or> hd s = CHR ''+'') then tl s else s);
          v = (if neg then - int (digits_value body) else int (digits_value body))
      in if body = [] \<or> \<not> list_all is_digit body \<or> \<not> in64 v then None else Some v)"

lemma byte_digit_of [simp]: "byte (digit_of n) = 48 + n mod 10"
proof -
  have "48 + n mod 10 < (256 :: nat)" using mod_less_divisor [of 10 n] by linarith
  then show ?thesis by (simp add: byte_def digit_of_def)
qed

lemma is_digit_digit_of [simp]: "is_digit (digit_of n)"
proof -
  have "n mod 10 < 10" by simp
  then show ?thesis unfolding is_digit_def byte_digit_of by linarith
qed

lemma digits_value_snoc: "digits_value (s @ [c]) = 10 * digits_value s + (byte c - 48)"
  by (simp add: digits_value_def)

lemma format_nat_facts:
  "digits_value (format_nat n) = n \<and> list_all is_digit (format_nat n) \<and> format_nat n \<noteq> []"
proof (induction n rule: format_nat.induct)
  case (1 n)
  show ?case
  proof (cases "n < 10")
    case True
    then show ?thesis
      by (simp add: format_nat.simps [of n] digits_value_def)
  next
    case False
    with 1 show ?thesis
      by (simp add: format_nat.simps [of n] digits_value_snoc)
  qed
qed

lemmas digits_value_format_nat [simp] = format_nat_facts [THEN conjunct1]
  and digits_format_nat [simp] = format_nat_facts [THEN conjunct2, THEN conjunct1]
  and format_nat_not_Nil [simp] = format_nat_facts [THEN conjunct2, THEN conjunct2]

lemma hd_format_nat: "is_digit (hd (format_nat n))"
  using digits_format_nat [of n] format_nat_not_Nil [of n] by (cases "format_nat n") auto

lemma hd_format_nat_pos: "0 < n \<Longrightarrow> hd (format_nat n) \<noteq> CHR ''0''"
proof (induction n rule: format_nat.induct)
  case (1 n)
  show ?case
  proof (cases "n < 10")
    case True
    then have "byte (hd (format_nat n)) \<noteq> byte (CHR ''0'')"
      using "1.prems" by (simp add: format_nat.simps [of n], simp add: byte_def)
    then show ?thesis by auto
  next
    case False
    with "1.IH" have "hd (format_nat (n div 10)) \<noteq> CHR ''0''" by simp
    with False show ?thesis by (simp add: format_nat.simps [of n])
  qed
qed

text \<open>Printing and reading an \<open>int64\<close> are inverse.\<close>

lemma not_digit_sign: "\<not> is_digit (CHR ''-'')" "\<not> is_digit (CHR ''+'')"
  by (simp_all add: is_digit_def byte_def)

lemma parse_format_int: "in64 i \<Longrightarrow> parse_int64 (format_int i) = Some i"
proof (cases "i < 0")
  case True
  assume "in64 i"
  with True show ?thesis by (simp add: parse_int64_def format_int_def Let_def)
next
  case False
  assume "in64 i"
  moreover have "hd (format_nat (nat i)) \<noteq> CHR ''-''" "hd (format_nat (nat i)) \<noteq> CHR ''+''"
    using hd_format_nat not_digit_sign by metis+
  ultimately show ?thesis using False by (simp add: parse_int64_def format_int_def Let_def)
qed

section \<open>Runes of parts\<close>

text \<open>
  Reading in pieces never gives fewer runes: a cut inside a sequence leaves bytes that each count
  as a rune of their own.
\<close>

lemma rune_count_Nil [simp]: "rune_count [] = 0"
  by (simp add: rune_count_def)

lemma rune_count_step: "s \<noteq> [] \<Longrightarrow> rune_count s = Suc (rune_count (drop (rune_width s) s))"
  by (cases s) (simp_all add: rune_count_def)

lemma rune_width_le: "rune_width s \<le> length s"
  by (cases s) (auto simp: Let_def rune_width.simps)

lemma rune_width_append_fit:
  assumes "x \<noteq> []" and "rune_width (x @ y) \<le> length x"
  shows "rune_width x = rune_width (x @ y)"
proof (cases x)
  case (Cons c cs)
  define n where "n = utf8_need (byte c)"
  show ?thesis
  proof (cases "n \<le> length cs")
    case True
    then show ?thesis by (simp add: Cons rune_width.simps Let_def n_def[symmetric])
  next
    case False
    then have "rune_width x = 1" by (simp add: Cons rune_width.simps Let_def n_def[symmetric])
    moreover have "rune_width (x @ y) \<noteq> Suc n" using assms(2) False Cons by simp
    then have "rune_width (x @ y) = 1"
      by (auto simp: Cons rune_width.simps Let_def n_def[symmetric] split: if_splits)
    ultimately show ?thesis by simp
  qed
qed (use assms in simp)

text \<open>The part of a sequence that sticks out over the end of \<open>x\<close> is continuation bytes.\<close>

lemma rune_width_append_over:
  assumes "x \<noteq> []" and "length x < rune_width (x @ y)"
  shows "list_all (\<lambda>c. utf8_cont (byte c)) (take (rune_width (x @ y) - length x) y)"
proof (cases x)
  case (Cons c cs)
  define n where "n = utf8_need (byte c)"
  have w: "rune_width (c # cs @ y) = Suc n" and t: "list_all utf8_cont (map byte (take n (cs @ y)))"
    using assms(2) by (auto simp: Cons rune_width.simps Let_def n_def[symmetric] split: if_splits)
  show ?thesis using t w by (auto simp: Cons list_all_iff)
qed (use assms in simp)

lemma rune_count_cont:
  "list_all (\<lambda>c. utf8_cont (byte c)) (take k y) \<Longrightarrow> k \<le> length y \<Longrightarrow>
   rune_count y = k + rune_count (drop k y)"
proof (induction k arbitrary: y)
  case (Suc k)
  then obtain c cs where y: "y = c # cs" by (cases y) auto
  have "utf8_need (byte c) = 0" using Suc.prems(1) by (simp add: y utf8_cont_def utf8_need_def)
  then have "rune_width y = 1" by (simp add: y rune_width.simps)
  then show ?case using Suc by (simp add: rune_count_step[of "c # cs"] y)
qed simp

lemma rune_count_append_le: "rune_count (x @ y) \<le> rune_count x + rune_count y"
proof (induction "length x" arbitrary: x rule: less_induct)
  case less
  show ?case
  proof (cases "x = []")
    case False
    let ?w = "rune_width (x @ y)"
    have xy: "rune_count (x @ y) = Suc (rune_count (drop ?w (x @ y)))"
      using False by (intro rune_count_step) simp
    show ?thesis
    proof (cases "?w \<le> length x")
      case True
      have w: "rune_width x = ?w" by (rule rune_width_append_fit[OF False True])
      have "0 < ?w" using False by (intro rune_width_pos) simp
      then have "rune_count (drop ?w x @ y) \<le> rune_count (drop ?w x) + rune_count y"
        using False by (intro less) auto
      moreover have "rune_count x = Suc (rune_count (drop ?w x))"
        using rune_count_step[OF False] w by simp
      ultimately show ?thesis using xy True by simp
    next
      case over: False
      have "?w \<le> length (x @ y)" by (rule rune_width_le)
      then have "rune_count y = (?w - length x) + rune_count (drop (?w - length x) y)"
        using rune_width_append_over[OF False] over by (intro rune_count_cont) auto
      moreover have "1 \<le> rune_count x" using rune_count_step[OF False] by simp
      ultimately show ?thesis using xy over by simp
    qed
  qed simp
qed

lemma rune_count_concat_le: "rune_count (concat xs) \<le> sum_list (map rune_count xs)"
  by (induction xs) (auto intro: order_trans[OF rune_count_append_le])

lemma rune_count_rune: "r \<in> set (runes s) \<Longrightarrow> rune_count r = 1"
proof (induction s rule: runes.induct)
  case (2 c cs)
  let ?s = "c # cs" let ?w = "rune_width ?s" let ?r = "take ?w ?s"
  have "?w \<le> length ?s" by (rule rune_width_le)
  then have len: "length ?r = ?w" by simp
  have ne: "?r \<noteq> []" using rune_width_pos[of ?s] by simp
  have "rune_width ?r = rune_width (?r @ drop ?w ?s)"
    using ne len by (intro rune_width_append_fit) simp_all
  then have "rune_count ?r = 1" using rune_count_step[OF ne] len by simp
  moreover have "r = ?r \<or> r \<in> set (runes (drop ?w ?s))"
    using 2(2) unfolding runes.simps by simp
  ultimately show ?case using 2(1) by blast
qed simp

lemma sum_list_ones: "\<forall>x\<in>set xs. f x = (1 :: nat) \<Longrightarrow> sum_list (map f xs) = length xs"
  by (induction xs) auto

lemma rune_count_trim: "rune_count (trim_space s) \<le> rune_count s"
proof -
  have "\<forall>r\<in>set (strip is_space (runes s)). rune_count r = 1"
    by (meson rune_count_rune set_strip_subset subsetD)
  then have "sum_list (map rune_count (strip is_space (runes s))) = length (strip is_space (runes s))"
    by (simp add: sum_list_ones)
  also have "\<dots> \<le> rune_count s" unfolding rune_count_def by (rule length_strip_le)
  finally show ?thesis
    unfolding trim_space_def using rune_count_concat_le order_trans by blast
qed

text \<open>A text of blanks is trimmed away, so a text that is not blank keeps its \<open>btrim\<close>.\<close>

lemma btrim_not_Nil: "trim_space s \<noteq> [] \<Longrightarrow> btrim s \<noteq> []"
proof
  assume t: "trim_space s \<noteq> []" and "btrim s = []"
  then have b: "list_all (\<lambda>c. c = CHR '' '') s" by (simp add: btrim_def strip_eq_Nil)
  have sp: "byte (CHR '' '') = 32" by (simp add: byte_def)
  have 32: "\<forall>c\<in>set s. byte c = 32" using b sp unfolding list_all_iff by metis
  then have "ascii s" by (simp add: ascii_def list_all_iff)
  then have "trim_space s = []"
    using 32 by (simp add: trim_space_ascii strip_eq_Nil list_all_iff)
  with t show False by simp
qed

end
