(* ===== verification/Schema.thy ===== *)
theory Schema
  imports GoText
begin

text \<open>
  The data model: the row types of \<open>internal/platform/database/models.go\<close>, the error values the
  packages exchange, and the tables with the constraints of \<open>backend/migrations\<close>.

  A row type is a record with the columns the code reads or writes; \<open>created_at\<close> and
  \<open>updated_at\<close> are kept only where a projection or an \<open>ORDER BY\<close> reads them. A UUID is a
  \<open>128 word\<close>, whose unsigned order is the byte order of \<open>bytes.Compare\<close> and of the SQL type;
  \<open>0\<close> is \<open>uuid.Nil\<close>. A time is an integer count of nanoseconds, \<open>0\<close> being Go's zero time.
  A nullable column is an \<open>option\<close>.

  \<open>insert_T\<close> is \<open>INSERT INTO T\<close>: lengths of character types first (22001), then the \<open>CHECK\<close>
  constraints (23514), the unique indexes (23505) and the foreign keys (23503), each an error that
  leaves the table as it was.
\<close>

type_synonym uid = "128 word"
type_synonym time = int

section \<open>Errors\<close>

datatype err =
    PgErr string
  | ErrOther string
  | PaymentErrUserNotFound | ErrInsufficientBalance | ErrLedgerEntryNotFound
  | ErrProductNotFound | ErrInsufficientStock | ErrInvalidProduct string | ErrInvalidPrice string
  | ErrEmptyProductUpdate
  | ErrCartItemNotFound | ErrInvalidCartItem | ErrCartProductNotFound | ErrQuantityOverflow
  | ErrAddressNotFound | ErrInvalidAddress string | ErrEmptyUpdate | ErrDefaultAddressConflict
  | UserErrUserNotFound
  | ErrInvalidIdempotencyKey | ErrInvalidOrderRequest | ErrProductOffSale | ErrInsufficientPoints
  | ErrIdempotencyConflict | ErrUserNotFound | ErrOrderNotFound | ErrOrderStateConflict
  | ErrInvalidRefundReason
  | PointsErrInvalidIdempotencyKey | PointsErrInvalidAdjustment | PointsErrUserNotFound
  | PointsErrInsufficientPoints | PointsErrIdempotencyConflict
  | ErrInvalidTemplate string | ErrTemplateNotFound
  | ErrAdminNotFound | ErrAdminDisabled | ErrInvalidCredentials | ErrWeakPassword string
  | ErrInvalidUsername string | ErrUnknownRole | ErrAdministratorExists
  | ErrUnknownPermission string | ErrRoleNotFound | ErrRoleExists | ErrInvalidRoleName
  | ErrRoleUpdateEmpty | ErrAdminUserUpdateEmpty | ErrRateLimited
  | ErrLoginCodeRequired | ErrWeChatLookup string | ErrEmptyOpenID

text \<open>The SQLSTATE codes the code tests for and the constraints report.\<close>

abbreviation UniqueViolation :: err where "UniqueViolation \<equiv> PgErr ''23505''"
abbreviation CheckViolation :: err where "CheckViolation \<equiv> PgErr ''23514''"
abbreviation ForeignKeyViolation :: err where "ForeignKeyViolation \<equiv> PgErr ''23503''"
abbreviation StringTooLong :: err where "StringTooLong \<equiv> PgErr ''22001''"
abbreviation NumericOutOfRange :: err where "NumericOutOfRange \<equiv> PgErr ''22003''"

definition is_unique_violation :: "err \<Rightarrow> bool" where
  "is_unique_violation e = (case e of PgErr code \<Rightarrow> code = ''23505'' | _ \<Rightarrow> False)"

definition is_retryable :: "err \<Rightarrow> bool" where
  "is_retryable e = (case e of PgErr code \<Rightarrow> code = ''40P01'' \<or> code = ''40001'' | _ \<Rightarrow> False)"

text \<open>\<open>Error()\<close> of the sentinels a failure audit row records.\<close>

definition err_text :: "err \<Rightarrow> string" where
  "err_text e = (case e of
       ErrOrderStateConflict \<Rightarrow> ''order is not in the required state''
     | PointsErrUserNotFound \<Rightarrow> ''user not found''
     | PointsErrInsufficientPoints \<Rightarrow> ''insufficient points''
     | PointsErrIdempotencyConflict \<Rightarrow> ''idempotency key replay conflict''
     | ErrAdminNotFound \<Rightarrow> ''administrator not found''
     | ErrUnknownRole \<Rightarrow> ''unknown role''
     | ErrUnknownPermission c \<Rightarrow> ''unknown permission: '' @ c
     | ErrOther m \<Rightarrow> m
     | _ \<Rightarrow> [])"

section \<open>Rows\<close>

record user_row =
  u_id :: uid
  u_openid :: string
  u_nickname :: string
  u_avatar :: string
  u_balance :: int
  u_created :: time
  u_updated :: time

abbreviation StatusOnSale :: string where "StatusOnSale \<equiv> ''on_sale''"
abbreviation StatusOffSale :: string where "StatusOffSale \<equiv> ''off_sale''"

record product_row =
  p_id :: uid
  p_name :: string
  p_description :: string
  p_category :: string
  p_images :: "string list"
  p_price :: int
  p_stock :: int
  p_status :: string

record address_row =
  a_id :: uid
  a_user :: uid
  a_receiver :: string
  a_phone :: string
  a_region :: string
  a_detail :: string
  a_default :: bool
  a_version :: int
  a_created :: time
  a_updated :: time

record cart_row =
  c_id :: uid
  c_user :: uid
  c_product :: uid
  c_qty :: int

datatype order_status = Paid | Shipped | Completed | RefundRequested | Refunded

record item_row =
  i_id :: uid
  i_order :: uid
  i_product :: uid
  i_name :: string
  i_image :: string
  i_price :: int
  i_qty :: int

record order_row =
  o_id :: uid
  o_no :: string
  o_user :: uid
  o_token :: string
  o_hash :: string
  o_status :: order_status
  o_total :: int
  o_receiver :: string
  o_phone :: string
  o_address :: string
  o_refund_reason :: string
  o_reject_reason :: string
  o_reviewed_by :: "uid option"
  o_reviewed_at :: "time option"
  o_paid_at :: time
  o_shipped_by :: "uid option"
  o_shipped_at :: "time option"
  o_completed_at :: "time option"
  o_refunded_at :: "time option"
  o_created :: time
  o_items :: "item_row list"

datatype ledger_type = OrderPay | OrderRefund | SignupBonus | AdminAdjust

record ledger_row =
  l_id :: uid
  l_user :: uid
  l_order :: "uid option"
  l_event :: string
  l_hash :: "string option"
  l_type :: ledger_type
  l_delta :: int
  l_after :: int
  l_admin :: "uid option"
  l_remark :: string
  l_created :: time

abbreviation TemplateActive :: string where "TemplateActive \<equiv> ''active''"
abbreviation TemplateHalted :: string where "TemplateHalted \<equiv> ''halted''"

record template_row =
  t_id :: uid
  t_name :: string
  t_threshold :: int
  t_discount :: int
  t_total :: int
  t_limit :: int
  t_received :: int
  t_from :: time
  t_until :: time
  t_status :: string

record coupon_row =
  k_id :: uid
  k_template :: uid
  k_status :: string

text \<open>The values of the JSON objects an audit row carries before and after the change.\<close>

datatype audit_value =
    AInt int | AStr string | AUid uid | ATime time | ABool bool | AStrs "string list"

type_synonym audit_data = "(string \<times> audit_value) list"

record audit_row =
  au_id :: uid
  au_actor :: "uid option"
  au_role :: string
  au_action :: string
  au_target_type :: string
  au_target :: "uid option"
  au_result :: string
  au_before :: audit_data
  au_after :: audit_data

record role_row =
  r_id :: uid
  r_name :: string

record permission_row =
  m_id :: uid
  m_code :: string

record role_permission_row =
  rp_role :: uid
  rp_permission :: uid

record admin_row =
  ad_id :: uid
  ad_username :: string
  ad_hash :: string
  ad_version :: int
  ad_role :: uid
  ad_enabled :: bool
  ad_last_login :: "time option"

record db =
  users :: "user_row list"
  products :: "product_row list"
  addresses :: "address_row list"
  cart_items :: "cart_row list"
  orders :: "order_row list"
  order_items :: "item_row list"
  ledger :: "ledger_row list"
  templates :: "template_row list"
  user_coupons :: "coupon_row list"
  audit_logs :: "audit_row list"
  roles :: "role_row list"
  permissions :: "permission_row list"
  role_permissions :: "role_permission_row list"
  admins :: "admin_row list"

definition empty_db :: db where
  "empty_db = \<lparr>users = [], products = [], addresses = [], cart_items = [], orders = [],
     order_items = [], ledger = [], templates = [], user_coupons = [], audit_logs = [],
     roles = [], permissions = [], role_permissions = [], admins = []\<rparr>"

type_synonym 'a tx = "db \<Rightarrow> err + ('a \<times> db)"

text \<open>\<open>BeforeCreate\<close>: a zero id is replaced by a fresh one (the parameter), any other is kept.\<close>

definition fillID :: "uid \<Rightarrow> uid \<Rightarrow> uid" where
  "fillID fresh target = (if target = 0 then fresh else target)"

text \<open>The gallery of a product; the first key is the main image.\<close>

definition MainImageKey :: "product_row \<Rightarrow> string" where
  "MainImageKey p = (case p_images p of [] \<Rightarrow> [] | k # _ \<Rightarrow> k)"

section \<open>Constraints\<close>

definition insert_checked ::
  "bool \<Rightarrow> bool \<Rightarrow> bool \<Rightarrow> bool \<Rightarrow> 'r \<Rightarrow> 'r list \<Rightarrow> err + 'r list" where
  "insert_checked lengths checks unique fks r t =
     (if \<not> lengths then Inl StringTooLong
      else if \<not> checks then Inl CheckViolation
      else if \<not> unique then Inl UniqueViolation
      else if \<not> fks then Inl ForeignKeyViolation
      else Inr (t @ [r]))"

lemma insert_checked_eq_Inr [tx_elims]:
  "insert_checked l c u k r t = Inr t' \<longleftrightarrow> l \<and> c \<and> u \<and> k \<and> t' = t @ [r]"
  by (auto simp: insert_checked_def)

definition order_lengths :: "order_row \<Rightarrow> bool" where
  "order_lengths r \<longleftrightarrow>
     rune_count (o_no r) \<le> 32 \<and> rune_count (o_token r) \<le> 64 \<and> rune_count (o_hash r) \<le> 64 \<and>
     rune_count (o_receiver r) \<le> 32 \<and> rune_count (o_phone r) \<le> 20 \<and>
     rune_count (o_address r) \<le> 512 \<and> rune_count (o_refund_reason r) \<le> 255 \<and>
     rune_count (o_reject_reason r) \<le> 255"

definition shipped_consistent :: "order_row \<Rightarrow> bool" where
  "shipped_consistent r = (case o_status r of
       Paid \<Rightarrow> o_shipped_by r = None \<and> o_shipped_at r = None
     | Shipped \<Rightarrow> o_shipped_by r \<noteq> None \<and> o_shipped_at r \<noteq> None
     | Completed \<Rightarrow> o_shipped_by r \<noteq> None \<and> o_shipped_at r \<noteq> None
     | _ \<Rightarrow> (o_shipped_by r = None) = (o_shipped_at r = None))"

definition completed_consistent :: "order_row \<Rightarrow> bool" where
  "completed_consistent r = (case o_status r of
       Paid \<Rightarrow> o_completed_at r = None
     | Shipped \<Rightarrow> o_completed_at r = None
     | Completed \<Rightarrow> o_completed_at r \<noteq> None
     | _ \<Rightarrow> True)"

definition refunded_consistent :: "order_row \<Rightarrow> bool" where
  "refunded_consistent r \<longleftrightarrow> (o_status r = Refunded) = (o_refunded_at r \<noteq> None)"

definition order_checks :: "order_row \<Rightarrow> bool" where
  "order_checks r \<longleftrightarrow> 0 < o_total r \<and> btrim (o_token r) \<noteq> [] \<and>
     shipped_consistent r \<and> completed_consistent r \<and> refunded_consistent r"

definition admin_ref :: "db \<Rightarrow> uid option \<Rightarrow> bool" where
  "admin_ref d a = (case a of None \<Rightarrow> True | Some x \<Rightarrow> x \<in> ad_id ` set (admins d))"

definition order_fks :: "db \<Rightarrow> order_row \<Rightarrow> bool" where
  "order_fks d r \<longleftrightarrow> o_user r \<in> u_id ` set (users d) \<and>
     admin_ref d (o_shipped_by r) \<and> admin_ref d (o_reviewed_by r)"

definition insert_order :: "order_row \<Rightarrow> db \<Rightarrow> err + db" where
  "insert_order r d =
     sbind (insert_checked (order_lengths r) (order_checks r)
        (list_all (\<lambda>s. o_id s \<noteq> o_id r \<and> o_no s \<noteq> o_no r \<and>
           \<not> (o_user s = o_user r \<and> o_token s = o_token r)) (orders d))
        (order_fks d r) r (orders d))
      (\<lambda>t. Inr (d\<lparr>orders := t\<rparr>))"

definition item_checks :: "item_row \<Rightarrow> bool" where
  "item_checks r \<longleftrightarrow> 0 < i_price r \<and> 0 < i_qty r"

definition insert_item :: "item_row \<Rightarrow> db \<Rightarrow> err + db" where
  "insert_item r d =
     sbind (insert_checked (rune_count (i_name r) \<le> 128) (item_checks r)
        (list_all (\<lambda>s. i_id s \<noteq> i_id r \<and>
           \<not> (i_order s = i_order r \<and> i_product s = i_product r)) (order_items d))
        (i_order r \<in> o_id ` set (orders d) \<and> i_product r \<in> p_id ` set (products d))
        r (order_items d))
      (\<lambda>t. Inr (d\<lparr>order_items := t\<rparr>))"

fun insert_items :: "item_row list \<Rightarrow> db \<Rightarrow> err + db" where
  "insert_items [] d = Inr d"
| "insert_items (r # rs) d = sbind (insert_item r d) (insert_items rs)"

definition ledger_lengths :: "ledger_row \<Rightarrow> bool" where
  "ledger_lengths r \<longleftrightarrow> rune_count (l_event r) \<le> 96 \<and> rune_count (l_remark r) \<le> 255 \<and>
     (case l_hash r of None \<Rightarrow> True | Some h \<Rightarrow> rune_count h \<le> 64)"

definition ledger_direction :: "ledger_row \<Rightarrow> bool" where
  "ledger_direction r = (case l_type r of
       OrderPay \<Rightarrow> l_order r \<noteq> None \<and> l_delta r < 0 \<and> l_admin r = None
     | OrderRefund \<Rightarrow> l_order r \<noteq> None \<and> 0 < l_delta r \<and> l_admin r \<noteq> None
     | SignupBonus \<Rightarrow> l_order r = None \<and> 0 < l_delta r \<and> l_admin r = None
     | AdminAdjust \<Rightarrow> l_order r = None \<and> l_admin r \<noteq> None)"

definition ledger_checks :: "ledger_row \<Rightarrow> bool" where
  "ledger_checks r \<longleftrightarrow> l_delta r \<noteq> 0 \<and> 0 \<le> l_after r \<and> ledger_direction r \<and>
     (l_type r = AdminAdjust \<longrightarrow> btrim (l_remark r) \<noteq> []) \<and>
     (l_type r = AdminAdjust) = (l_hash r \<noteq> None)"

text \<open>
  The unique indexes of \<open>points_ledger\<close>: the event key, and the partial indexes
  \<open>uq_signup_bonus_user\<close>, \<open>uq_order_pay\<close> and \<open>uq_order_refund\<close>.
\<close>

definition ledger_conflict :: "ledger_row \<Rightarrow> ledger_row \<Rightarrow> bool" where
  "ledger_conflict r s \<longleftrightarrow> l_id s = l_id r \<or> l_event s = l_event r \<or>
     (l_type s = l_type r \<and>
       (case l_type r of
          SignupBonus \<Rightarrow> l_user s = l_user r
        | OrderPay \<Rightarrow> l_order s = l_order r
        | OrderRefund \<Rightarrow> l_order s = l_order r
        | AdminAdjust \<Rightarrow> False))"

definition ledger_fks :: "db \<Rightarrow> ledger_row \<Rightarrow> bool" where
  "ledger_fks d r \<longleftrightarrow> l_user r \<in> u_id ` set (users d) \<and>
     (case l_order r of None \<Rightarrow> True | Some x \<Rightarrow> x \<in> o_id ` set (orders d)) \<and>
     admin_ref d (l_admin r)"

definition insert_ledger :: "ledger_row \<Rightarrow> db \<Rightarrow> err + db" where
  "insert_ledger r d =
     sbind (insert_checked (ledger_lengths r) (ledger_checks r)
        (list_all (\<lambda>s. \<not> ledger_conflict r s) (ledger d)) (ledger_fks d r) r (ledger d))
      (\<lambda>t. Inr (d\<lparr>ledger := t\<rparr>))"

text \<open>\<open>INSERT .. ON CONFLICT DO NOTHING\<close>: a unique conflict inserts nothing and is no error.\<close>

definition insert_ledger_do_nothing :: "ledger_row \<Rightarrow> db \<Rightarrow> err + (nat \<times> db)" where
  "insert_ledger_do_nothing r d =
     (case insert_ledger r d of
        Inr d' \<Rightarrow> Inr (1, d')
      | Inl e \<Rightarrow> if is_unique_violation e then Inr (0, d) else Inl e)"

lemmas insert_defs = insert_order_def insert_item_def insert_ledger_def

end
