(* ===== verification/Txn.thy ===== *)
theory Txn
  imports Schema
begin

text \<open>
  \<open>internal/platform/database/database.go\<close>: the transaction runner and the reader that wraps
  legacy migration functions for goose.

  A transaction body is a \<open>tx\<close>: it returns an error, or a value with the tables it leaves. gorm's
  \<open>Transaction\<close> is \<open>commit\<close>: an error rolls every statement back. \<open>run_attempts\<close> is the loop
  of \<open>RunTransaction\<close>; the cancellation of the context before an attempt, the error of the back-off
  sleep and the outcome of each attempt (the database may abort one and not the next) are its
  arguments. It returns the result, the tables, and how often the body ran.
\<close>

definition commit :: "'a tx \<Rightarrow> db \<Rightarrow> (err + 'a) \<times> db" where
  "commit f d = (case f d of Inl e \<Rightarrow> (Inl e, d) | Inr (x, d') \<Rightarrow> (Inr x, d'))"

definition DefaultTransactionAttempts :: nat where
  "DefaultTransactionAttempts = 3"

function run_attempts ::
  "(nat \<Rightarrow> err option) \<Rightarrow> (nat \<Rightarrow> err option) \<Rightarrow> (nat \<Rightarrow> 'a tx) \<Rightarrow> nat \<Rightarrow> nat \<Rightarrow> db
   \<Rightarrow> (err + 'a) \<times> db \<times> nat" where
  "run_attempts ctx_err sleep_err fn attempts attempt d =
     (if attempts < attempt then (Inl (ErrOther ''transaction attempts exhausted''), d, 0)
      else case ctx_err attempt of
          Some e \<Rightarrow> (Inl e, d, 0)
        | None \<Rightarrow>
          (case commit (fn attempt) d of
             (Inr x, d') \<Rightarrow> (Inr x, d', 1)
           | (Inl e, d') \<Rightarrow>
             if \<not> is_retryable e \<or> attempt = attempts then (Inl e, d', 1)
             else case sleep_err attempt of
                 Some e' \<Rightarrow> (Inl e', d', 1)
               | None \<Rightarrow>
                 (case run_attempts ctx_err sleep_err fn attempts (Suc attempt) d' of
                    (r, d'', n) \<Rightarrow> (r, d'', Suc n))))"
  by pat_completeness auto
termination
  by (relation "measure (\<lambda>(_, _, _, attempts, attempt, _). Suc attempts - attempt)") auto

declare run_attempts.simps [simp del]

definition RunTransaction ::
  "nat \<Rightarrow> (nat \<Rightarrow> err option) \<Rightarrow> (nat \<Rightarrow> err option) \<Rightarrow> (nat \<Rightarrow> 'a tx) \<Rightarrow> db
   \<Rightarrow> (err + 'a) \<times> db \<times> nat" where
  "RunTransaction max_attempts ctx_err sleep_err fn d =
     run_attempts ctx_err sleep_err fn (if max_attempts < 1 then 1 else max_attempts) 1 d"

lemma commit_Inl: "f d = Inl e \<Longrightarrow> commit f d = (Inl e, d)"
  by (simp add: commit_def)

lemma commit_Inr: "f d = Inr (x, d') \<Longrightarrow> commit f d = (Inr x, d')"
  by (simp add: commit_def)

lemma commit_failed: "commit f d = (Inl e, d') \<longleftrightarrow> f d = Inl e \<and> d' = d"
  by (auto simp: commit_def split: sum.splits)

lemma commit_ok: "commit f d = (Inr x, d') \<longleftrightarrow> f d = Inr (x, d')"
  by (auto simp: commit_def split: sum.splits)

text \<open>At most the permitted number of attempts, and never one after a success.\<close>

lemma run_attempts_count:
  "run_attempts c s fn attempts attempt d = (r, d', n) \<Longrightarrow> n \<le> Suc attempts - attempt"
proof (induction c s fn attempts attempt d arbitrary: r d' n rule: run_attempts.induct)
  case (1 c s fn attempts attempt d)
  show ?case
    using 1(2)
    by (subst (asm) run_attempts.simps)
       (auto split: if_splits option.splits prod.splits sum.splits dest!: 1(1) simp: Suc_diff_le)
qed

text \<open>An error leaves the tables alone, and a value is the committed work of one attempt alone.\<close>

lemma run_attempts_atomic:
  "run_attempts c s fn attempts attempt d = (r, d', n) \<Longrightarrow>
   (case r of Inl _ \<Rightarrow> d' = d | Inr x \<Rightarrow> \<exists>i. attempt \<le> i \<and> i \<le> attempts \<and> fn i d = Inr (x, d'))"
proof (induction c s fn attempts attempt d arbitrary: r d' n rule: run_attempts.induct)
  case (1 c s fn attempts attempt d)
  show ?case
  proof (cases "attempts < attempt \<or> c attempt \<noteq> None")
    case True
    then show ?thesis
      using 1(2) by (subst (asm) run_attempts.simps) (auto split: if_splits)
  next
    case False
    then have le: "attempt \<le> attempts" and c: "c attempt = None" by auto
    show ?thesis
    proof (cases "fn attempt d")
      case (Inr p)
      then show ?thesis
        using 1(2) le c
        by (subst (asm) run_attempts.simps) (cases p, auto simp: commit_def)
    next
      case (Inl e)
      then have cm: "commit (fn attempt) d = (Inl e, d)" by (simp add: commit_def)
      show ?thesis
      proof (cases "\<not> is_retryable e \<or> attempt = attempts \<or> s attempt \<noteq> None")
        case True
        then show ?thesis
          using 1(2) le c cm
          by (subst (asm) run_attempts.simps) (auto split: if_splits)
      next
        case False
        then obtain m where
          rec: "run_attempts c s fn attempts (Suc attempt) d = (r, d', m)"
          using 1(2) le c cm
          by (subst (asm) run_attempts.simps) (auto split: prod.splits)
        have "case r of Inl _ \<Rightarrow> d' = d
          | Inr x \<Rightarrow> \<exists>i\<ge>Suc attempt. i \<le> attempts \<and> fn i d = Inr (x, d')"
          using 1(1)[OF _ c cm[symmetric] refl _ _ rec] False le by auto
        then show ?thesis by (auto split: sum.splits intro: Suc_leD)
      qed
    qed
  qed
qed

text \<open>
  A body that answers alike on every attempt, with no cancellation, answers what one transaction
  answers: the usecases below are therefore stated with \<open>commit\<close>.
\<close>

lemma run_attempts_commit:
  assumes "attempt \<le> attempts"
  shows "\<exists>n. run_attempts (\<lambda>_. None) (\<lambda>_. None) (\<lambda>_. f) attempts attempt d =
    (fst (commit f d), snd (commit f d), n)"
  using assms
proof (induction "attempts - attempt" arbitrary: attempt)
  case 0
  then show ?case
    by (subst run_attempts.simps) (auto simp: commit_def split: sum.splits)
next
  case (Suc k)
  then have "k = attempts - Suc attempt" and "Suc attempt \<le> attempts" by auto
  then obtain n where rec: "run_attempts (\<lambda>_. None) (\<lambda>_. None) (\<lambda>_. f) attempts (Suc attempt) d =
    (fst (commit f d), snd (commit f d), n)"
    using Suc(1) by blast
  show ?case
    using Suc(2,3) rec
    by (subst run_attempts.simps) (auto simp: commit_def split: sum.splits)
qed

text \<open>A persistent serialization failure is retried until the attempts are used up.\<close>

lemma run_attempts_persistent:
  assumes "attempt \<le> attempts" and "is_retryable e" and "\<And>i. fn i d = Inl e"
  shows "run_attempts (\<lambda>_. None) (\<lambda>_. None) fn attempts attempt d =
    (Inl e, d, Suc attempts - attempt)"
  using assms(1)
proof (induction "attempts - attempt" arbitrary: attempt)
  case 0
  then show ?case
    using assms by (subst run_attempts.simps) (auto simp: commit_def)
next
  case (Suc k)
  then have "k = attempts - Suc attempt" and "Suc attempt \<le> attempts" by auto
  then have "run_attempts (\<lambda>_. None) (\<lambda>_. None) fn attempts (Suc attempt) d =
    (Inl e, d, Suc attempts - Suc attempt)"
    using Suc(1) by blast
  then show ?case
    using Suc(2,3) assms(2,3) by (subst run_attempts.simps) (auto simp: commit_def)
qed

text \<open>
  C25: \<open>RunTransaction\<close> is all or nothing: however the context, the back-off and the attempts
  behave, it runs the body at most \<open>MaxAttempts\<close> times (at least one is allowed), an error leaves
  every table as it was, and a success is the work of one attempt alone.
\<close>

theorem RunTransaction_atomic:
  "case RunTransaction max_attempts ctx_err sleep_err fn d of (r, d', n) \<Rightarrow>
     n \<le> max 1 max_attempts \<and>
     (case r of Inl e \<Rightarrow> d' = d
      | Inr x \<Rightarrow> \<exists>i\<in>{1..max 1 max_attempts}. fn i d = Inr (x, d'))"
proof -
  let ?m = "max 1 max_attempts"
  obtain r d' n where run: "run_attempts ctx_err sleep_err fn ?m 1 d = (r, d', n)"
    by (cases "run_attempts ctx_err sleep_err fn ?m 1 d")
  have "(if max_attempts < 1 then 1 else max_attempts) = ?m" by simp
  then have "RunTransaction max_attempts ctx_err sleep_err fn d = (r, d', n)"
    unfolding RunTransaction_def using run by presburger
  moreover have "n \<le> ?m" using run_attempts_count[OF run] by simp
  moreover have "case r of Inl e \<Rightarrow> d' = d | Inr x \<Rightarrow> \<exists>i\<in>{1..?m}. fn i d = Inr (x, d')"
    using run_attempts_atomic[OF run] by (cases r) auto
  ultimately show ?thesis by simp
qed

lemma run_attempts_retries:
  assumes "attempt \<le> k" and "k \<le> attempts"
    and "\<forall>i\<in>{attempt..<k}. \<exists>e. fn i d = Inl e \<and> is_retryable e" and "fn k d = Inr (x, d')"
  shows "run_attempts (\<lambda>_. None) (\<lambda>_. None) fn attempts attempt d = (Inr x, d', Suc k - attempt)"
  using assms(1,3)
proof (induction "k - attempt" arbitrary: attempt)
  case 0
  then show ?case using assms(2,4) by (subst run_attempts.simps) (auto simp: commit_def)
next
  case (Suc m)
  then have "attempt \<in> {attempt..<k}" by simp
  then obtain e where e: "fn attempt d = Inl e" "is_retryable e" using Suc.prems(2) by blast
  have "run_attempts (\<lambda>_. None) (\<lambda>_. None) fn attempts (Suc attempt) d = (Inr x, d', Suc k - Suc attempt)"
    using Suc by auto
  then show ?case
    using Suc(2,3) assms(2) e by (subst run_attempts.simps) (auto simp: commit_def)
qed

text \<open>
  Deadlocks and serialization failures are ridden out: when the attempts before the \<open>k\<close>-th
  fail with SQLSTATE 40P01 or 40001 and the \<open>k\<close>-th succeeds, within the permitted number, the
  caller sees that success and the body ran \<open>k\<close> times.
\<close>

theorem RunTransaction_retries:
  assumes "1 \<le> k" and "k \<le> DefaultTransactionAttempts"
    and "\<forall>i\<in>{1..<k}. \<exists>e. fn i d = Inl e \<and> is_retryable e" and "fn k d = Inr (x, d')"
  shows "RunTransaction DefaultTransactionAttempts (\<lambda>_. None) (\<lambda>_. None) fn d = (Inr x, d', k)"
  using run_attempts_retries[of 1 k DefaultTransactionAttempts fn d x d'] assms
  by (simp add: RunTransaction_def DefaultTransactionAttempts_def)

theorem RunTransaction_retries_witness:
  "RunTransaction DefaultTransactionAttempts (\<lambda>_. None) (\<lambda>_. None)
     (\<lambda>i d. if i < 3 then Inl (PgErr ''40P01'') else Inr (i, d)) empty_db = (Inr 3, empty_db, 3)"
  by (rule RunTransaction_retries) (auto simp: DefaultTransactionAttempts_def is_retryable_def)

section \<open>Legacy migrations\<close>

text \<open>\<open>strings.Index\<close> and \<open>strings.Contains\<close>; \<open>None\<close> is Go's \<open>-1\<close>.\<close>

fun str_index :: "string \<Rightarrow> string \<Rightarrow> nat option" where
  "str_index [] pat = (if pat = [] then Some 0 else None)"
| "str_index (c # cs) pat =
     (if take (length pat) (c # cs) = pat then Some 0 else map_option Suc (str_index cs pat))"

definition str_contains :: "string \<Rightarrow> string \<Rightarrow> bool" where
  "str_contains s pat = (str_index s pat \<noteq> None)"

definition normalizeLegacyMigration :: "string \<Rightarrow> string" where
  "normalizeLegacyMigration contents =
     (let functionStart = ''CREATE FUNCTION''; functionEnd = ''$$;'' in
      if str_contains contents ''-- +goose StatementBegin'' \<or>
         \<not> str_contains contents functionStart then contents
      else case str_index contents functionStart of
          None \<Rightarrow> contents
        | Some start \<Rightarrow>
          (case str_index (drop start contents) functionEnd of
             None \<Rightarrow> contents
           | Some endOffset \<Rightarrow>
             (let stop = start + endOffset + length functionEnd in
              take start contents @ ''-- +goose StatementBegin'' @ [CHR 0x0A] @
              take (stop - start) (drop start contents) @ [CHR 0x0A] @ ''-- +goose StatementEnd'' @
              [CHR 0x0A] @ drop stop contents)))"

lemma str_index_split: "str_index (xs @ pat @ ys) pat \<noteq> None"
proof (induction xs)
  case Nil
  have "take (length pat) (pat @ ys) = pat" by simp
  then show ?case by (cases "pat @ ys") (auto simp del: take_append)
qed (auto split: if_splits)

lemma str_contains_split: "str_contains (xs @ pat @ ys) pat"
  using str_index_split[of xs pat ys] by (simp add: str_contains_def)

lemma normalizeLegacyMigration_marked:
  "str_contains s ''-- +goose StatementBegin'' \<Longrightarrow> normalizeLegacyMigration s = s"
  by (simp add: normalizeLegacyMigration_def)

text \<open>
  A migration is wrapped at most once: normalizing a file that was normalized changes nothing,
  so reading the migrations again runs the same statements.
\<close>

theorem normalizeLegacyMigration_idem:
  "normalizeLegacyMigration (normalizeLegacyMigration s) = normalizeLegacyMigration s"
proof (cases "normalizeLegacyMigration s = s")
  case False
  then have "\<exists>xs ys. normalizeLegacyMigration s = xs @ ''-- +goose StatementBegin'' @ ys"
    unfolding normalizeLegacyMigration_def Let_def
    by (auto simp only: split: if_splits option.splits)
  then show ?thesis
    using normalizeLegacyMigration_marked str_contains_split by metis
qed simp

end
