(* ===== verification/AuditLog.thy ===== *)
theory AuditLog
  imports Txn
begin

text \<open>
  \<open>internal/platform/audit/audit.go\<close>: the append-only audit log. \<open>write_audit\<close> is \<open>Write\<close>, which
  runs in the caller's transaction; \<open>marshal\<close> stores an empty payload as \<open>NULL\<close>, here the empty
  list. The generated id is a parameter; the random trace id is not read anywhere and left out.
\<close>

record audit_entry =
  ActorAdminID :: "uid option"
  ActorRole :: string
  Action :: string
  TargetType :: string
  TargetID :: "uid option"
  Result :: string
  BeforeData :: audit_data
  AfterData :: audit_data

definition audit_row_of :: "uid \<Rightarrow> audit_entry \<Rightarrow> audit_row" where
  "audit_row_of i e = \<lparr>au_id = i, au_actor = ActorAdminID e, au_role = ActorRole e,
     au_action = Action e, au_target_type = TargetType e, au_target = TargetID e,
     au_result = Result e, au_before = BeforeData e, au_after = AfterData e\<rparr>"

definition audit_lengths :: "audit_row \<Rightarrow> bool" where
  "audit_lengths r \<longleftrightarrow> rune_count (au_role r) \<le> 32 \<and> rune_count (au_action r) \<le> 64 \<and>
     rune_count (au_target_type r) \<le> 64 \<and> rune_count (au_result r) \<le> 16"

definition audit_checks :: "audit_row \<Rightarrow> bool" where
  "audit_checks r \<longleftrightarrow> au_result r = ''success'' \<or> au_result r = ''failure''"

definition write_audit :: "uid \<Rightarrow> audit_entry \<Rightarrow> db \<Rightarrow> err + db" where
  "write_audit i e d =
     (case insert_checked (audit_lengths (audit_row_of i e)) (audit_checks (audit_row_of i e))
        (i \<notin> au_id ` set (audit_logs d)) (admin_ref d (ActorAdminID e))
        (audit_row_of i e) (audit_logs d) of
        Inr t \<Rightarrow> Inr (d\<lparr>audit_logs := t\<rparr>)
      | Inl x \<Rightarrow> if is_unique_violation x then Inr d else Inl x)"

text \<open>What a successful write went through: only the log changes, and it only grows.\<close>

definition audit_valid :: "uid \<Rightarrow> audit_entry \<Rightarrow> db \<Rightarrow> bool" where
  "audit_valid i e d \<longleftrightarrow> audit_lengths (audit_row_of i e) \<and> audit_checks (audit_row_of i e) \<and>
     (i \<notin> au_id ` set (audit_logs d) \<longrightarrow> admin_ref d (ActorAdminID e))"

definition audit_appended :: "uid \<Rightarrow> audit_entry \<Rightarrow> db \<Rightarrow> audit_row list" where
  "audit_appended i e d =
     (if i \<in> au_id ` set (audit_logs d) then [] else [audit_row_of i e])"

lemma write_audit_eq_Inr [tx_elims]:
  "write_audit i e d = Inr d' \<longleftrightarrow> audit_valid i e d \<and>
     d' = d\<lparr>audit_logs := audit_logs d @ audit_appended i e d\<rparr>"
  by (auto simp: write_audit_def insert_checked_def is_unique_violation_def audit_valid_def
      audit_appended_def)

lemma write_audit_fresh:
  assumes "write_audit i e d = Inr d'" and "i \<notin> au_id ` set (audit_logs d)"
  shows "audit_logs d' = audit_logs d @ [audit_row_of i e]"
  using assms by (simp add: tx_elims audit_appended_def)

lemma write_audit_only:
  assumes "write_audit i e d = Inr d'"
  obtains t where "d' = d\<lparr>audit_logs := t\<rparr>"
  using assms by (auto simp: write_audit_eq_Inr)

section \<open>Recorders\<close>

text \<open>
  Several components record a refused request in a transaction of its own and drop its outcome. What
  they promise the rest of the shop is one contract: nothing but the log changes, and the log only
  grows. Whatever does not read the log is kept.
\<close>

locale recorder =
  fixes rec_log :: "db \<Rightarrow> db"
  assumes appends: "\<exists>t. rec_log d = d\<lparr>audit_logs := audit_logs d @ t\<rparr>"
begin

lemma keeps: "(\<And>t. P d \<Longrightarrow> P (d\<lparr>audit_logs := t\<rparr>)) \<Longrightarrow> P d \<Longrightarrow> P (rec_log d)"
  using appends[of d] by auto

lemma log_grows: "\<exists>t. audit_logs (rec_log d) = audit_logs d @ t"
  using appends[of d] by auto

lemma only_log: "\<exists>t. rec_log d = d\<lparr>audit_logs := t\<rparr>"
  using appends[of d] by auto

end

lemma audit_same: "\<exists>t. d = d\<lparr>audit_logs := t\<rparr>"
  by (rule exI[of _ "audit_logs d"]) simp

text \<open>The transaction of a recorder: one row, or none when the write is refused.\<close>

lemma recorder_commit:
  assumes "\<And>d. f d = sbind (write_audit i (e d) d) (\<lambda>d'. Inr ((), d'))"
  shows "recorder (\<lambda>d. snd (commit f d))"
proof
  fix d
  show "\<exists>t. snd (commit f d) = d\<lparr>audit_logs := audit_logs d @ t\<rparr>"
  proof (cases "write_audit i (e d) d")
    case (Inl x)
    then show ?thesis by (intro exI[of _ "[]"]) (simp add: commit_def assms)
  next
    case (Inr d')
    then have "d' = d\<lparr>audit_logs := audit_logs d @ audit_appended i (e d) d\<rparr>"
      by (simp add: write_audit_eq_Inr)
    then show ?thesis using Inr
      by (intro exI[of _ "audit_appended i (e d) d"]) (simp add: commit_def assms)
  qed
qed

end
