(* ===== verification/Payment.thy ===== *)
theory Payment
  imports AuditLog
begin

text \<open>
  \<open>internal/payment\<close>: the points balance of a buyer (\<open>balance.go\<close>) and the ledger
  (\<open>ledger.go\<close>, \<open>repository.go\<close>). The text of a UUID (\<open>uuid.UUID.String\<close>, a library) is the
  parameter \<open>us\<close>.
\<close>

section \<open>Balance\<close>

definition find_user :: "uid \<Rightarrow> db \<Rightarrow> user_row option" where
  "find_user u d = find (\<lambda>r. u_id r = u) (users d)"

definition LockUser :: "uid \<Rightarrow> db \<Rightarrow> err + unit" where
  "LockUser u d = (case find_user u d of None \<Rightarrow> Inl PaymentErrUserNotFound | Some _ \<Rightarrow> Inr ())"

text \<open>
  \<open>UPDATE users SET points_balance = b WHERE id = u RETURNING points_balance\<close> for a row that is
  there: a sum outside \<open>BIGINT\<close> is 22003, a negative one violates the column's \<open>CHECK\<close>.
\<close>

definition set_balance :: "uid \<Rightarrow> int \<Rightarrow> db \<Rightarrow> err + (int \<times> db)" where
  "set_balance u b d =
     (if \<not> in64 b then Inl NumericOutOfRange
      else if b < 0 then Inl CheckViolation
      else Inr (b, d\<lparr>users := update_where (\<lambda>r. u_id r = u) (\<lambda>r. r\<lparr>u_balance := b\<rparr>) (users d)\<rparr>))"

definition AdjustBalance :: "uid \<Rightarrow> int \<Rightarrow> db \<Rightarrow> err + (int \<times> db)" where
  "AdjustBalance u delta d =
     (if 0 \<le> delta then
        (case find_user u d of
           None \<Rightarrow> Inr (0, d)
         | Some r \<Rightarrow> set_balance u (u_balance r + delta) d)
      else
        (case find_user u d of
           None \<Rightarrow> Inl ErrInsufficientBalance
         | Some r \<Rightarrow>
           if int64 (- delta) \<le> u_balance r then set_balance u (u_balance r + delta) d
           else Inl ErrInsufficientBalance))"

lemma LockUser_eq_Inr [tx_elims]: "LockUser u d = Inr v \<longleftrightarrow> (\<exists>r. find_user u d = Some r)"
  by (auto simp: LockUser_def split: option.splits)

lemma set_balance_eq_Inr [tx_elims]:
  "set_balance u b d = Inr (b', d') \<longleftrightarrow> in64 b \<and> 0 \<le> b \<and> b' = b \<and>
     d' = d\<lparr>users := update_where (\<lambda>r. u_id r = u) (\<lambda>r. r\<lparr>u_balance := b\<rparr>) (users d)\<rparr>"
  by (auto simp: set_balance_def)

text \<open>
  What a successful adjustment went through, for a buyer that is there: the balance is the old one
  plus the delta, and it is in range and not negative.
\<close>

lemma AdjustBalance_eq_Inr:
  assumes "find_user u d = Some r" and "in64 delta"
  shows "AdjustBalance u delta d = Inr (b, d') \<longleftrightarrow>
    b = u_balance r + delta \<and> in64 b \<and> 0 \<le> b \<and>
    d' = d\<lparr>users := update_where (\<lambda>r. u_id r = u) (\<lambda>r. r\<lparr>u_balance := b\<rparr>) (users d)\<rparr>"
proof -
  have "int64 (- delta) \<le> u_balance r" if "delta < 0" "0 \<le> u_balance r + delta"
    using that assms(2)
    by (cases "delta = - (2 ^ 63)") (auto simp: int64_def in64_def)
  then show ?thesis
    using assms(1) by (auto simp: AdjustBalance_def tx_elims)
qed

text \<open>
  The outcome of a debit of a representable amount, on every branch: the guard refuses exactly the
  debits the balance does not cover, and no other error is possible.
\<close>

lemma AdjustBalance_debit:
  assumes "find_user u d = Some r" and "0 < n" and "n \<le> max_int64" and "0 \<le> u_balance r"
    and "in64 (u_balance r)"
  shows "AdjustBalance u (- n) d =
    (if u_balance r < n then Inl ErrInsufficientBalance
     else Inr (u_balance r - n, d\<lparr>users := update_where (\<lambda>r. u_id r = u)
       (\<lambda>s. s\<lparr>u_balance := u_balance r - n\<rparr>) (users d)\<rparr>))"
proof -
  have "in64 n" using assms(2,3) by (simp add: in64_def max_int64_def)
  moreover have "in64 (u_balance r - n)"
    using assms(2-5) by (simp add: in64_def max_int64_def)
  ultimately show ?thesis using assms by (simp add: AdjustBalance_def set_balance_def)
qed

lemma AdjustBalance_credit:
  assumes "find_user u d = Some r" and "0 \<le> n" and "0 \<le> u_balance r"
  shows "AdjustBalance u n d =
    (if max_int64 < u_balance r + n then Inl NumericOutOfRange
     else Inr (u_balance r + n, d\<lparr>users := update_where (\<lambda>r. u_id r = u)
       (\<lambda>s. s\<lparr>u_balance := u_balance r + n\<rparr>) (users d)\<rparr>))"
  using assms by (auto simp: AdjustBalance_def set_balance_def in64_def max_int64_def)

text \<open>
  The one debit the guard lets through: negating the least \<open>int64\<close> wraps, and the schema's
  \<open>CHECK\<close> reports what should have been \<open>ErrInsufficientBalance\<close>.
\<close>

lemma AdjustBalance_min_int64:
  assumes "find_user u d = Some r" and "0 \<le> u_balance r" and "in64 (u_balance r)"
  shows "AdjustBalance u min_int64 d = Inl CheckViolation"
  using assms by (auto simp: AdjustBalance_def set_balance_def in64_def min_int64_def int64_def)

section \<open>Ledger\<close>

definition OrderPayEventKey :: "(uid \<Rightarrow> string) \<Rightarrow> uid \<Rightarrow> string" where
  "OrderPayEventKey us orderID = ''order_pay:'' @ us orderID"

definition AdminAdjustEventKey :: "(uid \<Rightarrow> string) \<Rightarrow> uid \<Rightarrow> string \<Rightarrow> string" where
  "AdminAdjustEventKey us adminID idempotencyKey =
     ''admin_adjust:'' @ us adminID @ '':'' @ idempotencyKey"

definition OrderRefundEventKey :: "(uid \<Rightarrow> string) \<Rightarrow> uid \<Rightarrow> string" where
  "OrderRefundEventKey us orderID = ''order_refund:'' @ us orderID"

record ledger_entry =
  le_id :: uid
  le_user :: uid
  le_order :: "uid option"
  le_type :: ledger_type
  le_delta :: int
  le_after :: int
  le_remark :: string
  le_created :: time

definition ToLedgerEntry :: "ledger_row \<Rightarrow> ledger_entry" where
  "ToLedgerEntry row = \<lparr>le_id = l_id row, le_user = l_user row, le_order = l_order row,
     le_type = l_type row, le_delta = l_delta row, le_after = l_after row,
     le_remark = l_remark row, le_created = l_created row\<rparr>"

text \<open>\<open>Create\<close>; a zero id is filled with the fresh one.\<close>

definition ledger_create :: "uid \<Rightarrow> ledger_row \<Rightarrow> db \<Rightarrow> err + db" where
  "ledger_create fresh row d = insert_ledger (row\<lparr>l_id := fillID fresh (l_id row)\<rparr>) d"

definition FindByEventKey :: "string \<Rightarrow> db \<Rightarrow> err + ledger_row" where
  "FindByEventKey k d = (case find (\<lambda>r. l_event r = k) (ledger d) of
     None \<Rightarrow> Inl ErrLedgerEntryNotFound | Some r \<Rightarrow> Inr r)"

text \<open>\<open>ListByUser\<close>: the buyer's entries, newest id first, one page, with their number.\<close>

definition ListByUser :: "uid \<Rightarrow> int \<Rightarrow> int \<Rightarrow> db \<Rightarrow> ledger_row list \<times> nat" where
  "ListByUser u page pageSize d =
     (let rows = filter (\<lambda>r. l_user r = u) (ledger d)
      in (offset_limit (int64 (int64 (page - 1) * pageSize)) pageSize (sort_desc l_id rows),
          length rows))"

lemma insert_ledger_eq_Inr [tx_elims]:
  "insert_ledger r d = Inr d' \<longleftrightarrow> ledger_lengths r \<and> ledger_checks r \<and>
     (\<forall>s\<in>set (ledger d). \<not> ledger_conflict r s) \<and> ledger_fks d r \<and>
     d' = d\<lparr>ledger := ledger d @ [r]\<rparr>"
  by (auto simp: insert_ledger_def tx_elims list_all_iff)

lemma FindByEventKey_eq_Inr [tx_elims]:
  "FindByEventKey k d = Inr r \<longleftrightarrow> find (\<lambda>r. l_event r = k) (ledger d) = Some r"
  by (auto simp: FindByEventKey_def split: option.splits)

text \<open>An event key identifies its event: the three families never meet.\<close>

lemma event_keys_distinct:
  "OrderPayEventKey us a \<noteq> OrderRefundEventKey us b"
  "OrderPayEventKey us a \<noteq> AdminAdjustEventKey us c k"
  "OrderRefundEventKey us b \<noteq> AdminAdjustEventKey us c k"
  by (simp_all add: OrderPayEventKey_def OrderRefundEventKey_def AdminAdjustEventKey_def)

lemma event_keys_inj:
  assumes "inj us"
  shows "OrderPayEventKey us a = OrderPayEventKey us b \<longleftrightarrow> a = b"
    and "OrderRefundEventKey us a = OrderRefundEventKey us b \<longleftrightarrow> a = b"
  using assms by (auto simp: OrderPayEventKey_def OrderRefundEventKey_def inj_eq)

lemma AdminAdjustEventKey_inj:
  assumes "inj us" and "\<And>i. length (us i) = 36"
  shows "AdminAdjustEventKey us a k = AdminAdjustEventKey us b l \<longleftrightarrow> a = b \<and> k = l"
  using assms by (auto simp: AdminAdjustEventKey_def inj_eq append_eq_append_conv)

section \<open>Accounts\<close>

text \<open>
  The contract between the balance and the ledger. A statement runs when every entry's
  \<open>balance_after\<close> is the balance before it plus its delta; an account is settled when its
  statement runs from zero to its balance. A provider adjusts balances and posts entries; a client
  that posts what it adjusted keeps every account settled, whatever it does in between to other
  state.
\<close>

fun runs :: "int \<Rightarrow> ledger_row list \<Rightarrow> int option" where
  "runs b [] = Some b"
| "runs b (l # ls) = (if l_after l = b + l_delta l then runs (l_after l) ls else None)"

lemma runs_append: "runs b (xs @ ys) = Option.bind (runs b xs) (\<lambda>b'. runs b' ys)"
  by (induction xs arbitrary: b) auto

lemma runs_sum: "runs b ls = Some b' \<Longrightarrow> b' = b + sum_list (map l_delta ls)"
  by (induction ls arbitrary: b) (fastforce split: if_splits)+

lemma runs_after: "runs b ls = Some b' \<Longrightarrow> ls \<noteq> [] \<Longrightarrow> l_after (last ls) = b'"
  by (induction ls arbitrary: b) (auto split: if_splits)

definition settled :: "('s \<Rightarrow> uid \<Rightarrow> int option) \<Rightarrow> ('s \<Rightarrow> uid \<Rightarrow> ledger_row list) \<Rightarrow> 's \<Rightarrow> bool" where
  "settled balance statement s \<longleftrightarrow>
     (\<forall>u. case balance s u of None \<Rightarrow> True | Some b \<Rightarrow> runs 0 (statement s u) = Some b)"

locale points_account =
  fixes balance :: "'s \<Rightarrow> uid \<Rightarrow> int option"
    and statement :: "'s \<Rightarrow> uid \<Rightarrow> ledger_row list"
    and adjust :: "uid \<Rightarrow> int \<Rightarrow> 's \<Rightarrow> err + (int \<times> 's)"
    and post :: "ledger_row \<Rightarrow> 's \<Rightarrow> err + 's"
  assumes adjust_balance: "in64 n \<Longrightarrow> balance s u = Some b \<Longrightarrow> adjust u n s = Inr (b', s') \<Longrightarrow>
      b' = b + n \<and> 0 \<le> b' \<and> balance s' = (balance s)(u := Some b')"
    and adjust_statement: "in64 n \<Longrightarrow> adjust u n s = Inr (b', s') \<Longrightarrow> statement s' = statement s"
    and post_balance: "post r s = Inr s' \<Longrightarrow> balance s' = balance s"
    and post_statement: "post r s = Inr s' \<Longrightarrow>
      statement s' = (statement s)(l_user r := statement s (l_user r) @ [r])"
begin

lemma settle:
  assumes "settled balance statement s" and "in64 n" and "balance s u = Some b"
    and "adjust u n s = Inr (b', s1)"
    and "balance s2 = balance s1" and "statement s2 = statement s1"
    and "post r s2 = Inr s3" and "l_user r = u" and "l_delta r = n" and "l_after r = b'"
  shows "settled balance statement s3"
  using assms adjust_balance[OF assms(2,3,4)] adjust_statement[OF assms(2,4)]
    post_balance[OF assms(7)] post_statement[OF assms(7)]
  by (auto simp: settled_def runs_append split: option.splits)

lemma settle_frame:
  assumes "settled balance statement s" and "balance s' = balance s"
    and "statement s' = statement s"
  shows "settled balance statement s'"
  using assms by (simp add: settled_def cong: option.case_cong)

lemma nothing_from_nothing:
  assumes "settled balance statement s" and "balance s u = Some b"
  shows "b = sum_list (map l_delta (statement s u))"
  using assms runs_sum[of 0 "statement s u" b] by (auto simp: settled_def split: option.splits)

end

definition balance_of :: "db \<Rightarrow> uid \<Rightarrow> int option" where
  "balance_of d u = map_option u_balance (find_user u d)"

definition statement_of :: "db \<Rightarrow> uid \<Rightarrow> ledger_row list" where
  "statement_of d u = filter (\<lambda>r. l_user r = u) (ledger d)"

definition accounts_settled :: "db \<Rightarrow> bool" where
  "accounts_settled = settled balance_of statement_of"

text \<open>Only the buyers that are there have an account, so the check is a finite one.\<close>

lemma accounts_settled_code [code]:
  "accounts_settled d \<longleftrightarrow> list_all (\<lambda>r. case balance_of d (u_id r) of None \<Rightarrow> True
     | Some b \<Rightarrow> runs 0 (statement_of d (u_id r)) = Some b) (users d)"
proof -
  have "u \<in> u_id ` set (users d)" if "balance_of d u = Some b" for u b
    using that by (auto simp: balance_of_def find_user_def dest: find_SomeD)
  then show ?thesis
    unfolding accounts_settled_def settled_def list_all_iff by (force split: option.splits)
qed

lemma find_user_set_balance:
  "find_user v (d\<lparr>users := update_where (\<lambda>r. u_id r = u) (\<lambda>r. r\<lparr>u_balance := b\<rparr>) (users d)\<rparr>) =
   map_option (\<lambda>r. if u_id r = u then r\<lparr>u_balance := b\<rparr> else r) (find_user v d)"
  by (simp add: find_user_def find_update_where)

lemma find_user_id: "find_user u d = Some r \<Longrightarrow> u_id r = u"
  by (auto simp: find_user_def dest: find_SomeD)

lemma balance_of_set_balance:
  "find_user u d = Some r \<Longrightarrow>
   balance_of (d\<lparr>users := update_where (\<lambda>r. u_id r = u) (\<lambda>r. r\<lparr>u_balance := b\<rparr>) (users d)\<rparr>) =
   (balance_of d)(u := Some b)"
  by (auto simp: balance_of_def fun_eq_iff find_user_set_balance option.map_comp comp_def
      dest: find_user_id intro!: option.map_cong0)

interpretation acc: points_account balance_of statement_of AdjustBalance insert_ledger
proof unfold_locales
  fix n s u b b' s'
  assume n: "in64 n" and b: "balance_of s u = Some b" and a: "AdjustBalance u n s = Inr (b', s')"
  from b obtain r where r: "find_user u s = Some r" "u_balance r = b"
    by (auto simp: balance_of_def)
  then show "b' = b + n \<and> 0 \<le> b' \<and> balance_of s' = (balance_of s)(u := Some b')"
    using a AdjustBalance_eq_Inr[OF r(1) n] by (auto simp: balance_of_set_balance)
next
  fix n u s b' s'
  assume "AdjustBalance u n s = Inr (b', s')"
  then show "statement_of s' = statement_of s"
    by (auto simp: AdjustBalance_def set_balance_def statement_of_def
        split: if_splits option.splits)
qed (auto simp: tx_elims balance_of_def find_user_def statement_of_def fun_eq_iff)

section \<open>The tables stay well formed\<close>

definition users_ok :: "db \<Rightarrow> bool" where
  "users_ok d \<longleftrightarrow> distinct (map u_id (users d)) \<and> distinct (map u_openid (users d)) \<and>
     (\<forall>r\<in>set (users d). 0 \<le> u_balance r \<and> in64 (u_balance r))"

definition ledger_row_ok :: "db \<Rightarrow> ledger_row \<Rightarrow> bool" where
  "ledger_row_ok d r \<longleftrightarrow> ledger_lengths r \<and> ledger_checks r \<and> ledger_fks d r"

definition ledger_ok :: "db \<Rightarrow> bool" where
  "ledger_ok d \<longleftrightarrow> (\<forall>r\<in>set (ledger d). ledger_row_ok d r) \<and>
     sorted_wrt (\<lambda>s r. \<not> ledger_conflict r s) (ledger d)"

text \<open>What the foreign keys of a table need of the tables they point into.\<close>

definition refs_kept :: "db \<Rightarrow> db \<Rightarrow> bool" where
  "refs_kept d d' \<longleftrightarrow> u_id ` set (users d) \<subseteq> u_id ` set (users d') \<and>
     p_id ` set (products d) \<subseteq> p_id ` set (products d') \<and>
     o_id ` set (orders d) \<subseteq> o_id ` set (orders d') \<and>
     ad_id ` set (admins d) \<subseteq> ad_id ` set (admins d')"

lemma refs_kept_refl [simp]: "refs_kept d d"
  by (simp add: refs_kept_def)

lemma refs_keptI:
  "map u_id (users d') = map u_id (users d) \<Longrightarrow> map p_id (products d') = map p_id (products d) \<Longrightarrow>
   map o_id (orders d') = map o_id (orders d) \<Longrightarrow> map ad_id (admins d') = map ad_id (admins d) \<Longrightarrow>
   refs_kept d d'"
  unfolding refs_kept_def by (metis image_set order_refl)

lemma refs_kept_trans: "refs_kept d d' \<Longrightarrow> refs_kept d' d'' \<Longrightarrow> refs_kept d d''"
  unfolding refs_kept_def by (meson order_trans)

lemma ledger_fks_mono: "ledger_fks d r \<Longrightarrow> refs_kept d d' \<Longrightarrow> ledger_fks d' r"
  unfolding ledger_fks_def admin_ref_def refs_kept_def by (auto split: option.splits)

lemma ledger_ok_frame:
  "ledger_ok d \<Longrightarrow> ledger d' = ledger d \<Longrightarrow> refs_kept d d' \<Longrightarrow> ledger_ok d'"
  by (auto simp: ledger_ok_def ledger_row_ok_def intro: ledger_fks_mono)

lemma insert_ledger_ok:
  assumes "ledger_ok d" and "insert_ledger r d = Inr d'"
  shows "ledger_ok d'"
proof -
  have d': "d' = d\<lparr>ledger := ledger d @ [r]\<rparr>" and r: "ledger_row_ok d r"
    "\<forall>s\<in>set (ledger d). \<not> ledger_conflict r s"
    using assms(2) by (auto simp: tx_elims ledger_row_ok_def)
  have "refs_kept d d'" by (simp add: d' refs_kept_def)
  then have "ledger_row_ok d s \<Longrightarrow> ledger_row_ok d' s" for s
    by (auto simp: ledger_row_ok_def intro: ledger_fks_mono)
  then show ?thesis
    using assms(1) r by (auto simp: ledger_ok_def d' sorted_wrt_append)
qed

lemma users_ok_set_balance:
  assumes "users_ok d" and "in64 b" and "0 \<le> b"
  shows "users_ok (d\<lparr>users := update_where (\<lambda>r. u_id r = u) (\<lambda>r. r\<lparr>u_balance := b\<rparr>) (users d)\<rparr>)"
  using assms by (auto simp: users_ok_def map_update_where set_update_where)

lemma AdjustBalance_cases:
  assumes "AdjustBalance u n d = Inr (b, d')"
  shows "d' = d \<or> in64 b \<and> 0 \<le> b \<and>
    d' = d\<lparr>users := update_where (\<lambda>r. u_id r = u) (\<lambda>r. r\<lparr>u_balance := b\<rparr>) (users d)\<rparr>"
  using assms by (auto simp: AdjustBalance_def tx_elims split: option.splits if_splits)

lemma AdjustBalance_users_ok:
  "users_ok d \<Longrightarrow> AdjustBalance u n d = Inr (b, d') \<Longrightarrow> users_ok d'"
  by (auto dest!: AdjustBalance_cases intro: users_ok_set_balance)

lemma AdjustBalance_refs:
  "AdjustBalance u n d = Inr (b, d') \<Longrightarrow> map u_id (users d') = map u_id (users d)"
  by (auto dest!: AdjustBalance_cases simp: map_update_where)

text \<open>With the unique indexes at hand: an event key, and a payment or refund, is found once.\<close>

lemma ledger_distinct:
  assumes "ledger_ok d" and "r \<in> set (ledger d)" and "s \<in> set (ledger d)"
    and "ledger_conflict r s" and "ledger_conflict s r"
  shows "r = s"
proof -
  obtain i j where i: "i < length (ledger d)" "ledger d ! i = r"
    and j: "j < length (ledger d)" "ledger d ! j = s"
    using assms(2,3) by (metis in_set_conv_nth)
  have "\<not> i < j" "\<not> j < i"
    using assms(1,4,5) i j by (auto simp: ledger_ok_def sorted_wrt_iff_nth_less)
  then show ?thesis using i j by simp
qed

lemma ledger_event_unique:
  "ledger_ok d \<Longrightarrow> r \<in> set (ledger d) \<Longrightarrow> s \<in> set (ledger d) \<Longrightarrow> l_event r = l_event s \<Longrightarrow> r = s"
  by (rule ledger_distinct) (auto simp: ledger_conflict_def)

end
