(* ===== verification/Storage.thy ===== *)
theory Storage
  imports GoText "HOL-Library.Char_ord" "HOL-Library.List_Lexorder"
begin

text \<open>
  \<open>internal/storage\<close>: object keys, the validation of uploads (\<open>storage.go\<close>), the local volume
  (\<open>local_volume.go\<close>) and the sweep that deletes unreferenced objects (\<open>cleanup.go\<close>).

  A volume is the files of its directory with their modification times and sizes, and its capacity.
  The image decoders of the libraries are arguments. \<open>Put\<close>, \<open>Delete\<close>, \<open>Stat\<close> and \<open>Touch\<close> follow
  the code's guards; input/output failures of the file system are left out. During a sweep other
  requests may change the volume: the argument \<open>act\<close> gives what happens before each re-stat.
\<close>

datatype storage_err =
    ErrUnsupportedFormat | ErrInvalidImage | ErrTooManyPixels | ErrImageTooLarge
  | ErrCapacityExceeded | ErrInvalidKey | ErrObjectNotFound | StorageOther string

section \<open>Object keys\<close>

definition is_hex :: "char \<Rightarrow> bool" where
  "is_hex c \<longleftrightarrow> is_digit c \<or> c \<in> set ''abcdef''"

fun eat_hex :: "nat \<Rightarrow> string \<Rightarrow> string option" where
  "eat_hex 0 s = Some s"
| "eat_hex (Suc n) [] = None"
| "eat_hex (Suc n) (c # s) = (if is_hex c then eat_hex n s else None)"

fun eat_char :: "char \<Rightarrow> string \<Rightarrow> string option" where
  "eat_char c [] = None"
| "eat_char c (x # s) = (if x = c then Some s else None)"

text \<open>The groups of hexadecimal digits of the pattern, each but the last followed by a hyphen.\<close>

fun eat_groups :: "nat list \<Rightarrow> string \<Rightarrow> string option" where
  "eat_groups [] s = Some s"
| "eat_groups [n] s = eat_hex n s"
| "eat_groups (n # ns) s =
     (case eat_hex n s of
        None \<Rightarrow> None
      | Some s' \<Rightarrow> (case eat_char (CHR ''-'') s' of None \<Rightarrow> None | Some s'' \<Rightarrow> eat_groups ns s''))"

definition ValidObjectKey :: "string \<Rightarrow> bool" where
  "ValidObjectKey key = (case eat_groups [8, 4, 4, 4, 12] key of
       None \<Rightarrow> False | Some rest \<Rightarrow> rest \<in> set [''.jpg'', ''.png'', ''.webp''])"

lemma eat_hex_Some:
  "eat_hex n s = Some r \<Longrightarrow> s = take n s @ r \<and> length (take n s) = n \<and> list_all is_hex (take n s)"
  by (induction n s rule: eat_hex.induct) (auto split: if_splits)

lemma eat_char_Some: "eat_char c s = Some r \<longleftrightarrow> s = c # r"
  by (cases s) auto

lemma eat_groups_Some:
  "eat_groups ns s = Some r \<Longrightarrow>
   \<exists>p. s = p @ r \<and> (\<forall>c\<in>set p. is_hex c \<or> c = CHR ''-'')"
proof (induction ns s arbitrary: r rule: eat_groups.induct)
  case (2 n s)
  then show ?case
    using eat_hex_Some[of n s r] by (metis eat_groups.simps(2) list_all_iff)
next
  case (3 n m ns s)
  then obtain s' s'' where h: "eat_hex n s = Some s'" and c: "eat_char (CHR ''-'') s' = Some s''"
    and g: "eat_groups (m # ns) s'' = Some r"
    by (auto split: option.splits)
  obtain p where p: "s'' = p @ r" "\<forall>c\<in>set p. is_hex c \<or> c = CHR ''-''"
    using 3(1)[OF h c g] by auto
  have "s = (take n s @ CHR ''-'' # p) @ r"
    using eat_hex_Some[OF h] c p(1) by (simp add: eat_char_Some)
  moreover have "\<forall>c\<in>set (take n s @ CHR ''-'' # p). is_hex c \<or> c = CHR ''-''"
    using eat_hex_Some[OF h] p(2) by (auto simp: list_all_iff)
  ultimately show ?case by blast
qed simp

text \<open>
  No key leaves the volume: it holds no path separator and no parent component, so joining it to
  the directory names a file of the directory.
\<close>

lemma ValidObjectKey_chars:
  assumes "ValidObjectKey key"
  shows "\<exists>p ext. key = p @ CHR ''.'' # ext \<and> (\<forall>c\<in>set p. is_hex c \<or> c = CHR ''-'') \<and>
    ext \<in> {''jpg'', ''png'', ''webp''}"
  using assms eat_groups_Some[of "[8, 4, 4, 4, 12]" key]
  by (fastforce simp: ValidObjectKey_def split: option.splits)

text \<open>
  A key that passes \<open>ValidObjectKey\<close> names a file of the volume's own directory: it holds no
  path separator of either kind and no NUL byte, and it is neither hidden nor a parent reference.
\<close>

theorem ValidObjectKey_stays_inside:
  assumes "ValidObjectKey key"
  shows "CHR ''/'' \<notin> set key \<and> CHR 0x5C \<notin> set key \<and> CHR 0x00 \<notin> set key \<and>
    \<not> has_prefix key ''.''"
proof -
  have nh: "\<not> is_hex (CHR ''/'')" "\<not> is_hex (CHR 0x5C)" "\<not> is_hex (CHR 0x00)" "\<not> is_hex (CHR ''.'')"
    by (simp_all add: is_hex_def is_digit_def byte_def)
  obtain p ext where k: "key = p @ CHR ''.'' # ext"
    and p: "\<forall>c\<in>set p. is_hex c \<or> c = CHR ''-''" and e: "ext \<in> {''jpg'', ''png'', ''webp''}"
    using ValidObjectKey_chars[OF assms] by blast
  have ext: "set ext \<subseteq> set ''jpngweb''" using e by auto
  have "c \<notin> set key"
    if "c \<noteq> CHR ''.''" "c \<noteq> CHR ''-''" "\<not> is_hex c" "c \<notin> set ''jpngweb''" for c
  proof -
    have "c \<notin> set p" using p that(2,3) by blast
    moreover have "c \<notin> set ext" using ext that(4) by blast
    ultimately show ?thesis using that(1) by (simp add: k)
  qed
  then have "CHR ''/'' \<notin> set key" "CHR 0x5C \<notin> set key" "CHR 0x00 \<notin> set key"
    using nh by auto
  moreover have "\<not> has_prefix key ''.''"
  proof (cases p)
    case Nil
    then show ?thesis
      using k e assms by (auto simp: ValidObjectKey_def nh(4) numeral_eq_Suc)
  qed (use k p nh(4) in \<open>auto simp: has_prefix_def\<close>)
  ultimately show ?thesis by blast
qed

definition demo_key :: string where
  "demo_key = ''0190a1b2-c3d4-7e5f-8a9b-0c1d2e3f4a5b.png''"

lemma demo_key_valid: "ValidObjectKey demo_key"
  by code_simp

theorem ValidObjectKey_stays_inside_witness: "CHR ''/'' \<notin> set demo_key"
  using ValidObjectKey_stays_inside[OF demo_key_valid] by blast


lemma ValidObjectKey_nonempty [simp]: "\<not> ValidObjectKey []"
  by (simp add: ValidObjectKey_def numeral_eq_Suc)

section \<open>Uploads\<close>

datatype image_format = FormatJPEG | FormatPNG | FormatWebP

definition Extension :: "image_format \<Rightarrow> string" where
  "Extension f = CHR ''.'' # (case f of
     FormatJPEG \<Rightarrow> ''jpg'' | FormatPNG \<Rightarrow> ''png'' | FormatWebP \<Rightarrow> ''webp'')"

definition detectFormat :: "string \<Rightarrow> storage_err + image_format" where
  "detectFormat content =
     (if 3 \<le> length content \<and> take 3 content = [CHR 0xFF, CHR 0xD8, CHR 0xFF] then Inr FormatJPEG
      else if 8 \<le> length content \<and>
        has_prefix content (CHR 0x89 # ''PNG'' @ [CHR 0x0D, CHR 0x0A, CHR 0x1A, CHR 0x0A])
      then Inr FormatPNG
      else if 12 \<le> length content \<and> take 4 content = ''RIFF'' \<and>
        take 4 (drop 8 content) = ''WEBP''
      then Inr FormatWebP
      else Inl ErrUnsupportedFormat)"

record image_info =
  im_format :: image_format
  im_width :: int
  im_height :: int
  im_size :: int

definition ValidateImage ::
  "(string \<Rightarrow> image_format \<Rightarrow> (int \<times> int) option) \<Rightarrow> (string \<Rightarrow> image_format \<Rightarrow> (int \<times> int) option)
   \<Rightarrow> string \<Rightarrow> int \<Rightarrow> int \<Rightarrow> storage_err + image_info" where
  "ValidateImage decodeConfig decodeImage content maxBytes maxPixels =
     (if maxPixels \<le> 0 then
        Inl (StorageOther ''validate image: pixel limit must be positive'')
      else if maxBytes < int (length content) then Inl ErrImageTooLarge
      else if length content = 0 then Inl ErrInvalidImage
      else sbind (detectFormat content) (\<lambda>format.
        (case decodeConfig content format of
           None \<Rightarrow> Inl ErrInvalidImage
         | Some (width, height) \<Rightarrow>
           if width \<le> 0 \<or> height \<le> 0 then Inl ErrInvalidImage
           else if maxPixels < int64 (width * height) then Inl ErrTooManyPixels
           else (case decodeImage content format of
               None \<Rightarrow> Inl ErrInvalidImage
             | Some (dx, dy) \<Rightarrow>
               Inr \<lparr>im_format = format, im_width = dx, im_height = dy,
                 im_size = int (length content)\<rparr>))))"

text \<open>The three signatures are disjoint, so the order of the cases does not matter.\<close>

lemma detectFormat_first:
  "detectFormat s = Inr FormatJPEG \<Longrightarrow> \<exists>r. s = CHR 0xFF # r"
  "detectFormat s = Inr FormatPNG \<Longrightarrow> \<exists>r. s = CHR 0x89 # r"
  "detectFormat s = Inr FormatWebP \<Longrightarrow> \<exists>r. s = CHR ''R'' # r"
  by (cases s; auto simp: detectFormat_def has_prefix_def numeral_eq_Suc split: if_splits)+

lemma ValidateImage_ok:
  "ValidateImage dc di content maxBytes maxPixels = Inr info \<longleftrightarrow>
   0 < maxPixels \<and> int (length content) \<le> maxBytes \<and> content \<noteq> [] \<and>
   detectFormat content = Inr (im_format info) \<and> im_size info = int (length content) \<and>
   (\<exists>w h. dc content (im_format info) = Some (w, h) \<and> 0 < w \<and> 0 < h \<and>
     int64 (w * h) \<le> maxPixels) \<and>
   di content (im_format info) = Some (im_width info, im_height info)"
proof (cases "detectFormat content")
  case (Inr f)
  then show ?thesis
    by (cases "dc content f"; cases "di content f"; cases info)
       (auto simp: ValidateImage_def not_le not_less split: if_splits)
qed (auto simp: ValidateImage_def)

section \<open>The volume\<close>

record vfile =
  f_name :: string
  f_mtime :: int
  f_size :: int

record volume =
  v_files :: "vfile list"
  v_capacity :: int

definition NewLocalVolume :: "string \<Rightarrow> int \<Rightarrow> storage_err + volume" where
  "NewLocalVolume dir capacity =
     (if dir = [] then Inl (StorageOther ''local volume: directory is required'')
      else if capacity \<le> 0 then Inl (StorageOther ''local volume: capacity must be positive'')
      else Inr \<lparr>v_files = [], v_capacity = capacity\<rparr>)"

definition usedBytesLocked :: "volume \<Rightarrow> int" where
  "usedBytesLocked v = foldl (\<lambda>total f. int64 (total + f_size f)) 0 (v_files v)"

text \<open>
  The number of bytes \<open>io.Copy\<close> takes through \<open>io.LimitReader(content, size+1)\<close>: at most
  \<open>size+1\<close>, and none when that wraps below zero.
\<close>

definition bytes_copied :: "nat \<Rightarrow> int \<Rightarrow> int" where
  "bytes_copied n sz = min (int n) (max 0 (int64 (sz + 1)))"

definition Put :: "string \<Rightarrow> nat \<Rightarrow> int \<Rightarrow> int \<Rightarrow> volume \<Rightarrow> storage_err + volume" where
  "Put key content sz now v =
     (if \<not> ValidObjectKey key then Inl ErrInvalidKey
      else if sz < 0 then Inl (StorageOther ''local volume: size must not be negative'')
      else if v_capacity v < int64 (usedBytesLocked v + sz) then Inl ErrCapacityExceeded
      else if bytes_copied content sz \<noteq> sz then
        Inl (StorageOther ''local volume: content length does not match declared size'')
      else Inr (v\<lparr>v_files := delete_where (\<lambda>f. f_name f = key) (v_files v) @
        [\<lparr>f_name = key, f_mtime = now, f_size = sz\<rparr>]\<rparr>))"

definition DeleteObject :: "string \<Rightarrow> volume \<Rightarrow> storage_err + volume" where
  "DeleteObject key v =
     (if \<not> ValidObjectKey key then Inl ErrInvalidKey
      else Inr (v\<lparr>v_files := delete_where (\<lambda>f. f_name f = key) (v_files v)\<rparr>))"

definition ListObjects :: "volume \<Rightarrow> vfile list" where
  "ListObjects v = filter (\<lambda>f. ValidObjectKey (f_name f)) (sort_key f_name (v_files v))"

definition Stat :: "string \<Rightarrow> volume \<Rightarrow> storage_err + vfile" where
  "Stat key v =
     (if \<not> ValidObjectKey key then Inl ErrInvalidKey
      else case find (\<lambda>f. f_name f = key) (v_files v) of
          None \<Rightarrow> Inl ErrObjectNotFound | Some f \<Rightarrow> Inr f)"

definition Touch :: "string \<Rightarrow> int \<Rightarrow> volume \<Rightarrow> storage_err + volume" where
  "Touch key now v =
     (if \<not> ValidObjectKey key then Inl ErrInvalidKey
      else Inr (v\<lparr>v_files := update_where (\<lambda>f. f_name f = key) (\<lambda>f. f\<lparr>f_mtime := now\<rparr>)
        (v_files v)\<rparr>))"

definition used :: "volume \<Rightarrow> int" where
  "used v = sum_list (map f_size (v_files v))"

definition volume_ok :: "volume \<Rightarrow> bool" where
  "volume_ok v \<longleftrightarrow> distinct (map f_name (v_files v)) \<and> (\<forall>f\<in>set (v_files v). 0 \<le> f_size f) \<and>
     used v \<le> v_capacity v \<and> v_capacity v \<le> max_int64"

lemma foldl_used:
  assumes "\<forall>f\<in>set fs. 0 \<le> f_size f" and "0 \<le> a" and "a + sum_list (map f_size fs) \<le> max_int64"
  shows "foldl (\<lambda>total f. int64 (total + f_size f)) a fs = a + sum_list (map f_size fs)"
  using assms
proof (induction fs arbitrary: a)
  case (Cons f fs)
  have nn: "0 \<le> sum_list (map f_size fs)"
    using Cons.prems(1) by (intro sum_list_nonneg) auto
  then have "in64 (a + f_size f)"
    using Cons.prems by (auto simp: in64_def max_int64_def)
  then show ?case
    using Cons.IH[of "a + f_size f"] Cons.prems by (simp add: algebra_simps)
qed simp

lemma usedBytes_ok: "volume_ok v \<Longrightarrow> usedBytesLocked v = used v"
  using foldl_used[of "v_files v" 0] by (auto simp: volume_ok_def usedBytesLocked_def used_def)

lemma used_nonneg: "volume_ok v \<Longrightarrow> 0 \<le> used v"
  by (auto simp: volume_ok_def used_def intro!: sum_list_nonneg)

lemma sum_delete_where_le:
  "\<forall>f\<in>set fs. 0 \<le> f_size f \<Longrightarrow>
   sum_list (map f_size (delete_where P fs)) \<le> sum_list (map f_size fs)"
  by (induction fs) (auto simp: delete_where_def)

lemma distinct_map_filter_key:
  "distinct (map k t) \<Longrightarrow> distinct (map k (delete_where P t))"
  by (simp add: delete_where_def distinct_map_filter)

text \<open>
  The volume never holds more than its capacity: a write that succeeds leaves one file per key,
  no negative size, and the used bytes within the capacity.
\<close>

theorem Put_within_capacity:
  assumes ok: "volume_ok v" and put: "Put key n sz now v = Inr v'"
    and small: "int n \<le> max_int64 - v_capacity v"
  shows "volume_ok v'"
proof -
  from put have szs: "0 \<le> sz" "bytes_copied n sz = sz"
    and cap: "int64 (used v + sz) \<le> v_capacity v"
    and v': "v' = v\<lparr>v_files := delete_where (\<lambda>f. f_name f = key) (v_files v) @
        [\<lparr>f_name = key, f_mtime = now, f_size = sz\<rparr>]\<rparr>"
    by (auto simp: Put_def usedBytes_ok[OF ok] split: if_splits)
  have "sz \<le> int n" using szs by (auto simp: bytes_copied_def)
  moreover have "used v \<le> v_capacity v" using ok by (simp add: volume_ok_def)
  ultimately have "in64 (used v + sz)"
    using small szs used_nonneg[OF ok] by (auto simp: in64_def max_int64_def)
  then have "used v + sz \<le> v_capacity v" using cap by simp
  then have "used v' \<le> v_capacity v'"
    using sum_delete_where_le[of "v_files v" "\<lambda>f. f_name f = key"] ok
    by (auto simp: v' used_def volume_ok_def)
  then show ?thesis
    using ok szs by (auto simp: v' volume_ok_def distinct_map_filter_key)
qed

definition demo_volume :: volume where
  "demo_volume = \<lparr>v_files = [\<lparr>f_name = demo_key, f_mtime = 0, f_size = 40\<rparr>], v_capacity = 100\<rparr>"

definition demo_key2 :: string where
  "demo_key2 = ''0290a1b2-c3d4-7e5f-8a9b-0c1d2e3f4a5b.jpg''"

theorem Put_within_capacity_witness:
  "\<exists>v'. Put demo_key2 60 60 7 demo_volume = Inr v' \<and> volume_ok v' \<and> used v' = 100"
proof -
  let ?v = "\<lparr>v_files = [\<lparr>f_name = demo_key, f_mtime = 0, f_size = 40\<rparr>,
      \<lparr>f_name = demo_key2, f_mtime = 7, f_size = 60\<rparr>], v_capacity = 100\<rparr> :: volume"
  have put: "Put demo_key2 60 60 7 demo_volume = Inr ?v" by code_simp
  have "volume_ok demo_volume" by code_simp
  moreover have "int 60 \<le> max_int64 - v_capacity demo_volume"
    by (simp add: max_int64_def demo_volume_def)
  ultimately have "volume_ok ?v" using Put_within_capacity[OF _ put] by simp
  then show ?thesis using put by (simp add: used_def)
qed

lemma DeleteObject_volume_ok:
  assumes "volume_ok v" and "DeleteObject key v = Inr v'"
  shows "volume_ok v'"
  using assms sum_delete_where_le[of "v_files v" "\<lambda>f. f_name f = key"]
  by (auto simp: DeleteObject_def volume_ok_def used_def distinct_map_filter_key split: if_splits)

lemma Touch_volume_ok:
  assumes "volume_ok v" and "Touch key now v = Inr v'"
  shows "volume_ok v'"
  using assms
  by (auto simp: Touch_def volume_ok_def used_def map_update_where set_update_where
      split: if_splits)

lemma Put_Stat:
  assumes "Put key n sz now v = Inr v'"
  shows "Stat key v' = Inr \<lparr>f_name = key, f_mtime = now, f_size = sz\<rparr>"
proof -
  have "find (\<lambda>f. f_name f = key) (delete_where (\<lambda>f. f_name f = key) fs) = None"
    for fs :: "vfile list"
    by (auto simp: find_None_iff)
  then show ?thesis
    using assms by (auto simp: Put_def Stat_def find_append split: if_splits)
qed

lemma find_delete_where_other:
  "(\<And>r. P r \<Longrightarrow> \<not> Q r) \<Longrightarrow> find Q (delete_where P t) = find Q t"
  by (induction t) (auto simp: delete_where_def)

lemma Put_Stat_other:
  assumes "Put key n sz now v = Inr v'" and "k \<noteq> key"
  shows "Stat k v' = Stat k v"
  using assms
  by (auto simp: Put_def Stat_def find_append find_delete_where_other
      split: if_splits option.splits)

section \<open>The sweep\<close>

text \<open>
  One round per object of the snapshot. \<open>referenced\<close> is the answer of the resolver and \<open>act i\<close>
  what other requests did to the volume between the \<open>i\<close>-th answer and the re-stat.
\<close>

fun cleanup_loop ::
  "(string \<Rightarrow> storage_err + bool) \<Rightarrow> bool \<Rightarrow> int \<Rightarrow> int \<Rightarrow> (nat \<Rightarrow> volume \<Rightarrow> volume) \<Rightarrow> nat
   \<Rightarrow> vfile list \<Rightarrow> volume \<Rightarrow> nat \<times> volume" where
  "cleanup_loop referenced canStat grace now act i [] v = (0, v)"
| "cleanup_loop referenced canStat grace now act i (info # infos) v =
     (let v1 = act i v;
          continue = cleanup_loop referenced canStat grace now act (Suc i) infos in
      case referenced (f_name info) of
        Inl _ \<Rightarrow> continue v1
      | Inr True \<Rightarrow> continue v1
      | Inr False \<Rightarrow>
        (case (if canStat then Stat (f_name info) v1 else Inr info) of
           Inl _ \<Rightarrow> continue v1
         | Inr live \<Rightarrow>
           if 0 < grace \<and> now - f_mtime live < grace then continue v1
           else (case DeleteObject (f_name info) v1 of
               Inl _ \<Rightarrow> continue v1
             | Inr v2 \<Rightarrow> (case continue v2 of (n, v3) \<Rightarrow> (Suc n, v3)))))"

definition Cleanup ::
  "(string \<Rightarrow> storage_err + bool) \<Rightarrow> bool \<Rightarrow> int \<Rightarrow> int \<Rightarrow> int \<Rightarrow> (nat \<Rightarrow> volume \<Rightarrow> volume) \<Rightarrow> volume
   \<Rightarrow> nat \<times> volume" where
  "Cleanup referenced canStat grace now clock act v =
     cleanup_loop referenced canStat grace (if now = 0 then clock else now) act 0
       (ListObjects v) v"

text \<open>
  What protects a file through the rest of a sweep: its key is referenced or the resolver fails, or
  the file is young. Other requests may do anything that keeps the property asked for.
\<close>

definition protected :: "(string \<Rightarrow> storage_err + bool) \<Rightarrow> int \<Rightarrow> int \<Rightarrow> vfile \<Rightarrow> bool" where
  "protected referenced grace now f \<longleftrightarrow>
     referenced (f_name f) \<noteq> Inr False \<or> (0 < grace \<and> now - f_mtime f < grace)"

lemma Stat_find:
  "Stat k v = Inr f \<Longrightarrow> find (\<lambda>f. f_name f = k) (v_files v) = Some f"
  by (auto simp: Stat_def split: if_splits option.splits)

lemma cleanup_loop_keeps:
  assumes "find (\<lambda>f. f_name f = k) (v_files v) = Some f" and "protected referenced grace now f"
    and "\<And>i v g. find (\<lambda>f. f_name f = k) (v_files v) = Some g \<Longrightarrow> protected referenced grace now g \<Longrightarrow>
      \<exists>g'. find (\<lambda>f. f_name f = k) (v_files (act i v)) = Some g' \<and> protected referenced grace now g'"
  shows "\<exists>g. find (\<lambda>f. f_name f = k)
      (v_files (snd (cleanup_loop referenced True grace now act i infos v))) = Some g \<and>
    protected referenced grace now g"
  using assms(1,2)
proof (induction infos arbitrary: i v f)
  case (Cons info infos)
  let ?v1 = "act i v"
  obtain g where g: "find (\<lambda>f. f_name f = k) (v_files ?v1) = Some g"
    "protected referenced grace now g"
    using assms(3)[OF Cons.prems] by blast
  note skip = Cons.IH[OF g, of "Suc i"]
  show ?case
  proof (cases "referenced (f_name info) = Inr False")
    case unref: True
    show ?thesis
    proof (cases "Stat (f_name info) ?v1")
      case (Inr live)
      show ?thesis
      proof (cases "f_name info = k")
        case True
        then have "live = g" using Stat_find[OF Inr] g(1) by simp
        then have "0 < grace \<and> now - f_mtime live < grace"
          using g(2) unref True Stat_find[OF Inr]
          by (auto simp: protected_def dest: find_SomeD)
        then show ?thesis using skip unref Inr by (simp add: Let_def)
      next
        case False
        have "find (\<lambda>f. f_name f = k) (v_files v2) = Some g"
          if "DeleteObject (f_name info) ?v1 = Inr v2" for v2
          using that False g(1)
          by (auto simp: DeleteObject_def find_delete_where_other split: if_splits)
        then have "\<exists>g. find (\<lambda>f. f_name f = k)
            (v_files (snd (cleanup_loop referenced True grace now act (Suc i) infos v2))) = Some g \<and>
          protected referenced grace now g"
          if "DeleteObject (f_name info) ?v1 = Inr v2" for v2
          using Cons.IH g(2) that by blast
        then show ?thesis
          using skip unref Inr by (auto simp: Let_def split: sum.splits prod.splits)
      qed
    qed (use skip unref in \<open>simp add: Let_def\<close>)
  qed (use skip in \<open>auto simp: Let_def split: sum.splits bool.splits\<close>)
qed auto

text \<open>A sweep deletes only what it was shown, and with nothing else going on it deletes exactly
  the unreferenced objects older than the grace period.\<close>

lemma cleanup_loop_quiet:
  assumes "\<And>f. f \<in> set infos \<Longrightarrow> ValidObjectKey (f_name f)"
    and "\<And>f. f \<in> set infos \<Longrightarrow> find (\<lambda>g. f_name g = f_name f) (v_files v) = Some f"
    and "distinct (map f_name infos)"
  shows "cleanup_loop referenced True grace now (\<lambda>_ v. v) i infos v =
    (length (filter (\<lambda>f. \<not> protected referenced grace now f) infos),
     v\<lparr>v_files := delete_where (\<lambda>g. \<exists>f\<in>set infos. \<not> protected referenced grace now f \<and>
       f_name f = f_name g) (v_files v)\<rparr>)"
  using assms
proof (induction infos arbitrary: i v)
  case Nil
  then show ?case by (simp add: delete_where_def)
next
  case (Cons f infos)
  have vk: "ValidObjectKey (f_name f)" and fd: "find (\<lambda>g. f_name g = f_name f) (v_files v) = Some f"
    using Cons.prems(1,2) by auto
  have st: "Stat (f_name f) v = Inr f" using vk fd by (simp add: Stat_def)
  have rest: "find (\<lambda>h. f_name h = f_name g) (v_files v) = Some g" if "g \<in> set infos" for g
    using Cons.prems(2) that by auto
  show ?case
  proof (cases "protected referenced grace now f")
    case True
    then have "referenced (f_name f) \<noteq> Inr False \<or> 0 < grace \<and> now - f_mtime f < grace"
      by (simp add: protected_def)
    then have "cleanup_loop referenced True grace now (\<lambda>_ v. v) i (f # infos) v =
        cleanup_loop referenced True grace now (\<lambda>_ v. v) (Suc i) infos v"
      using st by (auto simp: Let_def split: sum.splits bool.splits)
    moreover have "delete_where (\<lambda>g. \<exists>h\<in>set (f # infos). \<not> protected referenced grace now h \<and>
        f_name h = f_name g) (v_files v) =
      delete_where (\<lambda>g. \<exists>h\<in>set infos. \<not> protected referenced grace now h \<and> f_name h = f_name g)
        (v_files v)"
      using True by (intro arg_cong2[where f = delete_where]) auto
    ultimately show ?thesis
      using Cons True rest by simp
  next
    case False
    let ?v2 = "v\<lparr>v_files := delete_where (\<lambda>g. f_name g = f_name f) (v_files v)\<rparr>"
    have "cleanup_loop referenced True grace now (\<lambda>_ v. v) i (f # infos) v =
      (case cleanup_loop referenced True grace now (\<lambda>_ v. v) (Suc i) infos ?v2 of
         (n, v3) \<Rightarrow> (Suc n, v3))"
      using False st vk by (auto simp: Let_def protected_def DeleteObject_def)
    moreover have "find (\<lambda>h. f_name h = f_name g) (v_files ?v2) = Some g" if "g \<in> set infos" for g
    proof -
      have "f_name g \<noteq> f_name f" using Cons.prems(3) that by (metis distinct.simps(2) image_eqI list.simps(9) set_map)
      then show ?thesis using rest[OF that] by (simp add: find_delete_where_other)
    qed
    ultimately show ?thesis
      using Cons False
      by (auto simp: delete_where_def filter_filter eq_commute[of "f_name f"])
  qed
qed



text \<open>
  With nothing else going on, \<open>Cleanup\<close> deletes exactly the objects under server-generated
  names that no reference protects and the grace period does not cover, and reports their number.
\<close>

theorem Cleanup_exact:
  assumes "volume_ok v"
  shows "Cleanup referenced True grace now clock (\<lambda>_ v. v) v =
    (let t = (if now = 0 then clock else now);
         gone = (\<lambda>f. ValidObjectKey (f_name f) \<and> \<not> protected referenced grace t f)
     in (affected gone (v_files v), v\<lparr>v_files := delete_where gone (v_files v)\<rparr>))"
proof -
  define t where "t = (if now = 0 then clock else now)"
  let ?infos = "ListObjects v"
  have d: "distinct (map f_name (v_files v))" using assms by (simp add: volume_ok_def)
  have m: "f \<in> set ?infos \<longleftrightarrow> f \<in> set (v_files v) \<and> ValidObjectKey (f_name f)" for f
    by (auto simp: ListObjects_def)
  have "distinct (map f_name (sort_key f_name (v_files v)))"
    using d by (simp add: distinct_map)
  then have di: "distinct (map f_name ?infos)"
    unfolding ListObjects_def by (rule distinct_map_filter)
  have loop: "Cleanup referenced True grace now clock (\<lambda>_ v. v) v =
    (length (filter (\<lambda>f. \<not> protected referenced grace t f) ?infos),
     v\<lparr>v_files := delete_where (\<lambda>g. \<exists>f\<in>set ?infos. \<not> protected referenced grace t f \<and>
       f_name f = f_name g) (v_files v)\<rparr>)"
    unfolding Cleanup_def t_def[symmetric]
    by (rule cleanup_loop_quiet) (use m find_key[OF d] di in auto)
  have "delete_where (\<lambda>g. \<exists>f\<in>set ?infos. \<not> protected referenced grace t f \<and> f_name f = f_name g)
      (v_files v) =
    delete_where (\<lambda>f. ValidObjectKey (f_name f) \<and> \<not> protected referenced grace t f) (v_files v)"
    unfolding delete_where_def
  proof (rule filter_cong[OF refl])
    fix g
    assume "g \<in> set (v_files v)"
    then show "(\<not> (\<exists>f\<in>set ?infos. \<not> protected referenced grace t f \<and> f_name f = f_name g)) =
        (\<not> (ValidObjectKey (f_name g) \<and> \<not> protected referenced grace t g))"
      using m distinct_map_unique[OF d] by metis
  qed
  moreover have "length (filter (\<lambda>f. \<not> protected referenced grace t f) ?infos) =
      affected (\<lambda>f. ValidObjectKey (f_name f) \<and> \<not> protected referenced grace t f) (v_files v)"
    unfolding ListObjects_def affected_def filter_filter
    by (metis (no_types, lifting) filter_cong filter_sort length_sort)
  ultimately show ?thesis unfolding loop by (simp add: Let_def t_def)
qed

theorem Cleanup_exact_witness:
  "Cleanup (\<lambda>_. Inr False) True 50 90 0 (\<lambda>_ v. v) demo_volume =
    (1, demo_volume\<lparr>v_files := []\<rparr>)"
proof -
  have "volume_ok demo_volume" by code_simp
  from Cleanup_exact[OF this, of "\<lambda>_. Inr False" 50 90 0] show ?thesis
    by (simp add: demo_volume_def protected_def demo_key_valid affected_def delete_where_def)
qed

end
