(* ===== verification/Product.thy ===== *)
theory Product
  imports Payment Storage
begin

text \<open>
  \<open>internal/product\<close>: the category catalog (\<open>category.go\<close>), the queries and the stock updates on
  the products table (\<open>repository.go\<close>) and the product rules (\<open>service.go\<close>).

  The gallery column is the list of its keys. \<open>ILIKE\<close> of the database is the argument \<open>ilike\<close> of
  the searches. \<open>Update\<close> also returns the keys whose files it touches.
\<close>

section \<open>Categories\<close>

text \<open>The display labels, as the bytes of their UTF-8 text.\<close>

definition categoryNames :: "(string \<times> string) list" where
  "categoryNames =
     [(''digital'', map char_of [0xE6, 0x95, 0xB0, 0xE7, 0xA0, 0x81 :: nat]),
      (''home'', map char_of [0xE5, 0xAE, 0xB6, 0xE5, 0xB1, 0x85 :: nat]),
      (''beauty'', map char_of [0xE7, 0xBE, 0x8E, 0xE5, 0xA6, 0x86 :: nat]),
      (''food'', map char_of [0xE9, 0xA3, 0x9F, 0xE5, 0x93, 0x81 :: nat]),
      (''apparel'', map char_of [0xE6, 0x9C, 0x8D, 0xE9, 0xA5, 0xB0 :: nat])]"

definition category_order :: "string list" where
  "category_order = [''digital'', ''home'', ''beauty'', ''food'', ''apparel'']"

record category_info =
  ci_id :: string
  ci_name :: string
  ci_count :: int

definition CategoryCatalog :: "(string \<rightharpoonup> int) option \<Rightarrow> category_info list" where
  "CategoryCatalog counts = map (\<lambda>key. \<lparr>ci_id = key,
     ci_name = (case map_of categoryNames key of None \<Rightarrow> [] | Some n \<Rightarrow> n),
     ci_count = (case counts of None \<Rightarrow> 0
       | Some m \<Rightarrow> (case m key of None \<Rightarrow> 0 | Some n \<Rightarrow> n))\<rparr>) category_order"

definition validCategory :: "string \<Rightarrow> bool" where
  "validCategory value \<longleftrightarrow> value = [] \<or> map_of categoryNames value \<noteq> None"

lemma validCategory_iff: "validCategory c \<longleftrightarrow> c = [] \<or> c \<in> set category_order"
  by (auto simp: validCategory_def categoryNames_def category_order_def split: if_splits)

lemma validCategory_length: "validCategory c \<Longrightarrow> rune_count c \<le> 32"
  using rune_count_le_length[of c]
  by (auto simp: validCategory_iff category_order_def)

section \<open>Queries\<close>

definition find_product :: "uid \<Rightarrow> db \<Rightarrow> product_row option" where
  "find_product i d = find (\<lambda>p. p_id p = i) (products d)"

definition PageSelect ::
  "int \<Rightarrow> int \<Rightarrow> (product_row \<Rightarrow> bool) \<Rightarrow> db \<Rightarrow> product_row list \<times> nat" where
  "PageSelect page pageSize query d =
     (let rows = filter query (products d)
      in (offset_limit (int64 (int64 (page - 1) * pageSize)) pageSize (sort_desc p_id rows),
          length rows))"

definition ListOnSale ::
  "(string \<Rightarrow> string \<Rightarrow> bool) \<Rightarrow> int \<Rightarrow> int \<Rightarrow> string \<Rightarrow> string \<Rightarrow> db \<Rightarrow> product_row list \<times> nat" where
  "ListOnSale ilike page pageSize category keyword d =
     PageSelect page pageSize (\<lambda>p. p_status p = StatusOnSale \<and>
       (category \<noteq> [] \<longrightarrow> p_category p = category) \<and>
       (keyword \<noteq> [] \<longrightarrow> ilike (p_name p) (''%'' @ keyword @ ''%''))) d"

definition CountOnSaleByCategory :: "db \<Rightarrow> string \<rightharpoonup> int" where
  "CountOnSaleByCategory d = (\<lambda>c.
     (let n = length (filter (\<lambda>p. p_status p = StatusOnSale \<and> p_category p \<noteq> [] \<and>
        p_category p = c) (products d))
      in if n = 0 then None else Some (int n)))"

definition RepoListAdmin :: "int \<Rightarrow> int \<Rightarrow> string option \<Rightarrow> db \<Rightarrow> product_row list \<times> nat" where
  "RepoListAdmin page pageSize status d =
     PageSelect page pageSize
       (\<lambda>p. case status of None \<Rightarrow> True | Some s \<Rightarrow> p_status p = s) d"

definition RepoGetPublic :: "uid \<Rightarrow> db \<Rightarrow> err + product_row" where
  "RepoGetPublic i d =
     (case find (\<lambda>p. p_id p = i \<and> p_status p = StatusOnSale) (products d) of
        None \<Rightarrow> Inl ErrProductNotFound | Some p \<Rightarrow> Inr p)"

definition RepoGetByID :: "uid \<Rightarrow> db \<Rightarrow> err + product_row" where
  "RepoGetByID i d = (case find_product i d of None \<Rightarrow> Inl ErrProductNotFound | Some p \<Rightarrow> Inr p)"

text \<open>The rows among \<open>ids\<close> in ascending order of their id, which is the order they are locked in.\<close>

definition LockByIDs :: "uid list \<Rightarrow> db \<Rightarrow> err + product_row list" where
  "LockByIDs ids d =
     (if ids = [] then Inr []
      else let rows = sort_key p_id (filter (\<lambda>p. p_id p \<in> set ids) (products d)) in
        if list_all (\<lambda>i. i \<in> p_id ` set rows) ids then Inr rows else Inl ErrProductNotFound)"

section \<open>Stock\<close>

text \<open>\<open>UPDATE products SET stock = n WHERE id = i RETURNING stock\<close> for a row that is there.\<close>

definition set_stock :: "uid \<Rightarrow> int \<Rightarrow> db \<Rightarrow> err + (int \<times> db)" where
  "set_stock i n d =
     (if \<not> in32 n then Inl NumericOutOfRange
      else if n < 0 then Inl CheckViolation
      else Inr (n, d\<lparr>products := update_where (\<lambda>p. p_id p = i) (\<lambda>p. p\<lparr>p_stock := n\<rparr>) (products d)\<rparr>))"

definition DecrementStock :: "uid \<Rightarrow> int \<Rightarrow> db \<Rightarrow> err + (int \<times> db)" where
  "DecrementStock i qty d =
     (case find_product i d of
        None \<Rightarrow> Inl ErrInsufficientStock
      | Some p \<Rightarrow>
        if p_status p = StatusOnSale \<and> qty \<le> p_stock p then set_stock i (p_stock p - qty) d
        else Inl ErrInsufficientStock)"

definition IncrementStock :: "uid \<Rightarrow> int \<Rightarrow> db \<Rightarrow> err + (int \<times> db)" where
  "IncrementStock i qty d =
     (case find_product i d of
        None \<Rightarrow> Inl ErrProductNotFound
      | Some p \<Rightarrow> set_stock i (p_stock p + qty) d)"

section \<open>Product rules\<close>

text \<open>\<open>^[1-9][0-9]*$\<close>.\<close>

definition pricePointsPattern :: "string \<Rightarrow> bool" where
  "pricePointsPattern s =
     (case s of [] \<Rightarrow> False | c # cs \<Rightarrow> is_digit c \<and> c \<noteq> CHR ''0'' \<and> list_all is_digit cs)"

definition ParsePricePoints :: "string \<Rightarrow> err + int" where
  "ParsePricePoints value =
     (let v = trim_space value in
      if \<not> pricePointsPattern v then Inl (ErrInvalidPrice v)
      else case parse_int64 v of None \<Rightarrow> Inl (ErrInvalidPrice v) | Some n \<Rightarrow> Inr n)"

definition maxProductImages :: nat where
  "maxProductImages = 9"

text \<open>The loop over the incoming keys, with what it has kept so far.\<close>

fun normalize_loop :: "string list \<Rightarrow> string list \<Rightarrow> err + string list" where
  "normalize_loop out [] = Inr out"
| "normalize_loop out (k # keys) =
     (let key = trim_space k in
      if key = [] then normalize_loop out keys
      else if \<not> ValidObjectKey key then Inl (ErrInvalidProduct ''invalid image key'')
      else if key \<in> set out then normalize_loop out keys
      else normalize_loop (out @ [key]) keys)"

definition normalizeImageKeys :: "string list \<Rightarrow> err + string list" where
  "normalizeImageKeys keys =
     sbind (normalize_loop [] keys) (\<lambda>out.
       if maxProductImages < length out
       then Inl (ErrInvalidProduct ''at most 9 images per product'')
       else Inr out)"

definition validStatus :: "string \<Rightarrow> bool" where
  "validStatus status \<longleftrightarrow> status = StatusOnSale \<or> status = StatusOffSale"

record actor =
  AdminID :: uid
  RoleName :: string

record product_input =
  pi_name :: string
  pi_description :: string
  pi_category :: string
  pi_images :: "string list"
  pi_price :: string
  pi_stock :: int
  pi_status :: string

record product_update =
  pu_name :: "string option"
  pu_description :: "string option"
  pu_category :: "string option"
  pu_images :: "string list option"
  pu_price :: "string option"
  pu_stock :: "int option"
  pu_status :: "string option"

definition validateCreateInput :: "product_input \<Rightarrow> err + unit" where
  "validateCreateInput x =
     (if trim_space (pi_name x) = [] then Inl (ErrInvalidProduct ''name is required'')
      else if 128 < rune_count (trim_space (pi_name x))
      then Inl (ErrInvalidProduct ''name is too long'')
      else if \<not> validCategory (pi_category x) then Inl (ErrInvalidProduct ''category'')
      else if pi_stock x < 0 then Inl (ErrInvalidProduct ''stock must not be negative'')
      else if pi_status x \<noteq> [] \<and> \<not> validStatus (pi_status x)
      then Inl (ErrInvalidProduct ''status'')
      else sbind (normalizeImageKeys (pi_images x)) (\<lambda>_. Inr ()))"

definition validateUpdateInput :: "product_update \<Rightarrow> err + unit" where
  "validateUpdateInput x =
     sbind (case pu_name x of None \<Rightarrow> Inr ()
       | Some n \<Rightarrow>
         if trim_space n = [] then Inl (ErrInvalidProduct ''name must not be blank'')
         else if 128 < rune_count (trim_space n)
         then Inl (ErrInvalidProduct ''name is too long'') else Inr ()) (\<lambda>_.
     sbind (case pu_stock x of None \<Rightarrow> Inr ()
       | Some n \<Rightarrow> require (0 \<le> n) (ErrInvalidProduct ''stock must not be negative'')) (\<lambda>_.
     sbind (case pu_category x of None \<Rightarrow> Inr ()
       | Some c \<Rightarrow> require (validCategory c) (ErrInvalidProduct ''category'')) (\<lambda>_.
     sbind (case pu_images x of None \<Rightarrow> Inr ()
       | Some ks \<Rightarrow> sbind (normalizeImageKeys ks) (\<lambda>_. Inr ())) (\<lambda>_.
     (case pu_status x of None \<Rightarrow> Inr ()
       | Some s \<Rightarrow> require (validStatus s) (ErrInvalidProduct ''status''))))))"

record product_view =
  pv_id :: uid
  pv_name :: string
  pv_description :: string
  pv_category :: string
  pv_main :: string
  pv_images :: "string list"
  pv_price :: int
  pv_stock :: int
  pv_status :: string

definition PublicURL :: "string \<Rightarrow> string \<Rightarrow> string" where
  "PublicURL base key = (if key = [] then [] else base @ ''/static/images/'' @ key)"

definition toView :: "string \<Rightarrow> product_row \<Rightarrow> product_view" where
  "toView base p =
     (let images = map (PublicURL base) (p_images p) in
      \<lparr>pv_id = p_id p, pv_name = p_name p, pv_description = p_description p,
       pv_category = p_category p, pv_main = (case images of [] \<Rightarrow> [] | i # _ \<Rightarrow> i),
       pv_images = images, pv_price = p_price p, pv_stock = p_stock p, pv_status = p_status p\<rparr>)"

definition mapViews :: "string \<Rightarrow> product_row list \<Rightarrow> product_view list" where
  "mapViews base ps = map (toView base) ps"

definition redactImageKey :: "string \<Rightarrow> string" where
  "redactImageKey key =
     (if key = [] then []
      else if length key \<le> 8 then key
      else take 8 key @ map char_of [0xE2, 0x80, 0xA6 :: nat])"

definition productAuditData :: "product_row \<Rightarrow> audit_data" where
  "productAuditData p =
     [(''name'', AStr (p_name p)), (''category'', AStr (p_category p)),
      (''status'', AStr (p_status p)), (''price_points'', AInt (p_price p)),
      (''stock'', AInt (p_stock p)), (''images'', AStrs (map redactImageKey (p_images p)))]"

text \<open>The constraints of the products table.\<close>

definition product_lengths :: "product_row \<Rightarrow> bool" where
  "product_lengths p \<longleftrightarrow> rune_count (p_name p) \<le> 128 \<and> rune_count (p_category p) \<le> 32 \<and>
     rune_count (p_status p) \<le> 16"

definition product_checks :: "product_row \<Rightarrow> bool" where
  "product_checks p \<longleftrightarrow> 0 < p_price p \<and> 0 \<le> p_stock p \<and>
     (p_status p = StatusOnSale \<or> p_status p = StatusOffSale)"

definition insert_product :: "product_row \<Rightarrow> db \<Rightarrow> err + db" where
  "insert_product p d =
     sbind (insert_checked (product_lengths p) (product_checks p)
        (p_id p \<notin> p_id ` set (products d)) True p (products d))
      (\<lambda>t. Inr (d\<lparr>products := t\<rparr>))"

definition update_product :: "uid \<Rightarrow> (product_row \<Rightarrow> product_row) \<Rightarrow> db \<Rightarrow> err + db" where
  "update_product i f d =
     (let rows = filter (\<lambda>p. p_id p = i) (products d) in
      if \<not> list_all (\<lambda>p. product_lengths (f p)) rows then Inl StringTooLong
      else if \<not> list_all (\<lambda>p. product_checks (f p)) rows then Inl CheckViolation
      else Inr (d\<lparr>products := update_where (\<lambda>p. p_id p = i) f (products d)\<rparr>))"

text \<open>\<open>Create\<close>; the arguments after the base URL are the generated product and audit ids.\<close>

definition product_create ::
  "string \<Rightarrow> uid \<Rightarrow> uid \<Rightarrow> actor \<Rightarrow> product_input \<Rightarrow> db \<Rightarrow> (err + product_view) \<times> db" where
  "product_create base pid aid a x d =
     (case sbind (validateCreateInput x) (\<lambda>_.
        sbind (ParsePricePoints (pi_price x)) (\<lambda>price.
        sbind (normalizeImageKeys (pi_images x)) (\<lambda>keys. Inr (price, keys)))) of
        Inl e \<Rightarrow> (Inl e, d)
      | Inr (price, keys) \<Rightarrow>
        commit (\<lambda>d.
          let p = \<lparr>p_id = pid, p_name = trim_space (pi_name x),
                p_description = pi_description x, p_category = pi_category x, p_images = keys,
                p_price = price, p_stock = pi_stock x,
                p_status = (if pi_status x = [] then StatusOnSale else pi_status x)\<rparr> in
          sbind (insert_product p d) (\<lambda>d1.
          sbind (write_audit aid \<lparr>ActorAdminID = Some (AdminID a), ActorRole = RoleName a,
              Action = ''product.create'', TargetType = ''product'', TargetID = Some pid,
              Result = ''success'', BeforeData = [], AfterData = productAuditData p\<rparr> d1) (\<lambda>d2.
          Inr (toView base p, d2)))) d)"

definition assign_fields ::
  "product_update \<Rightarrow> string list option \<Rightarrow> int option \<Rightarrow> product_row \<Rightarrow> product_row" where
  "assign_fields x images price p = p\<lparr>
       p_name := (case pu_name x of None \<Rightarrow> p_name p | Some n \<Rightarrow> trim_space n),
       p_description := (case pu_description x of None \<Rightarrow> p_description p | Some n \<Rightarrow> n),
       p_category := (case pu_category x of None \<Rightarrow> p_category p | Some n \<Rightarrow> n),
       p_images := (case images of None \<Rightarrow> p_images p | Some n \<Rightarrow> n),
       p_price := (case price of None \<Rightarrow> p_price p | Some n \<Rightarrow> n),
       p_stock := (case pu_stock x of None \<Rightarrow> p_stock p | Some n \<Rightarrow> n),
       p_status := (case pu_status x of None \<Rightarrow> p_status p | Some n \<Rightarrow> n)\<rparr>"

text \<open>The assignments of an update, in the row, or the first error of its fields.\<close>

definition product_assign :: "product_update \<Rightarrow> err + (product_row \<Rightarrow> product_row)" where
  "product_assign x =
     sbind (case pu_images x of None \<Rightarrow> Inr None
       | Some ks \<Rightarrow> sbind (normalizeImageKeys ks) (\<lambda>n. Inr (Some n))) (\<lambda>images.
     sbind (case pu_price x of None \<Rightarrow> Inr None
       | Some v \<Rightarrow> sbind (ParsePricePoints v) (\<lambda>n. Inr (Some n))) (\<lambda>price.
     if pu_name x = None \<and> pu_description x = None \<and> pu_category x = None \<and>
        images = None \<and> price = None \<and> pu_stock x = None \<and> pu_status x = None
     then Inl ErrEmptyProductUpdate
     else Inr (assign_fields x images price)))"

text \<open>\<open>Update\<close>, with the gallery keys it drops, whose files it touches.\<close>

definition product_update_op ::
  "string \<Rightarrow> uid \<Rightarrow> actor \<Rightarrow> uid \<Rightarrow> product_update \<Rightarrow> db
   \<Rightarrow> (err + product_view \<times> string list) \<times> db" where
  "product_update_op base aid a i x d =
     (if i = 0 then (Inl ErrProductNotFound, d)
      else case validateUpdateInput x of
        Inl e \<Rightarrow> (Inl e, d)
      | Inr _ \<Rightarrow>
        commit (\<lambda>d.
          sbind (RepoGetByID i d) (\<lambda>current.
          sbind (product_assign x) (\<lambda>f.
          sbind (update_product i f d) (\<lambda>d1.
          sbind (RepoGetByID i d1) (\<lambda>updated.
          sbind (write_audit aid \<lparr>ActorAdminID = Some (AdminID a), ActorRole = RoleName a,
              Action = ''product.update'', TargetType = ''product'', TargetID = Some i,
              Result = ''success'', BeforeData = productAuditData current,
              AfterData = productAuditData updated\<rparr> d1) (\<lambda>d2.
          Inr ((toView base updated,
                if pu_images x = None then []
                else filter (\<lambda>k. k \<notin> set (p_images updated)) (p_images current)), d2))))))) d)"

definition ListPublic ::
  "(string \<Rightarrow> string \<Rightarrow> bool) \<Rightarrow> string \<Rightarrow> int \<Rightarrow> int \<Rightarrow> string \<Rightarrow> string \<Rightarrow> db
   \<Rightarrow> err + product_view list \<times> nat" where
  "ListPublic ilike base page pageSize category keyword d =
     (if category \<noteq> [] \<and> \<not> validCategory category then Inl (ErrInvalidProduct ''category'')
      else case ListOnSale ilike page pageSize category keyword d of
          (rows, n) \<Rightarrow> Inr (mapViews base rows, n))"

definition ListCategories :: "db \<Rightarrow> category_info list" where
  "ListCategories d = CategoryCatalog (Some (CountOnSaleByCategory d))"

definition GetPublic :: "string \<Rightarrow> uid \<Rightarrow> db \<Rightarrow> err + product_view" where
  "GetPublic base i d = sbind (RepoGetPublic i d) (\<lambda>p. Inr (toView base p))"

definition ListAdmin ::
  "string \<Rightarrow> int \<Rightarrow> int \<Rightarrow> string option \<Rightarrow> db \<Rightarrow> err + product_view list \<times> nat" where
  "ListAdmin base page pageSize status d =
     (if (case status of None \<Rightarrow> False | Some s \<Rightarrow> \<not> validStatus s)
      then Inl (ErrInvalidProduct ''status'')
      else case RepoListAdmin page pageSize status d of
          (rows, n) \<Rightarrow> Inr (mapViews base rows, n))"

definition GetAdmin :: "string \<Rightarrow> uid \<Rightarrow> db \<Rightarrow> err + product_view" where
  "GetAdmin base i d = sbind (RepoGetByID i d) (\<lambda>p. Inr (toView base p))"

definition IsImageKeyReferenced :: "string \<Rightarrow> db \<Rightarrow> bool" where
  "IsImageKeyReferenced key d = (0 < affected (\<lambda>p. key \<in> set (p_images p)) (products d))"

section \<open>Prices\<close>

text \<open>A text of visible ASCII characters is not trimmed.\<close>

definition visible :: "char \<Rightarrow> bool" where
  "visible c \<longleftrightarrow> 32 < byte c \<and> byte c < 128"

lemma trim_space_visible:
  assumes "list_all visible s"
  shows "trim_space s = s"
proof -
  have "ascii s" using assms by (auto simp: ascii_def list_all_iff visible_def)
  moreover have "s = [] \<or> hd s \<in> set s \<and> last s \<in> set s" by auto
  ultimately show ?thesis
    using assms unfolding trim_space_ascii[OF \<open>ascii s\<close>]
    by (intro strip_id) (auto simp: list_all_iff visible_def)
qed

lemma is_hex_visible: "is_hex c \<Longrightarrow> visible c"
  by (auto simp: is_hex_def is_digit_def visible_def byte_def)

text \<open>A decimal text read back is itself when it has no leading zero.\<close>

lemma digits_value_pos:
  "c \<noteq> CHR ''0'' \<Longrightarrow> is_digit c \<Longrightarrow> list_all is_digit cs \<Longrightarrow> 0 < digits_value (c # cs)"
proof (induction cs rule: rev_induct)
  case Nil
  have "byte c \<noteq> 48"
  proof
    assume "byte c = 48"
    moreover have "byte (CHR ''0'') = 48" by (simp add: byte_def)
    ultimately have "byte c = byte (CHR ''0'')" by simp
    then show False using Nil(1) by (metis byte_def char_of_char)
  qed
  then show ?case using Nil by (simp add: digits_value_def is_digit_def)
next
  case (snoc x xs)
  then show ?case using digits_value_snoc[of "c # xs" x] by simp
qed

lemma format_digits_value:
  assumes "is_digit c" and "c \<noteq> CHR ''0''" and "list_all is_digit cs"
  shows "format_nat (digits_value (c # cs)) = c # cs"
  using assms(3)
proof (induction cs rule: rev_induct)
  case Nil
  then show ?case
    using assms(1)
    by (simp add: format_nat.simps digits_value_def is_digit_def digit_of_def)
       (auto simp: byte_def)
next
  case (snoc x xs)
  let ?v = "digits_value (c # xs)"
  have v: "digits_value (c # xs @ [x]) = 10 * ?v + (byte x - 48)"
    using digits_value_snoc[of "c # xs" x] by simp
  have x: "byte x - 48 < 10" "48 + (byte x - 48) = byte x"
    using snoc(2) by (auto simp: is_digit_def)
  have "0 < ?v" using digits_value_pos assms snoc(2) by simp
  then have "format_nat (10 * ?v + (byte x - 48)) =
      format_nat ((10 * ?v + (byte x - 48)) div 10) @ [digit_of (10 * ?v + (byte x - 48))]"
    by (subst format_nat.simps) auto
  moreover have "(10 * ?v + (byte x - 48)) div 10 = ?v" using x by simp
  moreover have "(10 * ?v + (byte x - 48)) mod 10 = byte x - 48"
    using x(1) by (metis mod_less mod_mult_self4)
  then have "digit_of (10 * ?v + (byte x - 48)) = x"
    using x by (simp add: digit_of_def) (simp add: byte_def)
  ultimately show ?case using snoc v by simp
qed

lemma parse_int64_digits:
  assumes "is_digit c" and "list_all is_digit cs"
  shows "parse_int64 (c # cs) =
    (if int (digits_value (c # cs)) \<le> max_int64 then Some (int (digits_value (c # cs))) else None)"
proof -
  have "c \<noteq> CHR ''-''" "c \<noteq> CHR ''+''" using assms(1) not_digit_sign by auto
  then show ?thesis
    using assms by (auto simp: parse_int64_def Let_def in64_def max_int64_def)
qed

text \<open>
  The accepted texts are exactly the canonical decimal texts of the positive \<open>int64\<close> values, up to
  white space around them.
\<close>

lemma ParsePricePoints_iff:
  "ParsePricePoints value = Inr n \<longleftrightarrow>
   0 < n \<and> n \<le> max_int64 \<and> trim_space value = format_int n"
proof
  assume a: "ParsePricePoints value = Inr n"
  then obtain c cs where v: "trim_space value = c # cs" "is_digit c" "c \<noteq> CHR ''0''"
    "list_all is_digit cs" and p: "parse_int64 (c # cs) = Some n"
    by (auto simp: ParsePricePoints_def Let_def pricePointsPattern_def
        split: if_splits option.splits list.splits)
  have "n = int (digits_value (c # cs))" and "n \<le> max_int64"
    using p parse_int64_digits[OF v(2,4)] by (auto split: if_splits)
  moreover have "0 < digits_value (c # cs)" using digits_value_pos v by simp
  ultimately show "0 < n \<and> n \<le> max_int64 \<and> trim_space value = format_int n"
    using format_digits_value[OF v(2,3,4)] v(1) by (simp add: format_int_def)
next
  assume a: "0 < n \<and> n \<le> max_int64 \<and> trim_space value = format_int n"
  then have f: "format_int n = format_nat (nat n)" "0 < nat n" by (simp_all add: format_int_def)
  obtain c cs where v: "format_nat (nat n) = c # cs" by (cases "format_nat (nat n)") auto
  have d: "is_digit c" "list_all is_digit cs" "c \<noteq> CHR ''0''"
    using digits_format_nat[of "nat n"] hd_format_nat_pos[OF f(2)] by (auto simp: v)
  have "digits_value (c # cs) = nat n" using digits_value_format_nat[of "nat n"] v by simp
  then show "ParsePricePoints value = Inr n"
    using a f(1) v d parse_int64_digits[OF d(1,2)]
    by (simp add: ParsePricePoints_def Let_def pricePointsPattern_def)
qed

section \<open>Galleries\<close>

lemma ValidObjectKey_trim:
  assumes "ValidObjectKey key"
  shows "trim_space key = key"
proof -
  obtain p ext where k: "key = p @ CHR ''.'' # ext"
    and p: "\<forall>c\<in>set p. is_hex c \<or> c = CHR ''-''" and e: "ext \<in> {''jpg'', ''png'', ''webp''}"
    using ValidObjectKey_chars[OF assms] by blast
  have "list_all visible p"
    using p is_hex_visible by (auto simp: list_all_iff visible_def byte_def)
  moreover have "list_all visible ext" using e by (elim insertE emptyE; simp add: visible_def byte_def)
  ultimately show ?thesis
    by (intro trim_space_visible) (simp add: k visible_def byte_def)
qed

text \<open>The first occurrences, in order.\<close>

definition firsts :: "'a list \<Rightarrow> 'a list" where
  "firsts xs = rev (remdups (rev xs))"

lemma firsts_snoc: "firsts (xs @ [x]) = (if x \<in> set xs then firsts xs else firsts xs @ [x])"
  by (simp add: firsts_def)

lemma set_firsts [simp]: "set (firsts xs) = set xs"
  by (simp add: firsts_def)

lemma distinct_firsts [simp]: "distinct (firsts xs)"
  by (simp add: firsts_def)

lemma firsts_distinct: "distinct xs \<Longrightarrow> firsts xs = xs"
  by (simp add: firsts_def distinct_remdups_id)

lemma normalize_loop_firsts:
  "normalize_loop (firsts pre) keys =
   (if \<forall>k\<in>set (map trim_space keys). k = [] \<or> ValidObjectKey k
    then Inr (firsts (pre @ filter (\<lambda>k. k \<noteq> []) (map trim_space keys)))
    else Inl (ErrInvalidProduct ''invalid image key''))"
proof (induction keys arbitrary: pre)
  case (Cons k keys)
  show ?case
    using Cons[of pre] Cons[of "pre @ [trim_space k]"]
    by (auto simp: Let_def firsts_snoc)
qed simp

text \<open>What the loop computes, in one line: the first occurrences of the non-blank keys.\<close>

lemma normalizeImageKeys_spec:
  "normalizeImageKeys keys =
   (let ks = filter (\<lambda>k. k \<noteq> []) (map trim_space keys) in
    if \<not> list_all ValidObjectKey ks then Inl (ErrInvalidProduct ''invalid image key'')
    else if 9 < length (firsts ks) then Inl (ErrInvalidProduct ''at most 9 images per product'')
    else Inr (firsts ks))"
  using normalize_loop_firsts[of "[]" keys]
  by (auto simp: normalizeImageKeys_def maxProductImages_def Let_def list_all_iff firsts_def)

text \<open>
  Normalizing a gallery that was normalized changes nothing: what \<open>Create\<close> and \<open>Update\<close>
  store, a client can send back.
\<close>

theorem normalizeImageKeys_idem:
  assumes "normalizeImageKeys keys = Inr out"
  shows "normalizeImageKeys out = Inr out"
proof -
  from assms have o: "\<forall>k\<in>set out. ValidObjectKey k" "length out \<le> 9" "distinct out"
    "\<forall>k\<in>set out. k \<noteq> []"
    by (auto simp: normalizeImageKeys_spec Let_def list_all_iff split: if_splits)
  then have "map trim_space out = out"
    by (intro map_idI) (auto simp: ValidObjectKey_trim)
  moreover have "filter (\<lambda>k. k \<noteq> []) out = out" using o(4) by simp
  ultimately show ?thesis
    using o by (simp add: normalizeImageKeys_spec firsts_distinct list_all_iff)
qed

section \<open>The table stays well formed\<close>

definition gallery_ok :: "string list \<Rightarrow> bool" where
  "gallery_ok ks \<longleftrightarrow> distinct ks \<and> length ks \<le> 9 \<and> list_all ValidObjectKey ks"

definition product_ok :: "product_row \<Rightarrow> bool" where
  "product_ok p \<longleftrightarrow> product_lengths p \<and> product_checks p \<and> in64 (p_price p) \<and> in32 (p_stock p) \<and>
     validCategory (p_category p) \<and> p_name p \<noteq> [] \<and> gallery_ok (p_images p)"

definition products_ok :: "db \<Rightarrow> bool" where
  "products_ok d \<longleftrightarrow> distinct (map p_id (products d)) \<and> (\<forall>p\<in>set (products d). product_ok p)"

lemma gallery_ok_normalize: "normalizeImageKeys keys = Inr out \<Longrightarrow> gallery_ok out"
  by (auto simp: normalizeImageKeys_spec Let_def gallery_ok_def list_all_iff split: if_splits)

lemma insert_product_eq_Inr [tx_elims]:
  "insert_product p d = Inr d' \<longleftrightarrow> product_lengths p \<and> product_checks p \<and>
     p_id p \<notin> p_id ` set (products d) \<and> d' = d\<lparr>products := products d @ [p]\<rparr>"
  by (auto simp: insert_product_def tx_elims)

lemma update_product_eq_Inr [tx_elims]:
  "update_product i f d = Inr d' \<longleftrightarrow>
   (\<forall>p\<in>set (products d). p_id p = i \<longrightarrow> product_lengths (f p) \<and> product_checks (f p)) \<and>
   d' = d\<lparr>products := update_where (\<lambda>p. p_id p = i) f (products d)\<rparr>"
  by (auto simp: update_product_def list_all_iff Let_def)

lemma RepoGetByID_eq_Inr [tx_elims]:
  "RepoGetByID i d = Inr p \<longleftrightarrow> find_product i d = Some p"
  by (auto simp: RepoGetByID_def split: option.splits)

lemma set_stock_eq_Inr [tx_elims]:
  "set_stock i n d = Inr (m, d') \<longleftrightarrow> in32 n \<and> 0 \<le> n \<and> m = n \<and>
     d' = d\<lparr>products := update_where (\<lambda>p. p_id p = i) (\<lambda>p. p\<lparr>p_stock := n\<rparr>) (products d)\<rparr>"
  by (auto simp: set_stock_def)

lemma DecrementStock_eq_Inr [tx_elims]:
  "DecrementStock i q d = Inr (m, d') \<longleftrightarrow>
   (\<exists>p. find_product i d = Some p \<and> p_status p = StatusOnSale \<and> q \<le> p_stock p \<and>
     set_stock i (p_stock p - q) d = Inr (m, d'))"
  by (auto simp: DecrementStock_def split: option.splits)

lemma IncrementStock_eq_Inr [tx_elims]:
  "IncrementStock i q d = Inr (m, d') \<longleftrightarrow>
   (\<exists>p. find_product i d = Some p \<and> set_stock i (p_stock p + q) d = Inr (m, d'))"
  by (auto simp: IncrementStock_def split: option.splits)

lemma products_ok_update:
  assumes "products_ok d" and "\<And>p. p_id (f p) = p_id p"
    and "\<And>p. p \<in> set (products d) \<Longrightarrow> p_id p = i \<Longrightarrow> product_ok p \<Longrightarrow> product_ok (f p)"
  shows "products_ok (d\<lparr>products := update_where (\<lambda>p. p_id p = i) f (products d)\<rparr>)"
  using assms by (auto simp: products_ok_def map_update_where set_update_where)

lemma product_ok_stock:
  "product_ok p \<Longrightarrow> in32 n \<Longrightarrow> 0 \<le> n \<Longrightarrow> product_ok (p\<lparr>p_stock := n\<rparr>)"
  by (simp add: product_ok_def product_lengths_def product_checks_def)

lemma set_stock_products_ok:
  "products_ok d \<Longrightarrow> set_stock i n d = Inr (m, d') \<Longrightarrow> products_ok d'"
  by (auto simp: tx_elims intro!: products_ok_update product_ok_stock)

lemma product_create_ok:
  assumes "products_ok d" and "in32 (pi_stock x)"
  shows "products_ok (snd (product_create base pid aid a x d))"
  using assms
  by (auto simp: product_create_def commit_def tx_elims products_ok_def product_ok_def Let_def
      validateCreateInput_def ParsePricePoints_iff gallery_ok_normalize in64_def max_int64_def
      split: sum.splits prod.splits if_splits)

lemma product_assign_ok:
  assumes "product_assign x = Inr f" and "validateUpdateInput x = Inr ()" and "product_ok p"
    and "case pu_stock x of None \<Rightarrow> True | Some n \<Rightarrow> in32 n"
    and "product_lengths (f p)" and "product_checks (f p)"
  shows "product_ok (f p)"
proof -
  obtain images price where f: "f = assign_fields x images price"
    and im: "case images of None \<Rightarrow> True | Some ks \<Rightarrow> gallery_ok ks"
    and pr: "case price of None \<Rightarrow> True | Some n \<Rightarrow> in64 n"
    using assms(1)
    by (auto simp: product_assign_def tx_elims ParsePricePoints_iff in64_def max_int64_def
        dest: gallery_ok_normalize split: option.splits if_splits)
  have v: "case pu_name x of None \<Rightarrow> True | Some n \<Rightarrow> trim_space n \<noteq> []"
    "case pu_category x of None \<Rightarrow> True | Some c \<Rightarrow> validCategory c"
    using assms(2)
    by (auto simp: validateUpdateInput_def tx_elims split: option.splits if_splits)
  show ?thesis
    using assms(3-6) im pr v unfolding product_ok_def
    by (auto simp: f assign_fields_def split: option.splits)
qed

lemma product_assign_id: "product_assign x = Inr f \<Longrightarrow> p_id (f p) = p_id p"
  by (auto simp: product_assign_def assign_fields_def tx_elims split: option.splits if_splits)

lemma product_update_ok:
  assumes "products_ok d" and "case pu_stock x of None \<Rightarrow> True | Some n \<Rightarrow> in32 n"
  shows "products_ok (snd (product_update_op base aid a i x d))"
proof -
  have "products_ok (d\<lparr>products := update_where (\<lambda>p. p_id p = i) f (products d)\<rparr>)"
    if "validateUpdateInput x = Inr ()" and f: "product_assign x = Inr f"
      and "update_product i f d = Inr d1" for f d1
    using that assms(2)
    by (intro products_ok_update[OF assms(1)] product_assign_id[OF f] product_assign_ok[OF f])
       (auto simp: tx_elims)
  then show ?thesis
    using assms(1)
    by (auto simp: product_update_op_def commit_def tx_elims products_ok_def
        split: sum.splits prod.splits)
qed

section \<open>Inventory\<close>

text \<open>
  The contract of the two stock updates, as the order usecases rely on it: taking a quantity
  succeeds only when it is there, giving adds it, and neither touches another product. \<open>each\<close> runs
  an update for every line of an order, stopping at the first error.
\<close>

fun each :: "('i \<Rightarrow> 'q \<Rightarrow> 's \<Rightarrow> err + ('x \<times> 's)) \<Rightarrow> ('i \<times> 'q) list \<Rightarrow> 's \<Rightarrow> err + 's" where
  "each f [] s = Inr s"
| "each f ((i, q) # ps) s = sbind (f i q s) (\<lambda>(_, s'). each f ps s')"

definition qty_of :: "('i \<times> int) list \<Rightarrow> 'i \<Rightarrow> int" where
  "qty_of ps i = sum_list (map snd (filter (\<lambda>p. fst p = i) ps))"

lemma qty_of_Nil [simp]: "qty_of [] i = 0"
  by (simp add: qty_of_def)

lemma qty_of_Cons [simp]:
  "qty_of ((j, q) # ps) i = (if j = i then q + qty_of ps i else qty_of ps i)"
  by (simp add: qty_of_def)

locale inventory =
  fixes stock :: "'s \<Rightarrow> uid \<Rightarrow> int option"
    and take_one :: "uid \<Rightarrow> int \<Rightarrow> 's \<Rightarrow> err + (int \<times> 's)"
    and give_one :: "uid \<Rightarrow> int \<Rightarrow> 's \<Rightarrow> err + (int \<times> 's)"
  assumes take_ok: "take_one i q s = Inr (n, s') \<Longrightarrow>
      \<exists>m. stock s i = Some m \<and> n = m - q \<and> 0 \<le> n \<and> stock s' = (stock s)(i := Some n)"
    and give_ok: "give_one i q s = Inr (n, s') \<Longrightarrow>
      \<exists>m. stock s i = Some m \<and> n = m + q \<and> stock s' = (stock s)(i := Some n)"
begin

lemma take_each:
  "each take_one ps s = Inr s' \<Longrightarrow>
   stock s' j = map_option (\<lambda>m. m - qty_of ps j) (stock s j)"
proof (induction ps arbitrary: s)
  case (Cons p ps)
  obtain i q n s1 where p: "p = (i, q)" "take_one i q s = Inr (n, s1)" "each take_one ps s1 = Inr s'"
    using Cons.prems by (cases p) (auto simp: sbind_eq_Inr)
  then show ?case
    using Cons.IH[OF p(3)] take_ok[OF p(2)] by (auto simp: algebra_simps)
qed (simp add: option.map_ident)

lemma give_each:
  "each give_one ps s = Inr s' \<Longrightarrow>
   stock s' j = map_option (\<lambda>m. m + qty_of ps j) (stock s j)"
proof (induction ps arbitrary: s)
  case (Cons p ps)
  obtain i q n s1 where p: "p = (i, q)" "give_one i q s = Inr (n, s1)" "each give_one ps s1 = Inr s'"
    using Cons.prems by (cases p) (auto simp: sbind_eq_Inr)
  then show ?case
    using Cons.IH[OF p(3)] give_ok[OF p(2)] by (auto simp: algebra_simps)
qed (simp add: option.map_ident)

text \<open>Giving back what was taken restores the stock of every product.\<close>

lemma give_back:
  assumes "each take_one ps s = Inr s1" and "stock s2 = stock s1" and "each give_one ps' s2 = Inr s3"
    and "\<And>i. qty_of ps' i = qty_of ps i"
  shows "stock s3 = stock s"
  using take_each[OF assms(1)] give_each[OF assms(3)] assms(2,4)
  by (auto simp: fun_eq_iff option.map_comp comp_def option.map_ident)

end

definition stock_of :: "db \<Rightarrow> uid \<Rightarrow> int option" where
  "stock_of d i = map_option p_stock (find_product i d)"

lemma find_product_id: "find_product i d = Some p \<Longrightarrow> p_id p = i"
  by (auto simp: find_product_def dest: find_SomeD)

lemma find_product_set_stock:
  "find_product j (d\<lparr>products := update_where (\<lambda>p. p_id p = i) (\<lambda>p. p\<lparr>p_stock := n\<rparr>) (products d)\<rparr>) =
   map_option (\<lambda>p. if p_id p = i then p\<lparr>p_stock := n\<rparr> else p) (find_product j d)"
  by (simp add: find_product_def find_update_where)

lemma stock_of_set_stock:
  "find_product i d = Some p \<Longrightarrow>
   stock_of (d\<lparr>products := update_where (\<lambda>p. p_id p = i) (\<lambda>p. p\<lparr>p_stock := n\<rparr>) (products d)\<rparr>) =
   (stock_of d)(i := Some n)"
  by (auto simp: stock_of_def fun_eq_iff find_product_set_stock option.map_comp comp_def
      dest: find_product_id intro!: option.map_cong0)

interpretation inv: inventory stock_of DecrementStock IncrementStock
  by unfold_locales (auto simp: tx_elims stock_of_set_stock, auto simp: stock_of_def)

text \<open>Neither update touches anything but the stock column.\<close>

definition same_but_stock :: "product_row \<Rightarrow> product_row \<Rightarrow> bool" where
  "same_but_stock p q \<longleftrightarrow> (\<exists>n. q = p\<lparr>p_stock := n\<rparr>)"

definition stock_step :: "(uid \<Rightarrow> int \<Rightarrow> db \<Rightarrow> err + (int \<times> db)) \<Rightarrow> bool" where
  "stock_step f \<longleftrightarrow> (\<forall>i q d n d'. f i q d = Inr (n, d') \<longrightarrow>
     (\<exists>p m. find_product i d = Some p \<and> set_stock i m d = Inr (n, d')))"

lemma stock_step_Decrement: "stock_step DecrementStock"
  by (auto simp: stock_step_def DecrementStock_eq_Inr)

lemma stock_step_Increment: "stock_step IncrementStock"
  by (auto simp: stock_step_def IncrementStock_eq_Inr)

definition stock_only :: "db \<Rightarrow> db \<Rightarrow> bool" where
  "stock_only d d' \<longleftrightarrow>
     (\<exists>ps. d' = d\<lparr>products := ps\<rparr> \<and> list_all2 same_but_stock (products d) ps)"

lemma same_but_stock_refl: "same_but_stock p p"
  unfolding same_but_stock_def by (intro exI[of _ "p_stock p"]) simp

lemma same_but_stock_trans: "same_but_stock p q \<Longrightarrow> same_but_stock q r \<Longrightarrow> same_but_stock p r"
  by (auto simp: same_but_stock_def)

lemma stock_onlyI:
  "list_all2 same_but_stock (products d) ps \<Longrightarrow> stock_only d (d\<lparr>products := ps\<rparr>)"
  unfolding stock_only_def by (intro exI[of _ ps] conjI refl)

lemma stock_only_refl: "stock_only d d"
  using stock_onlyI[of d "products d"] by (simp add: list.rel_refl same_but_stock_refl)

lemma stock_only_trans:
  assumes "stock_only d d'" and "stock_only d' d''"
  shows "stock_only d d''"
proof -
  obtain ps qs where p: "d' = d\<lparr>products := ps\<rparr>" "list_all2 same_but_stock (products d) ps"
    and q: "d'' = d'\<lparr>products := qs\<rparr>" "list_all2 same_but_stock (products d') qs"
    using assms unfolding stock_only_def by blast
  have "d'' = d\<lparr>products := qs\<rparr>" using p(1) q(1) by simp
  moreover have "list_all2 same_but_stock (products d) qs"
    using list_all2_trans[OF same_but_stock_trans p(2)] q(2) p(1) by simp
  ultimately show ?thesis using stock_onlyI by blast
qed

lemma stock_only_set_stock:
  assumes "set_stock i m d = Inr (n, d')"
  shows "stock_only d d'"
proof -
  have "list_all2 same_but_stock t (update_where (\<lambda>p. p_id p = i) (\<lambda>p. p\<lparr>p_stock := m\<rparr>) t)" for t
    by (induction t) (auto simp: same_but_stock_refl, auto simp: same_but_stock_def)
  then show ?thesis
    using assms by (simp add: set_stock_eq_Inr stock_onlyI)
qed

lemma each_stock_only:
  assumes "stock_step f"
  shows "each f ps d = Inr d' \<Longrightarrow> stock_only d d'"
proof (induction ps arbitrary: d)
  case (Cons p ps)
  obtain i q n d1 where p: "p = (i, q)" "f i q d = Inr (n, d1)" "each f ps d1 = Inr d'"
    using Cons.prems by (cases p) (auto simp: sbind_eq_Inr)
  then have "stock_only d d1"
    using assms by (metis stock_step_def stock_only_set_stock)
  then show ?case using Cons.IH[OF p(3)] stock_only_trans by blast
qed (simp add: stock_only_refl)

lemma stock_only_ids: "stock_only d d' \<Longrightarrow> map p_id (products d') = map p_id (products d)"
  by (auto simp: stock_only_def list_all2_conv_all_nth same_but_stock_def intro!: nth_equalityI)

lemma each_products_ok:
  assumes "stock_step f"
  shows "each f ps d = Inr d' \<Longrightarrow> products_ok d \<Longrightarrow> products_ok d'"
proof (induction ps arbitrary: d)
  case (Cons p ps)
  obtain i q n d1 where p: "p = (i, q)" "f i q d = Inr (n, d1)" "each f ps d1 = Inr d'"
    using Cons.prems by (cases p) (auto simp: sbind_eq_Inr)
  then have "products_ok d1"
    using assms Cons.prems(2) by (metis stock_step_def set_stock_products_ok)
  then show ?case using Cons.IH[OF p(3)] by blast
qed simp

section \<open>What the text of a price and of a gallery means\<close>

theorem normalizeImageKeys_idem_witness: "normalizeImageKeys [demo_key] = Inr [demo_key]"
proof -
  have "normalizeImageKeys ['' '', demo_key, '' '' @ demo_key] = Inr [demo_key]" by code_simp
  then show ?thesis by (rule normalizeImageKeys_idem)
qed


end
