(* ===== verification/Cart.thy ===== *)
theory Cart
  imports Product
begin

text \<open>
  \<open>internal/cart\<close>: the buyer's cart (\<open>service.go\<close>) and the two queries the checkout runs in its own
  transaction (\<open>repository.go\<close>). \<open>cart_upsert\<close> is the \<open>INSERT .. ON CONFLICT .. DO UPDATE\<close> that adds
  to the quantity of the row already there.
\<close>

record cart_view =
  cv_id :: uid
  cv_product :: uid
  cv_qty :: int
  cv_view :: product_view

text \<open>A row whose product is missing preloads Go's zero value.\<close>

definition zero_product :: product_row where
  "zero_product = \<lparr>p_id = 0, p_name = [], p_description = [], p_category = [], p_images = [],
     p_price = 0, p_stock = 0, p_status = []\<rparr>"

definition preload_product :: "db \<Rightarrow> uid \<Rightarrow> product_row" where
  "preload_product d i = (case find_product i d of None \<Rightarrow> zero_product | Some p \<Rightarrow> p)"

definition toCartView :: "string \<Rightarrow> db \<Rightarrow> cart_row \<Rightarrow> cart_view" where
  "toCartView base d r = \<lparr>cv_id = c_id r, cv_product = c_product r, cv_qty = c_qty r,
     cv_view = toView base (preload_product d (c_product r))\<rparr>"

definition find_line :: "uid \<Rightarrow> uid \<Rightarrow> db \<Rightarrow> cart_row option" where
  "find_line u p d = find (\<lambda>r. c_user r = u \<and> c_product r = p) (cart_items d)"

definition cart_upsert :: "uid \<Rightarrow> uid \<Rightarrow> uid \<Rightarrow> int \<Rightarrow> db \<Rightarrow> err + db" where
  "cart_upsert fresh u p q d =
     (if q \<le> 0 then Inl CheckViolation
      else case find_line u p d of
          Some r \<Rightarrow>
            if in32 (c_qty r + q)
            then Inr (d\<lparr>cart_items := update_where (\<lambda>r. c_user r = u \<and> c_product r = p)
              (\<lambda>r. r\<lparr>c_qty := c_qty r + q\<rparr>) (cart_items d)\<rparr>)
            else Inl NumericOutOfRange
        | None \<Rightarrow>
            if fresh \<in> c_id ` set (cart_items d) then Inl UniqueViolation
            else if u \<notin> u_id ` set (users d) \<or> p \<notin> p_id ` set (products d)
            then Inl ForeignKeyViolation
            else Inr (d\<lparr>cart_items := cart_items d @
              [\<lparr>c_id = fresh, c_user = u, c_product = p, c_qty = q\<rparr>]\<rparr>))"

definition cart_add ::
  "string \<Rightarrow> uid \<Rightarrow> uid \<Rightarrow> uid \<Rightarrow> int \<Rightarrow> db \<Rightarrow> (err + cart_view) \<times> db" where
  "cart_add base fresh u p quantity d =
     (if u = 0 \<or> p = 0 then (Inl ErrInvalidCartItem, d)
      else if quantity < 1 then (Inl ErrInvalidCartItem, d)
      else commit (\<lambda>d.
        if find_product p d = None then Inl ErrCartProductNotFound
        else if (case find_line u p d of
            None \<Rightarrow> False | Some current \<Rightarrow> max_int32 < c_qty current + quantity)
        then Inl ErrQuantityOverflow
        else sbind (cart_upsert fresh u p quantity d) (\<lambda>d1.
          (case find_line u p d1 of
             None \<Rightarrow> Inl (ErrOther ''record not found'')
           | Some saved \<Rightarrow> Inr (toCartView base d1 saved, d1)))) d)"

definition cart_list :: "string \<Rightarrow> uid \<Rightarrow> db \<Rightarrow> cart_view list" where
  "cart_list base u d =
     map (toCartView base d) (sort_key c_id (filter (\<lambda>r. c_user r = u) (cart_items d)))"

definition cart_update :: "string \<Rightarrow> uid \<Rightarrow> uid \<Rightarrow> int \<Rightarrow> db \<Rightarrow> (err + cart_view) \<times> db" where
  "cart_update base u i quantity d =
     (if u = 0 \<or> i = 0 then (Inl ErrCartItemNotFound, d)
      else if quantity < 1 then (Inl ErrInvalidCartItem, d)
      else commit (\<lambda>d.
        case find (\<lambda>r. c_id r = i \<and> c_user r = u) (cart_items d) of
          None \<Rightarrow> Inl ErrCartItemNotFound
        | Some item \<Rightarrow>
          let d1 = d\<lparr>cart_items := update_where (\<lambda>r. c_id r = c_id item)
            (\<lambda>r. r\<lparr>c_qty := quantity\<rparr>) (cart_items d)\<rparr> in
          (case find (\<lambda>r. c_id r = c_id item) (cart_items d1) of
             None \<Rightarrow> Inl (ErrOther ''record not found'')
           | Some saved \<Rightarrow> Inr (toCartView base d1 saved, d1))) d)"

definition cart_delete :: "uid \<Rightarrow> uid \<Rightarrow> db \<Rightarrow> (err + unit) \<times> db" where
  "cart_delete u i d =
     (if u = 0 \<or> i = 0 then (Inl ErrCartItemNotFound, d)
      else commit (\<lambda>d.
        let P = (\<lambda>r. c_id r = i \<and> c_user r = u) in
        if affected P (cart_items d) = 0 then Inl ErrCartItemNotFound
        else Inr ((), d\<lparr>cart_items := delete_where P (cart_items d)\<rparr>)) d)"

section \<open>The checkout's queries\<close>

definition LockCartForOrder :: "uid \<Rightarrow> uid list \<Rightarrow> db \<Rightarrow> err + cart_row list" where
  "LockCartForOrder u ids d =
     (if ids = [] then Inl ErrInvalidCartItem
      else let rows = sort_key c_id (filter (\<lambda>r. c_user r = u \<and> c_id r \<in> set ids) (cart_items d)) in
        if list_all (\<lambda>i. i \<in> c_id ` set rows) ids then Inr rows else Inl ErrCartItemNotFound)"

definition DeleteByIDs :: "uid \<Rightarrow> uid list \<Rightarrow> db \<Rightarrow> err + db" where
  "DeleteByIDs u ids d =
     (let P = (\<lambda>r. c_user r = u \<and> c_id r \<in> set ids) in
      if ids = [] then Inr d
      else if affected P (cart_items d) \<noteq> length ids then Inl ErrCartItemNotFound
      else Inr (d\<lparr>cart_items := delete_where P (cart_items d)\<rparr>))"

section \<open>The cart stays well formed\<close>

definition cart_line_ok :: "db \<Rightarrow> cart_row \<Rightarrow> bool" where
  "cart_line_ok d r \<longleftrightarrow> 0 < c_qty r \<and> in32 (c_qty r) \<and> c_user r \<in> u_id ` set (users d) \<and>
     c_product r \<in> p_id ` set (products d)"

definition carts_ok :: "db \<Rightarrow> bool" where
  "carts_ok d \<longleftrightarrow> distinct (map c_id (cart_items d)) \<and>
     distinct (map (\<lambda>r. (c_user r, c_product r)) (cart_items d)) \<and>
     (\<forall>r\<in>set (cart_items d). cart_line_ok d r)"

lemma cart_line_ok_frame:
  "cart_line_ok d r \<Longrightarrow> users d' = users d \<Longrightarrow> products d' = products d \<Longrightarrow> cart_line_ok d' r"
  by (simp add: cart_line_ok_def)

lemma LockCartForOrder_eq_Inr [tx_elims]:
  "LockCartForOrder u ids d = Inr rows \<longleftrightarrow> ids \<noteq> [] \<and>
   rows = sort_key c_id (filter (\<lambda>r. c_user r = u \<and> c_id r \<in> set ids) (cart_items d)) \<and>
   set ids \<subseteq> c_id ` set rows"
  by (auto simp: LockCartForOrder_def Let_def list_all_iff)

lemma DeleteByIDs_eq_Inr [tx_elims]:
  "ids \<noteq> [] \<Longrightarrow> DeleteByIDs u ids d = Inr d' \<longleftrightarrow>
   affected (\<lambda>r. c_user r = u \<and> c_id r \<in> set ids) (cart_items d) = length ids \<and>
   d' = d\<lparr>cart_items := delete_where (\<lambda>r. c_user r = u \<and> c_id r \<in> set ids) (cart_items d)\<rparr>"
  by (auto simp: DeleteByIDs_def Let_def)

lemma find_line_None: "find_line u p d = None \<longleftrightarrow>
   (u, p) \<notin> (\<lambda>r. (c_user r, c_product r)) ` set (cart_items d)"
  by (auto simp: find_line_def find_None_iff)

lemma cart_upsert_ok:
  assumes "carts_ok d" and "cart_upsert fresh u p q d = Inr d'" and "in32 q"
  shows "carts_ok d'"
proof (cases "find_line u p d")
  case None
  then have "(u, p) \<notin> (\<lambda>r. (c_user r, c_product r)) ` set (cart_items d)"
    by (simp add: find_line_None)
  then show ?thesis
    using assms None unfolding carts_ok_def
    by (auto simp: cart_upsert_def cart_line_ok_def split: if_splits)
next
  case (Some r)
  have "\<And>s. s \<in> set (cart_items d) \<Longrightarrow> c_user s = u \<and> c_product s = p \<Longrightarrow> s = r"
    using assms(1) Some unfolding carts_ok_def find_line_def
    by (auto dest!: find_SomeD intro: distinct_map_unique[where k = "\<lambda>r. (c_user r, c_product r)"])
  moreover have "0 < c_qty r" using assms(1) Some
    by (auto simp: carts_ok_def cart_line_ok_def find_line_def dest: find_SomeD)
  moreover have d': "0 < q" "in32 (c_qty r + q)"
    "d' = d\<lparr>cart_items := update_where (\<lambda>r. c_user r = u \<and> c_product r = p)
              (\<lambda>r. r\<lparr>c_qty := c_qty r + q\<rparr>) (cart_items d)\<rparr>"
    using assms(2) Some by (auto simp: cart_upsert_def split: if_splits)
  ultimately show ?thesis
    using assms(1) unfolding carts_ok_def
    by (auto simp: map_update_where set_update_where cart_line_ok_def)
qed

lemma cart_add_ok:
  assumes "carts_ok d" and "in32 quantity"
  shows "carts_ok (snd (cart_add base fresh u p quantity d))"
  using assms cart_upsert_ok[OF assms(1) _ assms(2)]
  by (auto simp: cart_add_def commit_def sbind_eq_Inr split: sum.splits if_splits option.splits)

lemma cart_update_ok:
  assumes "carts_ok d" and "in32 quantity"
  shows "carts_ok (snd (cart_update base u i quantity d))"
proof -
  have "carts_ok (d\<lparr>cart_items := update_where (\<lambda>r. c_id r = j)
      (\<lambda>r. r\<lparr>c_qty := quantity\<rparr>) (cart_items d)\<rparr>)" if "0 < quantity" for j
    using assms that unfolding carts_ok_def
    by (auto simp: map_update_where set_update_where cart_line_ok_def)
  then show ?thesis
    using assms(1)
    by (auto simp: cart_update_def commit_def Let_def split: sum.splits if_splits option.splits)
qed

lemma carts_ok_delete: "carts_ok d \<Longrightarrow> carts_ok (d\<lparr>cart_items := delete_where P (cart_items d)\<rparr>)"
  by (auto simp: carts_ok_def cart_line_ok_def) (auto simp: delete_where_def distinct_map_filter)

lemma cart_delete_ok: "carts_ok d \<Longrightarrow> carts_ok (snd (cart_delete u i d))"
  by (auto simp: cart_delete_def commit_def Let_def carts_ok_delete)

lemma DeleteByIDs_ok: "carts_ok d \<Longrightarrow> DeleteByIDs u ids d = Inr d' \<Longrightarrow> carts_ok d'"
  by (auto simp: DeleteByIDs_def Let_def carts_ok_delete split: if_splits)

text \<open>What the checkout gets: exactly the selected rows of the buyer, each once.\<close>

lemma LockCartForOrder_rows:
  assumes "LockCartForOrder u ids d = Inr rows" and "carts_ok d"
  shows "set rows = {r \<in> set (cart_items d). c_user r = u \<and> c_id r \<in> set ids}"
    and "c_id ` set rows = set ids" and "distinct (map c_product rows)"
    and "rows \<noteq> []" and "\<And>r. r \<in> set rows \<Longrightarrow> cart_line_ok d r"
proof -
  let ?rows = "filter (\<lambda>r. c_user r = u \<and> c_id r \<in> set ids) (cart_items d)"
  from assms(1) have r: "rows = sort_key c_id ?rows" "ids \<noteq> []" "set ids \<subseteq> c_id ` set rows"
    by (auto simp: tx_elims)
  then show s: "set rows = {r \<in> set (cart_items d). c_user r = u \<and> c_id r \<in> set ids}" by auto
  with r show "c_id ` set rows = set ids" by auto
  show "rows \<noteq> []" using r(2,3) by (cases rows) auto
  from s assms(2) show "\<And>r. r \<in> set rows \<Longrightarrow> cart_line_ok d r" by (auto simp: carts_ok_def)
  have "distinct (map (\<lambda>r. (c_user r, c_product r)) ?rows)"
    using assms(2) by (simp add: carts_ok_def distinct_map_filter)
  then have "inj_on (\<lambda>r. (c_user r, c_product r)) (set ?rows)" "distinct ?rows"
    by (auto simp: distinct_map)
  then have "inj_on c_product (set ?rows)" by (auto simp: inj_on_def)
  then show "distinct (map c_product rows)"
    using \<open>distinct ?rows\<close> r(1) by (simp add: distinct_map)
qed

text \<open>The rows that were locked are the rows that are deleted: the count of the delete is exact.\<close>

lemma DeleteByIDs_after_lock:
  assumes "LockCartForOrder u ids d = Inr rows" and "carts_ok d" and "distinct ids"
    and "cart_items d' = cart_items d"
  shows "DeleteByIDs u ids d' = Inr (d'\<lparr>cart_items :=
    delete_where (\<lambda>r. c_user r = u \<and> c_id r \<in> set ids) (cart_items d)\<rparr>)"
proof -
  have rows: "rows = sort_key c_id (filter (\<lambda>r. c_user r = u \<and> c_id r \<in> set ids) (cart_items d))"
    "ids \<noteq> []" using assms(1) by (auto simp: tx_elims)
  have "distinct (map c_id rows)"
    using assms(2) unfolding rows(1) carts_ok_def
    by (simp add: distinct_map distinct_map_filter) (auto simp: inj_on_def)
  then have "length rows = card (c_id ` set rows)"
    by (metis distinct_card length_map set_map)
  also have "\<dots> = length ids"
    using LockCartForOrder_rows(2)[OF assms(1,2)] assms(3) by (simp add: distinct_card)
  finally show ?thesis
    using rows assms(4) by (simp add: DeleteByIDs_def Let_def affected_def)
qed

text \<open>
  Adding to the cart accumulates: for a product that exists, a quantity of at least one is added
  to the buyer's row for that product, and the request is refused, with the cart unchanged, exactly
  when the sum does not fit the quantity's 32 bits.
\<close>

theorem cart_add_accumulates:
  assumes "carts_ok d" and "u \<noteq> 0" and "p \<noteq> 0" and "1 \<le> q" and "find_product p d \<noteq> None"
    and "find_line u p d = Some r"
  shows "if max_int32 < c_qty r + q then cart_add base fresh u p q d = (Inl ErrQuantityOverflow, d)
    else \<exists>v d'. cart_add base fresh u p q d = (Inr v, d') \<and> cv_qty v = c_qty r + q \<and>
      find_line u p d' = Some (r\<lparr>c_qty := c_qty r + q\<rparr>) \<and>
      (\<forall>w k. (w, k) \<noteq> (u, p) \<longrightarrow> find_line w k d' = find_line w k d)"
proof (cases "max_int32 < c_qty r + q")
  case True
  then show ?thesis using assms by (auto simp: cart_add_def commit_def)
next
  case False
  let ?t = "update_where (\<lambda>r. c_user r = u \<and> c_product r = p) (\<lambda>r. r\<lparr>c_qty := c_qty r + q\<rparr>) (cart_items d)"
  have r: "r \<in> set (cart_items d)" "c_user r = u" "c_product r = p"
    using assms(6) by (auto simp: find_line_def dest: find_SomeD)
  then have "0 < c_qty r" using assms(1) by (auto simp: carts_ok_def cart_line_ok_def)
  then have fits: "in32 (c_qty r + q)" using False assms(4) by (simp add: in32_def max_int32_def)
  have line: "find_line w k (d\<lparr>cart_items := ?t\<rparr>) =
      map_option (\<lambda>r. if c_user r = u \<and> c_product r = p then r\<lparr>c_qty := c_qty r + q\<rparr> else r) (find_line w k d)"
    for w k
    by (simp add: find_line_def find_update_where)
  have same: "find_line w k (d\<lparr>cart_items := ?t\<rparr>) = find_line w k d" if "(w, k) \<noteq> (u, p)" for w k
    using that unfolding line by (auto simp: find_line_def intro!: option.map_ident_strong dest!: find_SomeD
        simp: option.set_map elim!: option.set_cases)
  have "cart_add base fresh u p q d = (Inr (toCartView base (d\<lparr>cart_items := ?t\<rparr>) (r\<lparr>c_qty := c_qty r + q\<rparr>)),
      d\<lparr>cart_items := ?t\<rparr>)"
    using False assms fits line[of u p] r by (auto simp: cart_add_def commit_def cart_upsert_def)
  then show ?thesis using False assms(6) line[of u p] same r by (auto simp: toCartView_def)
qed

definition cart_demo :: db where
  "cart_demo = empty_db\<lparr>
     users := [\<lparr>u_id = 1, u_openid = ''wx'', u_nickname = [], u_avatar = [], u_balance = 0,
       u_created = 0, u_updated = 0\<rparr>],
     products := [\<lparr>p_id = 11, p_name = ''Mug'', p_description = [], p_category = [], p_images = [],
       p_price = 30, p_stock = 5, p_status = ''on_sale''\<rparr>],
     cart_items := [\<lparr>c_id = 31, c_user = 1, c_product = 11, c_qty = 2\<rparr>]\<rparr>"

theorem cart_add_accumulates_witness:
  "cart_add [] 32 1 11 2147483647 cart_demo = (Inl ErrQuantityOverflow, cart_demo) \<and>
   find_line 1 11 (snd (cart_add [] 32 1 11 3 cart_demo)) =
     Some \<lparr>c_id = 31, c_user = 1, c_product = 11, c_qty = 5\<rparr>"
proof -
  have ok: "carts_ok cart_demo" by code_simp
  have line: "find_line 1 11 cart_demo = Some \<lparr>c_id = 31, c_user = 1, c_product = 11, c_qty = 2\<rparr>"
    by code_simp
  have p: "find_product 11 cart_demo \<noteq> None" by (simp add: find_product_def cart_demo_def)
  from cart_add_accumulates[OF ok _ _ _ p line, of 2147483647 "[]" 32]
    cart_add_accumulates[OF ok _ _ _ p line, of 3 "[]" 32]
  show ?thesis by (auto simp: max_int32_def)
qed

end
