(* ===== verification/Address.thy ===== *)
theory Address
  imports Txn
begin

text \<open>
  \<open>internal/user/address_service.go\<close>: the address book of a buyer. Every operation is scoped to the
  authenticated buyer, so a row of another buyer is answered as a missing one. The generated id and
  gorm's clock are arguments.
\<close>

record address_input =
  ai_receiver :: string
  ai_phone :: string
  ai_region :: string
  ai_detail :: string
  ai_default :: bool

record address_update =
  ap_receiver :: "string option"
  ap_phone :: "string option"
  ap_region :: "string option"
  ap_detail :: "string option"
  ap_default :: "bool option"

record address_view =
  av_id :: uid
  av_receiver :: string
  av_phone :: string
  av_region :: string
  av_detail :: string
  av_default :: bool
  av_version :: int
  av_created :: time
  av_updated :: time

definition toAddressView :: "address_row \<Rightarrow> address_view" where
  "toAddressView r = \<lparr>av_id = a_id r, av_receiver = a_receiver r, av_phone = a_phone r,
     av_region = a_region r, av_detail = a_detail r, av_default = a_default r,
     av_version = a_version r, av_created = a_created r, av_updated = a_updated r\<rparr>"

definition bad_receiver :: "string \<Rightarrow> bool" where
  "bad_receiver s \<longleftrightarrow> trim_space s = [] \<or> 32 < rune_count (trim_space s)"

definition bad_phone :: "string \<Rightarrow> bool" where
  "bad_phone s \<longleftrightarrow> rune_count (trim_space s) < 6 \<or> 20 < rune_count (trim_space s)"

definition bad_region :: "string \<Rightarrow> bool" where
  "bad_region s \<longleftrightarrow> trim_space s = [] \<or> 64 < rune_count (trim_space s)"

definition bad_detail :: "string \<Rightarrow> bool" where
  "bad_detail s \<longleftrightarrow> trim_space s = [] \<or> 255 < rune_count s"

definition validateAddressInput :: "address_input \<Rightarrow> err + unit" where
  "validateAddressInput x =
     (if bad_receiver (ai_receiver x)
      then Inl (ErrInvalidAddress ''receiver must be 1-32 characters'')
      else if bad_phone (ai_phone x)
      then Inl (ErrInvalidAddress ''phone must be 6-20 characters'')
      else if bad_region (ai_region x)
      then Inl (ErrInvalidAddress ''region must be 1-64 characters'')
      else if bad_detail (ai_detail x)
      then Inl (ErrInvalidAddress ''detail must be 1-255 characters'')
      else Inr ())"

definition validateAddressUpdate :: "address_update \<Rightarrow> err + unit" where
  "validateAddressUpdate x =
     (if (case ap_receiver x of None \<Rightarrow> False | Some s \<Rightarrow> bad_receiver s)
      then Inl (ErrInvalidAddress ''receiver must be 1-32 characters'')
      else if (case ap_phone x of None \<Rightarrow> False | Some s \<Rightarrow> bad_phone s)
      then Inl (ErrInvalidAddress ''phone must be 6-20 characters'')
      else if (case ap_region x of None \<Rightarrow> False | Some s \<Rightarrow> bad_region s)
      then Inl (ErrInvalidAddress ''region must be 1-64 characters'')
      else if (case ap_detail x of None \<Rightarrow> False | Some s \<Rightarrow> bad_detail s)
      then Inl (ErrInvalidAddress ''detail must be 1-255 characters'')
      else Inr ())"

text \<open>The constraints of \<open>user_addresses\<close>, with the partial index \<open>uq_default_address\<close>.\<close>

definition address_lengths :: "address_row \<Rightarrow> bool" where
  "address_lengths r \<longleftrightarrow> rune_count (a_receiver r) \<le> 32 \<and> rune_count (a_phone r) \<le> 20 \<and>
     rune_count (a_region r) \<le> 64 \<and> rune_count (a_detail r) \<le> 255"

definition defaults :: "uid \<Rightarrow> db \<Rightarrow> address_row list" where
  "defaults u d = filter (\<lambda>r. a_user r = u \<and> a_default r) (addresses d)"

definition insert_address :: "address_row \<Rightarrow> db \<Rightarrow> err + db" where
  "insert_address r d =
     sbind (insert_checked (address_lengths r) (0 < a_version r)
        (a_id r \<notin> a_id ` set (addresses d) \<and> (a_default r \<longrightarrow> defaults (a_user r) d = []))
        (a_user r \<in> u_id ` set (users d)) r (addresses d))
      (\<lambda>t. Inr (d\<lparr>addresses := t\<rparr>))"

text \<open>\<open>UPDATE user_addresses .. WHERE id = i AND user_id = u\<close>.\<close>

definition update_address ::
  "uid \<Rightarrow> uid \<Rightarrow> (address_row \<Rightarrow> address_row) \<Rightarrow> db \<Rightarrow> err + db" where
  "update_address u i f d =
     (let P = (\<lambda>r. a_id r = i \<and> a_user r = u); rows = filter P (addresses d);
          d' = d\<lparr>addresses := update_where P f (addresses d)\<rparr> in
      if \<not> list_all (\<lambda>r. in64 (a_version (f r))) rows then Inl NumericOutOfRange
      else if \<not> list_all (\<lambda>r. address_lengths (f r)) rows then Inl StringTooLong
      else if \<not> list_all (\<lambda>r. 0 < a_version (f r)) rows then Inl CheckViolation
      else if 1 < length (defaults u d') then Inl UniqueViolation
      else Inr d')"

definition clearDefaultAddress :: "time \<Rightarrow> uid \<Rightarrow> uid \<Rightarrow> db \<Rightarrow> db" where
  "clearDefaultAddress clock u except d =
     d\<lparr>addresses := update_where
        (\<lambda>r. a_user r = u \<and> a_default r \<and> (except \<noteq> 0 \<longrightarrow> a_id r \<noteq> except))
        (\<lambda>r. r\<lparr>a_default := False, a_updated := clock\<rparr>) (addresses d)\<rparr>"

definition address_create ::
  "time \<Rightarrow> uid \<Rightarrow> uid \<Rightarrow> address_input \<Rightarrow> db \<Rightarrow> (err + address_view) \<times> db" where
  "address_create clock fresh u x d =
     (case validateAddressInput x of
        Inl e \<Rightarrow> (Inl e, d)
      | Inr _ \<Rightarrow>
        if u = 0 then (Inl (ErrInvalidAddress []), d)
        else commit (\<lambda>d.
          let d0 = (if ai_default x then clearDefaultAddress clock u 0 d else d);
              r = \<lparr>a_id = fresh, a_user = u, a_receiver = trim_space (ai_receiver x),
                a_phone = trim_space (ai_phone x), a_region = trim_space (ai_region x),
                a_detail = trim_space (ai_detail x), a_default = ai_default x, a_version = 1,
                a_created = clock, a_updated = clock\<rparr> in
          (case insert_address r d0 of
             Inl e \<Rightarrow> Inl (if is_unique_violation e then ErrDefaultAddressConflict else e)
           | Inr d1 \<Rightarrow> Inr (toAddressView r, d1))) d)"

definition address_list :: "uid \<Rightarrow> db \<Rightarrow> err + address_view list" where
  "address_list u d =
     (if u = 0 then Inl (ErrInvalidAddress [])
      else Inr (map toAddressView (sort_key a_id (filter (\<lambda>r. a_user r = u) (addresses d)))))"

definition find_address :: "uid \<Rightarrow> uid \<Rightarrow> db \<Rightarrow> address_row option" where
  "find_address u i d = find (\<lambda>r. a_id r = i \<and> a_user r = u) (addresses d)"

definition address_get :: "uid \<Rightarrow> uid \<Rightarrow> db \<Rightarrow> err + address_view" where
  "address_get u i d =
     (if u = 0 \<or> i = 0 then Inl ErrAddressNotFound
      else case find_address u i d of
          None \<Rightarrow> Inl ErrAddressNotFound | Some r \<Rightarrow> Inr (toAddressView r))"

text \<open>\<open>LockForOrder\<close>: the same row, locked in the caller's transaction.\<close>

definition LockAddressForOrder :: "uid \<Rightarrow> uid \<Rightarrow> db \<Rightarrow> err + address_view" where
  "LockAddressForOrder u i d =
     (if u = 0 \<or> i = 0 then Inl ErrAddressNotFound
      else case find_address u i d of
          None \<Rightarrow> Inl ErrAddressNotFound | Some r \<Rightarrow> Inr (toAddressView r))"

text \<open>The default flag is assigned only when the request changes it.\<close>

definition changes_default :: "address_update \<Rightarrow> address_row \<Rightarrow> bool option" where
  "changes_default x current =
     (case ap_default x of
        None \<Rightarrow> None
      | Some b \<Rightarrow> if b \<noteq> a_default current then Some b else None)"

definition address_assign ::
  "time \<Rightarrow> address_update \<Rightarrow> bool option \<Rightarrow> address_row \<Rightarrow> address_row" where
  "address_assign clock x dflt r = r\<lparr>
     a_receiver := (case ap_receiver x of None \<Rightarrow> a_receiver r | Some s \<Rightarrow> trim_space s),
     a_phone := (case ap_phone x of None \<Rightarrow> a_phone r | Some s \<Rightarrow> trim_space s),
     a_region := (case ap_region x of None \<Rightarrow> a_region r | Some s \<Rightarrow> trim_space s),
     a_detail := (case ap_detail x of None \<Rightarrow> a_detail r | Some s \<Rightarrow> trim_space s),
     a_default := (case dflt of None \<Rightarrow> a_default r | Some b \<Rightarrow> b),
     a_version := a_version r + 1,
     a_updated := clock\<rparr>"

definition address_update_op ::
  "time \<Rightarrow> uid \<Rightarrow> uid \<Rightarrow> address_update \<Rightarrow> db \<Rightarrow> (err + address_view) \<times> db" where
  "address_update_op clock u i x d =
     (case validateAddressUpdate x of
        Inl e \<Rightarrow> (Inl e, d)
      | Inr _ \<Rightarrow>
        if u = 0 \<or> i = 0 then (Inl ErrAddressNotFound, d)
        else commit (\<lambda>d.
          case find_address u i d of
            None \<Rightarrow> Inl ErrAddressNotFound
          | Some current \<Rightarrow>
            let dflt = changes_default x current;
                d0 = (if dflt = Some True then clearDefaultAddress clock u i d else d) in
            if ap_receiver x = None \<and> ap_phone x = None \<and> ap_region x = None \<and>
               ap_detail x = None \<and> dflt = None
            then Inl ErrEmptyUpdate
            else (case update_address u i (address_assign clock x dflt) d0 of
                Inl e \<Rightarrow> Inl (if is_unique_violation e then ErrDefaultAddressConflict else e)
              | Inr d1 \<Rightarrow>
                (case find_address u i d1 of
                   None \<Rightarrow> Inl (ErrOther ''record not found'')
                 | Some updated \<Rightarrow> Inr (toAddressView updated, d1)))) d)"

definition address_delete :: "uid \<Rightarrow> uid \<Rightarrow> db \<Rightarrow> (err + unit) \<times> db" where
  "address_delete u i d =
     (if u = 0 \<or> i = 0 then (Inl ErrAddressNotFound, d)
      else commit (\<lambda>d.
        let P = (\<lambda>r. a_id r = i \<and> a_user r = u) in
        if affected P (addresses d) = 0 then Inl ErrAddressNotFound
        else Inr ((), d\<lparr>addresses := delete_where P (addresses d)\<rparr>)) d)"

section \<open>The address book stays well formed\<close>

definition address_ok :: "address_row \<Rightarrow> bool" where
  "address_ok r \<longleftrightarrow> address_lengths r \<and> 0 < a_version r \<and> in64 (a_version r) \<and> a_user r \<noteq> 0"

definition one_default :: "address_row list \<Rightarrow> bool" where
  "one_default t \<longleftrightarrow> (\<forall>u. length (filter (\<lambda>r. a_user r = u \<and> a_default r) t) \<le> 1)"

lemma one_default_code [code]:
  "one_default t \<longleftrightarrow>
   list_all (\<lambda>r. length (filter (\<lambda>s. a_user s = a_user r \<and> a_default s) t) \<le> 1) t"
  unfolding one_default_def list_all_iff
proof
  assume *: "\<forall>r\<in>set t. length (filter (\<lambda>s. a_user s = a_user r \<and> a_default s) t) \<le> 1"
  show "\<forall>u. length (filter (\<lambda>r. a_user r = u \<and> a_default r) t) \<le> 1"
  proof
    fix u
    show "length (filter (\<lambda>r. a_user r = u \<and> a_default r) t) \<le> 1"
    proof (cases "\<exists>r\<in>set t. a_user r = u")
      case False
      then have "filter (\<lambda>r. a_user r = u \<and> a_default r) t = []" by (simp add: filter_empty_conv)
      then show ?thesis by simp
    qed (use * in auto)
  qed
qed simp

definition addresses_ok :: "db \<Rightarrow> bool" where
  "addresses_ok d \<longleftrightarrow> distinct (map a_id (addresses d)) \<and> one_default (addresses d) \<and>
     (\<forall>r\<in>set (addresses d). address_ok r \<and> a_user r \<in> u_id ` set (users d))"

lemma defaults_update:
  "defaults u (d\<lparr>addresses := t\<rparr>) = filter (\<lambda>r. a_user r = u \<and> a_default r) t"
  by (simp add: defaults_def)

lemma insert_address_eq_Inr [tx_elims]:
  "insert_address r d = Inr d' \<longleftrightarrow> address_lengths r \<and> 0 < a_version r \<and>
     a_id r \<notin> a_id ` set (addresses d) \<and> (a_default r \<longrightarrow> defaults (a_user r) d = []) \<and>
     a_user r \<in> u_id ` set (users d) \<and> d' = d\<lparr>addresses := addresses d @ [r]\<rparr>"
  by (auto simp: insert_address_def tx_elims)

lemma update_address_eq_Inr [tx_elims]:
  "update_address u i f d = Inr d' \<longleftrightarrow>
   (\<forall>r\<in>set (addresses d). a_id r = i \<and> a_user r = u \<longrightarrow>
      in64 (a_version (f r)) \<and> address_lengths (f r) \<and> 0 < a_version (f r)) \<and>
   d' = d\<lparr>addresses := update_where (\<lambda>r. a_id r = i \<and> a_user r = u) f (addresses d)\<rparr> \<and>
   length (defaults u d') \<le> 1"
  by (auto simp: update_address_def list_all_iff Let_def)

lemma find_address_SomeD:
  "find_address u i d = Some r \<Longrightarrow> r \<in> set (addresses d) \<and> a_id r = i \<and> a_user r = u"
  by (auto simp: find_address_def dest: find_SomeD)

text \<open>Clearing leaves at most the excepted default, and no other column but the clock changes.\<close>

lemma clearDefault_ids: "map a_id (addresses (clearDefaultAddress clock u e d)) = map a_id (addresses d)"
  by (simp add: clearDefaultAddress_def map_update_where)

lemma clearDefault_rows:
  "addresses (clearDefaultAddress clock u e d) = update_where
     (\<lambda>r. a_user r = u \<and> a_default r \<and> (e \<noteq> 0 \<longrightarrow> a_id r \<noteq> e))
     (\<lambda>r. r\<lparr>a_default := False, a_updated := clock\<rparr>) (addresses d)"
  by (simp add: clearDefaultAddress_def)

lemma clearDefault_none: "defaults u (clearDefaultAddress clock u 0 d) = []"
proof -
  have "filter (\<lambda>r. a_user r = u \<and> a_default r) (update_where
      (\<lambda>r. a_user r = u \<and> a_default r \<and> ((0 :: uid) \<noteq> 0 \<longrightarrow> a_id r \<noteq> 0))
      (\<lambda>r. r\<lparr>a_default := False, a_updated := clock\<rparr>) t) = []" for t
    by (induction t) auto
  then show ?thesis unfolding defaults_def clearDefault_rows by blast
qed

lemma filter_update_where_out:
  "(\<And>r. P r \<Longrightarrow> \<not> Q r) \<Longrightarrow> (\<And>r. P r \<Longrightarrow> \<not> Q (f r)) \<Longrightarrow>
   filter Q (update_where P f t) = filter Q t"
  by (induction t) auto

lemma length_filter_update_le:
  "(\<And>r. P r \<Longrightarrow> \<not> Q (f r)) \<Longrightarrow> length (filter Q (update_where P f t)) \<le> length (filter Q t)"
  by (induction t) (auto simp: le_SucI)

lemma clearDefault_ok:
  assumes "addresses_ok d"
  shows "addresses_ok (clearDefaultAddress clock u e d)"
proof -
  have "length (filter (\<lambda>r. a_user r = v \<and> a_default r)
      (addresses (clearDefaultAddress clock u e d))) \<le> 1" for v
    unfolding clearDefault_rows
  proof (rule order_trans[OF length_filter_update_le])
    show "length (filter (\<lambda>r. a_user r = v \<and> a_default r) (addresses d)) \<le> 1"
      using assms by (simp add: addresses_ok_def one_default_def)
  qed simp
  moreover have "\<forall>r\<in>set (addresses (clearDefaultAddress clock u e d)).
      address_ok r \<and> a_user r \<in> u_id ` set (users d)"
    using assms
    by (auto simp: clearDefaultAddress_def set_update_where addresses_ok_def address_ok_def
        address_lengths_def)
  moreover have "users (clearDefaultAddress clock u e d) = users d"
    by (simp add: clearDefaultAddress_def)
  ultimately show ?thesis
    using assms unfolding addresses_ok_def one_default_def clearDefault_ids by simp
qed

lemma insert_address_ok:
  assumes "addresses_ok d" and "insert_address r d = Inr d'" and "a_user r \<noteq> 0" and "in64 (a_version r)"
  shows "addresses_ok d'"
  using assms by (auto simp: tx_elims addresses_ok_def address_ok_def one_default_def defaults_def)

lemma address_create_ok:
  assumes "addresses_ok d"
  shows "addresses_ok (snd (address_create clock fresh u x d))"
proof -
  have "addresses_ok d'"
    if "insert_address r (if ai_default x then clearDefaultAddress clock u 0 d else d) = Inr d'"
      and "a_user r \<noteq> 0" and "a_version r = 1" for r d'
    using that clearDefault_ok[OF assms] assms
    by (intro insert_address_ok[OF _ that(1,2)]) (auto simp: in64_def)
  then show ?thesis
    using assms
    by (auto simp: address_create_def commit_def Let_def split: sum.splits prod.splits)
qed

lemma length_filter_le_1_other:
  assumes "one_default t" and "\<And>r. P r \<Longrightarrow> a_user (f r) = a_user r"
    and "\<And>r. P r \<Longrightarrow> a_user r = u" and "v \<noteq> u"
  shows "length (filter (\<lambda>r. a_user r = v \<and> a_default r) (update_where P f t)) \<le> 1"
  using assms(1) filter_update_where_out[of P "\<lambda>r. a_user r = v \<and> a_default r" f t] assms(2-4)
  by (auto simp: one_default_def)

lemma update_address_ok:
  assumes ok: "addresses_ok d" and up: "update_address u i f d = Inr d'"
    and f: "\<And>r. a_id (f r) = a_id r" "\<And>r. a_user (f r) = a_user r"
  shows "addresses_ok d'"
proof -
  let ?P = "\<lambda>r. a_id r = i \<and> a_user r = u"
  have d': "d' = d\<lparr>addresses := update_where ?P f (addresses d)\<rparr>"
    and rows: "\<forall>r\<in>set (addresses d). ?P r \<longrightarrow>
      in64 (a_version (f r)) \<and> address_lengths (f r) \<and> 0 < a_version (f r)"
    and u: "length (defaults u d') \<le> 1"
    using up by (auto simp: tx_elims)
  have "one_default (addresses d')"
    unfolding one_default_def
  proof
    fix v
    show "length (filter (\<lambda>r. a_user r = v \<and> a_default r) (addresses d')) \<le> 1"
    proof (cases "v = u")
      case True
      then show ?thesis using u by (simp add: defaults_def)
    next
      case False
      then show ?thesis
        using ok f(2) length_filter_le_1_other[of "addresses d" ?P f u v]
        by (simp add: d' addresses_ok_def)
    qed
  qed
  then show ?thesis
    using ok rows f unfolding d' addresses_ok_def
    by (auto simp: map_update_where set_update_where address_ok_def)
qed

lemma address_update_ok:
  assumes "addresses_ok d"
  shows "addresses_ok (snd (address_update_op clock u i x d))"
proof -
  have ids: "a_id (address_assign clock x b r) = a_id r" "a_user (address_assign clock x b r) = a_user r"
    for b r by (simp_all add: address_assign_def)
  have plain: "update_address u i (address_assign clock x b) d = Inr d' \<Longrightarrow> addresses_ok d'" for b d'
    by (rule update_address_ok[OF assms _ ids])
  have cleared: "update_address u i (address_assign clock x b) (clearDefaultAddress clock u i d) = Inr d'
      \<Longrightarrow> addresses_ok d'" for b d'
    by (rule update_address_ok[OF clearDefault_ok[OF assms] _ ids])
  show ?thesis
    using assms plain cleared
    unfolding address_update_op_def commit_def Let_def
    by (force split: sum.splits prod.splits option.splits if_splits)
qed

lemma one_default_delete: "one_default t \<Longrightarrow> one_default (delete_where P t)"
  unfolding one_default_def delete_where_def
proof
  fix u
  assume "\<forall>u. length (filter (\<lambda>r. a_user r = u \<and> a_default r) t) \<le> 1"
  moreover have "length (filter Q (filter R t)) \<le> length (filter Q t)" for Q R
    by (induction t) auto
  ultimately show "length (filter (\<lambda>r. a_user r = u \<and> a_default r) (filter (\<lambda>r. \<not> P r) t)) \<le> 1"
    using order_trans by blast
qed

lemma address_delete_ok:
  assumes "addresses_ok d"
  shows "addresses_ok (snd (address_delete u i d))"
  using assms
  by (auto simp: address_delete_def commit_def Let_def addresses_ok_def one_default_delete)
    (simp add: delete_where_def distinct_map_filter)



end
