(* ===== verification/User.thy ===== *)
theory User
  imports Payment
begin

text \<open>
  \<open>internal/user/service.go\<close>: the buyer account. \<open>UpsertByOpenID\<close> is the insert-or-read of a login
  together with the signup bonus, one transaction; \<open>UpdateProfile\<close> is the partial profile update.
  Generated ids, gorm's clock and the text of a UUID are arguments.
\<close>

record user_view =
  uv_id :: uid
  uv_openid :: string
  uv_unionid :: string
  uv_nickname :: string
  uv_avatar :: string
  uv_balance :: int
  uv_created :: time
  uv_updated :: time

definition Subject :: "(uid \<Rightarrow> string) \<Rightarrow> user_view \<Rightarrow> string" where
  "Subject us u = (if uv_id u = 0 then [] else ''buyer:'' @ us (uv_id u))"

definition toUserProjection :: "user_row \<Rightarrow> user_view" where
  "toUserProjection r = \<lparr>uv_id = u_id r, uv_openid = u_openid r, uv_unionid = [],
     uv_nickname = u_nickname r, uv_avatar = u_avatar r, uv_balance = u_balance r,
     uv_created = u_created r, uv_updated = u_updated r\<rparr>"

definition optionalString :: "string option \<Rightarrow> string" where
  "optionalString v = (case v of None \<Rightarrow> [] | Some s \<Rightarrow> s)"

definition user_lengths :: "user_row \<Rightarrow> bool" where
  "user_lengths r \<longleftrightarrow> rune_count (u_openid r) \<le> 64 \<and> rune_count (u_nickname r) \<le> 64"

definition insert_user :: "user_row \<Rightarrow> db \<Rightarrow> err + db" where
  "insert_user r d =
     sbind (insert_checked (user_lengths r) (0 \<le> u_balance r)
        (u_id r \<notin> u_id ` set (users d) \<and> u_openid r \<notin> u_openid ` set (users d)) True r (users d))
      (\<lambda>t. Inr (d\<lparr>users := t\<rparr>))"

definition find_openid :: "string \<Rightarrow> db \<Rightarrow> user_row option" where
  "find_openid s d = find (\<lambda>r. u_openid r = s) (users d)"

text \<open>\<open>INSERT .. ON CONFLICT DO NOTHING\<close>, then the row that is there.\<close>

definition upsertUser :: "uid \<Rightarrow> time \<Rightarrow> string \<Rightarrow> string \<Rightarrow> db \<Rightarrow> err + user_row \<times> db" where
  "upsertUser fresh clock openid nickname d =
     (let openID = trim_space openid in
      if openID = [] then Inl (ErrOther ''openid is required'')
      else let r = \<lparr>u_id = fresh, u_openid = openID, u_nickname = nickname, u_avatar = [],
          u_balance = 0, u_created = clock, u_updated = clock\<rparr> in
        (case insert_user r d of
           Inr d' \<Rightarrow> Inr (r, d')
         | Inl e \<Rightarrow>
           if is_unique_violation e
           then (case find_openid openID d of
               None \<Rightarrow> Inl (ErrOther ''record not found'') | Some s \<Rightarrow> Inr (s, d))
           else Inl e))"

definition signup_key :: "(uid \<Rightarrow> string) \<Rightarrow> uid \<Rightarrow> string" where
  "signup_key us u = ''signup:'' @ us u"

text \<open>\<open>UPDATE users SET points_balance = b\<close> through gorm, which also stamps \<open>updated_at\<close>.\<close>

definition overwrite_balance :: "time \<Rightarrow> uid \<Rightarrow> int \<Rightarrow> db \<Rightarrow> err + db" where
  "overwrite_balance clock u b d =
     (if affected (\<lambda>r. u_id r = u) (users d) \<noteq> 0 \<and> b < 0 then Inl CheckViolation
      else Inr (d\<lparr>users := update_where (\<lambda>r. u_id r = u)
        (\<lambda>r. r\<lparr>u_balance := b, u_updated := clock\<rparr>) (users d)\<rparr>))"

definition awardSignupBonus ::
  "(uid \<Rightarrow> string) \<Rightarrow> uid \<Rightarrow> time \<Rightarrow> uid \<Rightarrow> int \<Rightarrow> time \<Rightarrow> db \<Rightarrow> err + bool \<times> db" where
  "awardSignupBonus us fresh clock u bonus now d =
     sbind (insert_ledger_do_nothing \<lparr>l_id = fresh, l_user = u, l_order = None,
         l_event = signup_key us u, l_hash = None, l_type = SignupBonus, l_delta = bonus,
         l_after = bonus, l_admin = None, l_remark = [], l_created = now\<rparr> d) (\<lambda>(n, d1).
       if n = 0 then Inr (False, d1)
       else sbind (overwrite_balance clock u bonus d1) (\<lambda>d2. Inr (True, d2)))"

definition upsert_tx ::
  "(uid \<Rightarrow> string) \<Rightarrow> uid \<Rightarrow> uid \<Rightarrow> time \<Rightarrow> string \<Rightarrow> string \<Rightarrow> int \<Rightarrow> string option \<Rightarrow> time
   \<Rightarrow> user_view tx" where
  "upsert_tx us fresh lid clock openID unionID bonus nickname now d =
     sbind (upsertUser fresh clock openID (optionalString nickname) d) (\<lambda>(user, d1).
     sbind (if u_balance user = 0 \<and> 0 < bonus \<and> u_id user \<noteq> 0
       then awardSignupBonus us lid clock (u_id user) bonus now d1
       else Inr (False, d1)) (\<lambda>(created, d2).
     (case find_user (u_id user) d2 of
        None \<Rightarrow> Inl (ErrOther ''record not found'')
      | Some r \<Rightarrow> Inr ((toUserProjection r)\<lparr>uv_unionid := unionID\<rparr>, d2))))"

definition UpsertByOpenID ::
  "(uid \<Rightarrow> string) \<Rightarrow> uid \<Rightarrow> uid \<Rightarrow> time \<Rightarrow> string \<Rightarrow> string \<Rightarrow> int \<Rightarrow> string option \<Rightarrow> time
   \<Rightarrow> db \<Rightarrow> (err + user_view) \<times> db" where
  "UpsertByOpenID us fresh lid clock openID unionID bonus nickname now d =
     (if trim_space openID = [] then (Inl (ErrOther ''openid is required''), d)
      else if bonus < 0 then (Inl (ErrOther ''signup bonus must be non-negative''), d)
      else commit (upsert_tx us fresh lid clock openID unionID bonus nickname
        (if now = 0 then clock else now)) d)"

definition user_get :: "uid \<Rightarrow> db \<Rightarrow> err + user_view" where
  "user_get i d =
     (if i = 0 then Inl (ErrOther ''user id is required'')
      else case find_user i d of
          None \<Rightarrow> Inl UserErrUserNotFound | Some r \<Rightarrow> Inr (toUserProjection r))"

definition profile_assign :: "time \<Rightarrow> string option \<Rightarrow> string option \<Rightarrow> user_row \<Rightarrow> user_row" where
  "profile_assign clock nickname avatarURL r = r\<lparr>
     u_nickname := (case nickname of None \<Rightarrow> u_nickname r | Some s \<Rightarrow> s),
     u_avatar := (case avatarURL of None \<Rightarrow> u_avatar r | Some s \<Rightarrow> s),
     u_updated := clock\<rparr>"

text \<open>The update is a statement of its own; the profile is read after it.\<close>

definition UpdateProfile ::
  "time \<Rightarrow> uid \<Rightarrow> string option \<Rightarrow> string option \<Rightarrow> db \<Rightarrow> (err + user_view) \<times> db" where
  "UpdateProfile clock i nickname avatarURL d =
     (if i = 0 then (Inl (ErrOther ''user id is required''), d)
      else if nickname = None \<and> avatarURL = None then (user_get i d, d)
      else if \<not> list_all (\<lambda>r. user_lengths (profile_assign clock nickname avatarURL r))
          (filter (\<lambda>r. u_id r = i) (users d))
      then (Inl StringTooLong, d)
      else let d' = d\<lparr>users := update_where (\<lambda>r. u_id r = i)
          (profile_assign clock nickname avatarURL) (users d)\<rparr>
        in (user_get i d', d'))"

section \<open>What a login does\<close>

lemma insert_user_eq_Inr [tx_elims]:
  "insert_user r d = Inr d' \<longleftrightarrow> user_lengths r \<and> 0 \<le> u_balance r \<and>
     u_id r \<notin> u_id ` set (users d) \<and> u_openid r \<notin> u_openid ` set (users d) \<and>
     d' = d\<lparr>users := users d @ [r]\<rparr>"
  by (auto simp: insert_user_def tx_elims)

lemma insert_user_unique:
  "insert_user r d = Inl e \<Longrightarrow> is_unique_violation e \<Longrightarrow>
   u_id r \<in> u_id ` set (users d) \<or> u_openid r \<in> u_openid ` set (users d)"
  by (auto simp: insert_user_def insert_checked_def is_unique_violation_def split: if_splits)

text \<open>The row read is the buyer with that openid: a new one with no points, or the one there.\<close>

lemma upsertUser_cases:
  assumes "upsertUser fresh clock openid nickname d = Inr (r, d')"
  shows "d' = d \<and> find_openid (trim_space openid) d = Some r \<or>
    fresh \<notin> u_id ` set (users d) \<and> trim_space openid \<notin> u_openid ` set (users d) \<and>
    d' = d\<lparr>users := users d @ [r]\<rparr> \<and> r = \<lparr>u_id = fresh, u_openid = trim_space openid,
      u_nickname = nickname, u_avatar = [], u_balance = 0, u_created = clock, u_updated = clock\<rparr>"
  using assms
  by (auto simp: upsertUser_def tx_elims Let_def split: if_splits sum.splits option.splits)

lemma insert_ledger_do_nothing_cases:
  assumes "insert_ledger_do_nothing r d = Inr (n, d')"
  shows "n = 0 \<and> d' = d \<or> n = 1 \<and> insert_ledger r d = Inr d'"
  using assms by (auto simp: insert_ledger_do_nothing_def split: sum.splits if_splits)

lemma awardSignupBonus_cases:
  assumes "awardSignupBonus us fresh clock u bonus now d = Inr (created, d')" and "0 < bonus"
  shows "\<not> created \<and> d' = d \<or>
    (\<exists>r d1. created \<and> insert_ledger r d = Inr d1 \<and> l_user r = u \<and> l_type r = SignupBonus \<and>
      l_event r = signup_key us u \<and>
      l_delta r = bonus \<and> l_after r = bonus \<and>
      d' = d1\<lparr>users := update_where (\<lambda>r. u_id r = u)
        (\<lambda>r. r\<lparr>u_balance := bonus, u_updated := clock\<rparr>) (users d1)\<rparr>)"
  using assms
  by (auto simp: awardSignupBonus_def sbind_eq_Inr overwrite_balance_def
      dest!: insert_ledger_do_nothing_cases split: if_splits)
    (metis ledger_row.select_convs)+

text \<open>
  The outcome of a login, as one record update: the buyer found or created, and either no bonus or
  the bonus posted and set as the balance of an account that held nothing.
\<close>

definition with_bonus :: "time \<Rightarrow> uid \<Rightarrow> int \<Rightarrow> db \<Rightarrow> db" where
  "with_bonus clock u b d = d\<lparr>users := update_where (\<lambda>r. u_id r = u)
     (\<lambda>r. r\<lparr>u_balance := b, u_updated := clock\<rparr>) (users d)\<rparr>"

lemma upsert_tx_cases:
  assumes "upsert_tx us fresh lid clock openID unionID bonus nickname now d = Inr (v, d')"
  obtains (plain) user d1 r where
      "upsertUser fresh clock openID (optionalString nickname) d = Inr (user, d1)"
      "uv_id v = u_id user" "d' = d1"
      "find_user (u_id user) d' = Some r" "v = (toUserProjection r)\<lparr>uv_unionid := unionID\<rparr>"
  | (bonus) user d1 l d2 r where
      "upsertUser fresh clock openID (optionalString nickname) d = Inr (user, d1)"
      "uv_id v = u_id user" "u_balance user = 0" "0 < bonus" "u_id user \<noteq> 0"
      "insert_ledger l d1 = Inr d2" "l_user l = u_id user" "l_delta l = bonus" "l_after l = bonus"
      "l_type l = SignupBonus" "l_event l = signup_key us (u_id user)" "d' = with_bonus clock (u_id user) bonus d2"
      "find_user (u_id user) d' = Some r" "v = (toUserProjection r)\<lparr>uv_unionid := unionID\<rparr>"
proof -
  from assms obtain user d1 created r where
    u: "upsertUser fresh clock openID (optionalString nickname) d = Inr (user, d1)"
    and a: "(if u_balance user = 0 \<and> 0 < bonus \<and> u_id user \<noteq> 0
       then awardSignupBonus us lid clock (u_id user) bonus now d1 else Inr (False, d1)) =
       Inr (created, d')"
    and r: "find_user (u_id user) d' = Some r" "v = (toUserProjection r)\<lparr>uv_unionid := unionID\<rparr>"
    by (auto simp: upsert_tx_def sbind_eq_Inr split: option.splits)
  have v: "uv_id v = u_id user"
    using r find_user_id[OF r(1)] by (simp add: toUserProjection_def)
  show thesis
  proof (cases "u_balance user = 0 \<and> 0 < bonus \<and> u_id user \<noteq> 0")
    case True
    then have aw: "awardSignupBonus us lid clock (u_id user) bonus now d1 = Inr (created, d')"
      using a by simp
    show ?thesis
      using awardSignupBonus_cases[OF aw] True that u v r unfolding with_bonus_def by blast
  next
    case False
    then show ?thesis using a that(1) u v r by auto
  qed
qed

lemma users_ok_new:
  "users_ok d \<Longrightarrow> u_id r \<notin> u_id ` set (users d) \<Longrightarrow> u_openid r \<notin> u_openid ` set (users d) \<Longrightarrow>
   u_balance r = 0 \<Longrightarrow> users_ok (d\<lparr>users := users d @ [r]\<rparr>)"
  by (auto simp: users_ok_def in64_def)

lemma upsertUser_users_ok:
  assumes "users_ok d" and "upsertUser fresh clock openid nickname d = Inr (r, d')"
  shows "users_ok d'" and "find_user (u_id r) d' = Some r"
proof -
  note c = upsertUser_cases[OF assms(2)]
  show ok: "users_ok d'" using c assms(1) by (auto intro!: users_ok_new)
  have "r \<in> set (users d')"
    using c by (auto simp: find_openid_def dest: find_SomeD)
  then show "find_user (u_id r) d' = Some r"
    using ok by (simp add: find_user_def users_ok_def find_key)
qed

lemma with_bonus_users_ok:
  "users_ok d \<Longrightarrow> in64 b \<Longrightarrow> 0 \<le> b \<Longrightarrow> users_ok (with_bonus clock u b d)"
  by (auto simp: users_ok_def with_bonus_def map_update_where set_update_where)

lemma UpsertByOpenID_users_ok:
  assumes "users_ok d" and "in64 bonus"
  shows "users_ok (snd (UpsertByOpenID us fresh lid clock openID unionID bonus nickname now d))"
proof -
  have "users_ok d'"
    if "upsert_tx us fresh lid clock openID unionID bonus nickname t d = Inr (v, d')" for t v d'
    using that
  proof (cases rule: upsert_tx_cases)
    case (bonus user d1 l d2 r)
    have "users_ok d2"
      using upsertUser_users_ok(1)[OF assms(1) bonus(1)] bonus(6) by (auto simp: tx_elims users_ok_def)
    then show ?thesis using bonus assms(2) by (simp add: with_bonus_users_ok)
  qed (use upsertUser_users_ok(1)[OF assms(1)] in simp)
  then show ?thesis
    using assms(1) by (auto simp: UpsertByOpenID_def commit_def split: sum.splits)
qed

text \<open>A buyer that was not there has no entries, so its account is settled with nothing.\<close>

lemma settled_new_user:
  assumes "accounts_settled d" and "ledger_ok d" and "u_id r \<notin> u_id ` set (users d)"
    and "u_balance r = 0"
  shows "accounts_settled (d\<lparr>users := users d @ [r]\<rparr>)"
proof -
  have "statement_of d (u_id r) = []"
    using assms(2,3) unfolding statement_of_def filter_empty_conv
    by (metis ledger_fks_def ledger_ok_def ledger_row_ok_def)
  moreover have "balance_of (d\<lparr>users := users d @ [r]\<rparr>) v =
      (if v = u_id r then Some 0 else balance_of d v)" for v
  proof (cases "v = u_id r")
    case True
    have "find (\<lambda>s. u_id s = u_id r) (users d) = None"
      using assms(3) by (simp add: find_key_None)
    then show ?thesis using True assms(4) by (simp add: balance_of_def find_user_def find_append)
  next
    case False
    then show ?thesis by (auto simp: balance_of_def find_user_def find_append split: option.splits)
  qed
  moreover have "statement_of (d\<lparr>users := users d @ [r]\<rparr>) = statement_of d"
    by (simp add: statement_of_def fun_eq_iff)
  ultimately show ?thesis
    using assms(1) by (auto simp: accounts_settled_def settled_def cong: option.case_cong)
qed

lemma settled_with_bonus:
  assumes "accounts_settled d1" and "find_user u d1 = Some user" and "u_balance user = 0"
    and "insert_ledger l d1 = Inr d2" and "l_user l = u" and "l_delta l = b" and "l_after l = b"
  shows "accounts_settled (with_bonus clock u b d2)"
proof -
  have d2: "d2 = d1\<lparr>ledger := ledger d1 @ [l]\<rparr>" using assms(4) by (simp add: tx_elims)
  have run: "runs 0 (statement_of d1 u) = Some 0"
    using assms(1-3) by (auto simp: accounts_settled_def settled_def balance_of_def split: option.splits)
  have "find_user v (with_bonus clock u b d2) =
      map_option (\<lambda>r. if u_id r = u then r\<lparr>u_balance := b, u_updated := clock\<rparr> else r) (find_user v d1)" for v
    by (simp add: with_bonus_def d2 find_user_def find_update_where)
  then have "balance_of (with_bonus clock u b d2) = (balance_of d1)(u := Some b)"
    using assms(2)
    by (auto simp: balance_of_def fun_eq_iff option.map_comp comp_def dest: find_user_id
        intro!: option.map_cong0)
  moreover have "statement_of (with_bonus clock u b d2) =
      (statement_of d1)(u := statement_of d1 u @ [l])"
    using assms(5) by (auto simp: with_bonus_def d2 statement_of_def fun_eq_iff)
  ultimately show ?thesis
    using assms(1,6,7) run
    by (auto simp: accounts_settled_def settled_def runs_append cong: option.case_cong)
qed

lemma upsertUser_settled:
  assumes "accounts_settled d" and "ledger_ok d"
    and "upsertUser fresh clock openid nickname d = Inr (r, d')"
  shows "accounts_settled d'" and "ledger_ok d'"
proof -
  show "accounts_settled d'"
    using upsertUser_cases[OF assms(3)] assms(1,2) by (auto intro!: settled_new_user)
  have "ledger d' = ledger d" and "refs_kept d d'"
    using upsertUser_cases[OF assms(3)] by (auto simp: refs_kept_def)
  then show "ledger_ok d'" using ledger_ok_frame assms(2) by blast
qed

lemma UpsertByOpenID_settled:
  assumes "accounts_settled d" and "ledger_ok d" and "users_ok d"
  shows "accounts_settled (snd (UpsertByOpenID us fresh lid clock openID unionID bonus nickname now d))"
    and "ledger_ok (snd (UpsertByOpenID us fresh lid clock openID unionID bonus nickname now d))"
proof -
  have "accounts_settled d' \<and> ledger_ok d'"
    if "upsert_tx us fresh lid clock openID unionID bonus nickname t d = Inr (v, d')" for t v d'
    using that
  proof (cases rule: upsert_tx_cases)
    case (plain user d1 r)
    then show ?thesis using upsertUser_settled[OF assms(1,2)] by blast
  next
    case (bonus user d1 l d2 r)
    have "ledger_ok d2" using insert_ledger_ok upsertUser_settled(2)[OF assms(1,2) bonus(1)] bonus(6) by blast
    then have "ledger_ok d'"
      by (rule ledger_ok_frame)
        (simp_all add: bonus(12) with_bonus_def refs_kept_def
          map_update_where flip: set_map)
    moreover have "accounts_settled d'"
      unfolding bonus(12) using upsertUser_settled(1)[OF assms(1,2) bonus(1)]
        upsertUser_users_ok(2)[OF assms(3) bonus(1)] bonus
      by (intro settled_with_bonus[of d1]) auto
    ultimately show ?thesis by simp
  qed
  then have "accounts_settled (snd (UpsertByOpenID us fresh lid clock openID unionID bonus nickname now d)) \<and>
    ledger_ok (snd (UpsertByOpenID us fresh lid clock openID unionID bonus nickname now d))"
    using assms by (auto simp: UpsertByOpenID_def commit_def split: sum.splits)
  then show "accounts_settled (snd (UpsertByOpenID us fresh lid clock openID unionID bonus nickname now d))"
    and "ledger_ok (snd (UpsertByOpenID us fresh lid clock openID unionID bonus nickname now d))"
    by auto
qed

text \<open>
  Logging in again, with whatever nickname, bonus and fresh ids: nothing changes and the same buyer
  is returned. The entry, or the balance, of the first login stands in the way of a second bonus.
\<close>

lemma upsertUser_known:
  assumes "find_openid (trim_space openid) d = Some s"
    and "upsertUser fresh clock openid nickname d = Inr (r, d')"
  shows "r = s \<and> d' = d"
proof -
  have "trim_space openid \<in> u_openid ` set (users d)"
    using assms(1) by (force simp: find_openid_def dest: find_SomeD)
  then show ?thesis using upsertUser_cases[OF assms(2)] assms(1) by auto
qed

text \<open>The account of a login cannot be given a bonus any more.\<close>

definition bonus_spent :: "(uid \<Rightarrow> string) \<Rightarrow> uid \<Rightarrow> db \<Rightarrow> bool" where
  "bonus_spent us u d \<longleftrightarrow> u = 0 \<or>
     (\<exists>r. find_user u d = Some r \<and> u_balance r \<noteq> 0) \<or>
     (\<exists>s\<in>set (ledger d). l_event s = signup_key us u \<or> l_type s = SignupBonus \<and> l_user s = u)"

lemma upsert_tx_spent:
  assumes "find_openid (trim_space openID) d = Some s" and "users_ok d"
    and "bonus_spent us (u_id s) d"
    and "upsert_tx us fresh lid clock openID unionID bonus nickname now d = Inr (v, d')"
  shows "d' = d \<and> uv_id v = u_id s"
  using assms(4)
proof (cases rule: upsert_tx_cases)
  case (plain user d1 r)
  then show ?thesis using upsertUser_known[OF assms(1) plain(1)] by simp
next
  case (bonus user d1 l d2 r)
  have u: "user = s" "d1 = d" using upsertUser_known[OF assms(1) bonus(1)] by auto
  have "s \<in> set (users d)" using assms(1) by (auto simp: find_openid_def dest: find_SomeD)
  then have "find_user (u_id s) d = Some s"
    using assms(2) by (simp add: find_user_def users_ok_def find_key)
  then obtain e where "e \<in> set (ledger d)"
    and "l_event e = signup_key us (u_id s) \<or> l_type e = SignupBonus \<and> l_user e = u_id s"
    using assms(3) bonus(3,5) u by (auto simp: bonus_spent_def)
  then have "ledger_conflict l e"
    using bonus(7,10,11) u by (auto simp: ledger_conflict_def)
  then show ?thesis
    using bonus(6) \<open>e \<in> set (ledger d)\<close> u by (auto simp: tx_elims)
qed

lemma insert_ledger_do_nothing_0:
  assumes "insert_ledger_do_nothing r d = Inr (0, d')"
  shows "\<exists>s\<in>set (ledger d). ledger_conflict r s"
  using assms
  by (auto simp: insert_ledger_do_nothing_def insert_ledger_def insert_checked_def
      is_unique_violation_def list_all_iff split: if_splits)

lemma awardSignupBonus_refused:
  assumes "awardSignupBonus us lid clock u bonus now d = Inr (False, d')"
    and "lid \<notin> l_id ` set (ledger d)"
  shows "bonus_spent us u d"
proof -
  obtain s where "s \<in> set (ledger d)" and "l_id s = lid \<or> l_event s = signup_key us u \<or>
      l_type s = SignupBonus \<and> l_user s = u"
    using assms(1)
    by (auto simp: awardSignupBonus_def sbind_eq_Inr ledger_conflict_def split: if_splits
        dest!: insert_ledger_do_nothing_0)
  then show ?thesis using assms(2) by (auto simp: bonus_spent_def)
qed

lemma upsert_tx_spends:
  assumes "upsert_tx us fresh lid clock openID unionID bonus nickname now d = Inr (v, d')"
    and "users_ok d" and "0 < bonus" and "in64 bonus" and "lid \<notin> l_id ` set (ledger d)"
  shows "\<exists>s. find_openid (trim_space openID) d' = Some s \<and> uv_id v = u_id s \<and>
    bonus_spent us (u_id s) d'"
proof -
  from assms(1) obtain user d1 created r where
    u: "upsertUser fresh clock openID (optionalString nickname) d = Inr (user, d1)"
    and a: "(if u_balance user = 0 \<and> 0 < bonus \<and> u_id user \<noteq> 0
       then awardSignupBonus us lid clock (u_id user) bonus now d1 else Inr (False, d1)) =
       Inr (created, d')"
    and r: "find_user (u_id user) d' = Some r" "v = (toUserProjection r)\<lparr>uv_unionid := unionID\<rparr>"
    by (auto simp: upsert_tx_def sbind_eq_Inr split: option.splits)
  have ok1: "users_ok d1" and f1: "find_user (u_id user) d1 = Some user"
    using upsertUser_users_ok[OF assms(2) u] by auto
  have l1: "ledger d1 = ledger d" and o: "u_openid user = trim_space openID"
    using upsertUser_cases[OF u] by (auto simp: find_openid_def dest: find_SomeD)
  have o1: "find_openid (trim_space openID) d1 = Some user"
  proof -
    have "user \<in> set (users d1)" using f1 by (auto simp: find_user_def dest: find_SomeD)
    moreover have "distinct (map u_openid (users d1))" using ok1 by (simp add: users_ok_def)
    ultimately show ?thesis
      using find_key[of u_openid "users d1" user] o by (simp add: find_openid_def)
  qed
  show ?thesis
  proof (cases created)
    case False
    have "bonus_spent us (u_id user) d1 \<and> d' = d1"
    proof (cases "u_balance user = 0 \<and> u_id user \<noteq> 0")
      case True
      then have aw: "awardSignupBonus us lid clock (u_id user) bonus now d1 = Inr (False, d')"
        using a False assms(3) by simp
      then show ?thesis
        using awardSignupBonus_refused[OF aw] awardSignupBonus_cases[OF aw assms(3)] l1 assms(5)
        by simp
    next
      case False
      then show ?thesis using a f1 by (auto simp: bonus_spent_def)
    qed
    then show ?thesis
      using o1 r f1 by (auto simp: toUserProjection_def)
  next
    case True
    then have "awardSignupBonus us lid clock (u_id user) bonus now d1 = Inr (True, d')"
      using a by (auto split: if_splits)
    then obtain l d2 where l: "insert_ledger l d1 = Inr d2"
      and d': "d' = with_bonus clock (u_id user) bonus d2"
      using awardSignupBonus_cases assms(3) unfolding with_bonus_def by blast
    have "find_openid (trim_space openID) d' = Some (user\<lparr>u_balance := bonus, u_updated := clock\<rparr>)"
      and "find_user (u_id user) d' = Some (user\<lparr>u_balance := bonus, u_updated := clock\<rparr>)"
      using l o1 f1
      by (auto simp: d' with_bonus_def tx_elims find_openid_def find_user_def find_update_where)
    then show ?thesis
      using r assms(3) by (auto simp: bonus_spent_def toUserProjection_def)
  qed
qed

text \<open>A first login with a bonus leaves the account with its bonus spent; a later one finds it so.\<close>

lemma first_login_spends:
  assumes "UpsertByOpenID us fresh lid clock openID unionID bonus nickname now d = (Inr v, d1)"
    and "users_ok d" and "0 < bonus" and "in64 bonus" and "lid \<notin> l_id ` set (ledger d)"
  shows "\<exists>s. find_openid (trim_space openID) d1 = Some s \<and> uv_id v = u_id s \<and>
    bonus_spent us (u_id s) d1 \<and> users_ok d1"
proof -
  obtain t where "upsert_tx us fresh lid clock openID unionID bonus nickname t d = Inr (v, d1)"
    using assms(1) by (auto simp: UpsertByOpenID_def commit_ok split: if_splits)
  then show ?thesis
    using upsert_tx_spends assms(2-5) UpsertByOpenID_users_ok[OF assms(2,4)] assms(1)
    by (metis snd_conv)
qed

lemma spent_login:
  assumes "find_openid (trim_space openID) d = Some s" and "users_ok d" and "bonus_spent us (u_id s) d"
    and "UpsertByOpenID us fresh lid clock openID unionID bonus nickname now d = (r, d')"
  shows "d' = d \<and> (case r of Inl _ \<Rightarrow> True | Inr w \<Rightarrow> uv_id w = u_id s)"
proof (cases r)
  case (Inr w)
  then obtain t where "upsert_tx us fresh lid clock openID unionID bonus nickname t d = Inr (w, d')"
    using assms(4) by (auto simp: UpsertByOpenID_def commit_ok split: if_splits)
  then show ?thesis using upsert_tx_spent[OF assms(1-3)] Inr by auto
next
  case (Inl e)
  then show ?thesis using assms(4) by (auto simp: UpsertByOpenID_def commit_failed split: if_splits)
qed



end
