(* ===== verification/OrderDomain.thy ===== *)
theory OrderDomain
  imports Payment
begin

text \<open>
  \<open>internal/order\<close>: the projections of an order (\<open>model.go\<close>), the orders queries and the
  conditional update (\<open>repository.go\<close>), and the read service (\<open>service.go\<close>).

  A stored row has no items; every read preloads them from \<open>order_items\<close>, in the order they were
  inserted. \<open>FOR UPDATE\<close> changes nothing a single transaction can see, so the locking reads are the
  reads; what they serialize is stated with the usecases.
\<close>

record order_request =
  CartItemIDs :: "uid list"
  AddressID :: uid

record order_item =
  oi_product :: uid
  oi_name :: string
  oi_image :: string
  oi_price :: int
  oi_qty :: int

record order_view =
  ov_id :: uid
  ov_no :: string
  ov_user :: uid
  ov_hash :: string
  ov_status :: order_status
  ov_total :: int
  ov_receiver :: string
  ov_phone :: string
  ov_address :: string
  ov_refund_reason :: string
  ov_reject_reason :: string
  ov_reviewed_by :: "uid option"
  ov_reviewed_at :: "time option"
  ov_paid_at :: time
  ov_shipped_at :: "time option"
  ov_completed_at :: "time option"
  ov_refunded_at :: "time option"
  ov_created :: time
  ov_items :: "order_item list"

definition to_item :: "item_row \<Rightarrow> order_item" where
  "to_item i = \<lparr>oi_product = i_product i, oi_name = i_name i, oi_image = i_image i,
     oi_price = i_price i, oi_qty = i_qty i\<rparr>"

definition ToOrder :: "order_row \<Rightarrow> order_view" where
  "ToOrder r = \<lparr>ov_id = o_id r, ov_no = o_no r, ov_user = o_user r, ov_hash = o_hash r,
     ov_status = o_status r, ov_total = o_total r, ov_receiver = o_receiver r,
     ov_phone = o_phone r, ov_address = o_address r, ov_refund_reason = o_refund_reason r,
     ov_reject_reason = o_reject_reason r, ov_reviewed_by = o_reviewed_by r,
     ov_reviewed_at = o_reviewed_at r, ov_paid_at = o_paid_at r, ov_shipped_at = o_shipped_at r,
     ov_completed_at = o_completed_at r, ov_refunded_at = o_refunded_at r,
     ov_created = o_created r, ov_items = map to_item (o_items r)\<rparr>"

section \<open>Reads\<close>

definition items_of :: "db \<Rightarrow> uid \<Rightarrow> item_row list" where
  "items_of d i = filter (\<lambda>x. i_order x = i) (order_items d)"

definition preload_items :: "db \<Rightarrow> order_row \<Rightarrow> order_row" where
  "preload_items d r = r\<lparr>o_items := items_of d (o_id r)\<rparr>"

definition pageSelect :: "db \<Rightarrow> order_row list \<Rightarrow> int \<Rightarrow> int \<Rightarrow> order_row list \<times> nat" where
  "pageSelect d base page pageSize =
     (map (preload_items d) (offset_limit (int64 (int64 (page - 1) * pageSize)) pageSize
        (sort_desc (\<lambda>r. (o_created r, o_id r)) base)), length base)"

definition has_status :: "order_status option \<Rightarrow> order_row \<Rightarrow> bool" where
  "has_status status r = (case status of None \<Rightarrow> True | Some s \<Rightarrow> o_status r = s)"

definition OrdersByUser ::
  "uid \<Rightarrow> int \<Rightarrow> int \<Rightarrow> order_status option \<Rightarrow> db \<Rightarrow> order_row list \<times> nat" where
  "OrdersByUser u page pageSize status d =
     pageSelect d (filter (\<lambda>r. o_user r = u \<and> has_status status r) (orders d)) page pageSize"

definition OrdersAll ::
  "int \<Rightarrow> int \<Rightarrow> order_status option \<Rightarrow> db \<Rightarrow> order_row list \<times> nat" where
  "OrdersAll page pageSize status d =
     pageSelect d (filter (has_status status) (orders d)) page pageSize"

definition OrdersRefunds :: "int \<Rightarrow> int \<Rightarrow> db \<Rightarrow> order_row list \<times> nat" where
  "OrdersRefunds page pageSize d =
     pageSelect d (filter (\<lambda>r. o_status r = RefundRequested \<or> o_status r = Refunded) (orders d))
       page pageSize"

definition find_order :: "(order_row \<Rightarrow> bool) \<Rightarrow> db \<Rightarrow> order_row option" where
  "find_order P d = map_option (preload_items d) (find P (orders d))"

definition GetByUser :: "uid \<Rightarrow> uid \<Rightarrow> db \<Rightarrow> err + order_row" where
  "GetByUser u i d = (case find_order (\<lambda>r. o_id r = i \<and> o_user r = u) d of
     None \<Rightarrow> Inl ErrOrderNotFound | Some r \<Rightarrow> Inr r)"

definition GetByID :: "uid \<Rightarrow> db \<Rightarrow> err + order_row" where
  "GetByID i d = (case find_order (\<lambda>r. o_id r = i) d of
     None \<Rightarrow> Inl ErrOrderNotFound | Some r \<Rightarrow> Inr r)"

definition LockForUpdate :: "uid \<Rightarrow> db \<Rightarrow> err + order_row" where
  "LockForUpdate i d = (case find_order (\<lambda>r. o_id r = i) d of
     None \<Rightarrow> Inl ErrOrderNotFound | Some r \<Rightarrow> Inr r)"

definition LockForUpdateByUser :: "uid \<Rightarrow> uid \<Rightarrow> db \<Rightarrow> err + order_row" where
  "LockForUpdateByUser u i d = (case find_order (\<lambda>r. o_id r = i \<and> o_user r = u) d of
     None \<Rightarrow> Inl ErrOrderNotFound | Some r \<Rightarrow> Inr r)"

definition LockForReplay :: "uid \<Rightarrow> string \<Rightarrow> db \<Rightarrow> order_row option" where
  "LockForReplay u token d = find_order (\<lambda>r. o_user r = u \<and> o_token r = token) d"

definition FindForReplay :: "uid \<Rightarrow> string \<Rightarrow> db \<Rightarrow> order_row option" where
  "FindForReplay u token d = find_order (\<lambda>r. o_user r = u \<and> o_token r = token) d"

definition FindByToken :: "uid \<Rightarrow> string \<Rightarrow> db \<Rightarrow> err + order_row" where
  "FindByToken u token d = (case find_order (\<lambda>r. o_user r = u \<and> o_token r = token) d of
     None \<Rightarrow> Inl ErrOrderNotFound | Some r \<Rightarrow> Inr r)"

definition order_list ::
  "uid \<Rightarrow> int \<Rightarrow> int \<Rightarrow> order_status option \<Rightarrow> db \<Rightarrow> order_view list \<times> nat" where
  "order_list u page pageSize status d = (case OrdersByUser u page pageSize status d of
     (rows, n) \<Rightarrow> (map ToOrder rows, n))"

definition order_get :: "uid \<Rightarrow> uid \<Rightarrow> db \<Rightarrow> err + order_view" where
  "order_get u i d = sbind (GetByUser u i d) (\<lambda>r. Inr (ToOrder r))"

definition order_list_all ::
  "int \<Rightarrow> int \<Rightarrow> order_status option \<Rightarrow> db \<Rightarrow> order_view list \<times> nat" where
  "order_list_all page pageSize status d = (case OrdersAll page pageSize status d of
     (rows, n) \<Rightarrow> (map ToOrder rows, n))"

definition order_list_refunds :: "int \<Rightarrow> int \<Rightarrow> db \<Rightarrow> order_view list \<times> nat" where
  "order_list_refunds page pageSize d = (case OrdersRefunds page pageSize d of
     (rows, n) \<Rightarrow> (map ToOrder rows, n))"

definition order_get_admin :: "uid \<Rightarrow> db \<Rightarrow> err + order_view" where
  "order_get_admin i d = sbind (GetByID i d) (\<lambda>r. Inr (ToOrder r))"

definition order_list_ledger :: "uid \<Rightarrow> int \<Rightarrow> int \<Rightarrow> db \<Rightarrow> ledger_entry list \<times> nat" where
  "order_list_ledger u page pageSize d = (case ListByUser u page pageSize d of
     (rows, n) \<Rightarrow> (map ToLedgerEntry rows, n))"

section \<open>The conditional update\<close>

definition UpdateFields ::
  "(order_row \<Rightarrow> bool) \<Rightarrow> (order_row \<Rightarrow> order_row) \<Rightarrow> db \<Rightarrow> err + db" where
  "UpdateFields P f d =
     (let rows = filter P (orders d) in
      if \<not> list_all (\<lambda>r. order_lengths (f r)) rows then Inl StringTooLong
      else if \<not> list_all (\<lambda>r. order_checks (f r)) rows then Inl CheckViolation
      else if \<not> list_all (\<lambda>r. order_fks d (f r)) rows then Inl ForeignKeyViolation
      else if affected P (orders d) = 0 then Inl ErrOrderStateConflict
      else Inr (d\<lparr>orders := update_where P f (orders d)\<rparr>))"

lemma UpdateFields_eq_Inr [tx_elims]:
  "UpdateFields P f d = Inr d' \<longleftrightarrow>
   (\<forall>r\<in>set (orders d). P r \<longrightarrow> order_lengths (f r) \<and> order_checks (f r) \<and> order_fks d (f r)) \<and>
   (\<exists>r\<in>set (orders d). P r) \<and> d' = d\<lparr>orders := update_where P f (orders d)\<rparr>"
  by (auto simp: UpdateFields_def Let_def list_all_iff affected_def filter_empty_conv)

section \<open>Inserts\<close>

lemma insert_order_eq_Inr [tx_elims]:
  "insert_order r d = Inr d' \<longleftrightarrow> order_lengths r \<and> order_checks r \<and>
   (\<forall>s\<in>set (orders d). o_id s \<noteq> o_id r \<and> o_no s \<noteq> o_no r \<and>
      \<not> (o_user s = o_user r \<and> o_token s = o_token r)) \<and>
   order_fks d r \<and> d' = d\<lparr>orders := orders d @ [r]\<rparr>"
  by (auto simp: insert_order_def tx_elims list_all_iff)

definition item_fits :: "db \<Rightarrow> item_row \<Rightarrow> bool" where
  "item_fits d r \<longleftrightarrow> rune_count (i_name r) \<le> 128 \<and> item_checks r \<and>
     i_order r \<in> o_id ` set (orders d) \<and> i_product r \<in> p_id ` set (products d)"

definition item_conflict :: "item_row \<Rightarrow> item_row \<Rightarrow> bool" where
  "item_conflict r s \<longleftrightarrow> i_id s = i_id r \<or> (i_order s = i_order r \<and> i_product s = i_product r)"

lemma insert_item_eq_Inr [tx_elims]:
  "insert_item r d = Inr d' \<longleftrightarrow> item_fits d r \<and>
   (\<forall>s\<in>set (order_items d). \<not> item_conflict r s) \<and>
   d' = d\<lparr>order_items := order_items d @ [r]\<rparr>"
  by (auto simp: insert_item_def tx_elims list_all_iff item_fits_def item_conflict_def)

lemma insert_items_eq_Inr:
  "insert_items rs d = Inr d' \<longleftrightarrow> (\<forall>r\<in>set rs. item_fits d r) \<and>
   (\<forall>r\<in>set rs. \<forall>s\<in>set (order_items d). \<not> item_conflict r s) \<and>
   sorted_wrt (\<lambda>s r. \<not> item_conflict r s) rs \<and>
   d' = d\<lparr>order_items := order_items d @ rs\<rparr>"
proof (induction rs arbitrary: d)
  case (Cons r rs)
  have "item_fits (d\<lparr>order_items := t\<rparr>) s = item_fits d s" for t s
    by (simp add: item_fits_def)
  then show ?case
    by (auto simp: sbind_eq_Inr insert_item_eq_Inr Cons.IH)
qed auto

section \<open>The lifecycle\<close>

text \<open>The transitions the usecases make between the states of an order.\<close>

inductive lifecycle :: "order_status \<Rightarrow> order_status \<Rightarrow> bool" where
  ship: "lifecycle Paid Shipped"
| receive: "lifecycle Shipped Completed"
| request_paid: "lifecycle Paid RefundRequested"
| request_shipped: "lifecycle Shipped RefundRequested"
| approve: "lifecycle RefundRequested Refunded"
| reject_paid: "lifecycle RefundRequested Paid"
| reject_shipped: "lifecycle RefundRequested Shipped"

inductive_cases lifecycle_from_Completed: "lifecycle Completed s"
inductive_cases lifecycle_from_Refunded: "lifecycle Refunded s"
inductive_simps lifecycle_to_Refunded: "lifecycle s Refunded"
inductive_simps lifecycle_to_Completed: "lifecycle s Completed"

code_pred lifecycle .

lemma completed_is_final: "\<not> lifecycle Completed s"
  by (auto elim: lifecycle_from_Completed)

lemma refunded_is_final: "\<not> lifecycle Refunded s"
  by (auto elim: lifecycle_from_Refunded)

lemma final_reachable:
  "lifecycle\<^sup>*\<^sup>* s t \<Longrightarrow> s = Completed \<or> s = Refunded \<Longrightarrow> t = s"
  by (induction rule: rtranclp_induct) (auto elim: lifecycle_from_Completed lifecycle_from_Refunded)

section \<open>The table stays well formed\<close>

definition order_row_ok :: "db \<Rightarrow> order_row \<Rightarrow> bool" where
  "order_row_ok d r \<longleftrightarrow> order_lengths r \<and> order_checks r \<and> order_fks d r \<and> in64 (o_total r) \<and>
     o_items r = []"

definition orders_ok :: "db \<Rightarrow> bool" where
  "orders_ok d \<longleftrightarrow> distinct (map o_id (orders d)) \<and> distinct (map o_no (orders d)) \<and>
     distinct (map (\<lambda>r. (o_user r, o_token r)) (orders d)) \<and>
     (\<forall>r\<in>set (orders d). order_row_ok d r)"

definition items_ok :: "db \<Rightarrow> bool" where
  "items_ok d \<longleftrightarrow> (\<forall>r\<in>set (order_items d). item_fits d r) \<and>
     sorted_wrt (\<lambda>s r. \<not> item_conflict r s) (order_items d)"

lemma order_fks_mono: "order_fks d r \<Longrightarrow> refs_kept d d' \<Longrightarrow> order_fks d' r"
  unfolding order_fks_def admin_ref_def refs_kept_def by (auto split: option.splits)

lemma orders_ok_frame:
  "orders_ok d \<Longrightarrow> orders d' = orders d \<Longrightarrow> refs_kept d d' \<Longrightarrow> orders_ok d'"
  by (auto simp: orders_ok_def order_row_ok_def intro: order_fks_mono)

lemma items_ok_frame:
  "items_ok d \<Longrightarrow> order_items d' = order_items d \<Longrightarrow> o_id ` set (orders d) \<subseteq> o_id ` set (orders d') \<Longrightarrow>
   p_id ` set (products d) \<subseteq> p_id ` set (products d') \<Longrightarrow> items_ok d'"
  unfolding items_ok_def item_fits_def by (metis (no_types, lifting) subsetD)

lemma insert_order_ok:
  assumes "orders_ok d" and "insert_order r d = Inr d'" and "in64 (o_total r)" and "o_items r = []"
  shows "orders_ok d'"
  using assms
  by (auto simp: orders_ok_def tx_elims order_row_ok_def order_fks_def admin_ref_def
      split: option.splits)

lemma insert_items_ok:
  assumes "items_ok d" and "insert_items rs d = Inr d'"
  shows "items_ok d'"
proof -
  have "item_fits (d\<lparr>order_items := t\<rparr>) s = item_fits d s" for t s
    by (simp add: item_fits_def)
  then show ?thesis
    using assms by (auto simp: insert_items_eq_Inr items_ok_def sorted_wrt_append)
qed

text \<open>The rows an update may produce: same identity, same total, no items.\<close>

definition keeps_identity :: "(order_row \<Rightarrow> order_row) \<Rightarrow> bool" where
  "keeps_identity f \<longleftrightarrow> (\<forall>r. o_id (f r) = o_id r \<and> o_no (f r) = o_no r \<and> o_user (f r) = o_user r \<and>
     o_token (f r) = o_token r \<and> o_hash (f r) = o_hash r \<and> o_total (f r) = o_total r \<and>
     o_items (f r) = o_items r)"

lemma UpdateFields_ok:
  assumes "orders_ok d" and "UpdateFields P f d = Inr d'" and "keeps_identity f"
  shows "orders_ok d'"
proof -
  have d': "d' = d\<lparr>orders := update_where P f (orders d)\<rparr>" using assms(2) by (simp add: tx_elims)
  have fk: "order_fks d' r = order_fks d r" for r
    by (simp add: order_fks_def admin_ref_def d' cong: option.case_cong)
  show ?thesis
    using assms unfolding orders_ok_def order_row_ok_def fk
    by (auto simp: d' tx_elims keeps_identity_def map_update_where set_update_where)
qed

lemma UpdateFields_frame:
  assumes "UpdateFields P f d = Inr d'" and "keeps_identity f"
  shows "d' = d\<lparr>orders := orders d'\<rparr>" and "map o_id (orders d') = map o_id (orders d)"
  using assms by (auto simp: tx_elims keeps_identity_def map_update_where)

lemma find_order_SomeD:
  assumes "find_order P d = Some r"
  obtains s where "s \<in> set (orders d)" "find P (orders d) = Some s" "r = preload_items d s" "P s"
  using assms by (auto simp: find_order_def dest: find_SomeD)

lemma find_order_id:
  assumes "orders_ok d" and "r \<in> set (orders d)"
  shows "find_order (\<lambda>s. o_id s = o_id r) d = Some (preload_items d r)"
  using assms by (simp add: find_order_def orders_ok_def find_key)

end
