(* ===== verification/Checkout.thy ===== *)
theory Checkout
  imports Cart Address User OrderDomain "HOL-Library.Multiset"
begin

text \<open>
  \<open>internal/application/order/create.go\<close>: the checkout, one transaction that decrements the stock,
  charges the points, writes the order, its items and its ledger entry, and deletes the cart rows.

  What the code takes from outside is an \<open>env\<close>: generated ids, the clocks, the order number, the
  text of a UUID and the hash of a payload (\<open>sha256\<close> of its JSON text, in hexadecimal). The first
  statement looks for an order with the same key before any lock is held, so it may read tables
  that other transactions have left behind by the time this one holds its locks: \<open>early\<close> are the
  tables that statement saw.
\<close>

record hash_address =
  ha_id :: uid
  ha_version :: int
  ha_receiver :: string
  ha_phone :: string
  ha_region :: string
  ha_detail :: string

record hash_payload =
  hp_ids :: "uid list"
  hp_items :: "(uid \<times> int) list"
  hp_address :: hash_address

record env =
  e_us :: "uid \<Rightarrow> string"
  e_hash :: "hash_payload \<Rightarrow> string"
  e_order :: uid
  e_item :: "nat \<Rightarrow> uid"
  e_ledger :: uid
  e_now :: time
  e_clock :: time
  e_no :: string

definition ComputeOrderRequestHash ::
  "(hash_payload \<Rightarrow> string) \<Rightarrow> uid list \<Rightarrow> (uid \<times> int) list \<Rightarrow> address_view \<Rightarrow> string" where
  "ComputeOrderRequestHash hash cartItemIDs items addr =
     hash \<lparr>hp_ids = sort cartItemIDs, hp_items = sort_key fst items,
       hp_address = \<lparr>ha_id = av_id addr, ha_version = av_version addr,
         ha_receiver = av_receiver addr, ha_phone = av_phone addr, ha_region = av_region addr,
         ha_detail = av_detail addr\<rparr>\<rparr>"

definition ValidateIdempotencyKey :: "string \<Rightarrow> err + unit" where
  "ValidateIdempotencyKey key =
     (if length key < 1 \<or> 64 < length key \<or> trim_space key = [] then Inl ErrInvalidIdempotencyKey
      else Inr ())"

definition validateOrderRequest :: "order_request \<Rightarrow> err + unit" where
  "validateOrderRequest req =
     (if AddressID req = 0 then Inl ErrInvalidOrderRequest
      else if CartItemIDs req = [] then Inl ErrInvalidOrderRequest
      else if 0 \<in> set (CartItemIDs req) \<or> \<not> distinct (CartItemIDs req)
      then Inl ErrInvalidOrderRequest
      else Inr ())"

definition translateBalanceError :: "err \<Rightarrow> err" where
  "translateBalanceError e = (case e of
       PaymentErrUserNotFound \<Rightarrow> ErrUserNotFound
     | ErrInsufficientBalance \<Rightarrow> ErrInsufficientPoints
     | _ \<Rightarrow> e)"

definition translated :: "(err \<Rightarrow> err) \<Rightarrow> err + 'a \<Rightarrow> err + 'a" where
  "translated f m = (case m of Inl e \<Rightarrow> Inl (f e) | Inr x \<Rightarrow> Inr x)"

definition productIDsOf :: "cart_row list \<Rightarrow> uid list" where
  "productIDsOf cartItems = map c_product cartItems"

definition indexProducts :: "product_row list \<Rightarrow> uid \<rightharpoonup> product_row" where
  "indexProducts ps = foldl (\<lambda>m p. m(p_id p \<mapsto> p)) Map.empty ps"

definition requestHashItemsOf :: "cart_row list \<Rightarrow> (uid \<times> int) list" where
  "requestHashItemsOf cartItems = map (\<lambda>c. (c_product c, c_qty c)) cartItems"

definition buildAddress :: "address_view \<Rightarrow> string" where
  "buildAddress addr = trim_space (av_region addr @ '' '' @ av_detail addr)"

text \<open>\<open>hex.EncodeToString\<close>, and the order number: the random bytes, or none when the source fails.\<close>

definition hex_digit :: "nat \<Rightarrow> char" where
  "hex_digit n = ''0123456789abcdef'' ! (n mod 16)"

definition hex_encode :: "nat list \<Rightarrow> string" where
  "hex_encode bs = concat (map (\<lambda>b. [hex_digit (b div 16), hex_digit b]) bs)"

definition generateOrderNo :: "nat list option \<Rightarrow> int \<Rightarrow> int \<Rightarrow> string" where
  "generateOrderNo raw unix unixNano = (case raw of
       None \<Rightarrow> ''ORD'' @ format_int unixNano
     | Some bs \<Rightarrow> ''ORD'' @ format_int unix @ ''-'' @ hex_encode bs)"

section \<open>Pricing\<close>

text \<open>
  The loop over the cart rows: status and stock are verified against the locked product, the line
  total is multiplied and added in \<open>int64\<close>, and the item snapshots the product. The ids of the
  items are filled in later.
\<close>

fun price_lines ::
  "(uid \<rightharpoonup> product_row) \<Rightarrow> int \<Rightarrow> item_row list \<Rightarrow> cart_row list \<Rightarrow> err + (int \<times> item_row list)" where
  "price_lines productByID tot orderItems [] = Inr (tot, orderItems)"
| "price_lines productByID tot orderItems (c # cs) =
     (case productByID (c_product c) of
        None \<Rightarrow> Inl ErrProductNotFound
      | Some p \<Rightarrow>
        if p_status p \<noteq> StatusOnSale then Inl ErrProductOffSale
        else if p_stock p < c_qty c then Inl ErrInsufficientStock
        else let lineTotal = int64 (p_price p * c_qty c) in
          if int64 (max_int64 - lineTotal) < tot then Inl ErrInvalidOrderRequest
          else price_lines productByID (int64 (tot + lineTotal))
            (orderItems @ [\<lparr>i_id = 0, i_order = 0, i_product = p_id p, i_name = p_name p,
               i_image = MainImageKey p, i_price = p_price p, i_qty = c_qty c\<rparr>]) cs)"

text \<open>\<open>BeforeCreate\<close> on the batch of items: each gets the order's id and a generated id.\<close>

fun number_items :: "(nat \<Rightarrow> uid) \<Rightarrow> uid \<Rightarrow> nat \<Rightarrow> item_row list \<Rightarrow> item_row list" where
  "number_items gen oid n [] = []"
| "number_items gen oid n (i # is) =
     i\<lparr>i_id := fillID (gen n) (i_id i), i_order := oid\<rparr> # number_items gen oid (Suc n) is"

section \<open>The transaction\<close>

definition buildAndCommit ::
  "env \<Rightarrow> uid \<Rightarrow> string \<Rightarrow> order_request \<Rightarrow> address_view \<Rightarrow> cart_row list \<Rightarrow> (uid \<rightharpoonup> product_row)
   \<Rightarrow> order_view tx" where
  "buildAndCommit env userID key req addr cartItems productByID d =
     sbind (price_lines productByID 0 [] cartItems) (\<lambda>(tot, orderItems).
     sbind (each DecrementStock (map (\<lambda>c. (c_product c, c_qty c)) cartItems) d) (\<lambda>d1.
     sbind (translated translateBalanceError (AdjustBalance userID (int64 (- tot)) d1))
       (\<lambda>(newBalance, d2).
     let orderRow = \<lparr>o_id = e_order env, o_no = e_no env, o_user = userID, o_token = key,
           o_hash = ComputeOrderRequestHash (e_hash env) (CartItemIDs req)
             (requestHashItemsOf cartItems) addr,
           o_status = Paid, o_total = tot, o_receiver = av_receiver addr,
           o_phone = av_phone addr, o_address = buildAddress addr, o_refund_reason = [],
           o_reject_reason = [], o_reviewed_by = None, o_reviewed_at = None,
           o_paid_at = e_now env, o_shipped_by = None, o_shipped_at = None,
           o_completed_at = None, o_refunded_at = None, o_created = e_clock env, o_items = []\<rparr>;
         items = number_items (e_item env) (o_id orderRow) 0 orderItems in
     sbind (insert_order orderRow d2) (\<lambda>d3.
     sbind (insert_items items d3) (\<lambda>d4.
     sbind (ledger_create (e_ledger env) \<lparr>l_id = 0, l_user = userID,
         l_order = Some (o_id orderRow), l_event = OrderPayEventKey (e_us env) (o_id orderRow),
         l_hash = None, l_type = OrderPay, l_delta = int64 (- tot), l_after = newBalance,
         l_admin = None, l_remark = o_no orderRow, l_created = e_now env\<rparr> d4) (\<lambda>d5.
     sbind (DeleteByIDs userID (CartItemIDs req) d5) (\<lambda>d6.
     Inr (ToOrder (orderRow\<lparr>o_items := items\<rparr>), d6))))))))"

definition resolveReplay ::
  "env \<Rightarrow> uid \<Rightarrow> order_request \<Rightarrow> order_row \<Rightarrow> db \<Rightarrow> err + order_view" where
  "resolveReplay env userID req existing d =
     sbind (LockAddressForOrder userID (AddressID req) d) (\<lambda>addr.
       let items = map (\<lambda>i. (i_product i, i_qty i)) (o_items existing) in
       if ComputeOrderRequestHash (e_hash env) (CartItemIDs req) items addr \<noteq> o_hash existing
       then Inl ErrIdempotencyConflict
       else Inr (ToOrder existing))"

definition resolveAfterConflict ::
  "env \<Rightarrow> uid \<Rightarrow> string \<Rightarrow> order_request \<Rightarrow> db \<Rightarrow> err + order_view" where
  "resolveAfterConflict env userID clientToken req d =
     sbind (FindByToken userID clientToken d) (\<lambda>existing.
     sbind (address_get userID (AddressID req) d) (\<lambda>addr.
       let items = map (\<lambda>i. (i_product i, i_qty i)) (o_items existing) in
       if ComputeOrderRequestHash (e_hash env) (CartItemIDs req) items addr \<noteq> o_hash existing
       then Inl ErrIdempotencyConflict
       else Inr (ToOrder existing)))"

definition create_tx ::
  "env \<Rightarrow> uid \<Rightarrow> string \<Rightarrow> order_request \<Rightarrow> db \<Rightarrow> order_view tx" where
  "create_tx env userID key req early d =
     (case LockForReplay userID key early of
        Some existing \<Rightarrow> sbind (resolveReplay env userID req existing d) (\<lambda>replay. Inr (replay, d))
      | None \<Rightarrow>
        sbind (translated translateBalanceError (LockUser userID d)) (\<lambda>_.
        sbind (LockAddressForOrder userID (AddressID req) d) (\<lambda>addr.
        (case LockCartForOrder userID (CartItemIDs req) d of
           Inl e \<Rightarrow>
             if e = ErrCartItemNotFound
             then (case FindForReplay userID key d of
                 Some racer \<Rightarrow>
                   sbind (resolveReplay env userID req racer d) (\<lambda>replay. Inr (replay, d))
               | None \<Rightarrow> Inl e)
             else Inl e
         | Inr cartItems \<Rightarrow>
             sbind (LockByIDs (productIDsOf cartItems) d) (\<lambda>products.
               buildAndCommit env userID key req addr cartItems (indexProducts products) d)))))"

definition Execute ::
  "env \<Rightarrow> uid \<Rightarrow> string \<Rightarrow> order_request \<Rightarrow> db \<Rightarrow> db \<Rightarrow> (err + order_view) \<times> db" where
  "Execute env userID key req early d =
     (case sbind (ValidateIdempotencyKey key) (\<lambda>_. sbind (validateOrderRequest req) (\<lambda>_.
         require (userID \<noteq> 0) ErrInvalidOrderRequest)) of
        Inl e \<Rightarrow> (Inl e, d)
      | Inr _ \<Rightarrow>
        (case commit (create_tx env userID key req early) d of
           (Inr result, d') \<Rightarrow> (Inr result, d')
         | (Inl e, d') \<Rightarrow>
           if is_unique_violation e
           then (case resolveAfterConflict env userID key req d' of
               Inl _ \<Rightarrow> (Inl e, d')
             | Inr replay \<Rightarrow> (Inr replay, d'))
           else (Inl e, d')))"

section \<open>The hash\<close>

text \<open>The order of the selected ids, and of the lines of distinct products, does not matter.\<close>

lemma sort_key_perm:
  assumes "mset xs = mset ys" and "distinct (map k xs)"
  shows "sort_key k xs = sort_key k ys"
  using assms by (intro sort_key_inj_key_eq) (auto simp: distinct_map)

lemma ComputeOrderRequestHash_perm:
  assumes "mset ids = mset ids'" and "mset items = mset items'" and "distinct (map fst items)"
  shows "ComputeOrderRequestHash h ids items a = ComputeOrderRequestHash h ids' items' a"
proof -
  have "sort ids = sort ids'"
    using assms(1) by (metis mset_sort properties_for_sort sorted_sort)
  then show ?thesis
    using sort_key_perm[OF assms(2,3)] by (simp add: ComputeOrderRequestHash_def)
qed

text \<open>With a hash that tells payloads apart, another selection or another address is another hash.\<close>

lemma ComputeOrderRequestHash_inj:
  assumes "inj h"
  shows "ComputeOrderRequestHash h ids items a = ComputeOrderRequestHash h ids' items' b \<longleftrightarrow>
    sort ids = sort ids' \<and> sort_key fst items = sort_key fst items' \<and> av_id a = av_id b \<and>
    av_version a = av_version b \<and> av_receiver a = av_receiver b \<and> av_phone a = av_phone b \<and>
    av_region a = av_region b \<and> av_detail a = av_detail b"
  using assms by (auto simp: ComputeOrderRequestHash_def inj_eq)

section \<open>Order numbers\<close>

lemma length_hex_encode [simp]: "length (hex_encode bs) = 2 * length bs"
  by (induction bs) (auto simp: hex_encode_def)

lemma length_format_nat: "n < 10 ^ Suc k \<Longrightarrow> length (format_nat n) \<le> Suc k"
proof (induction k arbitrary: n)
  case 0
  then show ?case by (simp add: format_nat.simps)
next
  case (Suc k)
  show ?case
  proof (cases "n < 10")
    case True
    then show ?thesis by (simp add: format_nat.simps)
  next
    case False
    have "n div 10 < 10 ^ Suc k"
      using Suc.prems by (simp add: less_mult_imp_div_less mult.commute)
    then have "length (format_nat (n div 10)) \<le> Suc k" by (rule Suc.IH)
    then show ?thesis using False by (subst format_nat.simps) simp
  qed
qed

text \<open>The number fits its column for every time the server can see, in both forms.\<close>

lemma generateOrderNo_length:
  assumes "0 \<le> unix" and "unix < 10 ^ 12" and "0 \<le> unixNano" and "unixNano \<le> max_int64"
    and "case raw of None \<Rightarrow> True | Some bs \<Rightarrow> length bs = 8"
  shows "rune_count (generateOrderNo raw unix unixNano) \<le> 32"
proof -
  have "nat unix < 10 ^ Suc 11" using assms(1,2) by simp
  then have "length (format_nat (nat unix)) \<le> Suc 11" by (rule length_format_nat)
  moreover have "nat unixNano < 10 ^ Suc 18" using assms(3,4) by (simp add: max_int64_def)
  then have "length (format_nat (nat unixNano)) \<le> Suc 18" by (rule length_format_nat)
  ultimately have "length (generateOrderNo raw unix unixNano) \<le> 32"
    using assms(1,3,5) by (auto simp: generateOrderNo_def format_int_def split: option.splits)
  then show ?thesis using rune_count_le_length order_trans by blast
qed

section \<open>What pricing computes\<close>

definition line_total :: "(uid \<rightharpoonup> product_row) \<Rightarrow> cart_row \<Rightarrow> int" where
  "line_total pm c = (case pm (c_product c) of None \<Rightarrow> 0 | Some p \<Rightarrow> int64 (p_price p * c_qty c))"

definition draft :: "(uid \<rightharpoonup> product_row) \<Rightarrow> cart_row \<Rightarrow> item_row" where
  "draft pm c = (case pm (c_product c) of
       None \<Rightarrow> \<lparr>i_id = 0, i_order = 0, i_product = 0, i_name = [], i_image = [], i_price = 0, i_qty = 0\<rparr>
     | Some p \<Rightarrow> \<lparr>i_id = 0, i_order = 0, i_product = p_id p, i_name = p_name p,
         i_image = MainImageKey p, i_price = p_price p, i_qty = c_qty c\<rparr>)"

definition purchasable :: "(uid \<rightharpoonup> product_row) \<Rightarrow> cart_row \<Rightarrow> bool" where
  "purchasable pm c \<longleftrightarrow> (\<exists>p. pm (c_product c) = Some p \<and> p_status p = StatusOnSale \<and>
     c_qty c \<le> p_stock p)"

text \<open>A line total that wrapped below zero never passes the overflow guard.\<close>

lemma overflow_guard:
  assumes "0 \<le> t" and "in64 l" and "\<not> int64 (max_int64 - l) < t"
  shows "0 \<le> l \<and> t + l \<le> max_int64"
proof (cases "0 \<le> l")
  case True
  then have "in64 (max_int64 - l)" using assms(2) by (simp add: in64_def max_int64_def)
  then show ?thesis using assms(3) True by simp
next
  case False
  have "int64 (max_int64 - l) = max_int64 - l - 2 ^ 64"
  proof -
    let ?x = "max_int64 - l + 2 ^ 63"
    have "(?x - 2 ^ 64) mod 2 ^ 64 = ?x - 2 ^ 64"
      using False assms(2) by (intro mod_pos_pos_trivial) (auto simp: max_int64_def in64_def)
    then have "?x mod 2 ^ 64 = ?x - 2 ^ 64" by (simp only: minus_mod_self2)
    then show ?thesis by (simp add: int64_def)
  qed
  then show ?thesis using assms False by (simp add: max_int64_def in64_def)
qed

lemma price_lines_ok:
  assumes "price_lines pm t acc cs = Inr (tot, items)" and "0 \<le> t" and "t \<le> max_int64"
  shows "tot = t + sum_list (map (line_total pm) cs) \<and> t \<le> tot \<and> tot \<le> max_int64 \<and>
    items = acc @ map (draft pm) cs \<and> (\<forall>c\<in>set cs. purchasable pm c \<and> 0 \<le> line_total pm c)"
  using assms
proof (induction pm t acc cs rule: price_lines.induct)
  case (2 pm t acc c cs)
  from 2(2) obtain p where p: "pm (c_product c) = Some p" "p_status p = StatusOnSale"
    "c_qty c \<le> p_stock p" and
    guard: "\<not> int64 (max_int64 - int64 (p_price p * c_qty c)) < t" and
    rest: "price_lines pm (int64 (t + int64 (p_price p * c_qty c))) (acc @ [draft pm c]) cs = Inr (tot, items)"
    by (auto simp: Let_def draft_def split: option.splits if_splits)
  define l where "l = int64 (p_price p * c_qty c)"
  have l: "0 \<le> l" "t + l \<le> max_int64" and lt: "line_total pm c = l"
    using overflow_guard[OF 2(3) _ guard] p(1) by (auto simp: l_def line_total_def)
  have id: "int64 (t + l) = t + l"
    using l 2(3) by (simp add: in64_def max_int64_def)
  have d: "draft pm c = \<lparr>i_id = 0, i_order = 0, i_product = p_id p, i_name = p_name p,
      i_image = MainImageKey p, i_price = p_price p, i_qty = c_qty c\<rparr>"
    by (simp add: draft_def p(1))
  have "tot = (t + l) + sum_list (map (line_total pm) cs) \<and> t + l \<le> tot \<and> tot \<le> max_int64 \<and>
      items = (acc @ [draft pm c]) @ map (draft pm) cs \<and>
      (\<forall>c\<in>set cs. purchasable pm c \<and> 0 \<le> line_total pm c)"
    using 2(1)[OF p(1)] p guard rest l 2(3) id unfolding d l_def[symmetric] by simp
  then show ?case
    using l lt p by (auto simp: purchasable_def)
qed auto

text \<open>When no product of price and quantity overflows, the total is the exact price.\<close>

lemma line_total_exact:
  "pm (c_product c) = Some p \<Longrightarrow> in64 (p_price p * c_qty c) \<Longrightarrow>
   line_total pm c = p_price p * c_qty c"
  by (simp add: line_total_def)

text \<open>Conversely nothing but the four refusals can happen.\<close>

lemma price_lines_error:
  "price_lines pm t acc cs = Inl e \<Longrightarrow>
   e \<in> {ErrProductNotFound, ErrProductOffSale, ErrInsufficientStock, ErrInvalidOrderRequest}"
  by (induction pm t acc cs rule: price_lines.induct)
     (auto simp: Let_def split: option.splits if_splits)

section \<open>Items\<close>

lemma number_items_fields:
  "map i_product (number_items gen oid n is) = map i_product is"
  "map (\<lambda>i. (i_product i, i_qty i)) (number_items gen oid n is) = map (\<lambda>i. (i_product i, i_qty i)) is"
  "map to_item (number_items gen oid n is) = map to_item is"
  "map (\<lambda>i. int64 (i_price i * i_qty i)) (number_items gen oid n is) =
   map (\<lambda>i. int64 (i_price i * i_qty i)) is"
  "i \<in> set (number_items gen oid n is) \<Longrightarrow> i_order i = oid"
  by (induction gen oid n "is" rule: number_items.induct) (auto simp: to_item_def)

lemma foldl_index:
  "distinct (map p_id ps) \<Longrightarrow>
   foldl (\<lambda>m p. m(p_id p \<mapsto> p)) m ps i = (case find (\<lambda>p. p_id p = i) ps of None \<Rightarrow> m i | Some p \<Rightarrow> Some p)"
proof (induction ps arbitrary: m)
  case (Cons p ps)
  have "find (\<lambda>q. p_id q = p_id p) ps = None"
    using Cons.prems by (simp add: find_key_None)
  then show ?case using Cons by (auto split: option.splits)
qed simp

lemma indexProducts_find:
  "distinct (map p_id ps) \<Longrightarrow> indexProducts ps i = find (\<lambda>p. p_id p = i) ps"
  by (simp add: indexProducts_def foldl_index split: option.splits)

lemma LockByIDs_eq_Inr:
  "ids \<noteq> [] \<Longrightarrow> LockByIDs ids d = Inr ps \<longleftrightarrow>
   ps = sort_key p_id (filter (\<lambda>p. p_id p \<in> set ids) (products d)) \<and>
   set ids \<subseteq> p_id ` set (products d)"
  by (auto simp: LockByIDs_def Let_def list_all_iff)

lemma LockByIDs_index:
  assumes "LockByIDs ids d = Inr ps" and "products_ok d" and "i \<in> set ids"
  shows "indexProducts ps i = find_product i d" and "find_product i d \<noteq> None"
proof -
  have ids: "ids \<noteq> []" using assms(3) by auto
  then have ps: "ps = sort_key p_id (filter (\<lambda>p. p_id p \<in> set ids) (products d))"
    and sub: "set ids \<subseteq> p_id ` set (products d)"
    using assms(1) by (auto simp: LockByIDs_eq_Inr)
  have d: "distinct (map p_id (products d))" using assms(2) by (simp add: products_ok_def)
  then have dp: "distinct (map p_id ps)"
    by (simp add: ps distinct_map) (auto simp: inj_on_def distinct_map)
  obtain p where p: "p \<in> set (products d)" "p_id p = i" using sub assms(3) by auto
  then have "find_product i d = Some p" using find_key[OF d p(1)] by (simp add: find_product_def)
  moreover have "p \<in> set ps" using p assms(3) by (simp add: ps)
  then have "indexProducts ps i = Some p"
    using find_key[OF dp, of p] p(2) by (simp add: indexProducts_find[OF dp])
  ultimately show "indexProducts ps i = find_product i d" "find_product i d \<noteq> None" by auto
qed

section \<open>What a placed order does to the tables\<close>

definition order_lines :: "cart_row list \<Rightarrow> (uid \<times> int) list" where
  "order_lines rows = map (\<lambda>c. (c_product c, c_qty c)) rows"

definition new_order ::
  "env \<Rightarrow> uid \<Rightarrow> string \<Rightarrow> order_request \<Rightarrow> address_view \<Rightarrow> cart_row list \<Rightarrow> int \<Rightarrow> order_row" where
  "new_order env u key req addr rows tot = \<lparr>o_id = e_order env, o_no = e_no env, o_user = u,
     o_token = key, o_hash = ComputeOrderRequestHash (e_hash env) (CartItemIDs req)
       (requestHashItemsOf rows) addr,
     o_status = Paid, o_total = tot, o_receiver = av_receiver addr, o_phone = av_phone addr,
     o_address = buildAddress addr, o_refund_reason = [], o_reject_reason = [],
     o_reviewed_by = None, o_reviewed_at = None, o_paid_at = e_now env, o_shipped_by = None,
     o_shipped_at = None, o_completed_at = None, o_refunded_at = None, o_created = e_clock env,
     o_items = []\<rparr>"

definition new_items :: "env \<Rightarrow> (uid \<rightharpoonup> product_row) \<Rightarrow> cart_row list \<Rightarrow> item_row list" where
  "new_items env pm rows = number_items (e_item env) (e_order env) 0 (map (draft pm) rows)"

definition pay_entry :: "env \<Rightarrow> uid \<Rightarrow> int \<Rightarrow> int \<Rightarrow> ledger_row" where
  "pay_entry env u tot b = \<lparr>l_id = fillID (e_ledger env) 0, l_user = u, l_order = Some (e_order env),
     l_event = OrderPayEventKey (e_us env) (e_order env), l_hash = None, l_type = OrderPay,
     l_delta = - tot, l_after = b, l_admin = None, l_remark = e_no env, l_created = e_now env\<rparr>"

text \<open>
  \<open>placed\<close>: the steps of a successful checkout, each with the tables it leaves. \<open>pm\<close> are the locked
  products and \<open>rows\<close> the locked cart rows.
\<close>

definition placed ::
  "env \<Rightarrow> uid \<Rightarrow> string \<Rightarrow> order_request \<Rightarrow> address_view \<Rightarrow> cart_row list \<Rightarrow> (uid \<rightharpoonup> product_row) \<Rightarrow> int
   \<Rightarrow> db \<Rightarrow> db \<Rightarrow> db \<Rightarrow> bool" where
  "placed env u key req addr rows pm tot d d1 d' \<longleftrightarrow>
     (\<exists>b d2 d3 d4 d5. price_lines pm 0 [] rows = Inr (tot, map (draft pm) rows) \<and>
        each DecrementStock (order_lines rows) d = Inr d1 \<and>
        AdjustBalance u (- tot) d1 = Inr (b, d2) \<and>
        insert_order (new_order env u key req addr rows tot) d2 = Inr d3 \<and>
        insert_items (new_items env pm rows) d3 = Inr d4 \<and>
        insert_ledger (pay_entry env u tot b) d4 = Inr d5 \<and>
        DeleteByIDs u (CartItemIDs req) d5 = Inr d')"

lemma buildAndCommit_placed:
  assumes "buildAndCommit env u key req addr rows pm d = Inr (v, d')"
  shows "\<exists>tot d1. placed env u key req addr rows pm tot d d1 d' \<and>
    v = ToOrder ((new_order env u key req addr rows tot)\<lparr>o_items := new_items env pm rows\<rparr>)"
proof -
  from assms obtain tot items d1 b d2 d3 d4 d5 where
    p: "price_lines pm 0 [] rows = Inr (tot, items)" and
    s: "each DecrementStock (order_lines rows) d = Inr d1" and
    a: "translated translateBalanceError (AdjustBalance u (int64 (- tot)) d1) = Inr (b, d2)" and
    o: "insert_order (new_order env u key req addr rows tot) d2 = Inr d3" and
    i: "insert_items (number_items (e_item env) (e_order env) 0 items) d3 = Inr d4" and
    l: "ledger_create (e_ledger env) ((pay_entry env u tot b)\<lparr>l_id := 0, l_delta := int64 (- tot)\<rparr>) d4 = Inr d5" and
    c: "DeleteByIDs u (CartItemIDs req) d5 = Inr d'" and
    v: "v = ToOrder ((new_order env u key req addr rows tot)\<lparr>o_items :=
      number_items (e_item env) (e_order env) 0 items\<rparr>)"
    by (auto simp: buildAndCommit_def sbind_eq_Inr Let_def order_lines_def new_order_def pay_entry_def)
  note pr = price_lines_ok[OF p]
  have tot: "0 \<le> tot" "tot \<le> max_int64" and items: "items = map (draft pm) rows"
    using pr by (auto simp: max_int64_def)
  then have neg: "int64 (- tot) = - tot" by (simp add: in64_def max_int64_def)
  have "insert_ledger (pay_entry env u tot b) d4 = Inr d5"
    using l by (simp add: ledger_create_def neg pay_entry_def)
  moreover have "AdjustBalance u (- tot) d1 = Inr (b, d2)"
    using a by (simp add: neg translated_def split: sum.splits)
  ultimately show ?thesis
    using p s o i c v items unfolding placed_def new_items_def by blast
qed

text \<open>The tables after a placed order, column by column.\<close>

definition charge :: "uid \<Rightarrow> int \<Rightarrow> user_row list \<Rightarrow> user_row list" where
  "charge u b t = update_where (\<lambda>r. u_id r = u) (\<lambda>r. r\<lparr>u_balance := b\<rparr>) t"

definition consume :: "uid \<Rightarrow> uid list \<Rightarrow> cart_row list \<Rightarrow> cart_row list" where
  "consume u ids t = (if ids = [] then t else delete_where (\<lambda>r. c_user r = u \<and> c_id r \<in> set ids) t)"

lemma placed_db:
  assumes "placed env u key req addr rows pm tot d d1 d'" and "find_user u d = Some r"
  shows "d' = d\<lparr>users := charge u (u_balance r - tot) (users d), products := products d1,
      cart_items := consume u (CartItemIDs req) (cart_items d),
      orders := orders d @ [new_order env u key req addr rows tot],
      order_items := order_items d @ new_items env pm rows,
      ledger := ledger d @ [pay_entry env u tot (u_balance r - tot)]\<rparr>"
    and "0 \<le> tot" and "tot \<le> max_int64" and "tot \<le> u_balance r" and "in64 (u_balance r - tot)"
proof -
  from assms(1) obtain b d2 d3 d4 d5 where
    p: "price_lines pm 0 [] rows = Inr (tot, map (draft pm) rows)" and
    s: "each DecrementStock (order_lines rows) d = Inr d1" and
    a: "AdjustBalance u (- tot) d1 = Inr (b, d2)" and
    o: "insert_order (new_order env u key req addr rows tot) d2 = Inr d3" and
    i: "insert_items (new_items env pm rows) d3 = Inr d4" and
    l: "insert_ledger (pay_entry env u tot b) d4 = Inr d5" and
    c: "DeleteByIDs u (CartItemIDs req) d5 = Inr d'"
    by (auto simp: placed_def)
  show tot: "0 \<le> tot" "tot \<le> max_int64"
    using price_lines_ok[OF p] by (auto simp: max_int64_def)
  obtain ps where d1: "d1 = d\<lparr>products := ps\<rparr>"
    using each_stock_only[OF stock_step_Decrement s] by (auto simp: stock_only_def)
  have f1: "find_user u d1 = Some r" using assms(2) by (simp add: d1 find_user_def)
  have "in64 (- tot)" using tot by (simp add: in64_def max_int64_def)
  then have b: "b = u_balance r - tot" "in64 b" "0 \<le> b"
    and d2: "d2 = d1\<lparr>users := charge u b (users d1)\<rparr>"
    using AdjustBalance_eq_Inr[OF f1, of "- tot" b d2] a by (auto simp: charge_def)
  then show "tot \<le> u_balance r" "in64 (u_balance r - tot)" by auto
  have d3: "d3 = d2\<lparr>orders := orders d2 @ [new_order env u key req addr rows tot]\<rparr>"
    using o by (simp add: insert_order_eq_Inr)
  have d4: "d4 = d3\<lparr>order_items := order_items d3 @ new_items env pm rows\<rparr>"
    using i by (simp add: insert_items_eq_Inr)
  have d5: "d5 = d4\<lparr>ledger := ledger d4 @ [pay_entry env u tot b]\<rparr>"
    using l by (simp add: insert_ledger_eq_Inr)
  have d6: "d' = d5\<lparr>cart_items := consume u (CartItemIDs req) (cart_items d5)\<rparr>"
    using c by (auto simp: DeleteByIDs_def Let_def consume_def split: if_splits)
  show "d' = d\<lparr>users := charge u (u_balance r - tot) (users d), products := products d1,
      cart_items := consume u (CartItemIDs req) (cart_items d),
      orders := orders d @ [new_order env u key req addr rows tot],
      order_items := order_items d @ new_items env pm rows,
      ledger := ledger d @ [pay_entry env u tot (u_balance r - tot)]\<rparr>"
    using b(1) by (simp add: d6 d5 d4 d3 d2 d1)
qed

text \<open>What a successful transaction was: the answer to a replay, or a placed order.\<close>

lemma create_tx_cases:
  assumes "create_tx env u key req early d = Inr (v, d')"
  obtains (replay) existing where "d' = d" "v = ToOrder existing"
      "LockForReplay u key early = Some existing \<or>
       LockForReplay u key early = None \<and> FindForReplay u key d = Some existing"
      "resolveReplay env u req existing d = Inr v"
  | (new) r addr rows ps tot d1 where "LockForReplay u key early = None" "find_user u d = Some r"
      "LockAddressForOrder u (AddressID req) d = Inr addr"
      "LockCartForOrder u (CartItemIDs req) d = Inr rows"
      "LockByIDs (productIDsOf rows) d = Inr ps"
      "placed env u key req addr rows (indexProducts ps) tot d d1 d'"
      "v = ToOrder ((new_order env u key req addr rows tot)\<lparr>o_items :=
        new_items env (indexProducts ps) rows\<rparr>)"
proof -
  have resolve: "w = ToOrder x" if "resolveReplay env u req x d = Inr w" for w x
    using that by (auto simp: resolveReplay_def sbind_eq_Inr Let_def split: if_splits)
  show thesis
  proof (cases "LockForReplay u key early")
    case (Some existing)
    then have "resolveReplay env u req existing d = Inr v" and "d' = d"
      using assms by (auto simp: create_tx_def sbind_eq_Inr)
    then show ?thesis using Some by (intro replay[of existing]) (auto intro: resolve)
  next
    case None
    define rest where "rest = (\<lambda>addr. (case LockCartForOrder u (CartItemIDs req) d of
           Inl e \<Rightarrow>
             if e = ErrCartItemNotFound
             then (case FindForReplay u key d of
                 Some racer \<Rightarrow> sbind (resolveReplay env u req racer d) (\<lambda>replay. Inr (replay, d))
               | None \<Rightarrow> Inl e)
             else Inl e
         | Inr cartItems \<Rightarrow>
             sbind (LockByIDs (productIDsOf cartItems) d) (\<lambda>products.
               buildAndCommit env u key req addr cartItems (indexProducts products) d)))"
    have "sbind (translated translateBalanceError (LockUser u d)) (\<lambda>_.
        sbind (LockAddressForOrder u (AddressID req) d) rest) = Inr (v, d')"
      using assms unfolding create_tx_def None option.case rest_def .
    then obtain x addr where x: "translated translateBalanceError (LockUser u d) = Inr x"
      and addr: "LockAddressForOrder u (AddressID req) d = Inr addr" and rest: "rest addr = Inr (v, d')"
      unfolding sbind_eq_Inr by blast
    obtain r where r: "find_user u d = Some r"
      using x by (auto simp: translated_def LockUser_eq_Inr split: sum.splits)
    show ?thesis
    proof (cases "LockCartForOrder u (CartItemIDs req) d")
      case (Inl e)
      then have e: "e = ErrCartItemNotFound"
        and m: "(case FindForReplay u key d of
            Some racer \<Rightarrow> sbind (resolveReplay env u req racer d) (\<lambda>replay. Inr (replay, d))
          | None \<Rightarrow> Inl e) = Inr (v, d')"
        using rest by (simp_all add: rest_def split: if_splits)
      show ?thesis
      proof (cases "FindForReplay u key d")
        case (Some racer)
        then have "sbind (resolveReplay env u req racer d) (\<lambda>replay. Inr (replay, d)) = Inr (v, d')"
          using m by simp
        then have "resolveReplay env u req racer d = Inr v" and "d' = d"
          by (auto simp: sbind_eq_Inr)
        then show ?thesis using None Some by (intro replay[of racer]) (auto intro: resolve)
      next
        case notfound: None
        then show ?thesis using m by simp
      qed
    next
      case (Inr rows)
      then obtain ps where ps: "LockByIDs (productIDsOf rows) d = Inr ps"
        "buildAndCommit env u key req addr rows (indexProducts ps) d = Inr (v, d')"
        using rest by (simp_all add: rest_def sbind_eq_Inr) blast
      then show ?thesis using new[OF None r addr Inr ps(1)] buildAndCommit_placed[OF ps(2)] by blast
    qed
  qed
qed

text \<open>Every error leaves the tables as they were, and only a placed order changes them.\<close>

lemma Execute_cases:
  assumes "Execute env u key req early d = (res, d')"
  shows "d' = d \<and> (\<forall>v. res = Inr v \<longrightarrow> (\<exists>existing. v = ToOrder existing)) \<or>
    (\<exists>v. res = Inr v \<and> create_tx env u key req early d = Inr (v, d'))"
  using assms
  by (auto simp: Execute_def commit_def resolveAfterConflict_def sbind_eq_Inr Let_def
      split: sum.splits if_splits)

lemma Execute_error_atomic:
  "Execute env u key req early d = (Inl e, d') \<Longrightarrow> d' = d"
  using Execute_cases by blast

end
