(* ===== verification/Tables.thy ===== *)
theory Tables
  imports Checkout
begin

text \<open>
  The well-formedness of the tables the buyers' operations work on, and that every statement of the
  usecases preserves it. \<open>tables_ok\<close> is the conjunction of the invariants the components define; a
  statement that leaves a table alone, and removes no row another table points to, leaves the
  table's invariant alone (\<open>refs_kept\<close>).
\<close>

definition tables_ok :: "db \<Rightarrow> bool" where
  "tables_ok d \<longleftrightarrow> users_ok d \<and> products_ok d \<and> addresses_ok d \<and> carts_ok d \<and> orders_ok d \<and>
     items_ok d \<and> ledger_ok d"

lemma addresses_ok_frame:
  "addresses_ok d \<Longrightarrow> addresses d' = addresses d \<Longrightarrow> refs_kept d d' \<Longrightarrow> addresses_ok d'"
  unfolding addresses_ok_def refs_kept_def by auto

lemma carts_ok_frame:
  "carts_ok d \<Longrightarrow> cart_items d' = cart_items d \<Longrightarrow> refs_kept d d' \<Longrightarrow> carts_ok d'"
  unfolding carts_ok_def cart_line_ok_def refs_kept_def by auto

lemma items_ok_refs:
  "items_ok d \<Longrightarrow> order_items d' = order_items d \<Longrightarrow> refs_kept d d' \<Longrightarrow> items_ok d'"
  by (rule items_ok_frame) (auto simp: refs_kept_def)

lemma users_ok_frame: "users_ok d \<Longrightarrow> users d' = users d \<Longrightarrow> users_ok d'"
  by (simp add: users_ok_def)

lemma products_ok_frame: "products_ok d \<Longrightarrow> products d' = products d \<Longrightarrow> products_ok d'"
  by (simp add: products_ok_def)

lemmas ok_frames = users_ok_frame products_ok_frame addresses_ok_frame carts_ok_frame
  orders_ok_frame items_ok_refs ledger_ok_frame

text \<open>Statements that change none of the seven tables.\<close>

lemma tables_ok_frame:
  assumes "tables_ok d" and "users d' = users d" and "products d' = products d"
    and "addresses d' = addresses d" and "cart_items d' = cart_items d" and "orders d' = orders d"
    and "order_items d' = order_items d" and "ledger d' = ledger d"
    and "ad_id ` set (admins d) \<subseteq> ad_id ` set (admins d')"
  shows "tables_ok d'"
proof -
  have "refs_kept d d'" using assms(2-9) by (simp add: refs_kept_def)
  then show ?thesis using assms(1-8) unfolding tables_ok_def by (meson ok_frames)
qed

text \<open>One statement each.\<close>

lemma tables_ok_users:
  assumes "tables_ok d" and "d' = d\<lparr>users := t\<rparr>" and "users_ok d'" and "u_id ` set (users d) \<subseteq> u_id ` set t"
  shows "tables_ok d'"
proof -
  have "refs_kept d d'" using assms(2,4) by (simp add: refs_kept_def)
  moreover have "products d' = products d" "addresses d' = addresses d" "cart_items d' = cart_items d"
    "orders d' = orders d" "order_items d' = order_items d" "ledger d' = ledger d"
    using assms(2) by simp_all
  ultimately show ?thesis using assms(1,3) unfolding tables_ok_def by (meson ok_frames)
qed

lemma tables_ok_products:
  assumes "tables_ok d" and "d' = d\<lparr>products := t\<rparr>" and "products_ok d'"
    and "p_id ` set (products d) \<subseteq> p_id ` set t"
  shows "tables_ok d'"
proof -
  have "refs_kept d d'" using assms(2,4) by (simp add: refs_kept_def)
  moreover have "users d' = users d" "addresses d' = addresses d" "cart_items d' = cart_items d"
    "orders d' = orders d" "order_items d' = order_items d" "ledger d' = ledger d"
    using assms(2) by simp_all
  ultimately show ?thesis using assms(1,3) unfolding tables_ok_def by (meson ok_frames)
qed

lemma tables_ok_addresses:
  assumes "tables_ok d" and "d' = d\<lparr>addresses := t\<rparr>" and "addresses_ok d'"
  shows "tables_ok d'"
proof -
  have "refs_kept d d'" using assms(2) by (simp add: refs_kept_def)
  moreover have "users d' = users d" "products d' = products d" "cart_items d' = cart_items d"
    "orders d' = orders d" "order_items d' = order_items d" "ledger d' = ledger d"
    using assms(2) by simp_all
  ultimately show ?thesis using assms(1,3) unfolding tables_ok_def by (meson ok_frames)
qed

lemma tables_ok_carts:
  assumes "tables_ok d" and "d' = d\<lparr>cart_items := t\<rparr>" and "carts_ok d'"
  shows "tables_ok d'"
proof -
  have "refs_kept d d'" using assms(2) by (simp add: refs_kept_def)
  moreover have "users d' = users d" "products d' = products d" "addresses d' = addresses d"
    "orders d' = orders d" "order_items d' = order_items d" "ledger d' = ledger d"
    using assms(2) by simp_all
  ultimately show ?thesis using assms(1,3) unfolding tables_ok_def by (meson ok_frames)
qed

lemma tables_ok_orders:
  assumes "tables_ok d" and "d' = d\<lparr>orders := t\<rparr>" and "orders_ok d'"
    and "o_id ` set (orders d) \<subseteq> o_id ` set t"
  shows "tables_ok d'"
proof -
  have "refs_kept d d'" using assms(2,4) by (simp add: refs_kept_def)
  moreover have "users d' = users d" "products d' = products d" "addresses d' = addresses d"
    "cart_items d' = cart_items d" "order_items d' = order_items d" "ledger d' = ledger d"
    using assms(2) by simp_all
  ultimately show ?thesis using assms(1,3) unfolding tables_ok_def by (meson ok_frames)
qed

lemma tables_ok_items:
  assumes "tables_ok d" and "d' = d\<lparr>order_items := t\<rparr>" and "items_ok d'"
  shows "tables_ok d'"
proof -
  have "refs_kept d d'" using assms(2) by (simp add: refs_kept_def)
  moreover have "users d' = users d" "products d' = products d" "addresses d' = addresses d"
    "cart_items d' = cart_items d" "orders d' = orders d" "ledger d' = ledger d"
    using assms(2) by simp_all
  ultimately show ?thesis using assms(1,3) unfolding tables_ok_def by (meson ok_frames)
qed

lemma tables_ok_ledger:
  assumes "tables_ok d" and "d' = d\<lparr>ledger := t\<rparr>" and "ledger_ok d'"
  shows "tables_ok d'"
proof -
  have "refs_kept d d'" using assms(2) by (simp add: refs_kept_def)
  moreover have "users d' = users d" "products d' = products d" "addresses d' = addresses d"
    "cart_items d' = cart_items d" "orders d' = orders d" "order_items d' = order_items d"
    using assms(2) by simp_all
  ultimately show ?thesis using assms(1,3) unfolding tables_ok_def by (meson ok_frames)
qed

section \<open>The statements of the usecases\<close>

lemma each_stock_tables_ok:
  assumes "stock_step f" and "each f ps d = Inr d'" and "tables_ok d"
  shows "tables_ok d'"
proof -
  obtain t where t: "d' = d\<lparr>products := t\<rparr>"
    using each_stock_only[OF assms(1,2)] by (auto simp: stock_only_def)
  moreover have "p_id ` set (products d) \<subseteq> p_id ` set t"
    using stock_only_ids[OF each_stock_only[OF assms(1,2)]] t
    by (metis db.select_convs(2) db.surjective db.update_convs(2) order_refl set_map)
  ultimately show ?thesis
    using tables_ok_products[OF assms(3)] each_products_ok[OF assms(1,2)] assms(3)
    by (simp add: tables_ok_def)
qed

lemma AdjustBalance_tables_ok:
  assumes "AdjustBalance u n d = Inr (b, d')" and "tables_ok d"
  shows "tables_ok d'"
proof -
  obtain t where "d' = d\<lparr>users := t\<rparr>"
    using AdjustBalance_cases[OF assms(1)] by (metis db.surjective db.update_convs(1))
  moreover have "u_id ` set (users d) \<subseteq> u_id ` set (users d')"
    using AdjustBalance_refs[OF assms(1)] by (metis order_refl set_map)
  moreover have "users_ok d'"
    using AdjustBalance_users_ok[OF _ assms(1)] assms(2) by (simp add: tables_ok_def)
  ultimately show ?thesis using tables_ok_users[OF assms(2)] by (metis db.select_convs(1) db.surjective db.update_convs(1))
qed

lemma insert_order_tables_ok:
  assumes "insert_order r d = Inr d'" and "tables_ok d" and "in64 (o_total r)" and "o_items r = []"
  shows "tables_ok d'"
proof -
  have "d' = d\<lparr>orders := orders d @ [r]\<rparr>" using assms(1) by (simp add: insert_order_eq_Inr)
  moreover have "orders_ok d'"
    using insert_order_ok[OF _ assms(1,3,4)] assms(2) by (simp add: tables_ok_def)
  ultimately show ?thesis using tables_ok_orders[OF assms(2)] by (metis image_mono set_append sup_ge1)
qed

lemma insert_items_tables_ok:
  assumes "insert_items rs d = Inr d'" and "tables_ok d"
  shows "tables_ok d'"
  using assms insert_items_ok[OF _ assms(1)]
  by (intro tables_ok_items[OF assms(2), of d' "order_items d @ rs"])
     (auto simp: insert_items_eq_Inr tables_ok_def)

lemma insert_ledger_tables_ok:
  assumes "insert_ledger r d = Inr d'" and "tables_ok d"
  shows "tables_ok d'"
  using assms insert_ledger_ok[OF _ assms(1)]
  by (intro tables_ok_ledger[OF assms(2), of d' "ledger d @ [r]"])
     (auto simp: insert_ledger_eq_Inr tables_ok_def)

lemma DeleteByIDs_tables_ok:
  assumes "DeleteByIDs u ids d = Inr d'" and "tables_ok d"
  shows "tables_ok d'"
proof -
  have "d' = d\<lparr>cart_items := consume u ids (cart_items d)\<rparr>"
    using assms(1) by (auto simp: DeleteByIDs_def consume_def Let_def split: if_splits)
  moreover have "carts_ok d'"
    using DeleteByIDs_ok[OF _ assms(1)] assms(2) by (simp add: tables_ok_def)
  ultimately show ?thesis using tables_ok_carts[OF assms(2)] by blast
qed

lemma UpdateFields_tables_ok:
  assumes "UpdateFields P f d = Inr d'" and "tables_ok d" and "keeps_identity f"
  shows "tables_ok d'"
proof -
  have "orders_ok d'"
    using UpdateFields_ok[OF _ assms(1,3)] assms(2) by (simp add: tables_ok_def)
  moreover have "o_id ` set (orders d) \<subseteq> o_id ` set (orders d')"
    using UpdateFields_frame(2)[OF assms(1,3)] by (metis order_refl set_map)
  ultimately show ?thesis
    using tables_ok_orders[OF assms(2) UpdateFields_frame(1)[OF assms(1,3)]] by blast
qed

lemma write_audit_tables_ok:
  assumes "write_audit i e d = Inr d'" and "tables_ok d"
  shows "tables_ok d'"
  using assms by (intro tables_ok_frame[OF assms(2)]) (auto simp: write_audit_eq_Inr)

lemma placed_tables_ok:
  assumes "placed env u key req addr rows pm tot d d1 d'" and "tables_ok d"
  shows "tables_ok d'"
proof -
  from assms(1) obtain b d2 d3 d4 d5 where
    p: "price_lines pm 0 [] rows = Inr (tot, map (draft pm) rows)" and
    s: "each DecrementStock (order_lines rows) d = Inr d1" and
    a: "AdjustBalance u (- tot) d1 = Inr (b, d2)" and
    o: "insert_order (new_order env u key req addr rows tot) d2 = Inr d3" and
    i: "insert_items (new_items env pm rows) d3 = Inr d4" and
    l: "insert_ledger (pay_entry env u tot b) d4 = Inr d5" and
    c: "DeleteByIDs u (CartItemIDs req) d5 = Inr d'"
    by (auto simp: placed_def)
  have "in64 tot" using price_lines_ok[OF p] by (auto simp: in64_def max_int64_def)
  have "tables_ok d1" by (rule each_stock_tables_ok[OF stock_step_Decrement s assms(2)])
  then have "tables_ok d2" by (rule AdjustBalance_tables_ok[OF a])
  then have "tables_ok d3"
    using \<open>in64 tot\<close> by (intro insert_order_tables_ok[OF o]) (auto simp: new_order_def)
  then have "tables_ok d4" by (rule insert_items_tables_ok[OF i])
  then have "tables_ok d5" by (rule insert_ledger_tables_ok[OF l])
  then show ?thesis by (rule DeleteByIDs_tables_ok[OF c])
qed

end
