(* ===== verification/Settlement.thy ===== *)
theory Settlement
  imports Tables
begin

text \<open>
  What an order owes the ledger. \<open>order_settled\<close>: the order has a payment of its total by its buyer,
  it has a refund of the same amount exactly when it is refunded, and its total is the sum of its
  items. The lemmas show that the checkout establishes it for the order it places and keeps it for
  every other, and what a repeated request is answered.
\<close>

definition item_total :: "item_row \<Rightarrow> int" where
  "item_total i = int64 (i_price i * i_qty i)"

definition pays :: "order_row \<Rightarrow> ledger_row \<Rightarrow> bool" where
  "pays r l \<longleftrightarrow> l_type l = OrderPay \<and> l_order l = Some (o_id r)"

definition refunds :: "order_row \<Rightarrow> ledger_row \<Rightarrow> bool" where
  "refunds r l \<longleftrightarrow> l_type l = OrderRefund \<and> l_order l = Some (o_id r)"

definition order_settled :: "db \<Rightarrow> order_row \<Rightarrow> bool" where
  "order_settled d r \<longleftrightarrow>
     (\<exists>l\<in>set (ledger d). pays r l) \<and>
     (\<forall>l\<in>set (ledger d). pays r l \<longrightarrow> l_user l = o_user r \<and> l_delta l = - o_total r) \<and>
     (o_status r = Refunded) = (\<exists>l\<in>set (ledger d). refunds r l) \<and>
     (\<forall>l\<in>set (ledger d). refunds r l \<longrightarrow> l_user l = o_user r \<and> l_delta l = o_total r) \<and>
     o_total r = sum_list (map item_total (items_of d (o_id r))) \<and> items_of d (o_id r) \<noteq> []"

definition orders_settled :: "db \<Rightarrow> bool" where
  "orders_settled d \<longleftrightarrow> (\<forall>r\<in>set (orders d). order_settled d r)"

definition shop_ok :: "db \<Rightarrow> bool" where
  "shop_ok d \<longleftrightarrow> tables_ok d \<and> accounts_settled d \<and> orders_settled d"

lemma order_settled_cong:
  assumes "order_settled d r" and "o_id s = o_id r" and "o_user s = o_user r"
    and "o_total s = o_total r" and "(o_status s = Refunded) = (o_status r = Refunded)"
    and "ledger d' = ledger d" and "order_items d' = order_items d"
  shows "order_settled d' s"
  using assms by (simp add: order_settled_def pays_def refunds_def items_of_def)

text \<open>An entry that is neither a payment nor a refund of an order does not concern it.\<close>

lemma order_settled_other:
  assumes "order_settled d r" and "ledger d' = ledger d @ [l]" and "\<not> pays r l" and "\<not> refunds r l"
    and "items_of d' (o_id r) = items_of d (o_id r)"
  shows "order_settled d' r"
  using assms by (auto simp: order_settled_def)

lemma orders_settled_frame:
  assumes "orders_settled d" and "orders d' = orders d" and "ledger d' = ledger d"
    and "order_items d' = order_items d"
  shows "orders_settled d'"
  using assms order_settled_cong unfolding orders_settled_def by metis

text \<open>Payments and refunds of an order are unique, by the indexes.\<close>

lemma pays_unique:
  "ledger_ok d \<Longrightarrow> l \<in> set (ledger d) \<Longrightarrow> m \<in> set (ledger d) \<Longrightarrow> pays r l \<Longrightarrow> pays r m \<Longrightarrow> l = m"
  by (rule ledger_distinct) (auto simp: ledger_conflict_def pays_def)

lemma refunds_unique:
  "ledger_ok d \<Longrightarrow> l \<in> set (ledger d) \<Longrightarrow> m \<in> set (ledger d) \<Longrightarrow> refunds r l \<Longrightarrow> refunds r m \<Longrightarrow> l = m"
  by (rule ledger_distinct) (auto simp: ledger_conflict_def refunds_def)

section \<open>The order a checkout places\<close>

lemma new_items_orders: "i \<in> set (new_items env pm rows) \<Longrightarrow> i_order i = e_order env"
  by (simp add: new_items_def number_items_fields(5))

lemma new_items_total:
  assumes "price_lines pm 0 [] rows = Inr (tot, its)"
  shows "sum_list (map item_total (new_items env pm rows)) = tot"
proof -
  have "map item_total (new_items env pm rows) = map item_total (map (draft pm) rows)"
    using number_items_fields(4) by (simp add: new_items_def item_total_def[abs_def])
  moreover have "item_total (draft pm c) = line_total pm c" if "c \<in> set rows" for c
    using price_lines_ok[OF assms] that
    by (auto simp: max_int64_def purchasable_def draft_def line_total_def item_total_def)
  ultimately have "map item_total (new_items env pm rows) = map (line_total pm) rows" by simp
  then show ?thesis using price_lines_ok[OF assms] by (simp add: max_int64_def)
qed

lemma items_of_new:
  assumes "items_ok d" and "e_order env \<notin> o_id ` set (orders d)"
  shows "items_of (d\<lparr>order_items := order_items d @ new_items env pm rows\<rparr>) (e_order env) =
    new_items env pm rows"
proof -
  have "filter (\<lambda>x. i_order x = e_order env) (order_items d) = []"
    using assms unfolding items_ok_def item_fits_def filter_empty_conv by metis
  moreover have "filter (\<lambda>x. i_order x = e_order env) (new_items env pm rows) = new_items env pm rows"
    by (simp add: filter_id_conv new_items_orders)
  ultimately show ?thesis by (simp add: items_of_def)
qed

lemma items_of_old:
  assumes "i \<noteq> e_order env"
  shows "items_of (d\<lparr>order_items := order_items d @ new_items env pm rows\<rparr>) i = items_of d i"
  using assms by (auto simp: items_of_def filter_empty_conv new_items_orders)

lemma placed_fresh:
  assumes "placed env u key req addr rows pm tot d d1 d'"
  shows "e_order env \<notin> o_id ` set (orders d)" and "e_no env \<notin> o_no ` set (orders d)"
    and "(u, key) \<notin> (\<lambda>r. (o_user r, o_token r)) ` set (orders d)"
    and "order_lengths (new_order env u key req addr rows tot)" and "0 < tot"
proof -
  from assms obtain d2 b d3 where s: "each DecrementStock (order_lines rows) d = Inr d1"
    and a: "AdjustBalance u (- tot) d1 = Inr (b, d2)"
    and o: "insert_order (new_order env u key req addr rows tot) d2 = Inr d3"
    by (auto simp: placed_def)
  have "orders d1 = orders d"
    using each_stock_only[OF stock_step_Decrement s] by (auto simp: stock_only_def)
  then have "orders d2 = orders d" using AdjustBalance_cases[OF a] by auto
  then show "e_order env \<notin> o_id ` set (orders d)" "e_no env \<notin> o_no ` set (orders d)"
    "(u, key) \<notin> (\<lambda>r. (o_user r, o_token r)) ` set (orders d)"
    "order_lengths (new_order env u key req addr rows tot)" "0 < tot"
    using o by (auto simp: insert_order_eq_Inr new_order_def order_checks_def)
qed

lemma ledger_order_known:
  "ledger_ok d \<Longrightarrow> l \<in> set (ledger d) \<Longrightarrow> l_order l = Some i \<Longrightarrow> i \<in> o_id ` set (orders d)"
  by (auto simp: ledger_ok_def ledger_row_ok_def ledger_fks_def dest!: bspec)

lemma placed_orders_settled:
  assumes pl: "placed env u key req addr rows pm tot d d1 d'" and r: "find_user u d = Some r"
    and ok: "tables_ok d" "orders_settled d" and rows: "rows \<noteq> []"
  shows "orders_settled d'"
  unfolding orders_settled_def
proof
  fix s
  assume s: "s \<in> set (orders d')"
  note db = placed_db[OF pl r]
  have fresh: "e_order env \<notin> o_id ` set (orders d)" by (rule placed_fresh[OF pl])
  have iok: "items_ok d" and lok: "ledger_ok d" using ok(1) by (auto simp: tables_ok_def)
  let ?l = "pay_entry env u tot (u_balance r - tot)" and ?n = "new_order env u key req addr rows tot"
  have led: "ledger d' = ledger d @ [?l]" and its: "order_items d' = order_items d @ new_items env pm rows"
    and ors: "orders d' = orders d @ [?n]"
    using db(1) by simp_all
  have items: "items_of d' i = (if i = e_order env then new_items env pm rows else items_of d i)" for i
    using items_of_new[OF iok fresh] items_of_old[of i env d pm rows] its by (simp add: items_of_def)
  show "order_settled d' s"
  proof (cases "s = ?n")
    case True
    have none: "l_order l \<noteq> Some (e_order env)" if "l \<in> set (ledger d)" for l
      using ledger_order_known[OF lok that] fresh by auto
    have "price_lines pm 0 [] rows = Inr (tot, map (draft pm) rows)" using pl by (simp add: placed_def)
    then have "sum_list (map item_total (new_items env pm rows)) = tot" by (rule new_items_total)
    moreover have "new_items env pm rows \<noteq> []" using rows by (cases rows) (auto simp: new_items_def)
    ultimately show ?thesis
      using none unfolding True
      by (auto simp: order_settled_def led items pays_def refunds_def new_order_def pay_entry_def)
  next
    case False
    then have old: "s \<in> set (orders d)" using s ors by auto
    then have ne: "o_id s \<noteq> e_order env" using fresh by (metis imageI)
    have "\<not> pays s ?l" "\<not> refunds s ?l" using ne by (auto simp: pays_def refunds_def pay_entry_def)
    moreover have "order_settled d s" using ok(2) old by (simp add: orders_settled_def)
    moreover have "items_of d' (o_id s) = items_of d (o_id s)" using items ne by simp
    ultimately show ?thesis using order_settled_other[OF _ led] by blast
  qed
qed

lemma balance_of_frame: "users d' = users d \<Longrightarrow> balance_of d' = balance_of d"
  by (simp add: balance_of_def find_user_def fun_eq_iff)

lemma statement_of_frame: "ledger d' = ledger d \<Longrightarrow> statement_of d' = statement_of d"
  by (simp add: statement_of_def fun_eq_iff)

lemma accounts_settled_frame:
  "accounts_settled d \<Longrightarrow> users d' = users d \<Longrightarrow> ledger d' = ledger d \<Longrightarrow> accounts_settled d'"
  unfolding accounts_settled_def
  by (erule acc.settle_frame) (erule balance_of_frame, erule statement_of_frame)

lemma placed_accounts_settled:
  assumes "placed env u key req addr rows pm tot d d1 d'" and "find_user u d = Some r"
    and "accounts_settled d"
  shows "accounts_settled d'"
proof -
  from assms(1) obtain b d2 d3 d4 d5 where
    p: "price_lines pm 0 [] rows = Inr (tot, map (draft pm) rows)" and
    s: "each DecrementStock (order_lines rows) d = Inr d1" and
    a: "AdjustBalance u (- tot) d1 = Inr (b, d2)" and
    o: "insert_order (new_order env u key req addr rows tot) d2 = Inr d3" and
    i: "insert_items (new_items env pm rows) d3 = Inr d4" and
    l: "insert_ledger (pay_entry env u tot b) d4 = Inr d5" and
    c: "DeleteByIDs u (CartItemIDs req) d5 = Inr d'"
    by (auto simp: placed_def)
  have n: "in64 (- tot)" using price_lines_ok[OF p] by (auto simp: in64_def max_int64_def)
  have d1: "users d1 = users d" "ledger d1 = ledger d"
    using each_stock_only[OF stock_step_Decrement s] by (auto simp: stock_only_def)
  have "settled balance_of statement_of d1"
    using accounts_settled_frame[OF assms(3) d1] by (simp add: accounts_settled_def)
  moreover have "balance_of d1 u = Some (u_balance r)"
    using assms(2) d1(1) by (simp add: balance_of_def find_user_def)
  moreover have "users d4 = users d2" "ledger d4 = ledger d2"
    using o i by (auto simp: insert_order_eq_Inr insert_items_eq_Inr)
  ultimately have "settled balance_of statement_of d5"
    using acc.settle[OF _ n _ a _ _ l] balance_of_frame[of d4 d2] statement_of_frame[of d4 d2]
    by (simp add: pay_entry_def)
  then show ?thesis
    using c accounts_settled_frame[of d5 d']
    by (auto simp: accounts_settled_def DeleteByIDs_def Let_def split: if_splits)
qed

text \<open>The checkout keeps the shop in order, whatever the first read saw.\<close>

lemma Execute_shop_ok:
  assumes "shop_ok d"
  shows "shop_ok (snd (Execute env u key req early d))"
proof -
  obtain res d' where ex: "Execute env u key req early d = (res, d')" by (cases "Execute env u key req early d")
  have "shop_ok d'"
    using Execute_cases[OF ex]
  proof
    assume "\<exists>v. res = Inr v \<and> create_tx env u key req early d = Inr (v, d')"
    then obtain v where "create_tx env u key req early d = Inr (v, d')" by blast
    then show ?thesis
    proof (cases rule: create_tx_cases)
      case (new r addr rows ps tot d1)
      then show ?thesis
        using assms LockCartForOrder_rows(4)[OF new(4)] placed_tables_ok[OF new(6)]
          placed_accounts_settled[OF new(6,2)] placed_orders_settled[OF new(6,2)]
        by (auto simp: shop_ok_def tables_ok_def)
    qed (use assms in simp)
  qed (use assms in simp)
  then show ?thesis by (simp add: ex)
qed

end
