(* ===== verification/Roles.thy ===== *)
theory Roles
  imports AuditLog Product
begin

text \<open>
  The roles half of \<open>internal/admin/service.go\<close>: the permission codes of a role, the roles a
  super administrator creates and edits, and the projection of an administrator the usecases read
  the acting role from. The permission gate reads \<open>rolePermissions\<close> on every request, so what
  matters is that it fails closed on a code outside the seed list, and that it reads back exactly
  what \<open>CreateRole\<close> and \<open>UpdateRole\<close> were given.
\<close>

section \<open>Permission codes\<close>

definition seededPermissions :: "string list" where
  "seededPermissions = [''product:read'', ''product:write'', ''image:write'', ''order:read'',
     ''order:ship'', ''refund:read'', ''refund:approve'', ''points:adjust'', ''role:manage'',
     ''admin:self'', ''user:read'', ''audit:read'', ''coupon:read'', ''coupon:write'']"

definition seeded :: "string \<Rightarrow> bool" where
  "seeded c \<longleftrightarrow> List.member seededPermissions c"

fun permission_loop :: "string set \<Rightarrow> string list \<Rightarrow> string list \<Rightarrow> err + string list" where
  "permission_loop seen out [] = Inr out"
| "permission_loop seen out (code # codes) =
     (let code = trim_space code in
      if code = [] then Inl (ErrUnknownPermission ''blank permission code'')
      else if \<not> seeded code then Inl (ErrUnknownPermission code)
      else if code \<in> seen then permission_loop seen out codes
      else permission_loop (insert code seen) (out @ [code]) codes)"

definition normalizePermissionCodes :: "string list \<Rightarrow> err + string list" where
  "normalizePermissionCodes codes =
     (if length codes = 0 then Inr [] else permission_loop {} [] codes)"

text \<open>\<open>JOIN role_permissions rp ON rp.permission_id = p.id WHERE rp.role_id = r\<close>.\<close>

definition granted :: "uid \<Rightarrow> db \<Rightarrow> permission_row list" where
  "granted r d = concat (map (\<lambda>p. map (\<lambda>_. p)
     (filter (\<lambda>rp. rp_permission rp = m_id p \<and> rp_role rp = r) (role_permissions d))) (permissions d))"

fun collect_codes :: "string set \<Rightarrow> string list \<Rightarrow> string list \<Rightarrow> err + string list" where
  "collect_codes seen out [] = Inr out"
| "collect_codes seen out (c # cs) =
     (if \<not> seeded c then Inl (ErrUnknownPermission c)
      else if c \<in> seen then collect_codes seen out cs
      else collect_codes (insert c seen) (out @ [c]) cs)"

definition rolePermissions :: "uid \<Rightarrow> db \<Rightarrow> err + string list" where
  "rolePermissions r d = collect_codes {} [] (map m_code (sort_key m_id (granted r d)))"

fun all_seeded :: "string list \<Rightarrow> err + unit" where
  "all_seeded [] = Inr ()"
| "all_seeded (c # cs) = (if \<not> seeded c then Inl (ErrUnknownPermission c) else all_seeded cs)"

definition ensureAllPermissionsAreSeeded :: "uid \<Rightarrow> db \<Rightarrow> err + unit" where
  "ensureAllPermissionsAreSeeded r d = all_seeded (map m_code (granted r d))"

section \<open>Administrators and their roles\<close>

record admin_view =
  av_id :: uid
  av_username :: string
  av_role :: uid
  av_role_name :: string
  av_permissions :: "string list"
  av_enabled :: bool
  av_version :: int

definition find_admin :: "uid \<Rightarrow> db \<Rightarrow> admin_row option" where
  "find_admin i d = find (\<lambda>a. ad_id a = i) (admins d)"

definition find_role :: "uid \<Rightarrow> db \<Rightarrow> role_row option" where
  "find_role i d = find (\<lambda>r. r_id r = i) (roles d)"

text \<open>\<open>adminRoleNameForRead\<close> on the preloaded role.\<close>

definition preloaded_role_name :: "admin_row \<Rightarrow> db \<Rightarrow> string" where
  "preloaded_role_name a d = (case find_role (ad_role a) d of None \<Rightarrow> [] | Some r \<Rightarrow> r_name r)"

definition FindByID :: "uid \<Rightarrow> db \<Rightarrow> err + admin_view" where
  "FindByID i d = (case find_admin i d of
     None \<Rightarrow> Inl ErrAdminNotFound
   | Some a \<Rightarrow> sbind (rolePermissions (ad_role a) d) (\<lambda>permissions.
       Inr \<lparr>av_id = ad_id a, av_username = ad_username a, av_role = ad_role a,
         av_role_name = preloaded_role_name a d, av_permissions = permissions,
         av_enabled = ad_enabled a, av_version = ad_version a\<rparr>))"

definition PermissionsForAdmin :: "uid \<Rightarrow> db \<Rightarrow> err + string list" where
  "PermissionsForAdmin i d =
     (if i = 0 then Inl ErrAdminNotFound
      else case find_admin i d of
          None \<Rightarrow> Inl ErrAdminNotFound
        | Some a \<Rightarrow> rolePermissions (ad_role a) d)"

definition RoleNameByID :: "uid \<Rightarrow> db \<Rightarrow> err + string" where
  "RoleNameByID i d =
     (if i = 0 then Inl ErrUnknownRole
      else case find_role i d of None \<Rightarrow> Inl ErrUnknownRole | Some r \<Rightarrow> Inr (r_name r))"

record role_view =
  rv_id :: uid
  rv_name :: string
  rv_permissions :: "string list"

fun role_views :: "db \<Rightarrow> role_row list \<Rightarrow> err + role_view list" where
  "role_views d [] = Inr []"
| "role_views d (r # rs) =
     sbind (rolePermissions (r_id r) d) (\<lambda>permissions.
     sbind (role_views d rs) (\<lambda>out.
     Inr (\<lparr>rv_id = r_id r, rv_name = r_name r, rv_permissions = permissions\<rparr> # out)))"

definition ListRoles :: "db \<Rightarrow> err + role_view list" where
  "ListRoles d = role_views d (sort_key r_id (roles d))"

section \<open>Creating and editing roles\<close>

definition insert_role :: "role_row \<Rightarrow> db \<Rightarrow> err + db" where
  "insert_role r d =
     sbind (insert_checked (rune_count (r_name r) \<le> 32) True
        (list_all (\<lambda>s. r_id s \<noteq> r_id r \<and> r_name s \<noteq> r_name r) (roles d)) True r (roles d))
      (\<lambda>t. Inr (d\<lparr>roles := t\<rparr>))"

definition insert_role_permission :: "role_permission_row \<Rightarrow> db \<Rightarrow> err + db" where
  "insert_role_permission r d =
     sbind (insert_checked True True (r \<notin> set (role_permissions d))
        (rp_role r \<in> r_id ` set (roles d) \<and> rp_permission r \<in> m_id ` set (permissions d))
        r (role_permissions d))
      (\<lambda>t. Inr (d\<lparr>role_permissions := t\<rparr>))"

fun insert_role_permissions :: "role_permission_row list \<Rightarrow> db \<Rightarrow> err + db" where
  "insert_role_permissions [] d = Inr d"
| "insert_role_permissions (r # rs) d =
     sbind (insert_role_permission r d) (insert_role_permissions rs)"

fun rows_by_code ::
  "uid \<Rightarrow> (string \<Rightarrow> uid option) \<Rightarrow> string list \<Rightarrow> err + role_permission_row list" where
  "rows_by_code r byCode [] = Inr []"
| "rows_by_code r byCode (c # cs) = (case byCode c of
     None \<Rightarrow> Inl (ErrUnknownPermission c)
   | Some i \<Rightarrow> sbind (rows_by_code r byCode cs) (\<lambda>rows.
       Inr (\<lparr>rp_role = r, rp_permission = i\<rparr> # rows)))"

definition replaceRolePermissions :: "uid \<Rightarrow> string list \<Rightarrow> db \<Rightarrow> err + db" where
  "replaceRolePermissions r codes d =
     (let d1 = d\<lparr>role_permissions := delete_where (\<lambda>rp. rp_role rp = r) (role_permissions d)\<rparr> in
      if length codes = 0 then Inr d1
      else
        let perms = filter (\<lambda>p. List.member codes (m_code p)) (permissions d1);
            byCode = map_of (rev (map (\<lambda>p. (m_code p, m_id p)) perms))
        in sbind (rows_by_code r byCode codes) (\<lambda>rows. insert_role_permissions rows d1))"

text \<open>\<open>CreateRole\<close>; \<open>i\<close> and \<open>ai\<close> are the generated ids of the role and of the audit row.\<close>

definition valid_role_name :: "string \<Rightarrow> bool" where
  "valid_role_name name \<longleftrightarrow> name \<noteq> [] \<and> length name \<le> 32"

definition create_role_tx :: "uid \<Rightarrow> uid \<Rightarrow> actor \<Rightarrow> string \<Rightarrow> string list \<Rightarrow> role_view tx" where
  "create_role_tx i ai act name perms d =
     sbind (case insert_role \<lparr>r_id = i, r_name = name\<rparr> d of
         Inl e \<Rightarrow> if is_unique_violation e then Inl ErrRoleExists else Inl e
       | Inr d1 \<Rightarrow> Inr d1) (\<lambda>d1.
     sbind (replaceRolePermissions i perms d1) (\<lambda>d2.
     sbind (write_audit ai \<lparr>ActorAdminID = Some (AdminID act), ActorRole = RoleName act,
         Action = ''role.create'', TargetType = ''role'', TargetID = Some i, Result = ''success'',
         BeforeData = [],
         AfterData = [(''name'', AStr name), (''permissions'', AStrs perms)]\<rparr> d2) (\<lambda>d3.
     Inr (\<lparr>rv_id = i, rv_name = name, rv_permissions = perms\<rparr>, d3))))"

definition CreateRole ::
  "uid \<Rightarrow> uid \<Rightarrow> actor \<Rightarrow> string \<Rightarrow> string list \<Rightarrow> db \<Rightarrow> (err + role_view) \<times> db" where
  "CreateRole i ai act raw codes d =
     (let name = trim_space raw in
      if \<not> valid_role_name name then (Inl ErrInvalidRoleName, d)
      else case normalizePermissionCodes codes of
          Inl e \<Rightarrow> (Inl e, d)
        | Inr perms \<Rightarrow> commit (create_role_tx i ai act name perms) d)"

text \<open>\<open>UpdateRole\<close>. The statement that renames carries the unique index of \<open>roles.name\<close>.\<close>

definition rename_role :: "uid \<Rightarrow> string \<Rightarrow> db \<Rightarrow> err + db" where
  "rename_role i name d =
     (if list_ex (\<lambda>s. r_name s = name \<and> r_id s \<noteq> i) (roles d) then Inl ErrRoleExists
      else Inr (d\<lparr>roles := update_where (\<lambda>r. r_id r = i) (\<lambda>r. r\<lparr>r_name := name\<rparr>) (roles d)\<rparr>))"

definition target_name :: "role_row \<Rightarrow> string option \<Rightarrow> db \<Rightarrow> err + string" where
  "target_name role name d = (case name of
     None \<Rightarrow> Inr (r_name role)
   | Some raw \<Rightarrow>
       let n = trim_space raw in
       if \<not> valid_role_name n then Inl ErrInvalidRoleName
       else if affected (\<lambda>s. r_name s = n \<and> r_id s \<noteq> r_id role) (roles d) > 0 then Inl ErrRoleExists
       else Inr n)"

definition update_role_tx ::
  "uid \<Rightarrow> actor \<Rightarrow> uid \<Rightarrow> string option \<Rightarrow> string list option \<Rightarrow> role_view tx" where
  "update_role_tx ai act i name codes d =
     sbind (case find_role i d of None \<Rightarrow> Inl ErrRoleNotFound | Some r \<Rightarrow> Inr r) (\<lambda>role.
     sbind (rolePermissions (r_id role) d) (\<lambda>before.
     sbind (target_name role name d) (\<lambda>targetName.
     sbind (case codes of None \<Rightarrow> Inr before | Some cs \<Rightarrow> normalizePermissionCodes cs) (\<lambda>perms.
     sbind (if targetName \<noteq> r_name role then rename_role (r_id role) targetName d else Inr d) (\<lambda>d1.
     sbind (case codes of None \<Rightarrow> Inr d1 | Some _ \<Rightarrow> replaceRolePermissions (r_id role) perms d1) (\<lambda>d2.
     sbind (write_audit ai \<lparr>ActorAdminID = Some (AdminID act), ActorRole = RoleName act,
         Action = ''role.update'', TargetType = ''role'', TargetID = Some (r_id role),
         Result = ''success'',
         BeforeData = [(''name'', AStr (r_name role)), (''permissions'', AStrs before)],
         AfterData = [(''name'', AStr targetName), (''permissions'', AStrs perms)]\<rparr> d2) (\<lambda>d3.
     Inr (\<lparr>rv_id = r_id role, rv_name = targetName, rv_permissions = perms\<rparr>, d3))))))))"

definition UpdateRole ::
  "uid \<Rightarrow> actor \<Rightarrow> uid \<Rightarrow> string option \<Rightarrow> string list option \<Rightarrow> db \<Rightarrow> (err + role_view) \<times> db" where
  "UpdateRole ai act i name codes d =
     (if name = None \<and> codes = None then (Inl ErrRoleUpdateEmpty, d)
      else if i = 0 then (Inl ErrRoleNotFound, d)
      else commit (update_role_tx ai act i name codes) d)"


section \<open>What the codes are\<close>

fun dedup :: "'a set \<Rightarrow> 'a list \<Rightarrow> 'a list" where
  "dedup S [] = []"
| "dedup S (x # xs) = (if x \<in> S then dedup S xs else x # dedup (insert x S) xs)"

lemma set_dedup: "set (dedup S xs) = set xs - S"
  by (induction S xs rule: dedup.induct) auto

lemma distinct_dedup: "distinct (dedup S xs)"
  by (induction S xs rule: dedup.induct) (auto simp: set_dedup)

lemma dedup_id: "distinct xs \<Longrightarrow> S \<inter> set xs = {} \<Longrightarrow> dedup S xs = xs"
  by (induction S xs rule: dedup.induct) auto

lemma seeded_iff: "seeded c \<longleftrightarrow> c \<in> set seededPermissions"
  by (simp add: seeded_def)

lemma trim_seeded: "seeded c \<Longrightarrow> trim_space c = c"
proof -
  assume "seeded c"
  then have "ascii c \<and> strip (\<lambda>c. byte c \<in> {9, 10, 11, 12, 13, 32}) c = c"
    unfolding seeded_iff seededPermissions_def
    by (auto simp: ascii_def byte_def intro!: strip_id)
  then show "trim_space c = c" by (simp add: trim_space_ascii)
qed

lemma collect_codes_eq:
  "collect_codes seen out cs = (case find (\<lambda>c. \<not> seeded c) cs of
     None \<Rightarrow> Inr (out @ dedup seen cs) | Some c \<Rightarrow> Inl (ErrUnknownPermission c))"
  by (induction seen out cs rule: collect_codes.induct) (auto split: option.splits)

lemma permission_loop_Inr:
  "permission_loop seen out cs = Inr r \<longleftrightarrow>
   (\<forall>c\<in>set cs. seeded (trim_space c)) \<and> r = out @ dedup seen (map trim_space cs)"
proof (induction seen out cs rule: permission_loop.induct)
  case (2 seen out code codes)
  have "\<not> seeded []" by (simp add: seeded_iff seededPermissions_def)
  then show ?case using 2 by (auto simp: Let_def)
qed auto

lemma normalizePermissionCodes_Inr:
  "normalizePermissionCodes cs = Inr r \<longleftrightarrow>
   (\<forall>c\<in>set cs. seeded (trim_space c)) \<and> r = dedup {} (map trim_space cs)"
  by (auto simp: normalizePermissionCodes_def permission_loop_Inr)

lemma normalizePermissionCodes_seeded:
  "normalizePermissionCodes cs = Inr r \<Longrightarrow> distinct r \<and> (\<forall>c\<in>set r. seeded c)"
  by (auto simp: normalizePermissionCodes_Inr distinct_dedup set_dedup)

lemma normalizePermissionCodes_again:
  "normalizePermissionCodes cs = Inr r \<Longrightarrow> normalizePermissionCodes r = Inr r"
proof -
  assume r: "normalizePermissionCodes cs = Inr r"
  then have s: "\<forall>c\<in>set r. seeded c" "distinct r" using normalizePermissionCodes_seeded by auto
  then have "map trim_space r = r" by (auto intro: map_idI trim_seeded)
  then show ?thesis using s trim_seeded by (simp add: normalizePermissionCodes_Inr dedup_id)
qed

lemma set_granted: "set (granted r d) =
  {p \<in> set (permissions d). \<exists>rp\<in>set (role_permissions d). rp_permission rp = m_id p \<and> rp_role rp = r}"
  by (auto simp: granted_def)

lemma find_None_all: "find P xs = None \<longleftrightarrow> (\<forall>x\<in>set xs. \<not> P x)"
  by (induction xs) auto

lemma rolePermissions_Inr:
  "rolePermissions r d = Inr ps \<longleftrightarrow> (\<forall>p\<in>set (granted r d). seeded (m_code p)) \<and>
     ps = dedup {} (map m_code (sort_key m_id (granted r d)))"
  by (auto simp: rolePermissions_def collect_codes_eq find_None_all split: option.splits
      dest!: find_SomeD)

text \<open>Fail closed: what the gate reads is a set of seeded codes, and it is what was granted.\<close>

lemma rolePermissions_set:
  "rolePermissions r d = Inr ps \<Longrightarrow> set ps = m_code ` set (granted r d) \<and> distinct ps \<and>
     (\<forall>c\<in>set ps. seeded c)"
  by (auto simp: rolePermissions_Inr set_dedup distinct_dedup)

lemma rolePermissions_Inl:
  "rolePermissions r d = Inl e \<Longrightarrow> \<exists>p\<in>set (granted r d). \<not> seeded (m_code p) \<and>
     e = ErrUnknownPermission (m_code p)"
  by (auto simp: rolePermissions_def collect_codes_eq split: option.splits dest!: find_SomeD)

section \<open>The tables stay well formed\<close>

definition roles_ok :: "db \<Rightarrow> bool" where
  "roles_ok d \<longleftrightarrow> distinct (map r_id (roles d)) \<and> distinct (map r_name (roles d)) \<and>
     (\<forall>r\<in>set (roles d). rune_count (r_name r) \<le> 32) \<and>
     distinct (map m_id (permissions d)) \<and> distinct (map m_code (permissions d)) \<and>
     distinct (role_permissions d) \<and>
     (\<forall>rp\<in>set (role_permissions d). rp_role rp \<in> r_id ` set (roles d) \<and>
        rp_permission rp \<in> m_id ` set (permissions d))"

lemma roles_ok_frame:
  "roles_ok d \<Longrightarrow> roles d' = roles d \<Longrightarrow> permissions d' = permissions d \<Longrightarrow>
   role_permissions d' = role_permissions d \<Longrightarrow> roles_ok d'"
  by (simp add: roles_ok_def)

lemma insert_role_eq_Inr [tx_elims]:
  "insert_role r d = Inr d' \<longleftrightarrow> rune_count (r_name r) \<le> 32 \<and>
   (\<forall>s\<in>set (roles d). r_id s \<noteq> r_id r \<and> r_name s \<noteq> r_name r) \<and>
   d' = d\<lparr>roles := roles d @ [r]\<rparr>"
  by (auto simp: insert_role_def tx_elims list_all_iff)

lemma insert_role_permission_eq_Inr [tx_elims]:
  "insert_role_permission r d = Inr d' \<longleftrightarrow> r \<notin> set (role_permissions d) \<and>
   rp_role r \<in> r_id ` set (roles d) \<and> rp_permission r \<in> m_id ` set (permissions d) \<and>
   d' = d\<lparr>role_permissions := role_permissions d @ [r]\<rparr>"
  by (auto simp: insert_role_permission_def tx_elims)

lemma insert_role_permissions_eq_Inr:
  "insert_role_permissions rs d = Inr d' \<longleftrightarrow> distinct rs \<and>
   (\<forall>r\<in>set rs. r \<notin> set (role_permissions d) \<and> rp_role r \<in> r_id ` set (roles d) \<and>
      rp_permission r \<in> m_id ` set (permissions d)) \<and>
   d' = d\<lparr>role_permissions := role_permissions d @ rs\<rparr>"
  by (induction rs arbitrary: d) (auto simp: sbind_eq_Inr insert_role_permission_eq_Inr)

lemma rows_by_code_Inr:
  "rows_by_code r f cs = Inr rows \<longleftrightarrow> (\<forall>c\<in>set cs. f c \<noteq> None) \<and>
   rows = map (\<lambda>c. \<lparr>rp_role = r, rp_permission = the (f c)\<rparr>) cs"
  by (induction cs arbitrary: rows) (auto simp: sbind_eq_Inr split: option.splits)

text \<open>A replacement drops the role's rows and plants one for each code, and nothing else.\<close>

lemma replaceRolePermissions_Inr:
  assumes "replaceRolePermissions r codes d = Inr d'"
  obtains ids where "length ids = length codes"
    "d' = d\<lparr>role_permissions := delete_where (\<lambda>rp. rp_role rp = r) (role_permissions d) @
       map (\<lambda>i. \<lparr>rp_role = r, rp_permission = i\<rparr>) ids\<rparr>"
    "\<forall>k<length codes. \<exists>p\<in>set (permissions d). m_code p = codes ! k \<and> m_id p = ids ! k"
proof (cases "codes = []")
  case True
  then show ?thesis using assms that[of "[]"] by (simp add: replaceRolePermissions_def)
next
  case False
  let ?perms = "filter (\<lambda>p. List.member codes (m_code p)) (permissions d)"
  let ?f = "map_of (rev (map (\<lambda>p. (m_code p, m_id p)) ?perms))"
  let ?ids = "map (\<lambda>c. the (?f c)) codes"
  from assms False have some: "\<forall>c\<in>set codes. ?f c \<noteq> None"
    and d': "d' = d\<lparr>role_permissions := delete_where (\<lambda>rp. rp_role rp = r) (role_permissions d) @
       map (\<lambda>i. \<lparr>rp_role = r, rp_permission = i\<rparr>) ?ids\<rparr>"
    by (auto simp: replaceRolePermissions_def Let_def sbind_eq_Inr insert_role_permissions_eq_Inr
        rows_by_code_Inr comp_def)
  have "\<exists>p\<in>set (permissions d). m_code p = c \<and> m_id p = the (?f c)" if "c \<in> set codes" for c
  proof -
    from some that obtain v where v: "?f c = Some v" by blast
    then have "(c, v) \<in> set (rev (map (\<lambda>p. (m_code p, m_id p)) ?perms))" by (rule map_of_SomeD)
    then show ?thesis unfolding v by auto
  qed
  then show ?thesis using that[of ?ids] d' by simp
qed

lemma replaceRolePermissions_other:
  assumes "replaceRolePermissions r codes d = Inr d'" and "s \<noteq> r"
  shows "granted s d' = granted s d"
proof -
  obtain ids where d': "d' = d\<lparr>role_permissions :=
      delete_where (\<lambda>rp. rp_role rp = r) (role_permissions d) @
       map (\<lambda>i. \<lparr>rp_role = r, rp_permission = i\<rparr>) ids\<rparr>"
    using replaceRolePermissions_Inr[OF assms(1)] by metis
  have "filter (\<lambda>rp. P rp \<and> rp_role rp = s) (delete_where (\<lambda>rp. rp_role rp = r) t) =
      filter (\<lambda>rp. P rp \<and> rp_role rp = s) t" for P and t :: "role_permission_row list"
    using assms(2) unfolding delete_where_def by (induction t) auto
  then show ?thesis using assms(2) by (simp add: granted_def d' filter_map comp_def)
qed

text \<open>What the gate reads of the role afterwards is exactly what it was given.\<close>

lemma replaceRolePermissions_reads:
  assumes "replaceRolePermissions r codes d = Inr d'" and "distinct (map m_id (permissions d))"
    and "\<forall>c\<in>set codes. seeded c"
  shows "\<exists>ps. rolePermissions r d' = Inr ps \<and> set ps = set codes"
proof -
  obtain ids where l: "length ids = length codes"
    and d': "d' = d\<lparr>role_permissions := delete_where (\<lambda>rp. rp_role rp = r) (role_permissions d) @
       map (\<lambda>i. \<lparr>rp_role = r, rp_permission = i\<rparr>) ids\<rparr>"
    and k: "\<forall>k<length codes. \<exists>p\<in>set (permissions d). m_code p = codes ! k \<and> m_id p = ids ! k"
    using replaceRolePermissions_Inr[OF assms(1)] by metis
  have "(\<exists>rp\<in>set (role_permissions d'). rp_permission rp = m \<and> rp_role rp = r) \<longleftrightarrow> m \<in> set ids" for m
  proof
    assume "m \<in> set ids"
    then have "\<lparr>rp_role = r, rp_permission = m\<rparr> \<in> set (role_permissions d')" by (simp add: d')
    then show "\<exists>rp\<in>set (role_permissions d'). rp_permission rp = m \<and> rp_role rp = r"
      by (rule bexI[rotated]) simp
  next
    assume "\<exists>rp\<in>set (role_permissions d'). rp_permission rp = m \<and> rp_role rp = r"
    then obtain rp where "rp \<in> (\<lambda>i. \<lparr>rp_role = r, rp_permission = i\<rparr>) ` set ids"
      "rp_permission rp = m"
      by (auto simp: d')
    then show "m \<in> set ids" by (elim imageE) simp
  qed
  then have "set (granted r d') = {p \<in> set (permissions d). m_id p \<in> set ids}"
    by (simp add: set_granted d')
  also have "m_code ` \<dots> = set codes"
  proof (intro equalityI subsetI)
    fix c
    assume "c \<in> m_code ` {p \<in> set (permissions d). m_id p \<in> set ids}"
    then obtain p j where p: "p \<in> set (permissions d)" "c = m_code p" "j < length codes" "m_id p = ids ! j"
      using l by (auto simp: in_set_conv_nth[where xs = ids])
    then obtain q where "q \<in> set (permissions d)" "m_code q = codes ! j" "m_id q = ids ! j"
      using k by blast
    then have "p = q" using p distinct_map_unique[OF assms(2)] by simp
    then show "c \<in> set codes" using p \<open>m_code q = codes ! j\<close> by simp
  next
    fix c
    assume "c \<in> set codes"
    then obtain j where j: "j < length codes" "codes ! j = c" by (auto simp: in_set_conv_nth[where xs = codes])
    then obtain p where "p \<in> set (permissions d)" "m_code p = c" "m_id p = ids ! j" using k by blast
    moreover have "ids ! j \<in> set ids" using j l by simp
    ultimately show "c \<in> m_code ` {p \<in> set (permissions d). m_id p \<in> set ids}" by auto
  qed
  finally have codes: "m_code ` set (granted r d') = set codes" .
  then have "\<forall>p\<in>set (granted r d'). seeded (m_code p)" using assms(3) by (metis imageI)
  then show ?thesis using codes by (simp add: rolePermissions_Inr set_dedup)
qed

lemma replaceRolePermissions_ok:
  assumes "replaceRolePermissions r codes d = Inr d'" and "roles_ok d"
  shows "roles_ok d'"
  using assms
  by (auto simp: replaceRolePermissions_def Let_def sbind_eq_Inr insert_role_permissions_eq_Inr
      roles_ok_def delete_where_def split: if_splits)

text \<open>The role operations: the role is left with exactly the requested name and codes.\<close>

lemma granted_frame:
  "permissions d' = permissions d \<Longrightarrow> role_permissions d' = role_permissions d \<Longrightarrow>
   granted r d' = granted r d"
  by (simp add: granted_def)

lemma rolePermissions_frame:
  "permissions d' = permissions d \<Longrightarrow> role_permissions d' = role_permissions d \<Longrightarrow>
   rolePermissions r d' = rolePermissions r d"
  by (simp add: rolePermissions_def granted_def)

lemma CreateRole_cases:
  assumes "CreateRole i ai act raw codes d = (Inr v, d')"
  obtains perms d1 d2 t where "valid_role_name (trim_space raw)"
    "normalizePermissionCodes codes = Inr perms"
    "insert_role \<lparr>r_id = i, r_name = trim_space raw\<rparr> d = Inr d1"
    "replaceRolePermissions i perms d1 = Inr d2"
    "v = \<lparr>rv_id = i, rv_name = trim_space raw, rv_permissions = perms\<rparr>"
    "d' = d2\<lparr>audit_logs := t\<rparr>"
proof -
  let ?n = "trim_space raw"
  have name: "valid_role_name ?n" using assms by (auto simp: CreateRole_def Let_def split: if_splits)
  then obtain perms where n: "normalizePermissionCodes codes = Inr perms"
    using assms by (cases "normalizePermissionCodes codes") (simp_all add: CreateRole_def Let_def)
  then have tx: "create_role_tx i ai act ?n perms d = Inr (v, d')"
    using assms name by (simp add: CreateRole_def Let_def commit_ok)
  then obtain d1 where i: "insert_role \<lparr>r_id = i, r_name = ?n\<rparr> d = Inr d1"
    by (cases "insert_role \<lparr>r_id = i, r_name = ?n\<rparr> d")
       (simp_all add: create_role_tx_def split: if_splits)
  then obtain d2 where r: "replaceRolePermissions i perms d1 = Inr d2"
    using tx by (cases "replaceRolePermissions i perms d1") (simp_all add: create_role_tx_def)
  then obtain t where "d' = d2\<lparr>audit_logs := t\<rparr>"
    "v = \<lparr>rv_id = i, rv_name = ?n, rv_permissions = perms\<rparr>"
    using tx i by (simp add: create_role_tx_def sbind_eq_Inr write_audit_eq_Inr) metis
  then show thesis using that[OF name n i r] by blast
qed

lemma CreateRole_ok:
  assumes "roles_ok d"
  shows "roles_ok (snd (CreateRole i ai act raw codes d))"
proof (cases "CreateRole i ai act raw codes d")
  case (Pair r d')
  show ?thesis
  proof (cases r)
    case (Inl e)
    then have "d' = d" using Pair
      by (auto simp: CreateRole_def Let_def commit_failed split: if_splits sum.splits)
    then show ?thesis using assms Pair by simp
  next
    case (Inr v)
    then obtain perms d1 d2 t where "insert_role \<lparr>r_id = i, r_name = trim_space raw\<rparr> d = Inr d1"
      and r: "replaceRolePermissions i perms d1 = Inr d2" and d': "d' = d2\<lparr>audit_logs := t\<rparr>"
      using CreateRole_cases Pair by metis
    then have "roles_ok d1"
      using assms by (auto simp: roles_ok_def insert_role_eq_Inr)
    then have "roles_ok d2" by (rule replaceRolePermissions_ok[OF r])
    then show ?thesis using Pair d' by (simp add: roles_ok_def)
  qed
qed

lemma CreateRole_reads:
  assumes "roles_ok d" and "CreateRole i ai act raw codes d = (Inr v, d')"
  shows "\<exists>ps. rolePermissions i d' = Inr ps \<and> set ps = trim_space ` set codes"
    and "find_role i d' = Some \<lparr>r_id = i, r_name = trim_space raw\<rparr>"
    and "\<And>s. s \<noteq> i \<Longrightarrow> rolePermissions s d' = rolePermissions s d"
proof -
  obtain perms d1 d2 t where n: "normalizePermissionCodes codes = Inr perms"
    and i: "insert_role \<lparr>r_id = i, r_name = trim_space raw\<rparr> d = Inr d1"
    and r: "replaceRolePermissions i perms d1 = Inr d2" and d': "d' = d2\<lparr>audit_logs := t\<rparr>"
    using CreateRole_cases[OF assms(2)] by metis
  have p: "permissions d' = permissions d2" "role_permissions d' = role_permissions d2"
    "roles d' = roles d2"
    by (simp_all add: d')
  have d1: "permissions d1 = permissions d" "role_permissions d1 = role_permissions d"
    "roles d1 = roles d @ [\<lparr>r_id = i, r_name = trim_space raw\<rparr>]" "i \<notin> r_id ` set (roles d)"
    using i by (auto simp: insert_role_eq_Inr)
  have perms: "\<forall>c\<in>set perms. seeded c" "set perms = trim_space ` set codes"
    using n by (auto simp: normalizePermissionCodes_Inr set_dedup)
  have "distinct (map m_id (permissions d1))" using assms(1) d1 by (simp add: roles_ok_def)
  then show "\<exists>ps. rolePermissions i d' = Inr ps \<and> set ps = trim_space ` set codes"
    using replaceRolePermissions_reads[OF r _ perms(1)] perms(2) p rolePermissions_frame[of d' d2] by simp
  have "roles d2 = roles d1" using replaceRolePermissions_Inr[OF r] by (metis db.ext_inject db.surjective db.update_convs(13))
  then show "find_role i d' = Some \<lparr>r_id = i, r_name = trim_space raw\<rparr>"
    using p(3) d1(3,4) find_key_None[of r_id i "roles d"] by (simp add: find_role_def find_append)
  fix s
  assume "s \<noteq> i"
  then have "granted s d' = granted s d"
    using replaceRolePermissions_other[OF r] granted_frame[of d' d2] granted_frame[of d1 d] p d1 by simp
  then show "rolePermissions s d' = rolePermissions s d" by (simp add: rolePermissions_def)
qed

lemma UpdateRole_cases:
  assumes "UpdateRole ai act i name codes d = (Inr v, d')"
  obtains role before n perms d1 d2 t where "find_role i d = Some role"
    "rolePermissions i d = Inr before" "target_name role name d = Inr n"
    "(case codes of None \<Rightarrow> Inr before | Some cs \<Rightarrow> normalizePermissionCodes cs) = Inr perms"
    "(if n \<noteq> r_name role then rename_role i n d else Inr d) = Inr d1"
    "(case codes of None \<Rightarrow> Inr d1 | Some _ \<Rightarrow> replaceRolePermissions i perms d1) = Inr d2"
    "v = \<lparr>rv_id = i, rv_name = n, rv_permissions = perms\<rparr>" "d' = d2\<lparr>audit_logs := t\<rparr>"
proof -
  have tx: "update_role_tx ai act i name codes d = Inr (v, d')"
    using assms by (auto simp: UpdateRole_def commit_ok split: if_splits)
  then obtain role where f: "find_role i d = Some role"
    by (cases "find_role i d") (simp_all add: update_role_tx_def)
  then have "r_id role = i" by (auto simp: find_role_def dest: find_SomeD)
  then show thesis
    using tx f that unfolding update_role_tx_def
    by (simp add: sbind_eq_Inr write_audit_eq_Inr) blast
qed

lemma rename_role_ok:
  assumes "roles_ok d" and "rename_role i n d = Inr d'" and "rune_count n \<le> 32"
  shows "roles_ok d'"
proof -
  let ?t = "update_where (\<lambda>r. r_id r = i) (\<lambda>r. r\<lparr>r_name := n\<rparr>) (roles d)"
  from assms(2) have d': "d' = d\<lparr>roles := ?t\<rparr>" and u: "\<forall>s\<in>set (roles d). r_name s = n \<longrightarrow> r_id s = i"
    by (auto simp: rename_role_def list_ex_iff split: if_splits)
  have ids: "map r_id ?t = map r_id (roles d)" by (simp add: map_update_where)
  have "inj_on r_name (set ?t)"
  proof (rule inj_onI)
    fix r s
    assume r: "r \<in> set ?t" and s: "s \<in> set ?t" and eq: "r_name r = r_name s"
    have "inj_on r_id (set ?t)" using assms(1) ids by (metis distinct_map roles_ok_def)
    moreover have "r_id r = r_id s"
      using r s eq u assms(1)
      by (auto simp: set_update_where roles_ok_def dest: distinct_map_unique split: if_splits)
    ultimately show "r = s" using r s by (simp add: inj_on_eq_iff)
  qed
  moreover have "distinct ?t" using assms(1) ids by (metis distinct_map roles_ok_def)
  ultimately have "distinct (map r_name ?t)" by (simp add: distinct_map)
  moreover have "r_id ` set ?t = r_id ` set (roles d)" using ids by (metis set_map)
  ultimately show ?thesis
    using assms(1,3) ids by (auto simp: roles_ok_def d' set_update_where)
qed

lemma valid_role_name_length: "valid_role_name n \<Longrightarrow> rune_count n \<le> 32"
  using rune_count_le_length[of n] by (simp add: valid_role_name_def)

lemma target_name_Inr:
  "target_name role name d = Inr n \<Longrightarrow>
   n = (case name of None \<Rightarrow> r_name role | Some raw \<Rightarrow> trim_space raw) \<and>
   (name \<noteq> None \<longrightarrow> valid_role_name n)"
  by (auto simp: target_name_def Let_def split: option.splits if_splits)

lemma find_role_id: "find_role i d = Some r \<Longrightarrow> r_id r = i"
  by (auto simp: find_role_def dest: find_SomeD)

lemma rename_role_other:
  assumes "rename_role i n d = Inr d1"
  shows "find_role i d1 = map_option (\<lambda>r. r\<lparr>r_name := n\<rparr>) (find_role i d)"
    and "permissions d1 = permissions d" and "role_permissions d1 = role_permissions d"
  using assms find_role_id[of i d]
  by (auto simp: rename_role_def find_role_def find_update_where split: if_splits
      intro!: option.map_cong0 dest: find_SomeD)

lemma UpdateRole_reads:
  assumes ok: "roles_ok d" and up: "UpdateRole ai act i name codes d = (Inr v, d')"
    and role: "find_role i d = Some role" and before: "rolePermissions i d = Inr before"
  shows "roles_ok d'"
    and "\<exists>ps. rolePermissions i d' = Inr ps \<and>
      set ps = (case codes of None \<Rightarrow> set before | Some cs \<Rightarrow> trim_space ` set cs)"
    and "find_role i d' =
      Some (role\<lparr>r_name := (case name of None \<Rightarrow> r_name role | Some raw \<Rightarrow> trim_space raw)\<rparr>)"
    and "\<And>s. s \<noteq> i \<Longrightarrow> rolePermissions s d' = rolePermissions s d"
proof -
  obtain n perms d1 d2 t where n: "target_name role name d = Inr n"
    and p: "(case codes of None \<Rightarrow> Inr before | Some cs \<Rightarrow> normalizePermissionCodes cs) = Inr perms"
    and d1: "(if n \<noteq> r_name role then rename_role i n d else Inr d) = Inr d1"
    and d2: "(case codes of None \<Rightarrow> Inr d1 | Some _ \<Rightarrow> replaceRolePermissions i perms d1) = Inr d2"
    and d': "d' = d2\<lparr>audit_logs := t\<rparr>"
    using UpdateRole_cases[OF up] role before by (metis Inr_inject option.inject)
  note nn = target_name_Inr[OF n]
  have ok1: "roles_ok d1"
    using d1 ok nn rename_role_ok valid_role_name_length by (auto split: if_splits option.splits)
  have f1: "find_role i d1 = Some (role\<lparr>r_name := n\<rparr>)"
    "permissions d1 = permissions d" "role_permissions d1 = role_permissions d"
    using d1 role rename_role_other by (auto split: if_splits)
  have r1: "rolePermissions s d1 = rolePermissions s d" for s
    using rolePermissions_frame f1(2,3) by blast
  have rd: "find_role s d' = find_role s d2" "rolePermissions s d' = rolePermissions s d2"
    "roles_ok d' = roles_ok d2" for s
    by (simp_all add: d' find_role_def rolePermissions_def granted_def roles_ok_def)
  have "roles_ok d' \<and> (\<exists>ps. rolePermissions i d' = Inr ps \<and>
      set ps = (case codes of None \<Rightarrow> set before | Some cs \<Rightarrow> trim_space ` set cs)) \<and>
    find_role i d' = Some (role\<lparr>r_name := n\<rparr>) \<and>
    (\<forall>s. s \<noteq> i \<longrightarrow> rolePermissions s d' = rolePermissions s d)"
  proof (cases codes)
    case None
    then have "d2 = d1" using d2 by simp
    then show ?thesis
      using None ok1 rd r1 f1(1) before by simp
  next
    case (Some cs)
    then have r: "replaceRolePermissions i perms d1 = Inr d2" using d2 by simp
    have seeds: "\<forall>c\<in>set perms. seeded c" "set perms = trim_space ` set cs"
      using p Some by (auto simp: normalizePermissionCodes_Inr set_dedup)
    have "distinct (map m_id (permissions d1))" using ok1 by (simp add: roles_ok_def)
    then obtain ps where ps: "rolePermissions i d2 = Inr ps" "set ps = set perms"
      using replaceRolePermissions_reads[OF r _ seeds(1)] by blast
    obtain u where "d2 = d1\<lparr>role_permissions := u\<rparr>" using replaceRolePermissions_Inr[OF r] by metis
    then have "find_role i d2 = find_role i d1" by (simp add: find_role_def)
    moreover have "roles_ok d2" by (rule replaceRolePermissions_ok[OF r ok1])
    moreover have "rolePermissions s d2 = rolePermissions s d1" if "s \<noteq> i" for s
      using replaceRolePermissions_other[OF r that] by (simp add: rolePermissions_def)
    ultimately show ?thesis
      using Some ps seeds(2) rd r1 f1(1) by simp
  qed
  then show "roles_ok d'" and "\<exists>ps. rolePermissions i d' = Inr ps \<and>
      set ps = (case codes of None \<Rightarrow> set before | Some cs \<Rightarrow> trim_space ` set cs)"
    and "find_role i d' =
      Some (role\<lparr>r_name := (case name of None \<Rightarrow> r_name role | Some raw \<Rightarrow> trim_space raw)\<rparr>)"
    and "\<And>s. s \<noteq> i \<Longrightarrow> rolePermissions s d' = rolePermissions s d"
    using nn by auto
qed

text \<open>
  The permission gate fails closed: what \<open>PermissionsForAdmin\<close> answers is, without repetition,
  exactly the codes granted to the administrator's current role and every one of them is on the seed
  list; when a granted code is not on it, the answer is an error naming such a code.
\<close>

theorem PermissionsForAdmin_fails_closed:
  assumes "find_admin i d = Some a" and "i \<noteq> 0"
  shows "case PermissionsForAdmin i d of
      Inr ps \<Rightarrow> distinct ps \<and> set ps \<subseteq> set seededPermissions \<and>
        set ps = m_code ` set (granted (ad_role a) d)
    | Inl e \<Rightarrow> \<exists>p\<in>set (granted (ad_role a) d). \<not> List.member seededPermissions (m_code p) \<and>
        e = ErrUnknownPermission (m_code p)"
  using assms rolePermissions_set[of "ad_role a" d] rolePermissions_Inl[of "ad_role a" d]
  by (auto simp: PermissionsForAdmin_def seeded_iff seeded_def split: sum.splits)

definition roles_demo :: db where
  "roles_demo = empty_db\<lparr>
     admins := [\<lparr>ad_id = 41, ad_username = ''root'', ad_hash = ''h'', ad_version = 1, ad_role = 51,
       ad_enabled = True, ad_last_login = None\<rparr>],
     roles := [\<lparr>r_id = 51, r_name = ''ops''\<rparr>, \<lparr>r_id = 52, r_name = ''old''\<rparr>],
     permissions := [\<lparr>m_id = 61, m_code = ''order:ship''\<rparr>, \<lparr>m_id = 62, m_code = ''refund:approve''\<rparr>],
     role_permissions := [\<lparr>rp_role = 51, rp_permission = 61\<rparr>]\<rparr>"

theorem PermissionsForAdmin_fails_closed_witness:
  "PermissionsForAdmin 41 roles_demo = Inr [''order:ship''] \<and>
   m_code ` set (granted 51 roles_demo) = {''order:ship''}"
proof -
  have p: "PermissionsForAdmin 41 roles_demo = Inr [''order:ship'']" by code_simp
  have "find_admin 41 roles_demo = Some (hd (admins roles_demo))" by code_simp
  moreover have "ad_role (hd (admins roles_demo)) = 51" by (simp add: roles_demo_def)
  ultimately show ?thesis
    using PermissionsForAdmin_fails_closed[of 41 roles_demo "hd (admins roles_demo)"] p by simp
qed

text \<open>
  C24: What a role is given is what the gate reads: after \<open>UpdateRole\<close> succeeds, the role carries
  the trimmed new name or its old one, its permissions are the requested codes, or the old ones when
  none were requested, every other role keeps its permissions, and the tables stay consistent.
\<close>

theorem UpdateRole_effect:
  assumes "roles_ok d" and "UpdateRole ai act i name codes d = (Inr v, d')"
    and "find_role i d = Some role" and "rolePermissions i d = Inr before"
  shows "roles_ok d' \<and>
    (\<exists>ps. rolePermissions i d' = Inr ps \<and>
      set ps = (case codes of None \<Rightarrow> set before | Some cs \<Rightarrow> trim_space ` set cs)) \<and>
    find_role i d' =
      Some (role\<lparr>r_name := (case name of None \<Rightarrow> r_name role | Some raw \<Rightarrow> trim_space raw)\<rparr>) \<and>
    (\<forall>s. s \<noteq> i \<longrightarrow> rolePermissions s d' = rolePermissions s d)"
  using UpdateRole_reads[OF assms] by blast

theorem UpdateRole_effect_witness:
  "\<exists>d' ps. rolePermissions 51 d' = Inr ps \<and> set ps = {''refund:approve''} \<and>
     snd (UpdateRole 99 \<lparr>AdminID = 41, RoleName = ''ops''\<rparr> 51 None (Some ['' refund:approve'']) roles_demo) = d'"
proof -
  let ?r = "UpdateRole 99 \<lparr>AdminID = 41, RoleName = ''ops''\<rparr> 51 None (Some ['' refund:approve'']) roles_demo"
  have "\<not> isl (fst ?r)" by code_simp
  then obtain v where v: "?r = (Inr v, snd ?r)" by (metis prod.collapse sum.collapse(2))
  have ok: "roles_ok roles_demo" by code_simp
  have role: "find_role 51 roles_demo = Some \<lparr>r_id = 51, r_name = ''ops''\<rparr>" by code_simp
  have before: "rolePermissions 51 roles_demo = Inr [''order:ship'']" by code_simp
  have t: "trim_space '' refund:approve'' = ''refund:approve''" by code_simp
  from UpdateRole_effect[OF ok v role before] t show ?thesis by auto
qed

end
