(* ===== verification/Fulfillment.thy ===== *)
theory Fulfillment
  imports Settlement Roles
begin

text \<open>
  \<open>internal/application/order/fulfillment.go\<close>: shipping by an administrator and confirmation by the
  buyer. The acting role is resolved first, outside the transaction; a refused transition of an
  administrator leaves a failure row in the audit log, written in a transaction of its own whose
  errors are only logged. \<open>ai\<close> and \<open>fi\<close> are the generated ids of the success and the failure row,
  \<open>wired\<close> tells whether a role resolver was configured. \<open>refund.go\<close> and \<open>adjust.go\<close> repeat
  \<open>resolveRole\<close>, \<open>sameOr\<close> and \<open>recordFailure\<close> word for word but for the payload.
\<close>

definition status_text :: "order_status \<Rightarrow> string" where
  "status_text s = (case s of Paid \<Rightarrow> ''paid'' | Shipped \<Rightarrow> ''shipped'' | Completed \<Rightarrow> ''completed''
     | RefundRequested \<Rightarrow> ''refund_requested'' | Refunded \<Rightarrow> ''refunded'')"

definition sameOr :: "string \<Rightarrow> string \<Rightarrow> string" where
  "sameOr value fallback = (if trim_space value = [] then fallback else value)"

definition resolveRole :: "bool \<Rightarrow> uid \<Rightarrow> db \<Rightarrow> err + string" where
  "resolveRole wired adminID d =
     (if \<not> wired then Inr ''admin''
      else sbind (FindByID adminID d) (\<lambda>view.
        if trim_space (av_role_name view) = [] then Inr ''admin'' else Inr (av_role_name view)))"

definition failure_tx :: "uid \<Rightarrow> uid \<Rightarrow> string \<Rightarrow> uid \<Rightarrow> string \<Rightarrow> err \<Rightarrow> unit tx" where
  "failure_tx fi adminID roleName orderID action reason d =
     sbind (write_audit fi \<lparr>ActorAdminID = Some adminID, ActorRole = sameOr roleName ''admin'',
         Action = action, TargetType = ''order'', TargetID = Some orderID, Result = ''failure'',
         BeforeData = [], AfterData = [(''reason'', AStr (err_text reason))]\<rparr> d) (\<lambda>d'. Inr ((), d'))"

definition recordFailure ::
  "uid \<Rightarrow> uid \<Rightarrow> string \<Rightarrow> uid \<Rightarrow> string \<Rightarrow> err \<Rightarrow> db \<Rightarrow> db" where
  "recordFailure fi adminID roleName orderID action reason d =
     snd (commit (failure_tx fi adminID roleName orderID action reason) d)"

section \<open>Ship\<close>

definition ship_row :: "uid \<Rightarrow> time \<Rightarrow> order_row \<Rightarrow> order_row" where
  "ship_row adminID now r = r\<lparr>o_status := Shipped, o_shipped_by := Some adminID,
     o_shipped_at := Some now\<rparr>"

definition ship_tx :: "uid \<Rightarrow> time \<Rightarrow> uid \<Rightarrow> string \<Rightarrow> uid \<Rightarrow> order_view tx" where
  "ship_tx ai now adminID roleName orderID d =
     sbind (LockForUpdate orderID d) (\<lambda>row.
     sbind (require (o_status row = Paid) ErrOrderStateConflict) (\<lambda>_.
     sbind (UpdateFields (\<lambda>r. o_id r = o_id row) (ship_row adminID now) d) (\<lambda>d1.
     sbind (write_audit ai \<lparr>ActorAdminID = Some adminID, ActorRole = roleName,
         Action = ''order.ship'', TargetType = ''order'', TargetID = Some (o_id row),
         Result = ''success'', BeforeData = [],
         AfterData = [(''status'', AStr (status_text Shipped)), (''order_no'', AStr (o_no row)),
           (''shipped_at'', ATime now)]\<rparr> d1) (\<lambda>d2.
     Inr (ToOrder (ship_row adminID now row), d2)))))"

text \<open>What the three administrator operations on an order share around their transaction.\<close>

definition admin_order_op ::
  "bool \<Rightarrow> uid \<Rightarrow> uid \<Rightarrow> uid \<Rightarrow> string \<Rightarrow> (string \<Rightarrow> order_view tx) \<Rightarrow> db
   \<Rightarrow> (err + order_view) \<times> db" where
  "admin_order_op wired fi adminID orderID action body d =
     (if adminID = 0 \<or> orderID = 0 then (Inl ErrOrderNotFound, d)
      else case resolveRole wired adminID d of
          Inl e \<Rightarrow> (Inl e, d)
        | Inr roleName \<Rightarrow>
          (case commit (body roleName) d of
             (Inr v, d') \<Rightarrow> (Inr v, d')
           | (Inl e, d') \<Rightarrow>
             if e = ErrOrderStateConflict
             then (Inl e, recordFailure fi adminID roleName orderID action e d')
             else (Inl e, d')))"

definition Ship ::
  "bool \<Rightarrow> uid \<Rightarrow> uid \<Rightarrow> time \<Rightarrow> uid \<Rightarrow> uid \<Rightarrow> db \<Rightarrow> (err + order_view) \<times> db" where
  "Ship wired ai fi now adminID orderID d =
     admin_order_op wired fi adminID orderID ''order.ship''
       (\<lambda>roleName. ship_tx ai now adminID roleName orderID) d"

section \<open>Confirm\<close>

definition confirm_row :: "time \<Rightarrow> order_row \<Rightarrow> order_row" where
  "confirm_row now r = r\<lparr>o_status := Completed, o_completed_at := Some now\<rparr>"

definition confirm_tx :: "time \<Rightarrow> uid \<Rightarrow> uid \<Rightarrow> order_view tx" where
  "confirm_tx now userID orderID d =
     sbind (LockForUpdateByUser userID orderID d) (\<lambda>row.
     sbind (require (o_status row = Shipped) ErrOrderStateConflict) (\<lambda>_.
     sbind (UpdateFields (\<lambda>r. o_id r = o_id row \<and> o_user r = userID) (confirm_row now) d) (\<lambda>d1.
     Inr (ToOrder (confirm_row now row), d1))))"

definition Confirm :: "time \<Rightarrow> uid \<Rightarrow> uid \<Rightarrow> db \<Rightarrow> (err + order_view) \<times> db" where
  "Confirm now userID orderID d =
     (if userID = 0 \<or> orderID = 0 then (Inl ErrOrderNotFound, d)
      else commit (confirm_tx now userID orderID) d)"

section \<open>The shape of an order transition\<close>

text \<open>
  Every operation on an order that is there reads one row, checks its status, writes the same row
  and appends to the audit log; the approval of a refund also moves points and stock.
  \<open>moved f d d'\<close> is the part they share: one order, found by its id, is replaced by \<open>f\<close> of it.
\<close>

definition one_order :: "uid \<Rightarrow> order_row \<Rightarrow> db \<Rightarrow> bool" where
  "one_order i r d \<longleftrightarrow> r \<in> set (orders d) \<and> o_id r = i"

definition with_order :: "(order_row \<Rightarrow> order_row) \<Rightarrow> uid \<Rightarrow> db \<Rightarrow> db" where
  "with_order f i d = d\<lparr>orders := update_where (\<lambda>r. o_id r = i) f (orders d)\<rparr>"

lemma LockForUpdate_Inr [tx_elims]:
  "LockForUpdate i d = Inr row \<longleftrightarrow> (\<exists>r. find (\<lambda>r. o_id r = i) (orders d) = Some r \<and>
     row = preload_items d r)"
  by (auto simp: LockForUpdate_def find_order_def split: option.splits)

lemma LockForUpdateByUser_Inr [tx_elims]:
  "LockForUpdateByUser u i d = Inr row \<longleftrightarrow> (\<exists>r. find (\<lambda>r. o_id r = i \<and> o_user r = u) (orders d) = Some r \<and>
     row = preload_items d r)"
  by (auto simp: LockForUpdateByUser_def find_order_def split: option.splits)

lemma preload_fields [simp]:
  "o_id (preload_items d r) = o_id r" "o_status (preload_items d r) = o_status r"
  "o_user (preload_items d r) = o_user r" "o_no (preload_items d r) = o_no r"
  "o_total (preload_items d r) = o_total r" "o_shipped_by (preload_items d r) = o_shipped_by r"
  "o_items (preload_items d r) = items_of d (o_id r)"
  by (simp_all add: preload_items_def)

lemma update_where_cong:
  "(\<And>r. r \<in> set t \<Longrightarrow> P r = Q r) \<Longrightarrow> (\<And>r. r \<in> set t \<Longrightarrow> Q r \<Longrightarrow> f r = g r) \<Longrightarrow>
   update_where P f t = update_where Q g t"
  by (auto simp: update_where_def)

text \<open>An update whose condition names the row's id and facts of that row is an update by id.\<close>

lemma UpdateFields_by_id:
  assumes "UpdateFields P f d = Inr d'" and "distinct (map o_id (orders d))"
    and "r \<in> set (orders d)" and "P r" and "\<And>s. P s \<Longrightarrow> o_id s = o_id r"
  shows "d' = with_order f (o_id r) d"
proof -
  have "P s \<longleftrightarrow> o_id s = o_id r" if "s \<in> set (orders d)" for s
    using assms(3-5) that distinct_map_unique[OF assms(2)] by metis
  then have "update_where P f (orders d) = update_where (\<lambda>s. o_id s = o_id r) f (orders d)"
    by (intro update_where_cong) auto
  then show ?thesis using assms(1) by (simp add: tx_elims with_order_def)
qed

lemma ship_tx_cases:
  assumes "ship_tx ai now adminID roleName orderID d = Inr (v, d')" and "orders_ok d"
  obtains r d1 t where "one_order orderID r d" "o_status r = Paid"
    "UpdateFields (\<lambda>s. o_id s = o_id r) (ship_row adminID now) d = Inr d1"
    "d1 = with_order (ship_row adminID now) orderID d" "d' = d1\<lparr>audit_logs := t\<rparr>"
    "v = ToOrder (ship_row adminID now (preload_items d r))"
proof -
  from assms(1) obtain r d1 t where r: "find (\<lambda>r. o_id r = orderID) (orders d) = Some r" "o_status r = Paid"
    and u: "UpdateFields (\<lambda>s. o_id s = o_id r) (ship_row adminID now) d = Inr d1"
    and d': "d' = d1\<lparr>audit_logs := t\<rparr>" and v: "v = ToOrder (ship_row adminID now (preload_items d r))"
    unfolding ship_tx_def
    by (elim sbind_InrE write_audit_only) (auto simp: LockForUpdate_Inr require_eq_Inr)
  have s: "r \<in> set (orders d)" "o_id r = orderID" using find_SomeD[OF r(1)] by auto
  then have "d1 = with_order (ship_row adminID now) orderID d"
    using UpdateFields_by_id[OF u _ s(1)] assms(2) by (simp add: orders_ok_def)
  then show thesis using that[of r d1 t] s r(2) u d' v by (simp add: one_order_def)
qed

lemma confirm_tx_cases:
  assumes "confirm_tx now userID orderID d = Inr (v, d')" and "orders_ok d"
  obtains r where "one_order orderID r d" "o_status r = Shipped" "o_user r = userID"
    "UpdateFields (\<lambda>s. o_id s = o_id r \<and> o_user s = userID) (confirm_row now) d = Inr d'"
    "d' = with_order (confirm_row now) orderID d"
    "v = ToOrder (confirm_row now (preload_items d r))"
proof -
  from assms(1) obtain r where r: "find (\<lambda>r. o_id r = orderID \<and> o_user r = userID) (orders d) = Some r"
      "o_status r = Shipped"
    and u: "UpdateFields (\<lambda>s. o_id s = o_id r \<and> o_user s = userID) (confirm_row now) d = Inr d'"
    and v: "v = ToOrder (confirm_row now (preload_items d r))"
    unfolding confirm_tx_def
    by (elim sbind_InrE) (auto simp: LockForUpdateByUser_Inr require_eq_Inr)
  have s: "r \<in> set (orders d)" "o_id r = orderID" "o_user r = userID" using find_SomeD[OF r(1)] by auto
  then have "d' = with_order (confirm_row now) orderID d"
    using UpdateFields_by_id[OF u _ s(1)] assms(2) by (simp add: orders_ok_def)
  then show thesis using that[of r] s r(2) u v by (simp add: one_order_def)
qed

section \<open>The shop stays in order\<close>

interpretation refusal: recorder "recordFailure fi adminID roleName orderID action reason"
  for fi adminID roleName orderID action reason
  unfolding recordFailure_def by (rule recorder_commit) (simp add: failure_tx_def)

lemmas recordFailure_cases = refusal.only_log

lemma shop_ok_audit: "shop_ok d \<Longrightarrow> shop_ok (d\<lparr>audit_logs := t\<rparr>)"
  unfolding shop_ok_def
  by (auto intro: tables_ok_frame accounts_settled_frame orders_settled_frame)

lemma admin_order_op_cases:
  assumes "admin_order_op wired fi adminID orderID action body d = (res, d')"
  obtains (ok) roleName v where "res = Inr v" "body roleName d = Inr (v, d')" "adminID \<noteq> 0" "orderID \<noteq> 0"
    "resolveRole wired adminID d = Inr roleName"
  | (refused) e t where "res = Inl e" "d' = d\<lparr>audit_logs := t\<rparr>"
proof -
  show thesis
  proof (cases "adminID = 0 \<or> orderID = 0 \<or> isl (resolveRole wired adminID d)")
    case True
    then have "d' = d" "isl res" using assms by (auto simp: admin_order_op_def split: if_splits sum.splits)
    then show thesis using refused audit_same[of d] by (metis isl_def)
  next
    case False
    then obtain roleName where rn: "resolveRole wired adminID d = Inr roleName"
      by (cases "resolveRole wired adminID d") auto
    show thesis
    proof (cases "body roleName d")
      case (Inl e)
      then have "res = Inl e" and "d' = d \<or> d' = recordFailure fi adminID roleName orderID action e d"
        using assms False rn by (auto simp: admin_order_op_def commit_def split: if_splits)
      then show thesis using refused audit_same recordFailure_cases by metis
    next
      case (Inr p)
      then show thesis using assms False rn ok[of "fst p" roleName]
        by (cases p) (auto simp: admin_order_op_def commit_def)
    qed
  qed
qed

text \<open>Moving an order between states other than refunded disturbs nothing it owes.\<close>

lemma shop_ok_with_order:
  assumes ok: "shop_ok d" and u: "UpdateFields P f d = Inr d'" and w: "d' = with_order f i d"
    and f: "keeps_identity f"
    and st: "\<And>r. one_order i r d \<Longrightarrow> (o_status (f r) = Refunded) = (o_status r = Refunded)"
  shows "shop_ok d'"
proof -
  have "tables_ok d'" using UpdateFields_tables_ok[OF u _ f] ok by (simp add: shop_ok_def)
  moreover have "accounts_settled d'"
    using ok accounts_settled_frame[of d d'] by (simp add: shop_ok_def w with_order_def)
  moreover have "order_settled d' s" if "s \<in> set (orders d')" for s
  proof -
    obtain r where r: "r \<in> set (orders d)" "s = (if o_id r = i then f r else r)"
      using \<open>s \<in> set (orders d')\<close> by (auto simp: w with_order_def set_update_where)
    have "order_settled d r" using ok r(1) by (simp add: shop_ok_def orders_settled_def)
    then show ?thesis
      by (rule order_settled_cong)
         (use r f st[of r] in \<open>auto simp: keeps_identity_def one_order_def w with_order_def\<close>)
  qed
  ultimately show ?thesis by (simp add: shop_ok_def orders_settled_def)
qed

lemma keeps_identity_fulfillment [simp]:
  "keeps_identity (ship_row adminID now)" "keeps_identity (confirm_row now)"
  by (simp_all add: keeps_identity_def ship_row_def confirm_row_def)

lemma shop_ok_orders: "shop_ok d \<Longrightarrow> orders_ok d"
  by (simp add: shop_ok_def tables_ok_def)

lemma one_order_unique: "orders_ok d \<Longrightarrow> one_order i r d \<Longrightarrow> one_order i s d \<Longrightarrow> s = r"
  unfolding one_order_def orders_ok_def using distinct_map_unique by metis

lemma Ship_shop_ok:
  assumes "shop_ok d"
  shows "shop_ok (snd (Ship wired ai fi now adminID orderID d))"
proof -
  obtain res d' where ex: "Ship wired ai fi now adminID orderID d = (res, d')"
    by (cases "Ship wired ai fi now adminID orderID d")
  have "shop_ok d'"
    using ex unfolding Ship_def
  proof (cases rule: admin_order_op_cases)
    case (ok roleName v)
    from ok(2) shop_ok_orders[OF assms] show ?thesis
    proof (cases rule: ship_tx_cases)
      case (1 r d1 t)
      have "shop_ok d1"
        by (rule shop_ok_with_order[OF assms 1(3,4)])
           (use 1(1,2) in \<open>auto simp: ship_row_def dest: one_order_unique[OF shop_ok_orders[OF assms]]\<close>)
      then show ?thesis using 1(5) shop_ok_audit by simp
    qed
  qed (use assms shop_ok_audit in simp)
  then show ?thesis by (simp add: ex)
qed

lemma Confirm_shop_ok:
  assumes "shop_ok d"
  shows "shop_ok (snd (Confirm now userID orderID d))"
proof (cases "Confirm now userID orderID d")
  case (Pair res d')
  show ?thesis
  proof (cases res)
    case (Inl e)
    then show ?thesis using Pair assms by (auto simp: Confirm_def commit_failed split: if_splits)
  next
    case (Inr v)
    then have "confirm_tx now userID orderID d = Inr (v, d')"
      using Pair by (auto simp: Confirm_def commit_ok split: if_splits)
    then have "shop_ok d'"
      using shop_ok_orders[OF assms]
    proof (cases rule: confirm_tx_cases)
      case (1 r)
      show ?thesis
        by (rule shop_ok_with_order[OF assms 1(4,5)])
           (use 1(1,2) in \<open>auto simp: confirm_row_def dest: one_order_unique[OF shop_ok_orders[OF assms]]\<close>)
    qed
    then show ?thesis using Pair by simp
  qed
qed

end
