(* ===== verification/Refund.thy ===== *)
theory Refund
  imports Fulfillment
begin

text \<open>
  \<open>internal/application/refund/refund.go\<close>: the buyer's request, the approval that gives the points
  and the stock back, and the rejection.
\<close>

section \<open>Request\<close>

definition request_row :: "string \<Rightarrow> order_row \<Rightarrow> order_row" where
  "request_row reason r = r\<lparr>o_status := RefundRequested, o_refund_reason := reason,
     o_reject_reason := [], o_reviewed_by := None, o_reviewed_at := None\<rparr>"

definition refundable :: "order_status \<Rightarrow> bool" where
  "refundable s \<longleftrightarrow> s = Paid \<or> s = Shipped"

definition bad_reason :: "string \<Rightarrow> bool" where
  "bad_reason reason \<longleftrightarrow> reason = [] \<or> 255 < rune_count reason"

definition request_tx :: "uid \<Rightarrow> uid \<Rightarrow> string \<Rightarrow> order_view tx" where
  "request_tx userID orderID reason d =
     sbind (LockForUpdateByUser userID orderID d) (\<lambda>row.
     sbind (require (refundable (o_status row)) ErrOrderStateConflict) (\<lambda>_.
     sbind (UpdateFields (\<lambda>r. o_id r = o_id row \<and> o_user r = userID) (request_row reason) d) (\<lambda>d1.
     Inr (ToOrder (request_row reason row), d1))))"

definition RefundRequest :: "uid \<Rightarrow> uid \<Rightarrow> string \<Rightarrow> db \<Rightarrow> (err + order_view) \<times> db" where
  "RefundRequest userID orderID raw d =
     (let reason = trim_space raw in
      if bad_reason reason then (Inl ErrInvalidRefundReason, d)
      else if userID = 0 \<or> orderID = 0 then (Inl ErrOrderNotFound, d)
      else commit (request_tx userID orderID reason) d)"

section \<open>Approve\<close>

definition approve_row :: "uid \<Rightarrow> time \<Rightarrow> order_row \<Rightarrow> order_row" where
  "approve_row adminID now r = r\<lparr>o_status := Refunded, o_refunded_at := Some now,
     o_reviewed_by := Some adminID, o_reviewed_at := Some now\<rparr>"

definition translatePaymentError :: "err \<Rightarrow> err" where
  "translatePaymentError e = (if e = PaymentErrUserNotFound then ErrUserNotFound else e)"

definition item_products :: "item_row list \<Rightarrow> uid list" where
  "item_products items = map i_product items"

definition item_lines :: "item_row list \<Rightarrow> (uid \<times> int) list" where
  "item_lines items = map (\<lambda>i. (i_product i, i_qty i)) items"

definition restoredUnits :: "item_row list \<Rightarrow> int" where
  "restoredUnits items = foldl (\<lambda>n i. int32 (n + i_qty i)) 0 items"

definition refund_entry :: "(uid \<Rightarrow> string) \<Rightarrow> uid \<Rightarrow> time \<Rightarrow> int \<Rightarrow> order_row \<Rightarrow> ledger_row" where
  "refund_entry us adminID now newBalance row = \<lparr>l_id = 0, l_user = o_user row,
     l_order = Some (o_id row), l_event = OrderRefundEventKey us (o_id row), l_hash = None,
     l_type = OrderRefund, l_delta = o_total row, l_after = newBalance, l_admin = Some adminID,
     l_remark = o_no row, l_created = now\<rparr>"

definition approve_tx ::
  "(uid \<Rightarrow> string) \<Rightarrow> uid \<Rightarrow> uid \<Rightarrow> time \<Rightarrow> uid \<Rightarrow> string \<Rightarrow> uid \<Rightarrow> order_view tx" where
  "approve_tx us li ai now adminID roleName orderID d =
     sbind (LockForUpdate orderID d) (\<lambda>row.
     sbind (require (o_status row = RefundRequested) ErrOrderStateConflict) (\<lambda>_.
     sbind (translated translatePaymentError (LockUser (o_user row) d)) (\<lambda>_.
     sbind (LockByIDs (item_products (o_items row)) d) (\<lambda>_.
     sbind (translated translatePaymentError (AdjustBalance (o_user row) (o_total row) d))
       (\<lambda>(newBalance, d1).
     sbind (ledger_create li (refund_entry us adminID now newBalance row) d1) (\<lambda>d2.
     sbind (each IncrementStock (item_lines (o_items row)) d2) (\<lambda>d3.
     sbind (UpdateFields (\<lambda>r. o_id r = o_id row \<and> o_status r = RefundRequested)
       (approve_row adminID now) d3) (\<lambda>d4.
     sbind (write_audit ai \<lparr>ActorAdminID = Some adminID, ActorRole = roleName,
         Action = ''refund.approve'', TargetType = ''order'', TargetID = Some (o_id row),
         Result = ''success'', BeforeData = [],
         AfterData = [(''status'', AStr (status_text Refunded)), (''order_no'', AStr (o_no row)),
           (''total_points'', AInt (o_total row)), (''balance_after'', AInt newBalance),
           (''stock_restored'', AInt (restoredUnits (o_items row))),
           (''reviewed_at'', ATime now)]\<rparr> d4) (\<lambda>d5.
     Inr (ToOrder (approve_row adminID now row), d5))))))))))"

definition RefundApprove ::
  "bool \<Rightarrow> (uid \<Rightarrow> string) \<Rightarrow> uid \<Rightarrow> uid \<Rightarrow> uid \<Rightarrow> time \<Rightarrow> uid \<Rightarrow> uid \<Rightarrow> db
   \<Rightarrow> (err + order_view) \<times> db" where
  "RefundApprove wired us li ai fi now adminID orderID d =
     admin_order_op wired fi adminID orderID ''refund.approve''
       (\<lambda>roleName. approve_tx us li ai now adminID roleName orderID) d"

section \<open>Reject\<close>

definition reject_target :: "order_row \<Rightarrow> order_status" where
  "reject_target row = (if o_shipped_by row \<noteq> None then Shipped else Paid)"

definition reject_row :: "order_status \<Rightarrow> string \<Rightarrow> uid \<Rightarrow> time \<Rightarrow> order_row \<Rightarrow> order_row" where
  "reject_row target reason adminID now r = r\<lparr>o_status := target, o_reject_reason := reason,
     o_reviewed_by := Some adminID, o_reviewed_at := Some now\<rparr>"

definition reject_tx ::
  "uid \<Rightarrow> time \<Rightarrow> uid \<Rightarrow> string \<Rightarrow> uid \<Rightarrow> string \<Rightarrow> order_view tx" where
  "reject_tx ai now adminID roleName orderID reason d =
     sbind (LockForUpdate orderID d) (\<lambda>row.
     sbind (require (o_status row = RefundRequested) ErrOrderStateConflict) (\<lambda>_.
     let target = reject_target row in
     sbind (UpdateFields (\<lambda>r. o_id r = o_id row \<and> o_status r = RefundRequested)
       (reject_row target reason adminID now) d) (\<lambda>d1.
     sbind (write_audit ai \<lparr>ActorAdminID = Some adminID, ActorRole = roleName,
         Action = ''refund.reject'', TargetType = ''order'', TargetID = Some (o_id row),
         Result = ''success'', BeforeData = [],
         AfterData = [(''status'', AStr (status_text target)), (''order_no'', AStr (o_no row)),
           (''refund_reject_reason'', AStr reason), (''reviewed_at'', ATime now)]\<rparr> d1) (\<lambda>d2.
     Inr (ToOrder (reject_row target reason adminID now row), d2)))))"

definition RefundReject ::
  "bool \<Rightarrow> uid \<Rightarrow> uid \<Rightarrow> time \<Rightarrow> uid \<Rightarrow> uid \<Rightarrow> string \<Rightarrow> db \<Rightarrow> (err + order_view) \<times> db" where
  "RefundReject wired ai fi now adminID orderID raw d =
     (let reason = trim_space raw in
      if bad_reason reason then (Inl ErrInvalidRefundReason, d)
      else admin_order_op wired fi adminID orderID ''refund.reject''
        (\<lambda>roleName. reject_tx ai now adminID roleName orderID reason) d)"

section \<open>What each transaction went through\<close>

lemma request_tx_cases:
  assumes "request_tx userID orderID reason d = Inr (v, d')" and "orders_ok d"
  obtains r where "one_order orderID r d" "refundable (o_status r)" "o_user r = userID"
    "UpdateFields (\<lambda>s. o_id s = o_id r \<and> o_user s = userID) (request_row reason) d = Inr d'"
    "d' = with_order (request_row reason) orderID d"
    "v = ToOrder (request_row reason (preload_items d r))"
proof -
  from assms(1) obtain r where r: "find (\<lambda>r. o_id r = orderID \<and> o_user r = userID) (orders d) = Some r"
      "refundable (o_status r)"
    and u: "UpdateFields (\<lambda>s. o_id s = o_id r \<and> o_user s = userID) (request_row reason) d = Inr d'"
    and v: "v = ToOrder (request_row reason (preload_items d r))"
    unfolding request_tx_def
    by (elim sbind_InrE) (auto simp: LockForUpdateByUser_Inr require_eq_Inr)
  have s: "r \<in> set (orders d)" "o_id r = orderID" "o_user r = userID" using find_SomeD[OF r(1)] by auto
  then have "d' = with_order (request_row reason) orderID d"
    using UpdateFields_by_id[OF u _ s(1)] assms(2) by (simp add: orders_ok_def)
  then show thesis using that[of r] s r(2) u v by (simp add: one_order_def)
qed

lemma reject_tx_cases:
  assumes "reject_tx ai now adminID roleName orderID reason d = Inr (v, d')" and "orders_ok d"
  obtains r d1 t where "one_order orderID r d" "o_status r = RefundRequested"
    "UpdateFields (\<lambda>s. o_id s = o_id r \<and> o_status s = RefundRequested)
       (reject_row (reject_target r) reason adminID now) d = Inr d1"
    "d1 = with_order (reject_row (reject_target r) reason adminID now) orderID d"
    "d' = d1\<lparr>audit_logs := t\<rparr>"
    "v = ToOrder (reject_row (reject_target r) reason adminID now (preload_items d r))"
proof -
  from assms(1) obtain r d1 t where r: "find (\<lambda>r. o_id r = orderID) (orders d) = Some r"
      "o_status r = RefundRequested"
    and u: "UpdateFields (\<lambda>s. o_id s = o_id r \<and> o_status s = RefundRequested)
       (reject_row (reject_target r) reason adminID now) d = Inr d1"
    and d': "d' = d1\<lparr>audit_logs := t\<rparr>"
    and v: "v = ToOrder (reject_row (reject_target r) reason adminID now (preload_items d r))"
    unfolding reject_tx_def Let_def
    by (elim sbind_InrE write_audit_only)
       (auto simp: LockForUpdate_Inr require_eq_Inr reject_target_def)
  have s: "r \<in> set (orders d)" "o_id r = orderID" using find_SomeD[OF r(1)] by auto
  then have "d1 = with_order (reject_row (reject_target r) reason adminID now) orderID d"
    using UpdateFields_by_id[OF u _ s(1)] assms(2) r(2) by (simp add: orders_ok_def)
  then show thesis using that[of r d1 t] s r(2) u d' v by (simp add: one_order_def)
qed

text \<open>
  The approval, with the tables each statement leaves: the buyer's balance is credited, the refund
  entry appended, the stock of the lines returned, the order closed.
\<close>

definition approved ::
  "(uid \<Rightarrow> string) \<Rightarrow> uid \<Rightarrow> time \<Rightarrow> uid \<Rightarrow> order_row \<Rightarrow> db \<Rightarrow> db \<Rightarrow> bool" where
  "approved us li now adminID r d d4 \<longleftrightarrow>
     (\<exists>b d1 d2 d3. AdjustBalance (o_user r) (o_total r) d = Inr (b, d1) \<and>
        insert_ledger ((refund_entry us adminID now b r)\<lparr>l_id := li\<rparr>) d1 = Inr d2 \<and>
        each IncrementStock (item_lines (items_of d (o_id r))) d2 = Inr d3 \<and>
        UpdateFields (\<lambda>s. o_id s = o_id r \<and> o_status s = RefundRequested)
          (approve_row adminID now) d3 = Inr d4)"

lemma translated_Inr [tx_elims]: "translated f m = Inr x \<longleftrightarrow> m = Inr x"
  by (simp add: translated_def split: sum.splits)

lemma refund_entry_preload [simp]: "refund_entry us a n b (preload_items d r) = refund_entry us a n b r"
  by (simp add: refund_entry_def)

lemma approve_tx_cases:
  assumes "approve_tx us li ai now adminID roleName orderID d = Inr (v, d')"
  obtains r w d4 t where "find (\<lambda>r. o_id r = orderID) (orders d) = Some r" "one_order orderID r d"
    "o_status r = RefundRequested" "find_user (o_user r) d = Some w"
    "approved us li now adminID r d d4" "d' = d4\<lparr>audit_logs := t\<rparr>"
    "v = ToOrder (approve_row adminID now (preload_items d r))"
proof -
  from assms obtain r w b d1 d2 d3 d4 t where
    r: "find (\<lambda>r. o_id r = orderID) (orders d) = Some r" "o_status r = RefundRequested" and
    w: "find_user (o_user r) d = Some w" and
    a: "AdjustBalance (o_user r) (o_total r) d = Inr (b, d1)" and
    l: "ledger_create li (refund_entry us adminID now b r) d1 = Inr d2" and
    s: "each IncrementStock (item_lines (items_of d (o_id r))) d2 = Inr d3" and
    u: "UpdateFields (\<lambda>s. o_id s = o_id r \<and> o_status s = RefundRequested)
      (approve_row adminID now) d3 = Inr d4" and
    d': "d' = d4\<lparr>audit_logs := t\<rparr>" and
    v: "v = ToOrder (approve_row adminID now (preload_items d r))"
    unfolding approve_tx_def case_prod_beta
    by (elim sbind_InrE write_audit_only)
       (auto simp: LockForUpdate_Inr require_eq_Inr translated_Inr LockUser_eq_Inr)
  have "insert_ledger ((refund_entry us adminID now b r)\<lparr>l_id := li\<rparr>) d1 = Inr d2"
    using l by (simp add: ledger_create_def fillID_def refund_entry_def)
  then have "approved us li now adminID r d d4"
    unfolding approved_def using a s u by blast
  then show thesis using that[of r w d4 t] r w d' v find_SomeD[OF r(1)] by (simp add: one_order_def)
qed

lemma approved_db:
  assumes ap: "approved us li now adminID r d d4" and w: "find_user (o_user r) d = Some w"
    and r: "r \<in> set (orders d)" "o_status r = RefundRequested" and ok: "orders_ok d"
  obtains ps where "d4 = d\<lparr>users := charge (o_user r) (u_balance w + o_total r) (users d),
      products := ps, ledger := ledger d @ [(refund_entry us adminID now (u_balance w + o_total r) r)\<lparr>l_id := li\<rparr>],
      orders := update_where (\<lambda>s. o_id s = o_id r) (approve_row adminID now) (orders d)\<rparr>"
    "stock_only d (d\<lparr>products := ps\<rparr>)"
    "\<And>i. stock_of d4 i = map_option (\<lambda>n. n + qty_of (item_lines (items_of d (o_id r))) i) (stock_of d i)"
proof -
  obtain b d1 d2 d3 where a: "AdjustBalance (o_user r) (o_total r) d = Inr (b, d1)"
    and l: "insert_ledger ((refund_entry us adminID now b r)\<lparr>l_id := li\<rparr>) d1 = Inr d2"
    and s: "each IncrementStock (item_lines (items_of d (o_id r))) d2 = Inr d3"
    and u: "UpdateFields (\<lambda>s. o_id s = o_id r \<and> o_status s = RefundRequested)
      (approve_row adminID now) d3 = Inr d4"
    using ap unfolding approved_def by blast
  have "in64 (o_total r)" using ok r(1) by (simp add: orders_ok_def order_row_ok_def)
  then have b: "b = u_balance w + o_total r"
    and d1: "d1 = d\<lparr>users := charge (o_user r) b (users d)\<rparr>"
    using a AdjustBalance_eq_Inr[OF w] by (simp_all add: charge_def)
  have d2: "d2 = d1\<lparr>ledger := ledger d @ [(refund_entry us adminID now b r)\<lparr>l_id := li\<rparr>]\<rparr>"
    using l by (simp add: insert_ledger_eq_Inr d1)
  obtain ps where ps: "d3 = d2\<lparr>products := ps\<rparr>" "list_all2 same_but_stock (products d) ps"
    using each_stock_only[OF stock_step_Increment s] by (auto simp: stock_only_def d2 d1)
  have o3: "orders d3 = orders d" by (simp add: ps(1) d2 d1)
  have "d4 = with_order (approve_row adminID now) (o_id r) d3"
    by (rule UpdateFields_by_id[OF u]) (use r ok o3 in \<open>auto simp: orders_ok_def\<close>)
  then have d4: "d4 = d\<lparr>users := charge (o_user r) (u_balance w + o_total r) (users d),
      products := ps, ledger := ledger d @ [(refund_entry us adminID now (u_balance w + o_total r) r)\<lparr>l_id := li\<rparr>],
      orders := update_where (\<lambda>s. o_id s = o_id r) (approve_row adminID now) (orders d)\<rparr>"
    by (simp add: with_order_def ps(1) d2 d1 b)
  have "stock_of d2 i = stock_of d i" "stock_of d4 i = stock_of d3 i" for i
    by (simp_all add: stock_of_def find_product_def d2 d1 d4 ps(1))
  then have "stock_of d4 i = map_option (\<lambda>n. n + qty_of (item_lines (items_of d (o_id r))) i) (stock_of d i)" for i
    using inv.give_each[OF s, of i] by simp
  then show thesis using that[OF d4 stock_onlyI[OF ps(2)]] by blast
qed

section \<open>The shop stays in order\<close>

lemma keeps_identity_refund [simp]:
  "keeps_identity (request_row reason)" "keeps_identity (approve_row adminID now)"
  "keeps_identity (reject_row target reason adminID now)"
  by (simp_all add: keeps_identity_def request_row_def approve_row_def reject_row_def)

lemma reject_target_cases: "reject_target r = Paid \<or> reject_target r = Shipped"
  by (simp add: reject_target_def)

lemma approved_tables_ok:
  assumes "approved us li now adminID r d d4" and "tables_ok d"
  shows "tables_ok d4"
proof -
  obtain b d1 d2 d3 where c: "AdjustBalance (o_user r) (o_total r) d = Inr (b, d1)"
    "insert_ledger ((refund_entry us adminID now b r)\<lparr>l_id := li\<rparr>) d1 = Inr d2"
    "each IncrementStock (item_lines (items_of d (o_id r))) d2 = Inr d3"
    "UpdateFields (\<lambda>s. o_id s = o_id r \<and> o_status s = RefundRequested) (approve_row adminID now) d3 = Inr d4"
    using assms(1) unfolding approved_def by blast
  have "tables_ok d2" by (rule insert_ledger_tables_ok[OF c(2) AdjustBalance_tables_ok[OF c(1) assms(2)]])
  then have "tables_ok d3" by (rule each_stock_tables_ok[OF stock_step_Increment c(3)])
  then show ?thesis by (rule UpdateFields_tables_ok[OF c(4)]) simp
qed

lemma approved_accounts_settled:
  assumes ap: "approved us li now adminID r d d4" and w: "find_user (o_user r) d = Some w"
    and t: "in64 (o_total r)" and ok: "accounts_settled d"
  shows "accounts_settled d4"
proof -
  obtain b d1 d2 d3 where a: "AdjustBalance (o_user r) (o_total r) d = Inr (b, d1)"
    and l: "insert_ledger ((refund_entry us adminID now b r)\<lparr>l_id := li\<rparr>) d1 = Inr d2"
    and s: "each IncrementStock (item_lines (items_of d (o_id r))) d2 = Inr d3"
    and u: "UpdateFields (\<lambda>s. o_id s = o_id r \<and> o_status s = RefundRequested)
      (approve_row adminID now) d3 = Inr d4"
    using ap unfolding approved_def by blast
  have "balance_of d (o_user r) = Some (u_balance w)" using w by (simp add: balance_of_def)
  then have "accounts_settled d2"
    using acc.settle[OF _ t _ a refl refl l] ok by (simp add: accounts_settled_def refund_entry_def)
  moreover have "users d3 = users d2" "ledger d3 = ledger d2"
    using each_stock_only[OF stock_step_Increment s] by (auto simp: stock_only_def)
  moreover have "users d4 = users d3" "ledger d4 = ledger d3" using u by (auto simp: tx_elims)
  ultimately show ?thesis using accounts_settled_frame by metis
qed

text \<open>The refund entry settles the order it closes and concerns no other.\<close>

lemma approved_orders_settled:
  assumes ap: "approved us li now adminID r d d4" and w: "find_user (o_user r) d = Some w"
    and r: "r \<in> set (orders d)" "o_status r = RefundRequested" and ok: "shop_ok d"
  shows "orders_settled d4"
  unfolding orders_settled_def
proof
  fix s
  assume s: "s \<in> set (orders d4)"
  let ?l = "(refund_entry us adminID now (u_balance w + o_total r) r)\<lparr>l_id := li\<rparr>"
  obtain ps where d4: "d4 = d\<lparr>users := charge (o_user r) (u_balance w + o_total r) (users d),
      products := ps, ledger := ledger d @ [?l],
      orders := update_where (\<lambda>s. o_id s = o_id r) (approve_row adminID now) (orders d)\<rparr>"
    using approved_db[OF ap w r] shop_ok_orders[OF ok] by metis
  obtain q where q: "q \<in> set (orders d)" "s = (if o_id q = o_id r then approve_row adminID now q else q)"
    using s by (auto simp: d4 set_update_where)
  have old: "order_settled d q" using ok q(1) by (simp add: shop_ok_def orders_settled_def)
  show "order_settled d4 s"
  proof (cases "o_id q = o_id r")
    case True
    then have "q = r"
      using distinct_map_unique[of o_id, OF _ q(1) r(1)] shop_ok_orders[OF ok] by (simp add: orders_ok_def)
    then show ?thesis
      using old r(2) q(2)
      by (auto simp: order_settled_def d4 pays_def refunds_def items_of_def approve_row_def refund_entry_def)
  next
    case False
    then show ?thesis
      using order_settled_other[OF old, of d4 ?l] q(2)
      by (simp add: d4 pays_def refunds_def items_of_def refund_entry_def)
  qed
qed

lemma RefundApprove_shop_ok:
  assumes ok: "shop_ok d"
  shows "shop_ok (snd (RefundApprove wired us li ai fi now adminID orderID d))"
proof -
  obtain res d' where ex: "RefundApprove wired us li ai fi now adminID orderID d = (res, d')"
    by (cases "RefundApprove wired us li ai fi now adminID orderID d")
  have "shop_ok d'"
    using ex unfolding RefundApprove_def
  proof (cases rule: admin_order_op_cases)
    case c: (ok roleName v)
    from c(2) show ?thesis
    proof (cases rule: approve_tx_cases)
      case (1 r w d4 t)
      have r: "r \<in> set (orders d)" and t: "in64 (o_total r)"
        using 1(2) shop_ok_orders[OF ok] by (auto simp: one_order_def orders_ok_def order_row_ok_def)
      have "shop_ok d4"
        using ok approved_tables_ok[OF 1(5)] approved_accounts_settled[OF 1(5,4) t]
          approved_orders_settled[OF 1(5,4) r 1(3) ok]
        by (simp add: shop_ok_def)
      then show ?thesis using 1(6) shop_ok_audit by simp
    qed
  qed (use ok shop_ok_audit in simp)
  then show ?thesis by (simp add: ex)
qed

lemma RefundRequest_shop_ok:
  assumes ok: "shop_ok d"
  shows "shop_ok (snd (RefundRequest userID orderID raw d))"
proof (cases "RefundRequest userID orderID raw d")
  case (Pair res d')
  show ?thesis
  proof (cases res)
    case (Inl e)
    then show ?thesis using Pair ok by (auto simp: RefundRequest_def Let_def commit_failed split: if_splits)
  next
    case (Inr v)
    then have "request_tx userID orderID (trim_space raw) d = Inr (v, d')"
      using Pair by (auto simp: RefundRequest_def Let_def commit_ok split: if_splits)
    then have "shop_ok d'"
      using shop_ok_orders[OF ok]
    proof (cases rule: request_tx_cases)
      case (1 r)
      show ?thesis
        by (rule shop_ok_with_order[OF ok 1(4,5)])
           (use 1(1,2) in \<open>auto simp: request_row_def refundable_def
              dest: one_order_unique[OF shop_ok_orders[OF ok]]\<close>)
    qed
    then show ?thesis using Pair by simp
  qed
qed

lemma RefundReject_shop_ok:
  assumes ok: "shop_ok d"
  shows "shop_ok (snd (RefundReject wired ai fi now adminID orderID raw d))"
proof (cases "bad_reason (trim_space raw)")
  case False
  obtain res d' where ex: "RefundReject wired ai fi now adminID orderID raw d = (res, d')"
    by (cases "RefundReject wired ai fi now adminID orderID raw d")
  then have "admin_order_op wired fi adminID orderID ''refund.reject''
      (\<lambda>roleName. reject_tx ai now adminID roleName orderID (trim_space raw)) d = (res, d')"
    using False by (simp add: RefundReject_def Let_def)
  then have "shop_ok d'"
  proof (cases rule: admin_order_op_cases)
    case c: (ok roleName v)
    from c(2) shop_ok_orders[OF ok] show ?thesis
    proof (cases rule: reject_tx_cases)
      case (1 r d1 t)
      have "shop_ok d1"
        by (rule shop_ok_with_order[OF ok 1(3,4)])
           (use 1(1,2) in \<open>auto simp: reject_row_def reject_target_def
              dest: one_order_unique[OF shop_ok_orders[OF ok]]\<close>)
      then show ?thesis using 1(5) shop_ok_audit by simp
    qed
  qed (use ok shop_ok_audit in simp)
  then show ?thesis by (simp add: ex)
qed (simp add: RefundReject_def ok Let_def)

end
