(* ===== verification/Replay.thy ===== *)
theory Replay
  imports Settlement
begin

text \<open>
  Idempotency and progress of the checkout: a repeated request is answered with the first order and
  changes nothing, a key is never charged twice even when two requests race past the first check,
  and a request that is covered by stock and points succeeds.
\<close>

section \<open>At most once\<close>

lemma find_order_None: "find_order P d = None \<longleftrightarrow> (\<forall>r\<in>set (orders d). \<not> P r)"
  by (auto simp: find_order_def find_None_iff)

text \<open>
  C14: once an order carries a key, no request with it changes anything, whatever its first read
  saw: the unique index on buyer and key stops the loser of a race.
\<close>

theorem Execute_once:
  assumes "FindForReplay u key d \<noteq> None"
  shows "snd (Execute env u key req early d) = d"
proof -
  obtain res d' where ex: "Execute env u key req early d = (res, d')"
    by (cases "Execute env u key req early d")
  have "d' = d"
    using Execute_cases[OF ex]
  proof
    assume "\<exists>v. res = Inr v \<and> create_tx env u key req early d = Inr (v, d')"
    then obtain v where "create_tx env u key req early d = Inr (v, d')" by blast
    then show ?thesis
    proof (cases rule: create_tx_cases)
      case (new r addr rows ps tot d1)
      have "(u, key) \<in> (\<lambda>r. (o_user r, o_token r)) ` set (orders d)"
        using assms by (auto simp: FindForReplay_def find_order_None)
      then show ?thesis using placed_fresh(3)[OF new(6)] by blast
    qed simp
  qed simp
  then show ?thesis by (simp add: ex)
qed

section \<open>The answer to a repetition\<close>

lemma draft_lines:
  assumes "LockByIDs (productIDsOf rows) d = Inr ps" and "products_ok d"
  shows "map (\<lambda>i. (i_product i, i_qty i)) (new_items env (indexProducts ps) rows) = order_lines rows"
proof -
  have "(i_product (draft (indexProducts ps) c), i_qty (draft (indexProducts ps) c)) =
      (c_product c, c_qty c)" if "c \<in> set rows" for c
  proof -
    have "c_product c \<in> set (productIDsOf rows)" using that by (simp add: productIDsOf_def)
    from LockByIDs_index[OF assms this] obtain p where
      "indexProducts ps (c_product c) = Some p" "find_product (c_product c) d = Some p"
      by auto
    then show ?thesis by (simp add: draft_def find_product_id)
  qed
  then show ?thesis
    by (simp add: new_items_def number_items_fields(2) order_lines_def)
qed

lemma placed_found:
  assumes pl: "placed env u key req addr rows pm tot d d1 d'" and r: "find_user u d = Some r"
    and ok: "tables_ok d"
  shows "find_order (\<lambda>s. o_user s = u \<and> o_token s = key) d' =
    Some ((new_order env u key req addr rows tot)\<lparr>o_items := new_items env pm rows\<rparr>)"
proof -
  let ?n = "new_order env u key req addr rows tot"
  note db = placed_db(1)[OF pl r]
  have "find (\<lambda>s. o_user s = u \<and> o_token s = key) (orders d) = None"
    using placed_fresh(3)[OF pl] by (auto simp: find_None_iff)
  then have f: "find (\<lambda>s. o_user s = u \<and> o_token s = key) (orders d') = Some ?n"
    by (simp add: db find_append new_order_def)
  have "items_of d' (e_order env) = new_items env pm rows"
    using items_of_new[OF _ placed_fresh(1)[OF pl], of pm rows] ok
    by (simp add: tables_ok_def items_of_def db)
  then show ?thesis
    using f by (simp add: find_order_def preload_items_def new_order_def)
qed

lemma hash_lines:
  assumes "distinct (map fst ls)" and "mset ids = mset ids'"
  shows "ComputeOrderRequestHash h ids ls a = ComputeOrderRequestHash h ids' ls a"
  by (rule ComputeOrderRequestHash_perm) (use assms in auto)

lemma LockAddress_frame:
  "addresses d' = addresses d \<Longrightarrow> LockAddressForOrder u i d' = LockAddressForOrder u i d"
  by (simp add: LockAddressForOrder_def find_address_def)

lemma resolveReplay_same:
  assumes pl: "placed env u key req addr rows (indexProducts ps) tot d d1 d'"
    and r: "find_user u d = Some r" and ok: "tables_ok d"
    and addr: "LockAddressForOrder u (AddressID req) d = Inr addr"
    and rows: "LockCartForOrder u (CartItemIDs req) d = Inr rows"
    and ps: "LockByIDs (productIDsOf rows) d = Inr ps"
    and same: "e_hash env' = e_hash env" "AddressID req' = AddressID req"
      "mset (CartItemIDs req') = mset (CartItemIDs req)"
    and ex: "existing = (new_order env u key req addr rows tot)\<lparr>o_items :=
      new_items env (indexProducts ps) rows\<rparr>"
  shows "resolveReplay env' u req' existing d' = Inr (ToOrder existing)"
proof -
  have keep: "addresses d' = addresses d" by (simp add: placed_db(1)[OF pl r])
  have a: "LockAddressForOrder u (AddressID req') d' = Inr addr"
    unfolding same(2) LockAddress_frame[OF keep] by (rule addr)
  have l: "map (\<lambda>i. (i_product i, i_qty i)) (o_items existing) = order_lines rows"
    using draft_lines[OF ps] ok by (simp add: ex tables_ok_def)
  have "map fst (order_lines rows) = map c_product rows" by (simp add: order_lines_def)
  then have dl: "distinct (map fst (order_lines rows))"
    using LockCartForOrder_rows(3)[OF rows] ok by (simp add: tables_ok_def)
  have "requestHashItemsOf rows = order_lines rows"
    by (simp add: requestHashItemsOf_def order_lines_def)
  then have "o_hash existing = ComputeOrderRequestHash (e_hash env) (CartItemIDs req) (order_lines rows) addr"
    by (simp add: ex new_order_def)
  then show ?thesis
    using a l hash_lines[OF dl same(3)] same(1) by (simp add: resolveReplay_def Let_def)
qed

text \<open>An answer to a key that no order carries comes from the transaction itself.\<close>

lemma Execute_first:
  assumes "Execute env u key req early d = (Inr v, d')" and "FindForReplay u key d = None"
  shows "create_tx env u key req early d = Inr (v, d')"
    and "sbind (ValidateIdempotencyKey key) (\<lambda>_. sbind (validateOrderRequest req) (\<lambda>_.
      require (u \<noteq> 0) ErrInvalidOrderRequest)) = Inr ()"
proof -
  show pre: "sbind (ValidateIdempotencyKey key) (\<lambda>_. sbind (validateOrderRequest req) (\<lambda>_.
      require (u \<noteq> 0) ErrInvalidOrderRequest)) = Inr ()"
    using assms(1) by (auto simp: Execute_def split: sum.splits)
  have "resolveAfterConflict env u key req d \<noteq> Inr w" for w
    using assms(2) by (auto simp: resolveAfterConflict_def sbind_eq_Inr FindByToken_def FindForReplay_def)
  then show "create_tx env u key req early d = Inr (v, d')"
    using assms(1) pre by (auto simp: Execute_def commit_def split: sum.splits if_splits)
qed

lemma validateOrderRequest_same:
  assumes "AddressID req' = AddressID req" and "mset (CartItemIDs req') = mset (CartItemIDs req)"
  shows "validateOrderRequest req' = validateOrderRequest req"
proof -
  have "set (CartItemIDs req') = set (CartItemIDs req)" "distinct (CartItemIDs req') = distinct (CartItemIDs req)"
    using assms(2) by (metis set_mset_mset, metis mset_eq_imp_distinct_iff)
  then show ?thesis using assms(1) by (simp add: validateOrderRequest_def flip: set_empty)
qed

lemma LockCart_consumed:
  assumes "cart_items d' = consume u ids t" and "set ids' = set ids" and "ids' \<noteq> []"
  shows "LockCartForOrder u ids' d' = Inl ErrCartItemNotFound"
proof -
  have "filter (\<lambda>c. c_user c = u \<and> c_id c \<in> set ids') (cart_items d') = []"
    using assms(1,2) by (auto simp: consume_def filter_empty_conv)
  then show ?thesis using assms(3) by (cases ids') (simp_all add: LockCartForOrder_def)
qed

text \<open>
  C13: a request is repeated with the same key, address and selection, in any order of the ids: it is
  answered with the order it placed and nothing changes, whether its first read already saw that
  order or was overtaken by it.
\<close>

theorem Execute_replay:
  assumes first: "Execute env u key req early d = (Inr v, d')" and ok: "tables_ok d"
    and unused: "LockForReplay u key early = None" "FindForReplay u key d = None"
    and same: "e_hash env' = e_hash env" "AddressID req' = AddressID req"
      "mset (CartItemIDs req') = mset (CartItemIDs req)"
    and again: "LockForReplay u key early' = None \<or> LockForReplay u key early' = LockForReplay u key d'"
  shows "Execute env' u key req' early' d' = (Inr v, d')"
proof -
  note tx = Execute_first[OF first unused(2)]
  note pre = tx(2)
  have ids: "CartItemIDs req \<noteq> []" using pre by (auto simp: validateOrderRequest_def sbind_eq_Inr split: if_splits)
  have sets: "set (CartItemIDs req') = set (CartItemIDs req)" using same(3) by (metis set_mset_mset)
  have pre': "sbind (ValidateIdempotencyKey key) (\<lambda>_. sbind (validateOrderRequest req') (\<lambda>_.
      require (u \<noteq> 0) ErrInvalidOrderRequest)) = Inr ()"
    using pre by (simp add: validateOrderRequest_same[OF same(2,3)])
  from tx(1) show ?thesis
  proof (cases rule: create_tx_cases)
    case (replay existing)
    then show ?thesis using unused by simp
  next
    case (new r addr rows ps tot d1)
    define existing where "existing = (new_order env u key req addr rows tot)\<lparr>o_items :=
      new_items env (indexProducts ps) rows\<rparr>"
    have found: "FindForReplay u key d' = Some existing" "LockForReplay u key d' = Some existing"
      using placed_found[OF new(6,2) ok] by (simp_all add: FindForReplay_def LockForReplay_def existing_def)
    have res: "resolveReplay env' u req' existing d' = Inr v"
      using resolveReplay_same[OF new(6,2) ok new(3,4,5) same existing_def] new(7) existing_def by simp
    note db = placed_db(1)[OF new(6,2)]
    have "create_tx env' u key req' early' d' = Inr (v, d')"
    proof (cases "LockForReplay u key early'")
      case None
      have usr: "LockUser u d' = Inr ()"
        using new(2) by (auto simp: LockUser_def db find_user_def charge_def find_update_where)
      have adr: "LockAddressForOrder u (AddressID req') d' = Inr addr"
        using new(3) same(2) LockAddress_frame[of d' d] by (simp add: db)
      have "LockCartForOrder u (CartItemIDs req') d' = Inl ErrCartItemNotFound"
        by (rule LockCart_consumed) (use ids sets same(3) db in auto)
      then show ?thesis
        using None usr adr found(1) res by (simp add: create_tx_def translated_def)
    next
      case (Some x)
      then show ?thesis using again found(2) res by (simp add: create_tx_def)
    qed
    then show ?thesis using pre' by (simp add: Execute_def commit_def)
  qed
qed

end
