(* ===== verification/Progress.thy ===== *)
theory Progress
  imports Replay
begin

text \<open>
  A checkout that is covered succeeds: the selected rows are the buyer's, their products are on sale
  and in stock, the points cover the price, and the generated values are fresh. Every constraint of
  the schema the transaction could run into is met by what was validated before.
\<close>

definition selection :: "uid \<Rightarrow> uid list \<Rightarrow> db \<Rightarrow> cart_row list" where
  "selection u ids d = sort_key c_id (filter (\<lambda>r. c_user r = u \<and> c_id r \<in> set ids) (cart_items d))"

definition price_in :: "db \<Rightarrow> cart_row \<Rightarrow> int" where
  "price_in d c = (case find_product (c_product c) d of None \<Rightarrow> 0 | Some p \<Rightarrow> p_price p * c_qty c)"

definition selection_total :: "uid \<Rightarrow> uid list \<Rightarrow> db \<Rightarrow> int" where
  "selection_total u ids d = sum_list (map (price_in d) (selection u ids d))"

text \<open>On sale, in stock, and a price and quantity whose product is an \<open>int64\<close>.\<close>

definition can_buy :: "db \<Rightarrow> cart_row \<Rightarrow> bool" where
  "can_buy d c = (case find_product (c_product c) d of
       None \<Rightarrow> False
     | Some p \<Rightarrow> p_status p = StatusOnSale \<and> c_qty c \<le> p_stock p \<and> p_price p * c_qty c \<le> max_int64)"

text \<open>The generated values clash with nothing stored and have their documented lengths.\<close>

definition env_fresh :: "env \<Rightarrow> db \<Rightarrow> bool" where
  "env_fresh env d \<longleftrightarrow> e_order env \<notin> o_id ` set (orders d) \<and> e_no env \<notin> o_no ` set (orders d) \<and>
     rune_count (e_no env) \<le> 32 \<and> inj_on (e_item env) {..<length (cart_items d)} \<and>
     e_item env ` {..<length (cart_items d)} \<inter> i_id ` set (order_items d) = {} \<and>
     e_ledger env \<notin> l_id ` set (ledger d) \<and>
     OrderPayEventKey (e_us env) (e_order env) \<notin> l_event ` set (ledger d) \<and>
     (\<forall>i. length (e_us env i) = 36) \<and> (\<forall>p. rune_count (e_hash env p) \<le> 64)"

section \<open>Pricing and stock\<close>

lemma price_lines_succeeds:
  assumes "\<forall>c\<in>set cs. purchasable pm c \<and> 0 \<le> line_total pm c" and "0 \<le> t"
    and "t + sum_list (map (line_total pm) cs) \<le> max_int64"
  shows "price_lines pm t acc cs =
    Inr (t + sum_list (map (line_total pm) cs), acc @ map (draft pm) cs)"
  using assms
proof (induction cs arbitrary: t acc)
  case (Cons c cs)
  obtain p where p: "pm (c_product c) = Some p" "p_status p = StatusOnSale" "c_qty c \<le> p_stock p"
    using Cons.prems(1) by (auto simp: purchasable_def)
  let ?l = "line_total pm c"
  have lt: "int64 (p_price p * c_qty c) = ?l" by (simp add: line_total_def p(1))
  have nn: "0 \<le> ?l" using Cons.prems(1) by simp
  have rest: "0 \<le> sum_list (map (line_total pm) cs)"
    using Cons.prems(1) by (intro sum_list_nonneg) auto
  have "in64 (max_int64 - ?l)" "in64 (t + ?l)" "\<not> max_int64 - ?l < t"
    using Cons.prems(2,3) nn rest by (auto simp: in64_def max_int64_def)
  then show ?case
    using Cons.IH[of "t + ?l" "acc @ [draft pm c]"] Cons.prems p lt nn
    by (simp add: Let_def draft_def)
qed simp

text \<open>
  The conditional decrements cannot fail after the check, because the rows of one buyer are of
  distinct products: each product is decremented once, by what was checked.
\<close>

lemma each_decrement_succeeds:
  assumes "distinct (map fst ls)"
    and "\<forall>(i, q)\<in>set ls. 0 \<le> q \<and> (\<exists>p. find_product i d = Some p \<and> p_status p = StatusOnSale \<and>
      q \<le> p_stock p \<and> in32 (p_stock p))"
  shows "\<exists>d'. each DecrementStock ls d = Inr d'"
  using assms
proof (induction ls arbitrary: d)
  case (Cons l ls)
  obtain i q where l: "l = (i, q)" by (cases l)
  obtain p where p: "find_product i d = Some p" "p_status p = StatusOnSale" "q \<le> p_stock p"
    "in32 (p_stock p)" "0 \<le> q"
    using Cons.prems(2) l by auto
  then have "in32 (p_stock p - q)" "0 \<le> p_stock p - q" by (auto simp: in32_def)
  then obtain n d1 where d1: "DecrementStock i q d = Inr (n, d1)"
    using p by (simp add: DecrementStock_def set_stock_def)
  have "\<exists>d'. each DecrementStock ls d1 = Inr d'"
  proof (rule Cons.IH)
    show "\<forall>(j, q)\<in>set ls. 0 \<le> q \<and> (\<exists>p. find_product j d1 = Some p \<and> p_status p = StatusOnSale \<and>
      q \<le> p_stock p \<and> in32 (p_stock p))"
    proof clarify
      fix j r assume j: "(j, r) \<in> set ls"
      then have "j \<noteq> i" using Cons.prems(1) l by force
      moreover obtain p' where p': "find_product j d = Some p'" "p_status p' = StatusOnSale"
        "r \<le> p_stock p'" "in32 (p_stock p')" "0 \<le> r"
        using Cons.prems(2) j by auto
      ultimately have "find_product j d1 = Some p'"
        using d1 find_product_id[OF p'(1)]
        by (auto simp: DecrementStock_eq_Inr set_stock_eq_Inr find_product_set_stock)
      then show "0 \<le> r \<and> (\<exists>p. find_product j d1 = Some p \<and> p_status p = StatusOnSale \<and>
        r \<le> p_stock p \<and> in32 (p_stock p))" using p' by blast
    qed
  qed (use Cons.prems l in auto)
  then show ?case using l d1 by simp
qed simp

section \<open>Constraints met\<close>

lemma number_items_ids:
  assumes "\<forall>i\<in>set is. i_id i = 0"
  shows "map i_id (number_items gen oid n is) = map gen [n..<n + length is]"
  using assms
  by (induction gen oid n "is" rule: number_items.induct) (auto simp: fillID_def upt_rec)

lemma new_items_row:
  assumes "i \<in> set (new_items env pm rows)"
  shows "\<exists>c\<in>set rows. i_product i = i_product (draft pm c) \<and> i_name i = i_name (draft pm c) \<and>
    i_price i = i_price (draft pm c) \<and> i_qty i = i_qty (draft pm c)"
proof -
  have "i \<in> set (number_items gen oid n is) \<Longrightarrow> \<exists>j\<in>set is. i_product i = i_product j \<and>
    i_name i = i_name j \<and> i_price i = i_price j \<and> i_qty i = i_qty j" for gen oid n "is"
    by (induction gen oid n "is" rule: number_items.induct) auto
  then show ?thesis using assms unfolding new_items_def by fastforce
qed

lemma sorted_wrt_items:
  assumes "distinct (map i_id is)" and "distinct (map i_product is)"
  shows "sorted_wrt (\<lambda>s r. \<not> item_conflict r s) is"
  using assms by (induction "is") (auto simp: item_conflict_def)

lemma buildAddress_length:
  assumes "rune_count (av_region a) \<le> 64" and "rune_count (av_detail a) \<le> 255"
  shows "rune_count (buildAddress a) \<le> 512"
proof -
  have "rune_count (av_region a @ '' '' @ av_detail a) \<le>
      rune_count (av_region a) + rune_count ('' '' @ av_detail a)"
    by (rule rune_count_append_le)
  also have "rune_count ('' '' @ av_detail a) \<le> rune_count '' '' + rune_count (av_detail a)"
    by (rule rune_count_append_le)
  also have "rune_count '' '' \<le> 1" using rune_count_le_length[of "'' ''"] by simp
  finally show ?thesis
    using assms rune_count_trim[of "av_region a @ '' '' @ av_detail a"] by (simp add: buildAddress_def)
qed

lemma new_order_fits:
  assumes "ValidateIdempotencyKey key = Inr ()" and "address_ok a" and "env_fresh env d" and "0 < tot"
  shows "order_lengths (new_order env u key req (toAddressView a) rows tot)"
    and "order_checks (new_order env u key req (toAddressView a) rows tot)"
proof -
  have k: "length key \<le> 64" "btrim key \<noteq> []"
    using assms(1) btrim_not_Nil by (auto simp: ValidateIdempotencyKey_def split: if_splits)
  have ad: "rune_count (a_receiver a) \<le> 32" "rune_count (a_phone a) \<le> 20"
    "rune_count (a_region a) \<le> 64" "rune_count (a_detail a) \<le> 255"
    using assms(2) by (auto simp: address_ok_def address_lengths_def)
  have "rune_count (buildAddress (toAddressView a)) \<le> 512"
    using ad by (intro buildAddress_length) (simp_all add: toAddressView_def)
  moreover have "rune_count key \<le> 64" using k(1) rune_count_le_length order_trans by blast
  ultimately show "order_lengths (new_order env u key req (toAddressView a) rows tot)"
    using ad assms(3)
    by (simp add: order_lengths_def new_order_def toAddressView_def env_fresh_def
        ComputeOrderRequestHash_def)
  show "order_checks (new_order env u key req (toAddressView a) rows tot)"
    using k assms(4)
    by (simp add: order_checks_def new_order_def shipped_consistent_def completed_consistent_def
        refunded_consistent_def)
qed

section \<open>The locked rows\<close>

definition buyable :: "db \<Rightarrow> uid \<Rightarrow> uid list \<Rightarrow> cart_row list \<Rightarrow> product_row list \<Rightarrow> bool" where
  "buyable d u ids rows ps \<longleftrightarrow> tables_ok d \<and> LockCartForOrder u ids d = Inr rows \<and>
     LockByIDs (productIDsOf rows) d = Inr ps \<and> (\<forall>c\<in>set rows. can_buy d c)"

lemma buyable_row:
  assumes "buyable d u ids rows ps" and "c \<in> set rows"
  shows "\<exists>p. indexProducts ps (c_product c) = Some p \<and> find_product (c_product c) d = Some p \<and>
    p_status p = StatusOnSale \<and> c_qty c \<le> p_stock p \<and> p_price p * c_qty c \<le> max_int64 \<and>
    product_ok p \<and> 0 < c_qty c \<and> c_product c \<in> p_id ` set (products d)"
proof -
  have ok: "products_ok d" "carts_ok d" and rows: "LockCartForOrder u ids d = Inr rows"
    and ps: "LockByIDs (productIDsOf rows) d = Inr ps" and "can_buy d c"
    using assms by (auto simp: buyable_def tables_ok_def)
  then obtain p where p: "find_product (c_product c) d = Some p" "p_status p = StatusOnSale"
    "c_qty c \<le> p_stock p" "p_price p * c_qty c \<le> max_int64"
    by (auto simp: can_buy_def split: option.splits)
  have "product_ok p"
    using p(1) ok(1) by (auto simp: products_ok_def find_product_def dest: find_SomeD)
  moreover have "indexProducts ps (c_product c) = find_product (c_product c) d"
    using LockByIDs_index(1)[OF ps ok(1)] assms(2) by (simp add: productIDsOf_def)
  ultimately show ?thesis
    using p LockCartForOrder_rows(5)[OF rows ok(2) assms(2)] by (simp add: cart_line_ok_def)
qed

lemma buyable_price:
  assumes "buyable d u ids rows ps" and "c \<in> set rows"
  shows "line_total (indexProducts ps) c = price_in d c" and "0 < price_in d c"
    and "purchasable (indexProducts ps) c"
proof -
  obtain p where p: "indexProducts ps (c_product c) = Some p" "find_product (c_product c) d = Some p"
    "p_status p = StatusOnSale" "c_qty c \<le> p_stock p" "p_price p * c_qty c \<le> max_int64"
    "product_ok p" "0 < c_qty c" using buyable_row[OF assms] by blast
  then have "0 < p_price p * c_qty c" by (simp add: product_ok_def product_checks_def)
  then show "line_total (indexProducts ps) c = price_in d c" "0 < price_in d c"
    using p by (auto simp: line_total_def price_in_def in64_def max_int64_def)
  show "purchasable (indexProducts ps) c" using p by (simp add: purchasable_def)
qed

lemma buyable_total:
  assumes "buyable d u ids rows ps"
  shows "sum_list (map (line_total (indexProducts ps)) rows) = sum_list (map (price_in d) rows)"
    and "0 < sum_list (map (price_in d) rows)"
proof -
  show "sum_list (map (line_total (indexProducts ps)) rows) = sum_list (map (price_in d) rows)"
    using buyable_price(1)[OF assms] by (intro arg_cong[where f = sum_list]) simp
  have "rows \<noteq> []"
    using assms LockCartForOrder_rows(4) by (auto simp: buyable_def tables_ok_def)
  then obtain c cs where r: "rows = c # cs" by (cases rows) auto
  have "0 \<le> sum_list (map (price_in d) cs)"
    using buyable_price(2)[OF assms] by (intro sum_list_nonneg) (force simp: r)
  then show "0 < sum_list (map (price_in d) rows)"
    using buyable_price(2)[OF assms, of c] by (simp add: r)
qed

lemma buyable_lines:
  assumes "buyable d u ids rows ps" and "sum_list (map (price_in d) rows) \<le> max_int64"
  shows "price_lines (indexProducts ps) 0 [] rows =
    Inr (sum_list (map (price_in d) rows), map (draft (indexProducts ps)) rows)"
proof -
  have "\<forall>c\<in>set rows. purchasable (indexProducts ps) c \<and> 0 \<le> line_total (indexProducts ps) c"
    using buyable_price[OF assms(1)] by (simp add: less_imp_le)
  then show ?thesis
    using price_lines_succeeds[of rows "indexProducts ps" 0 "[]"] buyable_total(1)[OF assms(1)] assms(2)
    by simp
qed

lemma buyable_products:
  assumes "buyable d u ids rows ps"
  shows "distinct (map c_product rows)"
  using assms LockCartForOrder_rows(3) by (auto simp: buyable_def tables_ok_def)

lemma buyable_stock:
  assumes "buyable d u ids rows ps"
  shows "\<exists>d1. each DecrementStock (order_lines rows) d = Inr d1"
proof (rule each_decrement_succeeds)
  show "distinct (map fst (order_lines rows))"
    using buyable_products[OF assms] by (simp add: order_lines_def comp_def)
  have "0 \<le> c_qty c \<and> (\<exists>p. find_product (c_product c) d = Some p \<and> p_status p = StatusOnSale \<and>
      c_qty c \<le> p_stock p \<and> in32 (p_stock p))" if cr: "c \<in> set rows" for c
    using buyable_row[OF assms cr] by (auto simp: product_ok_def)
  then show "\<forall>(i, q)\<in>set (order_lines rows). 0 \<le> q \<and> (\<exists>p. find_product i d = Some p \<and>
      p_status p = StatusOnSale \<and> q \<le> p_stock p \<and> in32 (p_stock p))"
    by (auto simp: order_lines_def)
qed

text \<open>The batch of items fits the tables that hold the new order.\<close>

lemma new_items_ids: "map i_id (new_items env pm rows) = map (e_item env) [0..<length rows]"
proof -
  have "map i_id (new_items env pm rows) = map (e_item env) [0..<0 + length (map (draft pm) rows)]"
    unfolding new_items_def by (rule number_items_ids) (auto simp: draft_def split: option.splits)
  then show ?thesis by simp
qed

lemma buyable_item_fits:
  assumes "buyable d u ids rows ps" and "i \<in> set (new_items env (indexProducts ps) rows)"
    and "e_order env \<in> o_id ` set (orders d')" and "p_id ` set (products d') = p_id ` set (products d)"
  shows "item_fits d' i"
proof -
  obtain c where c: "c \<in> set rows" "i_product i = i_product (draft (indexProducts ps) c)"
    "i_name i = i_name (draft (indexProducts ps) c)" "i_price i = i_price (draft (indexProducts ps) c)"
    "i_qty i = i_qty (draft (indexProducts ps) c)"
    using new_items_row[OF assms(2)] by blast
  obtain p where "indexProducts ps (c_product c) = Some p" "find_product (c_product c) d = Some p"
    "product_ok p" "0 < c_qty c" "c_product c \<in> p_id ` set (products d)"
    using buyable_row[OF assms(1) c(1)] by blast
  then show ?thesis
    using c new_items_orders[OF assms(2)] assms(3,4) find_product_id[of "c_product c" d p]
    by (simp add: item_fits_def item_checks_def draft_def product_ok_def product_lengths_def
        product_checks_def)
qed

lemma buyable_insert_items:
  assumes buy: "buyable d u ids rows ps" and fresh: "env_fresh env d"
    and d': "e_order env \<in> o_id ` set (orders d')" "p_id ` set (products d') = p_id ` set (products d)"
      "order_items d' = order_items d"
  shows "insert_items (new_items env (indexProducts ps) rows) d' =
    Inr (d'\<lparr>order_items := order_items d @ new_items env (indexProducts ps) rows\<rparr>)"
proof -
  let ?is = "new_items env (indexProducts ps) rows" and ?k = "{..<length (cart_items d)}"
  have "length rows \<le> length (cart_items d)"
    using buy by (auto simp: buyable_def LockCartForOrder_eq_Inr intro: length_filter_le)
  then have k: "{0..<length rows} \<subseteq> ?k" by auto
  have old: "\<not> item_conflict i s" if "i \<in> set ?is" "s \<in> set (order_items d)" for i s
  proof -
    have "i_id i \<in> set (map i_id ?is)" using that(1) by simp
    then have "i_id i \<in> e_item env ` ?k" unfolding new_items_ids using k by auto
    moreover have "i_order s \<in> o_id ` set (orders d)"
      using buy that(2) by (auto simp: buyable_def tables_ok_def items_ok_def item_fits_def)
    ultimately show ?thesis
      using fresh that(2) new_items_orders[OF that(1)]
      by (auto simp: item_conflict_def env_fresh_def dest: notin_imageD)
  qed
  have "distinct (map i_id ?is)"
    using fresh inj_on_subset[OF _ k, of "e_item env"] unfolding new_items_ids by (simp add: env_fresh_def distinct_map)
  moreover have "map i_product ?is = map c_product rows"
  proof -
    have l: "map (\<lambda>i. (i_product i, i_qty i)) ?is = order_lines rows"
      using draft_lines[of rows d ps env] buy by (auto simp: buyable_def tables_ok_def)
    have "map i_product ?is = map fst (map (\<lambda>i. (i_product i, i_qty i)) ?is)" by (simp add: comp_def)
    also have "\<dots> = map c_product rows" unfolding l by (simp add: order_lines_def comp_def)
    finally show ?thesis .
  qed
  ultimately have "sorted_wrt (\<lambda>s r. \<not> item_conflict r s) ?is"
    using buyable_products[OF buy] by (intro sorted_wrt_items) simp_all
  then show ?thesis
    using old buyable_item_fits[OF buy _ d'(1,2)] d'(3) by (simp add: insert_items_eq_Inr)
qed

text \<open>The payment entry fits the ledger.\<close>

lemma pay_entry_fits:
  assumes fresh: "env_fresh env d" and lok: "ledger_ok d" and tot: "0 < tot" "0 \<le> b"
    and d': "u \<in> u_id ` set (users d')" "e_order env \<in> o_id ` set (orders d')" "ledger d' = ledger d"
  shows "insert_ledger (pay_entry env u tot b) d' = Inr (d'\<lparr>ledger := ledger d @ [pay_entry env u tot b]\<rparr>)"
proof -
  let ?l = "pay_entry env u tot b"
  have "length (OrderPayEventKey (e_us env) (e_order env)) \<le> 96"
    using fresh by (simp add: env_fresh_def OrderPayEventKey_def)
  then have "rune_count (OrderPayEventKey (e_us env) (e_order env)) \<le> 96"
    using rune_count_le_length order_trans by blast
  then have "ledger_lengths ?l"
    using fresh by (simp add: ledger_lengths_def pay_entry_def env_fresh_def)
  moreover have "ledger_checks ?l"
    using tot by (simp add: ledger_checks_def ledger_direction_def pay_entry_def)
  moreover have "\<not> ledger_conflict ?l s" if "s \<in> set (ledger d)" for s
  proof -
    have "l_order s \<noteq> Some (e_order env)"
      using ledger_order_known[OF lok that] fresh by (auto simp: env_fresh_def)
    then show ?thesis
      using fresh that
      by (auto simp: ledger_conflict_def pay_entry_def env_fresh_def fillID_def dest: notin_imageD)
  qed
  moreover have "ledger_fks d' ?l"
    using d' by (simp add: ledger_fks_def pay_entry_def admin_ref_def)
  ultimately show ?thesis using d'(3) by (simp add: insert_ledger_eq_Inr)
qed

section \<open>The whole transaction\<close>

text \<open>From the locked rows on: every statement succeeds.\<close>

lemma placed_succeeds:
  assumes buy: "buyable d u (CartItemIDs req) rows ps" and fresh: "env_fresh env d"
    and key: "ValidateIdempotencyKey key = Inr ()" and ids: "distinct (CartItemIDs req)"
    and r: "find_user u d = Some r" and a: "address_ok a"
    and tot: "tot = sum_list (map (price_in d) rows)" "tot \<le> u_balance r"
    and unused: "\<forall>s\<in>set (orders d). \<not> (o_user s = u \<and> o_token s = key)"
  shows "\<exists>d1 d'. placed env u key req (toAddressView a) rows (indexProducts ps) tot d d1 d'"
proof -
  let ?n = "new_order env u key req (toAddressView a) rows tot"
  have rows: "LockCartForOrder u (CartItemIDs req) d = Inr rows" "carts_ok d" "users_ok d" "ledger_ok d"
    using buy by (auto simp: buyable_def tables_ok_def)
  have u: "0 \<le> u_balance r" "in64 (u_balance r)" "u \<in> u_id ` set (users d)"
    using r rows(3) by (force simp: users_ok_def find_user_def dest!: find_SomeD)+
  have pos: "0 < tot" and max: "tot \<le> max_int64"
    using buyable_total(2)[OF buy] tot u by (auto simp: in64_def max_int64_def)
  obtain d1 where d1: "each DecrementStock (order_lines rows) d = Inr d1"
    using buyable_stock[OF buy] by blast
  then obtain t where t: "d1 = d\<lparr>products := t\<rparr>" and so: "stock_only d d1"
    using each_stock_only[OF stock_step_Decrement d1] by (auto simp: stock_only_def)
  have pids: "p_id ` set t = p_id ` set (products d)"
    using stock_only_ids[OF so] t by (metis db.select_convs(2) db.surjective db.update_convs(2) set_map)
  define b where "b = u_balance r - tot"
  define d2 where "d2 = d1\<lparr>users := charge u b (users d1)\<rparr>"
  define d3 where "d3 = d2\<lparr>orders := orders d2 @ [?n]\<rparr>"
  have b: "in64 (- tot)" "in64 b" "0 \<le> b"
    using pos max u tot(2) by (auto simp: in64_def max_int64_def b_def)
  have "find_user u d1 = Some r" using r by (simp add: t find_user_def)
  then have adj: "AdjustBalance u (- tot) d1 = Inr (b, d2)"
    using AdjustBalance_eq_Inr b by (simp add: b_def d2_def charge_def)
  have d2: "orders d2 = orders d" "ledger d2 = ledger d" "products d2 = t" "order_items d2 = order_items d"
    "u_id ` set (users d2) = u_id ` set (users d)" "cart_items d2 = cart_items d"
    by (simp_all add: d2_def t charge_def map_update_where flip: set_map)
  have "\<forall>s\<in>set (orders d). o_id s \<noteq> o_id ?n \<and> o_no s \<noteq> o_no ?n \<and>
      \<not> (o_user s = o_user ?n \<and> o_token s = o_token ?n)"
    using fresh unused by (auto simp: env_fresh_def new_order_def dest: notin_imageD)
  moreover have "order_fks d2 ?n" using u d2 by (simp add: order_fks_def new_order_def admin_ref_def)
  ultimately have ord: "insert_order ?n d2 = Inr d3"
    using new_order_fits[OF key a fresh pos] d2(1) by (simp add: insert_order_eq_Inr d3_def)
  have d3: "e_order env \<in> o_id ` set (orders d3)" "ledger d3 = ledger d" "products d3 = t"
    "order_items d3 = order_items d" "u \<in> u_id ` set (users d3)" "cart_items d3 = cart_items d"
    using d2 u(3) by (simp_all add: d3_def new_order_def)
  obtain d4 where its: "insert_items (new_items env (indexProducts ps) rows) d3 = Inr d4"
    and d4: "d4 = d3\<lparr>order_items := order_items d @ new_items env (indexProducts ps) rows\<rparr>"
    using buyable_insert_items[OF buy fresh, of d3] d3 pids by simp
  have "insert_ledger (pay_entry env u tot b) d4 = Inr (d4\<lparr>ledger := ledger d @ [pay_entry env u tot b]\<rparr>)"
    using pay_entry_fits[OF fresh rows(4) pos b(3), of u d4] d3 by (simp add: d4)
  moreover obtain d6 where "DeleteByIDs u (CartItemIDs req)
      (d4\<lparr>ledger := ledger d @ [pay_entry env u tot b]\<rparr>) = Inr d6"
    using DeleteByIDs_after_lock[OF rows(1,2) ids] d3(6) d4 by simp
  ultimately show ?thesis
    unfolding placed_def using buyable_lines[OF buy] max tot(1) d1 adj ord its by blast
qed

lemma placed_buildAndCommit:
  assumes "placed env u key req addr rows pm tot d d1 d'"
  shows "buildAndCommit env u key req addr rows pm d =
    Inr (ToOrder ((new_order env u key req addr rows tot)\<lparr>o_items := new_items env pm rows\<rparr>), d')"
proof -
  from assms have "0 \<le> tot \<and> tot \<le> max_int64"
    using price_lines_ok by (fastforce simp: placed_def max_int64_def)
  then have "int64 (- tot) = - tot" by (simp add: in64_def max_int64_def)
  then show ?thesis
    using assms
    by (auto simp: placed_def buildAndCommit_def translated_def ledger_create_def new_order_def
        new_items_def order_lines_def pay_entry_def Let_def)
qed

text \<open>Too few points: the charge is refused, and it is the only statement that is.\<close>

lemma buildAndCommit_insufficient:
  assumes buy: "buyable d u ids rows ps" and r: "find_user u d = Some r"
    and tot: "u_balance r < sum_list (map (price_in d) rows)" "sum_list (map (price_in d) rows) \<le> max_int64"
  shows "buildAndCommit env u key req addr rows (indexProducts ps) d = Inl ErrInsufficientPoints"
proof -
  let ?t = "sum_list (map (price_in d) rows)"
  have pos: "0 < ?t" by (rule buyable_total(2)[OF buy])
  have "users_ok d" using buy by (auto simp: buyable_def tables_ok_def)
  then have u: "0 \<le> u_balance r" "in64 (u_balance r)"
    using r by (auto simp: users_ok_def find_user_def dest!: find_SomeD)
  obtain d1 where d1: "each DecrementStock (order_lines rows) d = Inr d1"
    using buyable_stock[OF buy] by blast
  then have "find_user u d1 = Some r"
    using each_stock_only[OF stock_step_Decrement d1] r by (auto simp: stock_only_def find_user_def)
  then have "AdjustBalance u (- ?t) d1 = Inl ErrInsufficientBalance"
    using AdjustBalance_debit[of u d1 r ?t] pos tot u by simp
  moreover have "int64 (- ?t) = - ?t" using pos tot(2) by (simp add: in64_def max_int64_def)
  ultimately show ?thesis
    using buyable_lines[OF buy tot(2)] d1
    by (simp add: buildAndCommit_def order_lines_def translated_def translateBalanceError_def)
qed

text \<open>The buyer's own selection, at the front door.\<close>

definition covered :: "db \<Rightarrow> uid \<Rightarrow> order_request \<Rightarrow> bool" where
  "covered d u req \<longleftrightarrow> find_address u (AddressID req) d \<noteq> None \<and>
     set (CartItemIDs req) \<subseteq> c_id ` set (selection u (CartItemIDs req) d) \<and>
     list_all (can_buy d) (selection u (CartItemIDs req) d) \<and>
     selection_total u (CartItemIDs req) d \<le> max_int64"

lemma covered_buyable:
  assumes "tables_ok d" and "covered d u req" and "CartItemIDs req \<noteq> []"
  shows "LockCartForOrder u (CartItemIDs req) d = Inr (selection u (CartItemIDs req) d)"
    and "\<exists>ps. LockByIDs (productIDsOf (selection u (CartItemIDs req) d)) d = Inr ps \<and>
      buyable d u (CartItemIDs req) (selection u (CartItemIDs req) d) ps"
proof -
  let ?rows = "selection u (CartItemIDs req) d"
  show rows: "LockCartForOrder u (CartItemIDs req) d = Inr ?rows"
    using assms(2,3) by (simp add: LockCartForOrder_eq_Inr covered_def selection_def)
  have "productIDsOf ?rows \<noteq> []"
    using LockCartForOrder_rows(4)[OF rows] assms(1) by (simp add: productIDsOf_def tables_ok_def)
  moreover have "set (productIDsOf ?rows) \<subseteq> p_id ` set (products d)"
    using LockCartForOrder_rows(5)[OF rows] assms(1)
    by (auto simp: productIDsOf_def tables_ok_def cart_line_ok_def)
  ultimately show "\<exists>ps. LockByIDs (productIDsOf ?rows) d = Inr ps \<and> buyable d u (CartItemIDs req) ?rows ps"
    using assms(1,2) rows by (simp add: LockByIDs_eq_Inr buyable_def covered_def list_all_iff)
qed

lemma create_tx_covered:
  assumes ok: "tables_ok d" and cov: "covered d u req"
    and valid: "ValidateIdempotencyKey key = Inr ()" "validateOrderRequest req = Inr ()" "u \<noteq> 0"
    and unused: "LockForReplay u key early = None" "FindForReplay u key d = None"
    and r: "find_user u d = Some r" and fresh: "env_fresh env d"
  shows "u_balance r < selection_total u (CartItemIDs req) d \<Longrightarrow>
      create_tx env u key req early d = Inl ErrInsufficientPoints"
    and "selection_total u (CartItemIDs req) d \<le> u_balance r \<Longrightarrow>
      \<exists>addr ps d1 d'. placed env u key req addr (selection u (CartItemIDs req) d) (indexProducts ps)
        (selection_total u (CartItemIDs req) d) d d1 d' \<and>
        create_tx env u key req early d = Inr (ToOrder ((new_order env u key req addr
          (selection u (CartItemIDs req) d) (selection_total u (CartItemIDs req) d))\<lparr>o_items :=
          new_items env (indexProducts ps) (selection u (CartItemIDs req) d)\<rparr>), d')"
proof -
  have ids: "CartItemIDs req \<noteq> []" "distinct (CartItemIDs req)" and aid: "AddressID req \<noteq> 0"
    using valid(2) by (auto simp: validateOrderRequest_def split: if_splits)
  obtain a where a: "find_address u (AddressID req) d = Some a" using cov by (auto simp: covered_def)
  then have "address_ok a" using ok by (auto simp: tables_ok_def addresses_ok_def dest!: find_address_SomeD)
  let ?rows = "selection u (CartItemIDs req) d" and ?t = "selection_total u (CartItemIDs req) d"
  obtain ps where ps: "LockByIDs (productIDsOf ?rows) d = Inr ps" and buy: "buyable d u (CartItemIDs req) ?rows ps"
    using covered_buyable(2)[OF ok cov ids(1)] by blast
  have step: "create_tx env u key req early d =
      buildAndCommit env u key req (toAddressView a) ?rows (indexProducts ps) d"
    using unused(1) r a aid valid(3) covered_buyable(1)[OF ok cov ids(1)] ps
    by (simp add: create_tx_def LockUser_def translated_def LockAddressForOrder_def)
  have t: "?t = sum_list (map (price_in d) ?rows)" "?t \<le> max_int64"
    using cov by (simp_all add: selection_total_def covered_def)
  show "u_balance r < ?t \<Longrightarrow> create_tx env u key req early d = Inl ErrInsufficientPoints"
    using buildAndCommit_insufficient[OF buy r] t by (simp add: step)
  have un: "\<forall>s\<in>set (orders d). \<not> (o_user s = u \<and> o_token s = key)"
    using unused(2) by (simp add: FindForReplay_def find_order_None)
  assume "?t \<le> u_balance r"
  then obtain d1 d' where "placed env u key req (toAddressView a) ?rows (indexProducts ps) ?t d d1 d'"
    using placed_succeeds[OF buy fresh valid(1) ids(2) r \<open>address_ok a\<close> t(1) _ un] by blast
  then show "\<exists>addr ps d1 d'. placed env u key req addr ?rows (indexProducts ps) ?t d d1 d' \<and>
        create_tx env u key req early d = Inr (ToOrder ((new_order env u key req addr ?rows ?t)\<lparr>o_items :=
          new_items env (indexProducts ps) ?rows\<rparr>), d')"
    using placed_buildAndCommit step by metis
qed

text \<open>
  C12: for a valid request with an unused key, whose selection is the buyer's own, on sale and in
  stock, the price alone decides: with too few points it is refused and nothing changes; otherwise
  the order is placed, paid with exactly the price, the stock goes down by the quantities of its
  lines and the selected rows leave the cart.
\<close>

theorem Execute_covered:
  assumes ok: "tables_ok d" and cov: "covered d u req"
    and valid: "ValidateIdempotencyKey key = Inr ()" "validateOrderRequest req = Inr ()" "u \<noteq> 0"
    and unused: "LockForReplay u key early = None" "FindForReplay u key d = None"
    and r: "find_user u d = Some r" and fresh: "env_fresh env d"
  shows "if u_balance r < selection_total u (CartItemIDs req) d
    then Execute env u key req early d = (Inl ErrInsufficientPoints, d)
    else \<exists>v d'. Execute env u key req early d = (Inr v, d') \<and> ov_status v = Paid \<and>
      ov_total v = selection_total u (CartItemIDs req) d \<and>
      balance_of d' = (balance_of d)(u := Some (u_balance r - selection_total u (CartItemIDs req) d)) \<and>
      (\<forall>i. stock_of d' i = map_option (\<lambda>n. n -
        qty_of (order_lines (selection u (CartItemIDs req) d)) i) (stock_of d i)) \<and>
      cart_items d' = delete_where (\<lambda>c. c_user c = u \<and> c_id c \<in> set (CartItemIDs req)) (cart_items d)"
proof (cases "u_balance r < selection_total u (CartItemIDs req) d")
  case True
  have "create_tx env u key req early d = Inl ErrInsufficientPoints"
    by (rule create_tx_covered(1)[OF assms True])
  then show ?thesis
    using True valid by (simp add: Execute_def commit_def is_unique_violation_def)
next
  case False
  let ?rows = "selection u (CartItemIDs req) d" and ?t = "selection_total u (CartItemIDs req) d"
  obtain addr ps d1 d' where pl: "placed env u key req addr ?rows (indexProducts ps) ?t d d1 d'"
    and tx: "create_tx env u key req early d = Inr (ToOrder ((new_order env u key req addr ?rows ?t)\<lparr>o_items :=
      new_items env (indexProducts ps) ?rows\<rparr>), d')"
    using create_tx_covered(2)[OF assms] False by auto
  note db = placed_db(1)[OF pl r]
  have "each DecrementStock (order_lines ?rows) d = Inr d1" using pl by (auto simp: placed_def)
  then have "stock_of d' i = map_option (\<lambda>n. n - qty_of (order_lines ?rows) i) (stock_of d i)" for i
    using inv.take_each[of "order_lines ?rows" d d1 i] by (simp add: db stock_of_def find_product_def)
  moreover have "balance_of d' = (balance_of d)(u := Some (u_balance r - ?t))"
    using balance_of_set_balance[OF r, of "u_balance r - ?t"]
    by (simp add: db charge_def balance_of_def find_user_def fun_eq_iff)
  moreover have "cart_items d' = delete_where (\<lambda>c. c_user c = u \<and> c_id c \<in> set (CartItemIDs req)) (cart_items d)"
    using valid(2) by (auto simp: db consume_def validateOrderRequest_def split: if_splits)
  ultimately show ?thesis
    using False tx valid by (simp add: Execute_def commit_def ToOrder_def new_order_def)
qed

end
