(* ===== verification/Demo.thy ===== *)
theory Demo
  imports Progress
begin

text \<open>
  One small shop, for the witnesses: a buyer with 100 points, two products, an address and a cart,
  and an administrator with a role. The text of an id has the length of the text of a UUID and
  tells the one order of the shop from everything else.
\<close>

definition demo_us :: "uid \<Rightarrow> string" where
  "demo_us i = (if i = 71 then CHR ''a'' else CHR ''b'') # replicate 35 (CHR ''0'')"

definition demo_user :: user_row where
  "demo_user = \<lparr>u_id = 1, u_openid = ''wx-ada'', u_nickname = ''Ada'', u_avatar = [],
     u_balance = 100, u_created = 5, u_updated = 5\<rparr>"

definition demo_bonus :: ledger_row where
  "demo_bonus = \<lparr>l_id = 90, l_user = 1, l_order = None, l_event = ''signup_bonus:1'',
     l_hash = None, l_type = SignupBonus, l_delta = 100, l_after = 100, l_admin = None,
     l_remark = [], l_created = 5\<rparr>"

definition demo_mug :: product_row where
  "demo_mug = \<lparr>p_id = 11, p_name = ''Mug'', p_description = [], p_category = [], p_images = [],
     p_price = 30, p_stock = 5, p_status = ''on_sale''\<rparr>"

definition demo_pen :: product_row where
  "demo_pen = \<lparr>p_id = 12, p_name = ''Pen'', p_description = [], p_category = [], p_images = [],
     p_price = 15, p_stock = 2, p_status = ''on_sale''\<rparr>"

definition demo_address :: address_row where
  "demo_address = \<lparr>a_id = 21, a_user = 1, a_receiver = ''Ada'', a_phone = ''13800000000'',
     a_region = ''North'', a_detail = ''1 Main St'', a_default = True, a_version = 1,
     a_created = 6, a_updated = 6\<rparr>"

definition demo_admin :: admin_row where
  "demo_admin = \<lparr>ad_id = 41, ad_username = ''root'', ad_hash = ''h'', ad_version = 1, ad_role = 51,
     ad_enabled = True, ad_last_login = None\<rparr>"

definition demo_db :: db where
  "demo_db = empty_db\<lparr>users := [demo_user], ledger := [demo_bonus],
     products := [demo_mug, demo_pen], addresses := [demo_address],
     cart_items := [\<lparr>c_id = 31, c_user = 1, c_product = 11, c_qty = 2\<rparr>,
       \<lparr>c_id = 32, c_user = 1, c_product = 12, c_qty = 1\<rparr>],
     admins := [demo_admin], roles := [\<lparr>r_id = 51, r_name = ''super_admin''\<rparr>],
     permissions := [\<lparr>m_id = 61, m_code = ''order:ship''\<rparr>, \<lparr>m_id = 62, m_code = ''refund:approve''\<rparr>],
     role_permissions := [\<lparr>rp_role = 51, rp_permission = 61\<rparr>]\<rparr>"

definition demo_env :: env where
  "demo_env = \<lparr>e_us = demo_us, e_hash = (\<lambda>p. ''h''), e_order = 71, e_item = (\<lambda>n. 80 + of_nat n),
     e_ledger = 91, e_now = 10, e_clock = 10, e_no = ''ORD10-ab''\<rparr>"

definition demo_req :: order_request where
  "demo_req = \<lparr>CartItemIDs = [31, 32], AddressID = 21\<rparr>"

lemmas demo_defs = demo_user_def demo_bonus_def demo_mug_def demo_pen_def demo_address_def
  demo_admin_def demo_db_def demo_env_def demo_req_def empty_db_def

end
