(* ===== verification/Points.thy ===== *)
theory Points
  imports Refund Demo
begin

text \<open>
  \<open>internal/application/points/adjust.go\<close>: an administrator's adjustment of a buyer's points.
  \<open>hash\<close> is \<open>sha256\<close> of the JSON text of the request (delta and user) and the trimmed remark, in
  hexadecimal. \<open>early\<close> are the tables the first statement saw, before any lock is held, as in the
  checkout.
\<close>

record points_adjustment =
  pa_user :: uid
  pa_delta :: int
  pa_remark :: string

definition validateIdempotencyKey :: "string \<Rightarrow> err + unit" where
  "validateIdempotencyKey key =
     (if length key < 1 \<or> 64 < length key \<or> trim_space key = []
      then Inl PointsErrInvalidIdempotencyKey else Inr ())"

definition validateAdjustment :: "points_adjustment \<Rightarrow> err + unit" where
  "validateAdjustment req =
     (if pa_user req = 0 \<or> pa_delta req = 0 then Inl PointsErrInvalidAdjustment
      else let remark = trim_space (pa_remark req) in
        if remark = [] \<or> 255 < rune_count remark then Inl PointsErrInvalidAdjustment else Inr ())"

definition computeAdjustHash :: "(uid \<times> int \<times> string \<Rightarrow> string) \<Rightarrow> points_adjustment \<Rightarrow> string" where
  "computeAdjustHash hash req = hash (pa_user req, pa_delta req, trim_space (pa_remark req))"

definition sameHash :: "string option \<Rightarrow> string \<Rightarrow> bool" where
  "sameHash stored current = (case stored of None \<Rightarrow> False | Some s \<Rightarrow> s = current)"

definition points_translate :: "err \<Rightarrow> err" where
  "points_translate e = (case e of
       PaymentErrUserNotFound \<Rightarrow> PointsErrUserNotFound
     | ErrInsufficientBalance \<Rightarrow> PointsErrInsufficientPoints
     | _ \<Rightarrow> e)"

definition LockByEventKey :: "string \<Rightarrow> db \<Rightarrow> err + ledger_row" where
  "LockByEventKey k d = (case find (\<lambda>r. l_event r = k) (ledger d) of
     None \<Rightarrow> Inl ErrLedgerEntryNotFound | Some r \<Rightarrow> Inr r)"

definition adjust_failure_tx :: "uid \<Rightarrow> uid \<Rightarrow> string \<Rightarrow> points_adjustment \<Rightarrow> err \<Rightarrow> unit tx" where
  "adjust_failure_tx fi adminID roleName req reason d =
     sbind (write_audit fi \<lparr>ActorAdminID = Some adminID, ActorRole = sameOr roleName ''admin'',
         Action = ''points.adjust'', TargetType = ''user'', TargetID = Some (pa_user req),
         Result = ''failure'', BeforeData = [],
         AfterData = [(''user_id'', AUid (pa_user req)), (''delta'', AInt (pa_delta req)),
           (''reason'', AStr (err_text reason))]\<rparr> d) (\<lambda>d'. Inr ((), d'))"

definition adjust_recordFailure ::
  "uid \<Rightarrow> uid \<Rightarrow> string \<Rightarrow> points_adjustment \<Rightarrow> err \<Rightarrow> db \<Rightarrow> db" where
  "adjust_recordFailure fi adminID roleName req reason d =
     snd (commit (adjust_failure_tx fi adminID roleName req reason) d)"

text \<open>The ledger row of an adjustment, before its id is filled in.\<close>

definition adjust_entry ::
  "string \<Rightarrow> string \<Rightarrow> uid \<Rightarrow> time \<Rightarrow> points_adjustment \<Rightarrow> int \<Rightarrow> ledger_row" where
  "adjust_entry eventKey requestHash adminID now req newBalance = \<lparr>l_id = 0, l_user = pa_user req,
     l_order = None, l_event = eventKey, l_hash = Some requestHash, l_type = AdminAdjust,
     l_delta = pa_delta req, l_after = newBalance, l_admin = Some adminID,
     l_remark = trim_space (pa_remark req), l_created = now\<rparr>"

definition adjust_tx ::
  "uid \<Rightarrow> uid \<Rightarrow> time \<Rightarrow> uid \<Rightarrow> string \<Rightarrow> string \<Rightarrow> string \<Rightarrow> points_adjustment \<Rightarrow> db
   \<Rightarrow> ledger_entry tx" where
  "adjust_tx li ai now adminID roleName eventKey requestHash req early d =
     (case LockByEventKey eventKey early of
        Inr existing \<Rightarrow>
          if \<not> sameHash (l_hash existing) requestHash then Inl PointsErrIdempotencyConflict
          else Inr (ToLedgerEntry existing, d)
      | Inl e \<Rightarrow>
        if e \<noteq> ErrLedgerEntryNotFound then Inl e
        else
          sbind (translated points_translate (LockUser (pa_user req) d)) (\<lambda>_.
          sbind (translated points_translate (AdjustBalance (pa_user req) (pa_delta req) d))
            (\<lambda>(newBalance, d1).
          let row = (adjust_entry eventKey requestHash adminID now req newBalance)\<lparr>l_id := li\<rparr> in
          sbind (ledger_create li (adjust_entry eventKey requestHash adminID now req newBalance) d1)
            (\<lambda>d2.
          sbind (write_audit ai \<lparr>ActorAdminID = Some adminID, ActorRole = roleName,
              Action = ''points.adjust'', TargetType = ''user'', TargetID = Some (pa_user req),
              Result = ''success'', BeforeData = [],
              AfterData = [(''user_id'', AUid (pa_user req)), (''delta'', AInt (pa_delta req)),
                (''balance_after'', AInt newBalance),
                (''remark'', AStr (trim_space (pa_remark req)))]\<rparr> d2) (\<lambda>d3.
          Inr (ToLedgerEntry row, d3))))))"

definition AdjustPoints ::
  "(uid \<times> int \<times> string \<Rightarrow> string) \<Rightarrow> (uid \<Rightarrow> string) \<Rightarrow> bool \<Rightarrow> uid \<Rightarrow> uid \<Rightarrow> uid \<Rightarrow> time \<Rightarrow> uid
   \<Rightarrow> string \<Rightarrow> points_adjustment \<Rightarrow> db \<Rightarrow> db \<Rightarrow> (err + ledger_entry) \<times> db" where
  "AdjustPoints hash us wired li ai fi now adminID idempotencyKey req early d =
     (case sbind (validateIdempotencyKey idempotencyKey) (\<lambda>_. sbind (validateAdjustment req) (\<lambda>_.
         require (adminID \<noteq> 0) PointsErrInvalidAdjustment)) of
        Inl e \<Rightarrow> (Inl e, d)
      | Inr _ \<Rightarrow>
        let requestHash = computeAdjustHash hash req;
            eventKey = AdminAdjustEventKey us adminID idempotencyKey in
        (case resolveRole wired adminID d of
           Inl e \<Rightarrow> (Inl e, d)
         | Inr roleName \<Rightarrow>
           (case commit (adjust_tx li ai now adminID roleName eventKey requestHash req early) d of
              (Inr result, d') \<Rightarrow> (Inr result, d')
            | (Inl e, d') \<Rightarrow>
              if e = PointsErrInsufficientPoints \<or> e = PointsErrUserNotFound \<or>
                 e = PointsErrIdempotencyConflict
              then (Inl e, adjust_recordFailure fi adminID roleName req e d')
              else if is_unique_violation e
              then (case FindByEventKey eventKey d' of
                  Inl _ \<Rightarrow> (Inl e, d')
                | Inr existing \<Rightarrow>
                  if \<not> sameHash (l_hash existing) requestHash
                  then (Inl PointsErrIdempotencyConflict,
                    adjust_recordFailure fi adminID roleName req PointsErrIdempotencyConflict d')
                  else (Inr (ToLedgerEntry existing), d'))
              else (Inl e, d'))))"

section \<open>What an adjustment went through\<close>

text \<open>The tables an adjustment that was not a replay leaves: one balance, one entry, one audit row.\<close>

definition adjusted ::
  "uid \<Rightarrow> time \<Rightarrow> uid \<Rightarrow> string \<Rightarrow> string \<Rightarrow> points_adjustment \<Rightarrow> db \<Rightarrow> int \<Rightarrow> db \<Rightarrow> bool" where
  "adjusted li now adminID eventKey requestHash req d b d2 \<longleftrightarrow>
     (\<exists>d1. AdjustBalance (pa_user req) (pa_delta req) d = Inr (b, d1) \<and>
        insert_ledger ((adjust_entry eventKey requestHash adminID now req b)\<lparr>l_id := li\<rparr>) d1 = Inr d2)"

lemma adjust_tx_cases:
  assumes "adjust_tx li ai now adminID roleName eventKey requestHash req early d = Inr (v, d')"
  obtains (replay) r where "LockByEventKey eventKey early = Inr r" "l_hash r = Some requestHash"
      "v = ToLedgerEntry r" "d' = d"
  | (new) w b d2 t where "LockByEventKey eventKey early = Inl ErrLedgerEntryNotFound"
      "find_user (pa_user req) d = Some w" "adjusted li now adminID eventKey requestHash req d b d2"
      "d' = d2\<lparr>audit_logs := t\<rparr>"
      "v = ToLedgerEntry ((adjust_entry eventKey requestHash adminID now req b)\<lparr>l_id := li\<rparr>)"
proof (cases "LockByEventKey eventKey early")
  case (Inr r)
  then show thesis
    using assms replay[of r] by (auto simp: adjust_tx_def sameHash_def split: if_splits option.splits)
next
  case (Inl e)
  then have e: "e = ErrLedgerEntryNotFound" by (auto simp: LockByEventKey_def split: option.splits)
  from assms obtain w b d1 d2 t where c: "find_user (pa_user req) d = Some w"
    "AdjustBalance (pa_user req) (pa_delta req) d = Inr (b, d1)"
    "ledger_create li (adjust_entry eventKey requestHash adminID now req b) d1 = Inr d2"
    "d' = d2\<lparr>audit_logs := t\<rparr>"
    "v = ToLedgerEntry ((adjust_entry eventKey requestHash adminID now req b)\<lparr>l_id := li\<rparr>)"
    unfolding adjust_tx_def Inl e case_prod_beta Let_def sum.case simp_thms if_False
    by (elim sbind_InrE write_audit_only) (auto simp: translated_Inr LockUser_eq_Inr)
  then have "adjusted li now adminID eventKey requestHash req d b d2"
    by (auto simp: adjusted_def ledger_create_def fillID_def adjust_entry_def)
  then show thesis using new c Inl e by blast
qed

interpretation refused_adjustment: recorder "adjust_recordFailure fi adminID roleName req reason"
  for fi adminID roleName req reason
  unfolding adjust_recordFailure_def by (rule recorder_commit) (simp add: adjust_failure_tx_def)

lemmas adjust_recordFailure_cases = refused_adjustment.only_log

definition adjust_valid :: "uid \<Rightarrow> string \<Rightarrow> points_adjustment \<Rightarrow> bool" where
  "adjust_valid adminID key req \<longleftrightarrow> validateIdempotencyKey key = Inr () \<and>
     validateAdjustment req = Inr () \<and> adminID \<noteq> 0"

lemma adjust_valid_guard:
  "sbind (validateIdempotencyKey key) (\<lambda>_. sbind (validateAdjustment req) (\<lambda>_.
     require (adminID \<noteq> 0) PointsErrInvalidAdjustment)) = Inr u \<longleftrightarrow> adjust_valid adminID key req"
  by (auto simp: sbind_eq_Inr require_eq_Inr adjust_valid_def)

text \<open>
  Four outcomes: the transaction went through; another one got there first with the same request;
  a refusal, with at most a failure row in the audit log.
\<close>

lemma AdjustPoints_cases:
  assumes "AdjustPoints hash us wired li ai fi now adminID key req early d = (res, d')"
  obtains (ok) roleName v where "res = Inr v" "adjust_valid adminID key req"
      "resolveRole wired adminID d = Inr roleName"
      "adjust_tx li ai now adminID roleName (AdminAdjustEventKey us adminID key)
        (computeAdjustHash hash req) req early d = Inr (v, d')"
  | (raced) r where "res = Inr (ToLedgerEntry r)" "d' = d" "l_hash r = Some (computeAdjustHash hash req)"
      "FindByEventKey (AdminAdjustEventKey us adminID key) d = Inr r"
  | (refused) e t where "res = Inl e" "d' = d\<lparr>audit_logs := t\<rparr>"
proof (cases "adjust_valid adminID key req \<and> \<not> isl (resolveRole wired adminID d)")
  case False
  then have "\<exists>e. res = Inl e" "d' = d"
    using assms adjust_valid_guard[of key req adminID]
    by (auto simp: AdjustPoints_def Let_def split: sum.splits)
  then show thesis using refused audit_same[of d] by metis
next
  case True
  then obtain roleName where rn: "resolveRole wired adminID d = Inr roleName"
    by (cases "resolveRole wired adminID d") auto
  let ?k = "AdminAdjustEventKey us adminID key" and ?h = "computeAdjustHash hash req"
  have g: "sbind (validateIdempotencyKey key) (\<lambda>_. sbind (validateAdjustment req) (\<lambda>_.
     require (adminID \<noteq> 0) PointsErrInvalidAdjustment)) = Inr ()"
    using True adjust_valid_guard by blast
  show thesis
  proof (cases "adjust_tx li ai now adminID roleName ?k ?h req early d")
    case (Inr p)
    then show thesis using assms ok[of "fst p" roleName] True rn g
      by (cases p) (simp add: AdjustPoints_def commit_def Let_def)
  next
    case (Inl e)
    then consider r where "res = Inr (ToLedgerEntry r)" "d' = d" "l_hash r = Some ?h" "FindByEventKey ?k d = Inr r"
      | "\<exists>e. res = Inl e" "d' = d \<or> (\<exists>reason. d' = adjust_recordFailure fi adminID roleName req reason d)"
      using assms rn g unfolding AdjustPoints_def
      by (auto simp: commit_def Let_def sameHash_def split: if_splits sum.splits option.splits)
    then show thesis
      using raced refused audit_same adjust_recordFailure_cases by (cases; metis)
  qed
qed

lemma adjusted_db:
  assumes "adjusted li now adminID eventKey requestHash req d b d2" and "find_user (pa_user req) d = Some w"
    and "in64 (pa_delta req)"
  shows "b = u_balance w + pa_delta req" and "0 \<le> b"
    and "d2 = d\<lparr>users := charge (pa_user req) b (users d), ledger := ledger d @
      [(adjust_entry eventKey requestHash adminID now req b)\<lparr>l_id := li\<rparr>]\<rparr>"
  using assms AdjustBalance_eq_Inr[OF assms(2,3)]
  by (auto simp: adjusted_def insert_ledger_eq_Inr charge_def)

lemma adjusted_shop_ok:
  assumes ad: "adjusted li now adminID eventKey requestHash req d b d2"
    and w: "find_user (pa_user req) d = Some w" and n: "in64 (pa_delta req)" and ok: "shop_ok d"
  shows "shop_ok d2"
proof -
  obtain d1 where a: "AdjustBalance (pa_user req) (pa_delta req) d = Inr (b, d1)"
    and l: "insert_ledger ((adjust_entry eventKey requestHash adminID now req b)\<lparr>l_id := li\<rparr>) d1 = Inr d2"
    using ad by (auto simp: adjusted_def)
  have "tables_ok d2"
    using insert_ledger_tables_ok[OF l AdjustBalance_tables_ok[OF a]] ok by (simp add: shop_ok_def)
  moreover have "balance_of d (pa_user req) = Some (u_balance w)" using w by (simp add: balance_of_def)
  then have "accounts_settled d2"
    using acc.settle[OF _ n _ a refl refl l] ok by (simp add: accounts_settled_def shop_ok_def adjust_entry_def)
  moreover have "order_settled d2 r" if "r \<in> set (orders d2)" for r
    by (rule order_settled_other[of d])
      (use that ok adjusted_db(3)[OF ad w n] in
        \<open>auto simp: shop_ok_def orders_settled_def pays_def refunds_def adjust_entry_def items_of_def\<close>)
  ultimately show ?thesis by (simp add: shop_ok_def orders_settled_def)
qed

lemma AdjustPoints_shop_ok:
  assumes "shop_ok d" and "in64 (pa_delta req)"
  shows "shop_ok (snd (AdjustPoints hash us wired li ai fi now adminID key req early d))"
proof -
  obtain res d' where ex: "AdjustPoints hash us wired li ai fi now adminID key req early d = (res, d')"
    by (cases "AdjustPoints hash us wired li ai fi now adminID key req early d")
  then have "shop_ok d'"
  proof (cases rule: AdjustPoints_cases)
    case (ok roleName v)
    from ok(4) show ?thesis
      by (cases rule: adjust_tx_cases)
        (use assms adjusted_shop_ok[OF _ _ assms(2,1)] shop_ok_audit in auto)
  qed (use assms shop_ok_audit in auto)
  then show ?thesis by (simp add: ex)
qed

section \<open>Properties\<close>

definition demo_adjust :: "int \<Rightarrow> points_adjustment" where
  "demo_adjust n = \<lparr>pa_user = 1, pa_delta = n, pa_remark = '' make good ''\<rparr>"

lemma LockByEventKey_eq: "LockByEventKey k d = FindByEventKey k d"
  by (simp add: LockByEventKey_def FindByEventKey_def)

text \<open>
  C19: an adjustment under a new key that succeeds moves exactly the delta: the buyer's balance is
  the old one plus the delta and not negative, one ledger entry carries both, and products, orders
  and carts stay as they were.
\<close>

theorem AdjustPoints_effect:
  assumes "AdjustPoints hash us wired li ai fi now adminID key req early d = (Inr v, d')"
    and "FindByEventKey (AdminAdjustEventKey us adminID key) early = Inl ErrLedgerEntryNotFound"
    and "FindByEventKey (AdminAdjustEventKey us adminID key) d = Inl ErrLedgerEntryNotFound"
    and "in64 (pa_delta req)"
  shows "\<exists>b. balance_of d (pa_user req) = Some b \<and> 0 \<le> b + pa_delta req \<and>
    balance_of d' = (balance_of d)(pa_user req := Some (b + pa_delta req)) \<and>
    ledger d' = ledger d @ [(adjust_entry (AdminAdjustEventKey us adminID key)
      (computeAdjustHash hash req) adminID now req (b + pa_delta req))\<lparr>l_id := li\<rparr>] \<and>
    le_delta v = pa_delta req \<and> le_after v = b + pa_delta req \<and>
    products d' = products d \<and> orders d' = orders d \<and> cart_items d' = cart_items d"
  using assms(1)
proof (cases rule: AdjustPoints_cases)
  case (ok roleName v')
  from ok(4) show ?thesis
  proof (cases rule: adjust_tx_cases)
    case (new w b d2 t)
    note db = adjusted_db[OF new(3,2) assms(4)]
    have "balance_of d' = (balance_of d)(pa_user req := Some b)"
      using balance_of_set_balance[OF new(2), of b]
      by (simp add: new(4) db(3) charge_def balance_of_def find_user_def fun_eq_iff)
    then show ?thesis
      using new ok(1) db by (auto simp: balance_of_def ToLedgerEntry_def adjust_entry_def)
  qed (use assms(2) LockByEventKey_eq in simp)
qed (use assms(3) in simp_all)

lemma AdjustPoints_effect_witness:
  "\<exists>v d'. AdjustPoints (\<lambda>p. ''h'') demo_us False 95 96 97 20 41 ''k1'' (demo_adjust (- 40)) demo_db demo_db
     = (Inr v, d') \<and> balance_of d' 1 = Some 60"
proof -
  let ?r = "AdjustPoints (\<lambda>p. ''h'') demo_us False 95 96 97 20 41 ''k1'' (demo_adjust (- 40)) demo_db demo_db"
  have r: "\<not> isl (fst ?r)"
    "FindByEventKey (AdminAdjustEventKey demo_us 41 ''k1'') demo_db = Inl ErrLedgerEntryNotFound"
    "in64 (pa_delta (demo_adjust (- 40)))" "balance_of demo_db 1 = Some 100"
    "pa_user (demo_adjust (- 40)) = 1" "pa_delta (demo_adjust (- 40)) = - 40"
    by code_simp+
  then obtain v d' where e: "?r = (Inr v, d')" by (metis isl_def obj_sumE prod.exhaust_sel)
  show ?thesis using AdjustPoints_effect[OF e r(2,2,3)] e r(4-6) by auto
qed

text \<open>Whatever the first read saw: a key that is already in the ledger moves nothing.\<close>

lemma AdjustPoints_once:
  assumes "FindByEventKey (AdminAdjustEventKey us adminID key) d = Inr r"
  shows "users (snd (AdjustPoints hash us wired li ai fi now adminID key req early d)) = users d"
    and "ledger (snd (AdjustPoints hash us wired li ai fi now adminID key req early d)) = ledger d"
proof -
  obtain res d' where ex: "AdjustPoints hash us wired li ai fi now adminID key req early d = (res, d')"
    by (cases "AdjustPoints hash us wired li ai fi now adminID key req early d")
  have used: "r \<in> set (ledger d)" "l_event r = AdminAdjustEventKey us adminID key"
    using assms by (auto simp: FindByEventKey_eq_Inr dest: find_SomeD)
  have "users d' = users d \<and> ledger d' = ledger d"
    using ex
  proof (cases rule: AdjustPoints_cases)
    case (ok roleName v)
    from ok(4) show ?thesis
    proof (cases rule: adjust_tx_cases)
      case (new w b d2 t)
      then obtain d1 where "AdjustBalance (pa_user req) (pa_delta req) d = Inr (b, d1)"
        "\<forall>s\<in>set (ledger d1). l_event s \<noteq> AdminAdjustEventKey us adminID key"
        by (auto simp: adjusted_def insert_ledger_eq_Inr ledger_conflict_def adjust_entry_def)
      moreover have "ledger d1 = ledger d" using AdjustBalance_cases[OF calculation(1)] by auto
      ultimately show ?thesis using used by auto
    qed simp
  qed simp_all
  then show "users (snd (AdjustPoints hash us wired li ai fi now adminID key req early d)) = users d"
    "ledger (snd (AdjustPoints hash us wired li ai fi now adminID key req early d)) = ledger d"
    by (simp_all add: ex)
qed

text \<open>
  C20: a repeated key is answered from the ledger, with the entry of the first request when user,
  delta and trimmed remark are the same and with the conflict otherwise, and moves no points.
\<close>

theorem AdjustPoints_replay:
  assumes "adjust_valid adminID key req" and "resolveRole wired adminID d = Inr roleName"
    and "FindByEventKey (AdminAdjustEventKey us adminID key) d = Inr r"
    and "AdjustPoints hash us wired li ai fi now adminID key req d d = (res, d')"
  shows "res = (if l_hash r = Some (hash (pa_user req, pa_delta req, trim_space (pa_remark req)))
      then Inr (ToLedgerEntry r) else Inl PointsErrIdempotencyConflict) \<and>
    users d' = users d \<and> ledger d' = ledger d"
proof -
  have "sbind (validateIdempotencyKey key) (\<lambda>_. sbind (validateAdjustment req) (\<lambda>_.
     require (adminID \<noteq> 0) PointsErrInvalidAdjustment)) = Inr ()"
    using assms(1) adjust_valid_guard by blast
  then have "res = (if l_hash r = Some (computeAdjustHash hash req) then Inr (ToLedgerEntry r)
      else Inl PointsErrIdempotencyConflict)"
    using assms(2-4)
    by (auto simp: AdjustPoints_def adjust_tx_def LockByEventKey_eq commit_def Let_def sameHash_def
        split: if_splits option.splits)
  moreover have "users d' = users d" "ledger d' = ledger d"
    using AdjustPoints_once[OF assms(3), of hash wired li ai fi now req d] assms(4) by simp_all
  ultimately show ?thesis by (simp add: computeAdjustHash_def)
qed

definition demo_adjustment :: ledger_row where
  "demo_adjustment = (adjust_entry (AdminAdjustEventKey demo_us 41 ''k1'') ''h'' 41 20
     (demo_adjust (- 40)) 60)\<lparr>l_id := 95\<rparr>"

definition demo_adjusted :: db where
  "demo_adjusted = demo_db\<lparr>users := [demo_user\<lparr>u_balance := 60\<rparr>],
     ledger := [demo_bonus, demo_adjustment]\<rparr>"

lemma AdjustPoints_replay_witness:
  "\<exists>d'. AdjustPoints (\<lambda>p. ''g'') demo_us False 98 99 97 30 41 ''k1''
     (demo_adjust 7) demo_adjusted demo_adjusted = (Inl PointsErrIdempotencyConflict, d') \<and>
     ledger d' = ledger demo_adjusted"
proof -
  let ?x = "AdjustPoints (\<lambda>p. ''g'') demo_us False 98 99 97 30 41 ''k1'' (demo_adjust 7) demo_adjusted demo_adjusted"
  have h: "adjust_valid 41 ''k1'' (demo_adjust 7)" "resolveRole False 41 demo_adjusted = Inr ''admin''"
    "FindByEventKey (AdminAdjustEventKey demo_us 41 ''k1'') demo_adjusted = Inr demo_adjustment"
    "l_hash demo_adjustment = Some ''h''"
    by code_simp+
  show ?thesis
    using AdjustPoints_replay[OF h(1-3), of "\<lambda>p. ''g''" 98 99 97 30 "fst ?x" "snd ?x"] h(4)
    by (intro exI[of _ "snd ?x"]) (simp add: prod_eq_iff)
qed

text \<open>
  a key of 47 to 64 bytes is valid, yet the adjustment cannot be stored: the event key is 50
  bytes longer and exceeds its column, so a request that is fine in every other way fails with
  22001 and leaves no trace, not even a failure row.
\<close>

theorem AdjustPoints_long_key:
  assumes "ascii (us adminID)" and "length (us adminID) = 36" and "ascii key" and "46 < length key"
    and "adjust_valid adminID key req" and "resolveRole wired adminID d = Inr roleName"
    and "FindByEventKey (AdminAdjustEventKey us adminID key) early = Inl ErrLedgerEntryNotFound"
    and "find_user (pa_user req) d = Some w" and "in64 (pa_delta req)"
    and "0 \<le> u_balance w + pa_delta req" and "in64 (u_balance w + pa_delta req)"
  shows "AdjustPoints hash us wired li ai fi now adminID key req early d = (Inl StringTooLong, d)"
proof -
  let ?k = "AdminAdjustEventKey us adminID key" and ?h = "computeAdjustHash hash req"
  have g: "sbind (validateIdempotencyKey key) (\<lambda>_. sbind (validateAdjustment req) (\<lambda>_.
     require (adminID \<noteq> 0) PointsErrInvalidAdjustment)) = Inr ()"
    using assms(5) adjust_valid_guard by blast
  have "ascii ''admin_adjust:''" by code_simp
  then have "ascii ?k" using assms(1,3) by (simp add: AdminAdjustEventKey_def ascii_def)
  then have "rune_count ?k = length ?k" by (rule rune_count_ascii)
  then have "96 < rune_count ?k" using assms(2,4) by (simp add: AdminAdjustEventKey_def)
  then have "\<not> ledger_lengths ((adjust_entry ?k ?h adminID now req b)\<lparr>l_id := i\<rparr>)" for b i
    by (simp add: ledger_lengths_def adjust_entry_def)
  then have "ledger_create li (adjust_entry ?k ?h adminID now req b) d1 = Inl StringTooLong" for b d1
    by (simp add: ledger_create_def insert_ledger_def insert_checked_def)
  moreover obtain d1 where "AdjustBalance (pa_user req) (pa_delta req) d = Inr (u_balance w + pa_delta req, d1)"
    using AdjustBalance_eq_Inr[OF assms(8,9)] assms(10,11) by blast
  ultimately have "adjust_tx li ai now adminID roleName ?k ?h req early d = Inl StringTooLong"
    using assms(7,8) by (simp add: adjust_tx_def LockByEventKey_eq LockUser_def translated_def Let_def)
  then show ?thesis
    using g assms(6) by (simp add: AdjustPoints_def commit_def Let_def is_unique_violation_def)
qed

lemma AdjustPoints_long_key_witness:
  "AdjustPoints (\<lambda>p. ''h'') demo_us False 95 96 97 20 41 (replicate 47 (CHR ''k'')) (demo_adjust 5) demo_db demo_db
     = (Inl StringTooLong, demo_db)"
proof (rule AdjustPoints_long_key)
  show "find_user (pa_user (demo_adjust 5)) demo_db = Some demo_user" by code_simp
  show "resolveRole False 41 demo_db = Inr ''admin''" by code_simp
qed code_simp+

end
