(* ===== verification/Lifecycle.thy ===== *)
theory Lifecycle
  imports Points
begin

text \<open>
  The life of an order under the operations that act on it: every operation moves orders along
  \<open>lifecycle\<close> (\<open>orders_evolve\<close>), only the checkout, the approval of a refund and the adjustment move
  points, and what each of these moves is exact.
\<close>

section \<open>Orders follow the state machine\<close>

definition follows :: "order_row \<Rightarrow> order_row \<Rightarrow> bool" where
  "follows r s \<longleftrightarrow> o_id s = o_id r \<and> o_no s = o_no r \<and> o_user s = o_user r \<and> o_token s = o_token r \<and>
     o_total s = o_total r \<and> (o_status s = o_status r \<or> lifecycle (o_status r) (o_status s))"

definition orders_evolve :: "db \<Rightarrow> db \<Rightarrow> bool" where
  "orders_evolve d d' \<longleftrightarrow>
     (\<exists>new. list_all2 follows (orders d) (take (length (orders d)) (orders d')) \<and>
        orders d' = take (length (orders d)) (orders d') @ new \<and> (\<forall>r\<in>set new. o_status r = Paid))"

lemma follows_refl: "follows r r"
  by (simp add: follows_def)

lemma orders_evolve_same: "orders d' = orders d \<Longrightarrow> orders_evolve d d'"
  unfolding orders_evolve_def by (intro exI[of _ "[]"]) (simp add: list.rel_refl follows_refl)

lemma orders_evolve_new: "orders d' = orders d @ [r] \<Longrightarrow> o_status r = Paid \<Longrightarrow> orders_evolve d d'"
  unfolding orders_evolve_def by (intro exI[of _ "[r]"]) (simp add: list.rel_refl follows_refl)

lemma orders_evolve_update:
  assumes "orders d' = update_where P f (orders d)"
    and "\<And>r. r \<in> set (orders d) \<Longrightarrow> P r \<Longrightarrow> follows r (f r)"
  shows "orders_evolve d d'"
proof -
  have "list_all2 follows t (update_where P f t)" if "set t \<subseteq> set (orders d)" for t
    using that by (induction t) (auto simp: follows_refl assms(2))
  then show ?thesis
    unfolding orders_evolve_def using assms(1) by (intro exI[of _ "[]"]) simp
qed

lemma orders_evolve_at:
  assumes "orders d' = update_where (\<lambda>s. o_id s = i) f (orders d)" and "keeps_identity f"
    and "orders_ok d" and "one_order i r d" and "lifecycle (o_status r) (o_status (f r))"
  shows "orders_evolve d d'"
proof (rule orders_evolve_update[OF assms(1)])
  fix s
  assume "s \<in> set (orders d)" and "o_id s = i"
  then have "s = r" using one_order_unique[OF assms(3,4)] by (simp add: one_order_def)
  then show "follows s (f s)" using assms(2,5) by (simp add: follows_def keeps_identity_def)
qed

text \<open>An order that is there stays there, with the same buyer and total.\<close>

lemma orders_evolve_old:
  assumes "orders_evolve d d'" and "r \<in> set (orders d)"
  obtains s where "s \<in> set (orders d')" "follows r s"
proof -
  obtain i where i: "i < length (orders d)" "orders d ! i = r" using assms(2) by (metis in_set_conv_nth)
  have l: "list_all2 follows (orders d) (take (length (orders d)) (orders d'))"
    using assms(1) by (auto simp: orders_evolve_def)
  then have "follows r (take (length (orders d)) (orders d') ! i)"
    using i by (metis list_all2_nthD)
  moreover have "take (length (orders d)) (orders d') ! i \<in> set (orders d')"
    using i(1) list_all2_lengthD[OF l] by (metis in_set_takeD nth_mem)
  ultimately show thesis by (rule that[rotated])
qed

lemma orders_evolve_only:
  assumes "orders_evolve d d'" and "s \<in> set (orders d')"
  obtains r where "r \<in> set (orders d)" "follows r s" | "o_status s = Paid"
proof -
  obtain new where l: "list_all2 follows (orders d) (take (length (orders d)) (orders d'))"
    and n: "orders d' = take (length (orders d)) (orders d') @ new" "\<forall>r\<in>set new. o_status r = Paid"
    using assms(1) by (auto simp: orders_evolve_def)
  consider "s \<in> set (take (length (orders d)) (orders d'))" | "s \<in> set new"
    using assms(2) n(1) by (metis UnE set_append)
  then show thesis
  proof cases
    case 1
    then show thesis using l that(1) by (metis in_set_conv_nth list_all2_conv_all_nth)
  qed (use n(2) that(2) in blast)
qed

lemma Execute_evolves: "orders_evolve d (snd (Execute env u key req early d))"
proof -
  obtain res d' where ex: "Execute env u key req early d = (res, d')" by (cases "Execute env u key req early d")
  have "orders_evolve d d'"
    using Execute_cases[OF ex]
  proof
    assume "\<exists>v. res = Inr v \<and> create_tx env u key req early d = Inr (v, d')"
    then obtain v where "create_tx env u key req early d = Inr (v, d')" by blast
    then show ?thesis
    proof (cases rule: create_tx_cases)
      case (new r addr rows ps tot d1)
      show ?thesis by (rule orders_evolve_new) (auto simp: placed_db[OF new(6,2)] new_order_def)
    qed (simp add: orders_evolve_same)
  qed (simp add: orders_evolve_same)
  then show ?thesis by (simp add: ex)
qed

lemma Ship_evolves:
  assumes ok: "orders_ok d"
  shows "orders_evolve d (snd (Ship wired ai fi now adminID orderID d))"
proof -
  obtain res d' where ex: "Ship wired ai fi now adminID orderID d = (res, d')"
    by (cases "Ship wired ai fi now adminID orderID d")
  then have "orders_evolve d d'"
    unfolding Ship_def
  proof (cases rule: admin_order_op_cases)
    case c: (ok roleName v)
    from c(2) ok show ?thesis
    proof (cases rule: ship_tx_cases)
      case (1 r d1 t)
      show ?thesis
        by (rule orders_evolve_at[OF _ _ ok 1(1), of _ "ship_row adminID now"])
          (simp_all add: 1(2,4,5) with_order_def ship_row_def lifecycle.ship)
    qed
  qed (simp add: orders_evolve_same)
  then show ?thesis by (simp add: ex)
qed

lemma Confirm_evolves:
  assumes ok: "orders_ok d"
  shows "orders_evolve d (snd (Confirm now userID orderID d))"
proof (cases "Confirm now userID orderID d")
  case (Pair res d')
  show ?thesis
  proof (cases res)
    case (Inl e)
    then show ?thesis using Pair by (auto simp: Confirm_def commit_failed orders_evolve_same split: if_splits)
  next
    case (Inr v)
    then have "confirm_tx now userID orderID d = Inr (v, d')"
      using Pair by (auto simp: Confirm_def commit_ok split: if_splits)
    from this ok have "orders_evolve d d'"
    proof (cases rule: confirm_tx_cases)
      case (1 r)
      show ?thesis
        by (rule orders_evolve_at[OF _ _ ok 1(1), of _ "confirm_row now"])
          (simp_all add: 1(2,5) with_order_def confirm_row_def lifecycle.receive)
    qed
    then show ?thesis using Pair by simp
  qed
qed

lemma RefundRequest_evolves:
  assumes ok: "orders_ok d"
  shows "orders_evolve d (snd (RefundRequest userID orderID raw d))"
proof (cases "RefundRequest userID orderID raw d")
  case (Pair res d')
  show ?thesis
  proof (cases res)
    case (Inl e)
    then show ?thesis
      using Pair by (auto simp: RefundRequest_def Let_def commit_failed orders_evolve_same split: if_splits)
  next
    case (Inr v)
    then have "request_tx userID orderID (trim_space raw) d = Inr (v, d')"
      using Pair by (auto simp: RefundRequest_def Let_def commit_ok split: if_splits)
    from this ok have "orders_evolve d d'"
    proof (cases rule: request_tx_cases)
      case (1 r)
      show ?thesis
        by (rule orders_evolve_at[OF _ _ ok 1(1), of _ "request_row (trim_space raw)"])
          (use 1(2) in \<open>auto simp: 1(5) with_order_def request_row_def refundable_def
             intro: lifecycle.intros\<close>)
    qed
    then show ?thesis using Pair by simp
  qed
qed

lemma RefundReject_evolves:
  assumes ok: "orders_ok d"
  shows "orders_evolve d (snd (RefundReject wired ai fi now adminID orderID raw d))"
proof (cases "bad_reason (trim_space raw)")
  case False
  obtain res d' where ex: "RefundReject wired ai fi now adminID orderID raw d = (res, d')"
    by (cases "RefundReject wired ai fi now adminID orderID raw d")
  then have "admin_order_op wired fi adminID orderID ''refund.reject''
      (\<lambda>roleName. reject_tx ai now adminID roleName orderID (trim_space raw)) d = (res, d')"
    using False by (simp add: RefundReject_def Let_def)
  then have "orders_evolve d d'"
  proof (cases rule: admin_order_op_cases)
    case c: (ok roleName v)
    from c(2) ok show ?thesis
    proof (cases rule: reject_tx_cases)
      case (1 r d1 t)
      show ?thesis
        by (rule orders_evolve_at[OF _ _ ok 1(1), of _ "reject_row (reject_target r) (trim_space raw) adminID now"])
          (use reject_target_cases[of r] in \<open>auto simp: 1(2,4,5) with_order_def reject_row_def
             intro: lifecycle.intros\<close>)
    qed
  qed (simp add: orders_evolve_same)
  then show ?thesis by (simp add: ex)
qed (simp add: RefundReject_def orders_evolve_same Let_def)

lemma RefundApprove_evolves:
  assumes ok: "orders_ok d"
  shows "orders_evolve d (snd (RefundApprove wired us li ai fi now adminID orderID d))"
proof -
  obtain res d' where ex: "RefundApprove wired us li ai fi now adminID orderID d = (res, d')"
    by (cases "RefundApprove wired us li ai fi now adminID orderID d")
  then have "orders_evolve d d'"
    unfolding RefundApprove_def
  proof (cases rule: admin_order_op_cases)
    case c: (ok roleName v)
    from c(2) show ?thesis
    proof (cases rule: approve_tx_cases)
      case (1 r w d4 t)
      then have r: "r \<in> set (orders d)" "o_id r = orderID" by (simp_all add: one_order_def)
      have "orders d4 = update_where (\<lambda>s. o_id s = orderID) (approve_row adminID now) (orders d)"
        by (rule approved_db[OF 1(5,4) r(1) 1(3) ok]) (simp add: r(2))
      then show ?thesis
        by (intro orders_evolve_at[OF _ _ ok 1(2), of _ "approve_row adminID now"])
          (simp_all add: 1(3,6) approve_row_def lifecycle.approve)
    qed
  qed (simp add: orders_evolve_same)
  then show ?thesis by (simp add: ex)
qed

lemma AdjustPoints_evolves:
  assumes "in64 (pa_delta req)"
  shows "orders_evolve d (snd (AdjustPoints hash us wired li ai fi now adminID key req early d))"
proof -
  obtain res d' where ex: "AdjustPoints hash us wired li ai fi now adminID key req early d = (res, d')"
    by (cases "AdjustPoints hash us wired li ai fi now adminID key req early d")
  then have "orders d' = orders d"
  proof (cases rule: AdjustPoints_cases)
    case (ok roleName v)
    from ok(4) show ?thesis
    proof (cases rule: adjust_tx_cases)
      case (new w b d2 t)
      then show ?thesis using adjusted_db(3)[OF new(3,2) assms] by simp
    qed simp
  qed simp_all
  then show ?thesis by (simp add: ex orders_evolve_same)
qed

end
