(* ===== verification/World.thy ===== *)
theory World
  imports Lifecycle
begin

text \<open>
  The shop as a transition system: one rule per operation that writes, whatever its caller, its
  clocks and its generated ids. \<open>shop_step\<close> is what a database transaction of the server can do to
  the tables, \<open>shop_step\<^sup>*\<^sup>*\<close> what any sequence of requests can. \<open>shop_ok\<close> is an invariant of it, and
  the orders of every reachable shop moved along the state machine.
\<close>

section \<open>Operations on one table\<close>

lemma shop_ok_frame:
  assumes "shop_ok d" and "tables_ok d'" and "users d' = users d" and "ledger d' = ledger d"
    and "orders d' = orders d" and "order_items d' = order_items d"
  shows "shop_ok d'"
  using assms unfolding shop_ok_def by (blast intro: accounts_settled_frame orders_settled_frame)

lemma shop_ok_carts:
  assumes "shop_ok d" and "d' = d\<lparr>cart_items := t\<rparr>" and "carts_ok d'"
  shows "shop_ok d'"
  by (rule shop_ok_frame[OF assms(1) tables_ok_carts[OF _ assms(2,3)]])
    (use assms(1) in \<open>simp_all add: shop_ok_def assms(2)\<close>)

lemma shop_ok_addresses:
  assumes "shop_ok d" and "d' = d\<lparr>addresses := t\<rparr>" and "addresses_ok d'"
  shows "shop_ok d'"
  by (rule shop_ok_frame[OF assms(1) tables_ok_addresses[OF _ assms(2,3)]])
    (use assms(1) in \<open>simp_all add: shop_ok_def assms(2)\<close>)

lemma shop_ok_products:
  assumes "shop_ok d" and "d' = d\<lparr>products := t, audit_logs := a\<rparr>" and "products_ok d'"
    and "p_id ` set (products d) \<subseteq> p_id ` set t"
  shows "shop_ok d'"
proof -
  let ?e = "d\<lparr>products := t\<rparr>"
  have "tables_ok ?e"
    by (rule tables_ok_products[of d _ t])
      (use assms(1,3,4) in \<open>simp_all add: shop_ok_def assms(2) products_ok_def\<close>)
  then have "shop_ok ?e" by (rule shop_ok_frame[OF assms(1)]) simp_all
  then show ?thesis using shop_ok_audit by (simp add: assms(2))
qed

lemma commit_only:
  assumes "\<And>x d'. f d = Inr (x, d') \<Longrightarrow> \<exists>t. d' = put t d" and "\<exists>t. d = put t d"
  shows "\<exists>t. snd (commit f d) = put t d"
  using assms by (cases "f d") (auto simp: commit_def)

lemma cart_ops_only:
  "\<exists>t. snd (cart_add base fresh u p q d) = d\<lparr>cart_items := t\<rparr>"
  "\<exists>t. snd (cart_update base u i q d) = d\<lparr>cart_items := t\<rparr>"
  "\<exists>t. snd (cart_delete u i d) = d\<lparr>cart_items := t\<rparr>"
proof -
  have same: "\<exists>t. d = d\<lparr>cart_items := t\<rparr>" by (rule exI[of _ "cart_items d"]) simp
  note only = commit_only[of _ d "\<lambda>t d. d\<lparr>cart_items := t\<rparr>", OF _ same]
  have ups: "cart_upsert fresh u p q d = Inr d' \<Longrightarrow> \<exists>t. d' = d\<lparr>cart_items := t\<rparr>" for d'
    by (auto simp: cart_upsert_def split: option.splits if_splits)
  have "\<exists>t. snd (commit (\<lambda>d.
        if find_product p d = None then Inl ErrCartProductNotFound
        else if (case find_line u p d of None \<Rightarrow> False | Some current \<Rightarrow> max_int32 < c_qty current + q)
        then Inl ErrQuantityOverflow
        else sbind (cart_upsert fresh u p q d) (\<lambda>d1. (case find_line u p d1 of
             None \<Rightarrow> Inl (ErrOther ''record not found'')
           | Some saved \<Rightarrow> Inr (toCartView base d1 saved, d1)))) d) = d\<lparr>cart_items := t\<rparr>"
    by (rule only) (auto simp: sbind_eq_Inr dest!: ups split: if_splits option.splits)
  then show "\<exists>t. snd (cart_add base fresh u p q d) = d\<lparr>cart_items := t\<rparr>"
    using same by (simp add: cart_add_def)
  show "\<exists>t. snd (cart_update base u i q d) = d\<lparr>cart_items := t\<rparr>"
    unfolding cart_update_def
    by (simp add: same) (auto simp: Let_def intro!: only split: if_splits option.splits)
  show "\<exists>t. snd (cart_delete u i d) = d\<lparr>cart_items := t\<rparr>"
    unfolding cart_delete_def
    by (simp add: same) (auto simp: Let_def intro!: only split: if_splits)
qed

lemma address_ops_only:
  "\<exists>t. snd (address_create clock fresh u x d) = d\<lparr>addresses := t\<rparr>"
  "\<exists>t. snd (address_update_op clock u i y d) = d\<lparr>addresses := t\<rparr>"
  "\<exists>t. snd (address_delete u i d) = d\<lparr>addresses := t\<rparr>"
proof -
  have same: "\<exists>t. d = d\<lparr>addresses := t\<rparr>" by (rule exI[of _ "addresses d"]) simp
  note only = commit_only[of _ d "\<lambda>t d. d\<lparr>addresses := t\<rparr>", OF _ same]
  show "\<exists>t. snd (address_create clock fresh u x d) = d\<lparr>addresses := t\<rparr>"
    unfolding address_create_def
    by (simp add: same split: sum.split)
      (auto simp: Let_def insert_address_eq_Inr clearDefaultAddress_def intro!: only split: sum.splits if_splits)
  show "\<exists>t. snd (address_update_op clock u i y d) = d\<lparr>addresses := t\<rparr>"
    unfolding address_update_op_def
    by (simp add: same split: sum.split)
      (auto simp: Let_def update_address_def clearDefaultAddress_def intro!: only
        split: sum.splits if_splits option.splits)
  show "\<exists>t. snd (address_delete u i d) = d\<lparr>addresses := t\<rparr>"
    unfolding address_delete_def
    by (simp add: same) (auto simp: Let_def intro!: only split: if_splits)
qed

definition catalogue_only :: "db \<Rightarrow> db \<Rightarrow> bool" where
  "catalogue_only d d' \<longleftrightarrow> (\<exists>t a. d' = d\<lparr>products := t, audit_logs := a\<rparr> \<and>
     p_id ` set (products d) \<subseteq> p_id ` set t)"

lemma catalogue_onlyI:
  "p_id ` set (products d) \<subseteq> p_id ` set t \<Longrightarrow> catalogue_only d (d\<lparr>products := t, audit_logs := a\<rparr>)"
  unfolding catalogue_only_def by blast

lemma catalogue_only_same: "catalogue_only d d"
  using catalogue_onlyI[of d "products d" "audit_logs d"] by simp

lemma catalogue_only_commit:
  "(\<And>x d'. f d = Inr (x, d') \<Longrightarrow> catalogue_only d d') \<Longrightarrow> catalogue_only d (snd (commit f d))"
  by (cases "f d") (auto simp: commit_def catalogue_only_same)

lemma product_ops_only:
  "catalogue_only d (snd (product_create base pid aid act x d))"
  "catalogue_only d (snd (product_update_op base aid act i y d))"
proof -
  show "catalogue_only d (snd (product_create base pid aid act x d))"
    unfolding product_create_def
    by (simp add: catalogue_only_same split: sum.split)
      (auto simp: Let_def sbind_eq_Inr insert_product_eq_Inr write_audit_eq_Inr
        intro!: catalogue_only_commit catalogue_onlyI)
  have pid: "p_id (g p) = p_id p" if "product_assign y = Inr g" for g p
    using that by (auto simp: product_assign_def sbind_eq_Inr assign_fields_def split: if_splits)
  have up: "p_id ` set (products d) \<subseteq> p_id ` set (update_where (\<lambda>p. p_id p = i) g (products d))"
    if "product_assign y = Inr g" for g
  proof -
    have "map p_id (update_where (\<lambda>p. p_id p = i) g (products d)) = map p_id (products d)"
      by (rule map_update_where) (rule pid[OF that])
    then show ?thesis by (metis list.set_map order_refl)
  qed
  have st: "catalogue_only d d'" if "update_product i g d = Inr d1" "product_assign y = Inr g"
      "d' = d1\<lparr>audit_logs := a\<rparr>" for g d1 d' a
    using that up[OF that(2)] by (auto simp: update_product_def Let_def intro!: catalogue_onlyI split: if_splits)
  show "catalogue_only d (snd (product_update_op base aid act i y d))"
  proof (cases "i = 0 \<or> isl (validateUpdateInput y)")
    case False
    then obtain u where "validateUpdateInput y = Inr u" by (cases "validateUpdateInput y") auto
    with False show ?thesis
      unfolding product_update_op_def
      by (simp, intro catalogue_only_commit) (elim sbind_InrE write_audit_only, rule st; simp)
  qed (auto simp: product_update_op_def catalogue_only_same split: sum.split)
qed

text \<open>A login changes buyers and may post the bonus, which no order has to do with.\<close>

definition login_only :: "db \<Rightarrow> db \<Rightarrow> bool" where
  "login_only d d' \<longleftrightarrow> (\<exists>t l. d' = d\<lparr>users := t, ledger := l\<rparr> \<and> u_id ` set (users d) \<subseteq> u_id ` set t \<and>
     (l = ledger d \<or> (\<exists>e. l = ledger d @ [e] \<and> l_type e = SignupBonus)))"

lemma login_onlyI:
  "u_id ` set (users d) \<subseteq> u_id ` set t \<Longrightarrow> login_only d (d\<lparr>users := t\<rparr>)"
  "u_id ` set (users d) \<subseteq> u_id ` set t \<Longrightarrow> l_type e = SignupBonus \<Longrightarrow>
   login_only d (d\<lparr>users := t, ledger := ledger d @ [e]\<rparr>)"
  unfolding login_only_def
  by (intro exI[of _ t] exI[of _ "ledger d"], simp)
     (intro exI[of _ t] exI[of _ "ledger d @ [e]"], simp)

lemma login_only_same: "login_only d d"
  using login_onlyI(1)[of d "users d"] by simp

lemma UpsertByOpenID_only:
  "login_only d (snd (UpsertByOpenID us fresh lid clock openID unionID bonus nickname now d))"
proof -
  have "login_only d d'"
    if "upsert_tx us fresh lid clock openID unionID bonus nickname t d = Inr (v, d')" for t v d'
    using that
  proof (cases rule: upsert_tx_cases)
    case (plain user d1 r)
    then show ?thesis
      using upsertUser_cases[OF plain(1)] login_only_same[of d] login_onlyI(1)[of d "users d @ [user]"] by auto
  next
    case (bonus user d1 l d2 r)
    obtain t1 where d1: "d1 = d\<lparr>users := t1\<rparr>" and t1: "set (users d) \<subseteq> set t1"
    proof -
      have "d = d\<lparr>users := users d\<rparr>" by simp
      then show thesis using upsertUser_cases[OF bonus(1)] that[of "users d"] that[of "users d @ [user]"] by auto
    qed
    define t2 where "t2 = update_where (\<lambda>r. u_id r = u_id user)
      (\<lambda>r. r\<lparr>u_balance := bonus, u_updated := clock\<rparr>) t1"
    have "map u_id t2 = map u_id t1" by (simp add: t2_def map_update_where)
    then have "u_id ` set (users d) \<subseteq> u_id ` set t2" using t1 by (metis image_mono image_set)
    moreover have "d' = d\<lparr>users := t2, ledger := ledger d @ [l]\<rparr>"
      using bonus(6) by (simp add: bonus(12) insert_ledger_eq_Inr with_bonus_def d1 t2_def)
    ultimately show ?thesis using login_onlyI(2) bonus(10) by simp
  qed
  then show ?thesis
    using login_only_same by (auto simp: UpsertByOpenID_def commit_def split: sum.splits)
qed

lemma UpsertByOpenID_shop_ok:
  assumes ok: "shop_ok d" and b: "in64 bonus"
  shows "shop_ok (snd (UpsertByOpenID us fresh lid clock openID unionID bonus nickname now d))"
proof -
  define d' where "d' = snd (UpsertByOpenID us fresh lid clock openID unionID bonus nickname now d)"
  have tok: "tables_ok d" and acc: "accounts_settled d" and set: "orders_settled d"
    using ok by (auto simp: shop_ok_def)
  have parts: "users_ok d" "ledger_ok d" using tok by (auto simp: tables_ok_def)
  obtain t l where d': "d' = d\<lparr>users := t, ledger := l\<rparr>" and ids: "u_id ` set (users d) \<subseteq> u_id ` set t"
    and l: "l = ledger d \<or> (\<exists>e. l = ledger d @ [e] \<and> l_type e = SignupBonus)"
    using UpsertByOpenID_only[of d us fresh lid clock openID unionID bonus nickname now]
    by (auto simp: login_only_def d'_def)
  have "users_ok d'" unfolding d'_def by (rule UpsertByOpenID_users_ok[OF parts(1) b])
  moreover have "accounts_settled d'" "ledger_ok d'"
    unfolding d'_def by (rule UpsertByOpenID_settled[OF acc parts(2,1)])+
  ultimately have new: "users_ok d'" "accounts_settled d'" "ledger_ok d'" by auto
  have "tables_ok (d\<lparr>users := t\<rparr>)"
    by (rule tables_ok_users[OF tok refl _ ids]) (use new(1) in \<open>simp add: d' users_ok_def\<close>)
  then have "tables_ok d'" by (rule tables_ok_ledger[OF _ _ new(3)]) (simp add: d')
  moreover have "order_settled d' r" if "r \<in> set (orders d')" for r
  proof -
    have r: "order_settled d r" using that set by (simp add: d' orders_settled_def)
    show ?thesis
      using l
    proof
      assume "l = ledger d"
      then show ?thesis by (intro order_settled_cong[OF r]) (simp_all add: d')
    next
      assume "\<exists>e. l = ledger d @ [e] \<and> l_type e = SignupBonus"
      then obtain e where "l = ledger d @ [e]" "l_type e = SignupBonus" by blast
      then show ?thesis
        by (intro order_settled_other[OF r, of d' e]) (simp_all add: d' pays_def refunds_def items_of_def)
    qed
  qed
  ultimately have "shop_ok d'" using new(2) by (simp add: shop_ok_def orders_settled_def)
  then show ?thesis by (simp add: d'_def)
qed

text \<open>A profile update writes names and pictures.\<close>

lemma UpdateProfile_shop_ok:
  assumes ok: "shop_ok d"
  shows "shop_ok (snd (UpdateProfile clock i nickname avatarURL d))"
proof -
  let ?t = "update_where (\<lambda>r. u_id r = i) (profile_assign clock nickname avatarURL) (users d)"
  let ?d = "d\<lparr>users := ?t\<rparr>"
  have f: "u_id (profile_assign clock nickname avatarURL r) = u_id r"
    "u_openid (profile_assign clock nickname avatarURL r) = u_openid r"
    "u_balance (profile_assign clock nickname avatarURL r) = u_balance r" for r
    by (simp_all add: profile_assign_def)
  have ids: "map u_id ?t = map u_id (users d)" by (rule map_update_where) (rule f)
  have "map u_openid ?t = map u_openid (users d)" by (rule map_update_where) (rule f)
  then have "users_ok ?d"
    using ok ids f by (auto simp: shop_ok_def tables_ok_def users_ok_def set_update_where)
  then have "tables_ok ?d"
    by (rule tables_ok_users[rotated 2]) (use ok ids in \<open>auto simp: shop_ok_def simp flip: set_map\<close>)
  moreover have "balance_of ?d = balance_of d"
    by (auto simp: balance_of_def find_user_def fun_eq_iff find_update_where f option.map_comp comp_def
        intro!: option.map_cong0)
  then have "accounts_settled ?d"
    using ok acc.settle_frame[of d ?d] statement_of_frame[of ?d d] by (simp add: shop_ok_def accounts_settled_def)
  moreover have "orders_settled ?d"
    by (rule orders_settled_frame[of d]) (use ok in \<open>simp_all add: shop_ok_def\<close>)
  ultimately have "shop_ok ?d" by (simp add: shop_ok_def)
  then show ?thesis using ok by (simp add: UpdateProfile_def Let_def)
qed

lemma UpdateProfile_orders: "orders (snd (UpdateProfile clock i nickname avatarURL d)) = orders d"
  by (simp add: UpdateProfile_def Let_def)

section \<open>The steps\<close>

text \<open>
  Amounts and quantities arrive in Go's integer types, which the rules state; everything else is
  arbitrary.
\<close>

inductive shop_step :: "db \<Rightarrow> db \<Rightarrow> bool" where
  checkout: "shop_step d (snd (Execute env u key req early d))"
| ship: "shop_step d (snd (Ship wired ai fi now adminID orderID d))"
| confirm: "shop_step d (snd (Confirm now u orderID d))"
| refund_request: "shop_step d (snd (RefundRequest u orderID raw d))"
| refund_approve: "shop_step d (snd (RefundApprove wired us li ai fi now adminID orderID d))"
| refund_reject: "shop_step d (snd (RefundReject wired ai fi now adminID orderID raw d))"
| adjust: "in64 (pa_delta adj) \<Longrightarrow>
    shop_step d (snd (AdjustPoints hash us wired li ai fi now adminID key adj early d))"
| add_to_cart: "in32 q \<Longrightarrow> shop_step d (snd (cart_add base fresh u p q d))"
| update_cart: "in32 q \<Longrightarrow> shop_step d (snd (cart_update base u i q d))"
| remove_from_cart: "shop_step d (snd (cart_delete u i d))"
| create_address: "shop_step d (snd (address_create clock fresh u ax d))"
| update_address: "shop_step d (snd (address_update_op clock u i ay d))"
| delete_address: "shop_step d (snd (address_delete u i d))"
| create_product: "in32 (pi_stock px) \<Longrightarrow> shop_step d (snd (product_create base pid aid act px d))"
| update_product: "(\<And>n. pu_stock py = Some n \<Longrightarrow> in32 n) \<Longrightarrow>
    shop_step d (snd (product_update_op base aid act i py d))"
| login: "in64 bonus \<Longrightarrow>
    shop_step d (snd (UpsertByOpenID us fresh lid clock openID unionID bonus nickname now d))"
| profile: "shop_step d (snd (UpdateProfile clock i pnick avatarURL d))"

lemma shop_step_cart_ok:
  assumes "shop_ok d" and "d' = snd (cart_add base fresh u p q d) \<and> in32 q \<or>
    d' = snd (cart_update base u i q d) \<and> in32 q \<or> d' = snd (cart_delete u i d)"
  shows "shop_ok d'" and "orders d' = orders d"
proof -
  have c: "carts_ok d" using assms(1) by (simp add: shop_ok_def tables_ok_def)
  obtain t where t: "d' = d\<lparr>cart_items := t\<rparr>" using assms(2) cart_ops_only by metis
  have "carts_ok d'" using assms(2) cart_add_ok[OF c] cart_update_ok[OF c] cart_delete_ok[OF c] by metis
  then show "shop_ok d'" by (rule shop_ok_carts[OF assms(1) t])
  show "orders d' = orders d" by (simp add: t)
qed

lemma shop_step_address_ok:
  assumes "shop_ok d" and "d' = snd (address_create clock fresh u x d) \<or>
    d' = snd (address_update_op clock u i y d) \<or> d' = snd (address_delete u i d)"
  shows "shop_ok d'" and "orders d' = orders d"
proof -
  have c: "addresses_ok d" using assms(1) by (simp add: shop_ok_def tables_ok_def)
  obtain t where t: "d' = d\<lparr>addresses := t\<rparr>" using assms(2) address_ops_only by metis
  have "addresses_ok d'"
    using assms(2) address_create_ok[OF c] address_update_ok[OF c] address_delete_ok[OF c] by metis
  then show "shop_ok d'" by (rule shop_ok_addresses[OF assms(1) t])
  show "orders d' = orders d" by (simp add: t)
qed

lemma shop_step_catalogue_ok:
  assumes "shop_ok d" and "catalogue_only d d'" and "products_ok d'"
  shows "shop_ok d'" and "orders d' = orders d"
  using assms shop_ok_products[OF assms(1)] by (auto simp: catalogue_only_def)

theorem shop_step_ok: "shop_step d d' \<Longrightarrow> shop_ok d \<Longrightarrow> shop_ok d'"
proof (induction rule: shop_step.induct)
  case (create_product px d base pid aid act)
  then have "products_ok d" by (simp add: shop_ok_def tables_ok_def)
  then show ?case
    using shop_step_catalogue_ok(1)[OF create_product(2) product_ops_only(1)]
      product_create_ok[OF _ create_product(1)] by blast
next
  case (update_product py d base aid act i)
  then have "products_ok d" by (simp add: shop_ok_def tables_ok_def)
  moreover have "case pu_stock py of None \<Rightarrow> True | Some n \<Rightarrow> in32 n"
    using update_product(1) by (simp split: option.split)
  ultimately show ?case
    using shop_step_catalogue_ok(1)[OF update_product(2) product_ops_only(2)] product_update_ok by blast
qed (blast intro: Execute_shop_ok Ship_shop_ok Confirm_shop_ok RefundRequest_shop_ok
    RefundApprove_shop_ok RefundReject_shop_ok AdjustPoints_shop_ok UpsertByOpenID_shop_ok
    UpdateProfile_shop_ok shop_step_cart_ok(1) shop_step_address_ok(1))+

lemma UpsertByOpenID_orders:
  "orders (snd (UpsertByOpenID us fresh lid clock openID unionID bonus nickname now d)) = orders d"
  using UpsertByOpenID_only[of d us fresh lid clock openID unionID bonus nickname now]
  by (auto simp: login_only_def)

lemma catalogue_only_orders: "catalogue_only d d' \<Longrightarrow> orders d' = orders d"
  by (auto simp: catalogue_only_def)

lemma shop_step_evolves: "shop_step d d' \<Longrightarrow> shop_ok d \<Longrightarrow> orders_evolve d d'"
proof (induction rule: shop_step.induct)
qed (blast intro: Execute_evolves Ship_evolves[OF shop_ok_orders] Confirm_evolves[OF shop_ok_orders]
    RefundRequest_evolves[OF shop_ok_orders] RefundApprove_evolves[OF shop_ok_orders]
    RefundReject_evolves[OF shop_ok_orders] AdjustPoints_evolves
    orders_evolve_same[OF UpsertByOpenID_orders] orders_evolve_same[OF UpdateProfile_orders]
    orders_evolve_same[OF catalogue_only_orders[OF product_ops_only(1)]]
    orders_evolve_same[OF catalogue_only_orders[OF product_ops_only(2)]]
    orders_evolve_same[OF shop_step_cart_ok(2)] orders_evolve_same[OF shop_step_address_ok(2)])+

end
