(* ===== verification/Effects.thy ===== *)
theory Effects
  imports Lifecycle Replay
begin

text \<open>
  What the order operations do to points, stock and the audit log, from one end of an order's life
  to the other.
\<close>

section \<open>One shop with an order\<close>

definition demo_ordered :: db where
  "demo_ordered = snd (Execute demo_env 1 ''k1'' demo_req demo_db demo_db)"

definition demo_requested :: db where
  "demo_requested = snd (RefundRequest 1 71 ''broken'' demo_ordered)"

lemma demo_db_ok: "shop_ok demo_db"
  by code_simp

lemma demo_ordered_ok: "shop_ok demo_ordered"
  unfolding demo_ordered_def by (rule Execute_shop_ok[OF demo_db_ok])

lemma demo_requested_ok: "shop_ok demo_requested"
  unfolding demo_requested_def by (rule RefundRequest_shop_ok[OF demo_ordered_ok])

lemma returned: "\<not> isl (fst p) \<Longrightarrow> p = (Inr (projr (fst p)), snd p)"
  by (cases p) (simp add: isl_def split: sum.splits)

section \<open>Approval\<close>

lemma RefundApprove_InrD:
  assumes "RefundApprove wired us li ai fi now adminID orderID d = (Inr v, d')"
  obtains roleName where "approve_tx us li ai now adminID roleName orderID d = Inr (v, d')"
  using assms unfolding RefundApprove_def by (cases rule: admin_order_op_cases) auto

lemma balance_of_charge:
  assumes "find_user u d = Some w" and "users d' = charge u b (users d)"
  shows "balance_of d' = (balance_of d)(u := Some b)"
  using balance_of_set_balance[OF assms(1), of b] assms(2)
  by (simp add: charge_def balance_of_def find_user_def fun_eq_iff)

text \<open>
  C15: a refund that is approved gives back exactly what the order took: its buyer gets the total,
  every product gets the quantities of the order's lines, the refund entry is appended to the
  ledger, the order, which had been waiting for it, is refunded, and the cart is left alone.
\<close>

theorem RefundApprove_effect:
  assumes "RefundApprove wired us li ai fi now adminID orderID d = (Inr v, d')" and "shop_ok d"
  shows "\<exists>r b. r \<in> set (orders d) \<and> o_id r = orderID \<and> o_status r = RefundRequested \<and>
    balance_of d (o_user r) = Some b \<and>
    balance_of d' = (balance_of d)(o_user r := Some (b + o_total r)) \<and>
    (\<forall>i. stock_of d' i = map_option (\<lambda>n. n + qty_of (item_lines (items_of d orderID)) i) (stock_of d i)) \<and>
    ledger d' = ledger d @ [(refund_entry us adminID now (b + o_total r) r)\<lparr>l_id := li\<rparr>] \<and>
    orders d' = update_where (\<lambda>s. o_id s = orderID) (approve_row adminID now) (orders d) \<and>
    ov_status v = Refunded \<and> ov_id v = orderID \<and> cart_items d' = cart_items d"
proof -
  obtain roleName where "approve_tx us li ai now adminID roleName orderID d = Inr (v, d')"
    using RefundApprove_InrD[OF assms(1)] .
  then show ?thesis
  proof (cases rule: approve_tx_cases)
    case (1 r w d4 t)
    then have r: "r \<in> set (orders d)" "o_id r = orderID" by (simp_all add: one_order_def)
    obtain ps where d4: "d4 = d\<lparr>users := charge (o_user r) (u_balance w + o_total r) (users d),
      products := ps, ledger := ledger d @ [(refund_entry us adminID now (u_balance w + o_total r) r)\<lparr>l_id := li\<rparr>],
      orders := update_where (\<lambda>s. o_id s = o_id r) (approve_row adminID now) (orders d)\<rparr>"
      and st: "\<And>i. stock_of d4 i = map_option (\<lambda>n. n + qty_of (item_lines (items_of d (o_id r))) i) (stock_of d i)"
      using approved_db[OF 1(5,4) r(1) 1(3) shop_ok_orders[OF assms(2)]] by metis
    have "balance_of d' = (balance_of d)(o_user r := Some (u_balance w + o_total r))"
      by (rule balance_of_charge[OF 1(4)]) (simp add: 1(6) d4)
    moreover have "stock_of d' i = stock_of d4 i" for i by (simp add: stock_of_def find_product_def 1(6))
    moreover have "balance_of d (o_user r) = Some (u_balance w)" by (simp add: balance_of_def 1(4))
    moreover have "ov_status v = Refunded" "ov_id v = orderID"
      by (simp_all add: 1(7) ToOrder_def approve_row_def r(2))
    ultimately show ?thesis using r 1(3) st by (intro exI[of _ r] exI[of _ "u_balance w"]) (simp add: 1(6) d4)
  qed
qed

lemma RefundApprove_effect_witness:
  "\<exists>v d'. RefundApprove True demo_us 92 93 94 30 41 71 demo_requested = (Inr v, d') \<and>
     ov_status v = Refunded \<and> cart_items d' = cart_items demo_requested"
proof -
  let ?x = "RefundApprove True demo_us 92 93 94 30 41 71 demo_requested"
  have "\<not> isl (fst ?x)" by code_simp
  then obtain v where v: "?x = (Inr v, snd ?x)" using returned by blast
  show ?thesis using RefundApprove_effect[OF v demo_requested_ok] v by blast
qed

text \<open>
  a refund happens at most once: after an approval every further approval of the order is
  refused, whoever asks, and leaves points, ledger, stock and orders as they are.
\<close>

theorem RefundApprove_at_most_once:
  assumes "RefundApprove wired us li ai fi now adminID orderID d = (Inr v, d')" and "shop_ok d"
    and "RefundApprove wired' us' li' ai' fi' now' adminID' orderID d' = (res, d'')"
  shows "isl res \<and> users d'' = users d' \<and> ledger d'' = ledger d' \<and> products d'' = products d' \<and>
    orders d'' = orders d'"
  using assms(3) unfolding RefundApprove_def
proof (cases rule: admin_order_op_cases)
  case (ok roleName v')
  obtain rn where "approve_tx us li ai now adminID rn orderID d = Inr (v, d')"
    using RefundApprove_InrD[OF assms(1)] .
  then have closed: "o_status s = Refunded" if s: "s \<in> set (orders d')" "o_id s = orderID" for s
  proof (cases rule: approve_tx_cases)
    case (1 r w d4 t)
    then have r: "r \<in> set (orders d)" "o_id r = orderID" by (simp_all add: one_order_def)
    have "orders d4 = update_where (\<lambda>s. o_id s = o_id r) (approve_row adminID now) (orders d)"
      by (rule approved_db[OF 1(5,4) r(1) 1(3) shop_ok_orders[OF assms(2)]]) simp
    then have "s \<in> (\<lambda>q. if o_id q = o_id r then approve_row adminID now q else q) ` set (orders d)"
      using s(1) by (simp add: 1(6) set_update_where)
    then obtain q where "s = (if o_id q = o_id r then approve_row adminID now q else q)" by (rule imageE)
    then show ?thesis using s(2) r(2) by (cases "o_id q = o_id r") (simp_all add: approve_row_def)
  qed
  from ok(2) show ?thesis
  proof (cases rule: approve_tx_cases)
    case (1 r w d4 t)
    then have "o_status r = Refunded" by (intro closed) (simp_all add: one_order_def)
    then show ?thesis using 1(3) by simp
  qed
qed simp

lemma RefundApprove_at_most_once_witness:
  "\<exists>v d' res d''. RefundApprove True demo_us 92 93 94 30 41 71 demo_requested = (Inr v, d') \<and>
     RefundApprove True demo_us 95 96 97 31 41 71 d' = (res, d'') \<and> isl res \<and> users d'' = users d'"
proof -
  let ?x = "RefundApprove True demo_us 92 93 94 30 41 71 demo_requested"
  let ?y = "RefundApprove True demo_us 95 96 97 31 41 71 (snd ?x)"
  have "\<not> isl (fst ?x)" by code_simp
  then obtain v where v: "?x = (Inr v, snd ?x)" using returned by blast
  have y: "?y = (fst ?y, snd ?y)" by simp
  show ?thesis using RefundApprove_at_most_once[OF v demo_requested_ok y] v y by blast
qed

section \<open>There and back\<close>

text \<open>What a buyer requests back has the lines and the total of what the checkout placed.\<close>

lemma placed_item_lines:
  assumes pl: "placed env u key req addr rows (indexProducts ps) tot d d1 d'"
    and r: "find_user u d = Some r" and ok: "tables_ok d"
    and ps: "LockByIDs (productIDsOf rows) d = Inr ps"
  shows "item_lines (items_of d' (e_order env)) = order_lines rows"
proof -
  have "items_of d' (e_order env) = new_items env (indexProducts ps) rows"
    using items_of_new[OF _ placed_fresh(1)[OF pl], of "indexProducts ps" rows] ok
    by (simp add: tables_ok_def items_of_def placed_db(1)[OF pl r])
  then show ?thesis using draft_lines[OF ps] ok by (simp add: tables_ok_def item_lines_def)
qed

lemma map_option_id': "(\<And>x. f x = x) \<Longrightarrow> map_option f m = m"
  by (cases m) auto

text \<open>
  C11: an order that is placed, sent back and refunded has cost nothing: every balance and every
  stock is what it was before the checkout.
\<close>

theorem checkout_refund_restores:
  assumes buy: "Execute env u key req early d = (Inr v, d1)" and ok: "shop_ok d"
    and unused: "LockForReplay u key early = None" "FindForReplay u key d = None"
    and ask: "RefundRequest u (ov_id v) raw d1 = (Inr v2, d2)"
    and give: "RefundApprove wired us li ai fi now adminID (ov_id v) d2 = (Inr v3, d3)"
  shows "balance_of d3 = balance_of d \<and> stock_of d3 = stock_of d"
  using Execute_first(1)[OF buy unused(2)]
proof (cases rule: create_tx_cases)
  case (new r addr rows ps tot ds)
  let ?n = "new_order env u key req addr rows tot"
  note db = placed_db[OF new(6,2)]
  have tok: "tables_ok d" using ok by (simp add: shop_ok_def)
  have ok1: "shop_ok d1" using Execute_shop_ok[OF ok, of env u key req early] buy by simp
  have oid: "ov_id v = e_order env" by (simp add: new(7) ToOrder_def new_order_def)
  have "request_tx u (ov_id v) (trim_space raw) d1 = Inr (v2, d2)"
    using ask by (auto simp: RefundRequest_def Let_def commit_ok split: if_splits)
  then obtain f where f: "keeps_identity f" and d2: "d2 = with_order f (ov_id v) d1"
    using request_tx_cases[OF _ shop_ok_orders[OF ok1]] keeps_identity_refund(1) by metis
  have ok2: "shop_ok d2" using RefundRequest_shop_ok[OF ok1, of u "ov_id v" raw] ask by simp
  obtain s b where s: "s \<in> set (orders d2)" "o_id s = ov_id v" "balance_of d2 (o_user s) = Some b"
    and bal: "balance_of d3 = (balance_of d2)(o_user s := Some (b + o_total s))"
    and st: "\<And>i. stock_of d3 i = map_option (\<lambda>n. n + qty_of (item_lines (items_of d2 (ov_id v))) i) (stock_of d2 i)"
    using RefundApprove_effect[OF give ok2] by blast
  have "one_order (ov_id v) ?n d1" by (simp add: one_order_def db(1) oid new_order_def)
  then have "one_order (ov_id v) (f ?n) d2"
    using f by (simp add: one_order_def d2 with_order_def set_update_where keeps_identity_def rev_image_eqI)
  then have "s = f ?n" using one_order_unique[OF shop_ok_orders[OF ok2]] s by (simp add: one_order_def)
  then have su: "o_user s = u" "o_total s = tot" using f by (simp_all add: keeps_identity_def new_order_def)
  have "balance_of d2 = (balance_of d)(u := Some (u_balance r - tot))"
    by (rule balance_of_charge[OF new(2)]) (simp add: d2 with_order_def db(1))
  moreover have "balance_of d u = Some (u_balance r)" using new(2) by (simp add: balance_of_def)
  ultimately have "balance_of d3 = balance_of d" using bal s(3) su by auto
  moreover have "stock_of d3 i = stock_of d i" for i
  proof -
    have "items_of d2 (ov_id v) = items_of d1 (e_order env)" by (simp add: items_of_def d2 with_order_def oid)
    then have l: "item_lines (items_of d2 (ov_id v)) = order_lines rows"
      using placed_item_lines[OF new(6,2) tok new(5)] by simp
    have "each DecrementStock (order_lines rows) d = Inr ds" using new(6) by (auto simp: placed_def)
    then have "stock_of d2 i = map_option (\<lambda>n. n - qty_of (order_lines rows) i) (stock_of d i)"
      using inv.take_each[of "order_lines rows" d ds i]
      by (simp add: d2 with_order_def db stock_of_def find_product_def)
    then show ?thesis using st[of i] l by (simp add: option.map_comp comp_def map_option_id')
  qed
  ultimately show ?thesis by (simp add: fun_eq_iff)
qed (use unused in simp)

lemma checkout_refund_restores_witness:
  "\<exists>v v2 v3 d3. Execute demo_env 1 ''k1'' demo_req demo_db demo_db = (Inr v, demo_ordered) \<and>
     RefundRequest 1 (ov_id v) ''broken'' demo_ordered = (Inr v2, demo_requested) \<and>
     RefundApprove True demo_us 92 93 94 30 41 (ov_id v) demo_requested = (Inr v3, d3) \<and>
     balance_of d3 = balance_of demo_db \<and> stock_of d3 = stock_of demo_db"
proof -
  let ?a = "Execute demo_env 1 ''k1'' demo_req demo_db demo_db"
  let ?b = "RefundRequest 1 71 ''broken'' demo_ordered"
  let ?c = "RefundApprove True demo_us 92 93 94 30 41 71 demo_requested"
  have n: "\<not> isl (fst ?a)" "\<not> isl (fst ?b)" "\<not> isl (fst ?c)" "ov_id (projr (fst ?a)) = 71"
    "LockForReplay 1 ''k1'' demo_db = None" "FindForReplay 1 ''k1'' demo_db = None"
    by code_simp+
  let ?v = "projr (fst ?a)"
  have e: "?a = (Inr ?v, demo_ordered)" "?b = (Inr (projr (fst ?b)), demo_requested)"
      "?c = (Inr (projr (fst ?c)), snd ?c)"
    unfolding demo_ordered_def demo_requested_def
    by (rule returned[OF n(1)] returned[OF n(2)[unfolded demo_ordered_def]]
        returned[OF n(3)[unfolded demo_ordered_def demo_requested_def]])+
  have "balance_of (snd ?c) = balance_of demo_db \<and> stock_of (snd ?c) = stock_of demo_db"
    by (rule checkout_refund_restores[OF e(1) demo_db_ok n(5,6), unfolded n(4), OF e(2,3)])
  then show ?thesis
    using e by (intro exI[of _ ?v] exI[of _ "projr (fst ?b)"] exI[of _ "projr (fst ?c)"]
      exI[of _ "snd ?c"]) (simp only: n(4) simp_thms)
qed

end
