(* ===== verification/Guards.thy ===== *)
theory Guards
  imports Effects
begin

text \<open>
  What the order operations refuse, and what a refusal leaves behind: other buyers' orders are as
  good as absent, a transition from the wrong state changes nothing but the audit log, and the
  operations that move no money move none.
\<close>

section \<open>Only the checkout, the approval and the adjustment move points and stock\<close>

definition same_money :: "db \<Rightarrow> db \<Rightarrow> bool" where
  "same_money d d' \<longleftrightarrow> users d' = users d \<and> ledger d' = ledger d \<and> products d' = products d \<and>
     cart_items d' = cart_items d \<and> order_items d' = order_items d"

lemma same_money_audit: "same_money d (d\<lparr>audit_logs := t\<rparr>)"
  by (simp add: same_money_def)

lemma same_money_order: "same_money d (with_order f i d)" "same_money d ((with_order f i d)\<lparr>audit_logs := t\<rparr>)"
  by (simp_all add: same_money_def with_order_def)

lemma admin_order_op_money:
  assumes "\<And>roleName v d'. body roleName d = Inr (v, d') \<Longrightarrow> same_money d d'"
  shows "same_money d (snd (admin_order_op wired fi adminID orderID action body d))"
proof -
  obtain res d' where ex: "admin_order_op wired fi adminID orderID action body d = (res, d')"
    by (cases "admin_order_op wired fi adminID orderID action body d")
  then have "same_money d d'"
    by (cases rule: admin_order_op_cases) (simp_all add: assms same_money_audit)
  then show ?thesis by (simp add: ex)
qed

lemma commit_money:
  assumes "\<And>v d'. f d = Inr (v, d') \<Longrightarrow> same_money d d'"
  shows "same_money d (snd (commit f d))"
  using assms by (cases "f d") (auto simp: commit_def same_money_def)

text \<open>
  C16: shipping, confirming, asking for a refund and rejecting one never touch a balance, the ledger,
  the stock, a cart or the lines of an order, whether they succeed or are refused.
\<close>

theorem order_moves_no_money:
  assumes "orders_ok d"
  shows "same_money d (snd (Ship wired ai fi now adminID orderID d)) \<and>
    same_money d (snd (Confirm now userID orderID d)) \<and>
    same_money d (snd (RefundRequest userID orderID raw d)) \<and>
    same_money d (snd (RefundReject wired ai fi now adminID orderID raw d))"
proof -
  have r: "same_money d d" by (simp add: same_money_def)
  have "same_money d (snd (Ship wired ai fi now adminID orderID d))"
    unfolding Ship_def
    by (rule admin_order_op_money) (erule ship_tx_cases[OF _ assms], simp add: same_money_order)
  moreover have "same_money d (snd (commit (confirm_tx now userID orderID) d))"
    by (rule commit_money) (erule confirm_tx_cases[OF _ assms], simp add: same_money_order)
  moreover have "same_money d (snd (commit (request_tx userID orderID (trim_space raw)) d))"
    by (rule commit_money) (erule request_tx_cases[OF _ assms], simp add: same_money_order)
  moreover have "same_money d (snd (admin_order_op wired fi adminID orderID ''refund.reject''
      (\<lambda>roleName. reject_tx ai now adminID roleName orderID (trim_space raw)) d))"
    by (rule admin_order_op_money) (erule reject_tx_cases[OF _ assms], simp add: same_money_order)
  ultimately show ?thesis
    unfolding Confirm_def RefundRequest_def RefundReject_def Let_def using r by auto
qed

lemma order_moves_no_money_witness:
  "same_money demo_requested (snd (RefundReject True 92 93 30 41 71 ''worn'' demo_requested))"
  using order_moves_no_money[OF shop_ok_orders[OF demo_requested_ok]] by blast

section \<open>Other buyers' orders\<close>

text \<open>
  C18: an order of somebody else looks exactly like one that does not exist: reading it, confirming
  its receipt and asking for its refund all report it as not found and change nothing.
\<close>

theorem foreign_order_hidden:
  assumes "\<forall>r\<in>set (orders d). o_id r = orderID \<longrightarrow> o_user r \<noteq> userID"
  shows "order_get userID orderID d = Inl ErrOrderNotFound \<and>
    Confirm now userID orderID d = (Inl ErrOrderNotFound, d) \<and>
    RefundRequest userID orderID raw d =
      (Inl (if bad_reason (trim_space raw) then ErrInvalidRefundReason else ErrOrderNotFound), d)"
proof -
  have "find (\<lambda>r. o_id r = orderID \<and> o_user r = userID) (orders d) = None"
    using assms by (auto simp: find_None_iff)
  then show ?thesis
    by (simp add: order_get_def GetByUser_def find_order_def Confirm_def confirm_tx_def
        LockForUpdateByUser_def commit_def RefundRequest_def request_tx_def Let_def)
qed

lemma foreign_order_hidden_witness:
  "Confirm 30 2 71 demo_ordered = (Inl ErrOrderNotFound, demo_ordered)"
proof -
  have "list_all (\<lambda>r. o_id r = 71 \<longrightarrow> o_user r \<noteq> 2) (orders demo_ordered)" by code_simp
  then show ?thesis using foreign_order_hidden[of demo_ordered 71 2 30] by (simp add: list_all_iff)
qed

section \<open>Refused transitions\<close>

text \<open>The row a refused transition of an administrator leaves in the audit log.\<close>

definition refusal_row :: "uid \<Rightarrow> uid \<Rightarrow> string \<Rightarrow> uid \<Rightarrow> string \<Rightarrow> audit_row" where
  "refusal_row fi adminID roleName orderID action = \<lparr>au_id = fi, au_actor = Some adminID,
     au_role = sameOr roleName ''admin'', au_action = action, au_target_type = ''order'',
     au_target = Some orderID, au_result = ''failure'', au_before = [],
     au_after = [(''reason'', AStr ''order is not in the required state'')]\<rparr>"

lemma recordFailure_row:
  assumes "rune_count roleName \<le> 32" and "rune_count action \<le> 64"
    and "adminID \<in> ad_id ` set (admins d)" and "fi \<notin> au_id ` set (audit_logs d)"
  shows "recordFailure fi adminID roleName orderID action ErrOrderStateConflict d =
    d\<lparr>audit_logs := audit_logs d @ [refusal_row fi adminID roleName orderID action]\<rparr>"
proof -
  let ?e = "\<lparr>ActorAdminID = Some adminID, ActorRole = sameOr roleName ''admin'',
         Action = action, TargetType = ''order'', TargetID = Some orderID, Result = ''failure'',
         BeforeData = [], AfterData = [(''reason'', AStr (err_text ErrOrderStateConflict))]\<rparr>"
  have n: "rune_count ''admin'' = 5" "rune_count ''order'' = 5" "rune_count ''failure'' = 7" by code_simp+
  have "audit_valid fi ?e d"
    using assms n by (simp add: audit_valid_def audit_lengths_def audit_checks_def audit_row_of_def
        sameOr_def admin_ref_def)
  then have "write_audit fi ?e d = Inr (d\<lparr>audit_logs := audit_logs d @ [audit_row_of fi ?e]\<rparr>)"
    using assms(4) by (simp add: write_audit_eq_Inr audit_appended_def)
  moreover have "audit_row_of fi ?e = refusal_row fi adminID roleName orderID action"
    by (simp add: audit_row_of_def refusal_row_def err_text_def)
  ultimately show ?thesis by (simp add: recordFailure_def failure_tx_def commit_def)
qed

lemma admin_order_op_conflict:
  assumes "body roleName d = Inl ErrOrderStateConflict" and "resolveRole wired adminID d = Inr roleName"
    and "adminID \<noteq> 0" and "orderID \<noteq> 0"
  shows "admin_order_op wired fi adminID orderID action body d =
    (Inl ErrOrderStateConflict, recordFailure fi adminID roleName orderID action ErrOrderStateConflict d)"
  using assms by (simp add: admin_order_op_def commit_def)

lemma find_order_row:
  "orders_ok d \<Longrightarrow> one_order i r d \<Longrightarrow> find (\<lambda>r. o_id r = i) (orders d) = Some r"
  using find_key[of o_id "orders d" r] by (auto simp: orders_ok_def one_order_def)

text \<open>
  C17: an administrator who ships an order that is not paid, or decides on a refund nobody is waiting
  for, is told of the conflict; nothing changes except that the audit log gets a failure row with
  the actor, the action, the order and the reason.
\<close>

theorem refused_transition_audited:
  assumes "orders_ok d" and "one_order orderID r d" and "orderID \<noteq> 0" and "adminID \<noteq> 0"
    and "resolveRole wired adminID d = Inr roleName" and "rune_count roleName \<le> 32"
    and "adminID \<in> ad_id ` set (admins d)" and "fi \<notin> au_id ` set (audit_logs d)"
  shows "(o_status r \<noteq> Paid \<longrightarrow> Ship wired ai fi now adminID orderID d =
      (Inl ErrOrderStateConflict,
       d\<lparr>audit_logs := audit_logs d @ [refusal_row fi adminID roleName orderID ''order.ship'']\<rparr>)) \<and>
    (o_status r \<noteq> RefundRequested \<longrightarrow> RefundApprove wired us li ai fi now adminID orderID d =
      (Inl ErrOrderStateConflict,
       d\<lparr>audit_logs := audit_logs d @ [refusal_row fi adminID roleName orderID ''refund.approve'']\<rparr>)) \<and>
    (o_status r \<noteq> RefundRequested \<and> \<not> bad_reason (trim_space raw) \<longrightarrow>
      RefundReject wired ai fi now adminID orderID raw d =
      (Inl ErrOrderStateConflict,
       d\<lparr>audit_logs := audit_logs d @ [refusal_row fi adminID roleName orderID ''refund.reject'']\<rparr>))"
proof -
  have lk: "LockForUpdate orderID d = Inr (preload_items d r)"
    using find_order_row[OF assms(1,2)] by (simp add: LockForUpdate_def find_order_def)
  have n: "rune_count ''order.ship'' \<le> 64" "rune_count ''refund.approve'' \<le> 64"
    "rune_count ''refund.reject'' \<le> 64" by code_simp+
  note rec = recordFailure_row[OF assms(6) _ assms(7,8)]
  note conflict = admin_order_op_conflict[OF _ assms(5,4,3)]
  show ?thesis
    by (simp add: Ship_def RefundApprove_def RefundReject_def Let_def conflict rec n ship_tx_def
        approve_tx_def reject_tx_def lk)
qed

lemma refused_transition_audited_witness:
  "Ship True 92 93 30 41 71 demo_requested = (Inl ErrOrderStateConflict, demo_requested\<lparr>audit_logs :=
     audit_logs demo_requested @ [refusal_row 93 41 ''super_admin'' 71 ''order.ship'']\<rparr>)"
proof -
  let ?r = "hd (orders demo_requested)"
  have h: "?r \<in> set (orders demo_requested) \<and> o_id ?r = 71 \<and> o_status ?r \<noteq> Paid"
    "resolveRole True 41 demo_requested = Inr ''super_admin''" "rune_count ''super_admin'' \<le> 32"
    "41 \<in> ad_id ` set (admins demo_requested)" "93 \<notin> au_id ` set (audit_logs demo_requested)"
    by code_simp+
  then have "one_order 71 ?r demo_requested" by (simp add: one_order_def)
  then show ?thesis
    using refused_transition_audited[OF shop_ok_orders[OF demo_requested_ok] _ _ _ h(2-5)] h(1) by simp
qed

end
