(* ===== verification/CheckoutFacts.thy ===== *)
theory CheckoutFacts
  imports Effects Progress
begin

text \<open>
  The checkout on concrete shops: its theorems applied, and the two places where it does not do what
  it means to, the price that wraps and the conflict that is lost.
\<close>

section \<open>At most once\<close>

lemma demo_key_used: "FindForReplay 1 ''k1'' demo_ordered \<noteq> None"
  by code_simp

lemma Execute_once_witness:
  "snd (Execute demo_env 1 ''k1'' \<lparr>CartItemIDs = [31], AddressID = 21\<rparr> demo_db demo_ordered) = demo_ordered"
  by (rule Execute_once[OF demo_key_used])

lemma demo_placed: "Execute demo_env 1 ''k1'' demo_req demo_db demo_db =
    (Inr (projr (fst (Execute demo_env 1 ''k1'' demo_req demo_db demo_db))), demo_ordered)"
proof -
  have "\<not> isl (fst (Execute demo_env 1 ''k1'' demo_req demo_db demo_db))" by code_simp
  from returned[OF this] show ?thesis unfolding demo_ordered_def .
qed

lemma demo_key_fresh: "LockForReplay 1 ''k1'' demo_db = None" "FindForReplay 1 ''k1'' demo_db = None"
  by code_simp+

text \<open>The same selection, listed the other way round, after the cart has been emptied.\<close>

lemma Execute_replay_witness:
  "\<exists>v. Execute demo_env 1 ''k1'' demo_req demo_db demo_db = (Inr v, demo_ordered) \<and>
     Execute demo_env 1 ''k1'' \<lparr>CartItemIDs = [32, 31], AddressID = 21\<rparr> demo_db demo_ordered =
       (Inr v, demo_ordered)"
proof -
  have ok: "tables_ok demo_db" using demo_db_ok by (simp add: shop_ok_def)
  have "AddressID \<lparr>CartItemIDs = [32, 31], AddressID = 21\<rparr> = AddressID demo_req"
    "mset (CartItemIDs \<lparr>CartItemIDs = [32, 31], AddressID = 21\<rparr>) = mset (CartItemIDs demo_req)"
    by (simp_all add: demo_req_def)
  from Execute_replay[OF demo_placed ok demo_key_fresh refl this, of demo_db] demo_key_fresh(1) demo_placed
  show ?thesis by blast
qed

section \<open>The price decides\<close>

lemma demo_env_fresh: "env_fresh demo_env demo_db"
proof -
  have "inj_on (\<lambda>n. 80 + of_nat n :: uid) {..<2}"
    by (auto simp: inj_on_def less_Suc_eq numeral_2_eq_2)
  then show ?thesis
    unfolding env_fresh_def
    by (auto simp: demo_defs demo_us_def OrderPayEventKey_def less_Suc_eq numeral_2_eq_2
        rune_count_code ascii_code ascii_char_def)
qed

lemma Execute_covered_witness:
  "\<exists>v d'. Execute demo_env 1 ''k1'' demo_req demo_db demo_db = (Inr v, d') \<and> ov_total v = 75 \<and>
     balance_of d' = (balance_of demo_db)(1 := Some 25)"
proof -
  have h: "tables_ok demo_db" "covered demo_db 1 demo_req" "ValidateIdempotencyKey ''k1'' = Inr ()"
    "validateOrderRequest demo_req = Inr ()" "find_user 1 demo_db = Some demo_user"
    "u_balance demo_user = 100" "selection_total 1 (CartItemIDs demo_req) demo_db = 75"
    by code_simp+
  show ?thesis
    using Execute_covered[OF h(1-4) _ demo_key_fresh h(5) demo_env_fresh] h(6,7) by auto
qed

section \<open>Where the price wraps\<close>

lemma guard_wraps: "in64 x \<Longrightarrow> int64 (max_int64 - x) < 0 \<longleftrightarrow> x < 0"
proof (cases "x < 0")
  case True
  assume "in64 x"
  then have "(max_int64 - x + 2 ^ 63) mod 2 ^ 64 = max_int64 - x + 2 ^ 63 - 2 ^ 64"
    using True by (simp add: in64_def max_int64_def mod_pos_geq)
  then show ?thesis using True \<open>in64 x\<close> by (simp add: int64_def in64_def max_int64_def)
next
  case False
  assume "in64 x"
  then have "in64 (max_int64 - x)" using False by (simp add: in64_def max_int64_def)
  then show ?thesis using False \<open>in64 x\<close> by (simp add: in64_def max_int64_def)
qed

text \<open>
  C21: the line total is multiplied before it is checked: for a line that is on sale and in stock the
  charge is the product of price and quantity reduced to 64 bits, so an order whose real price no
  \<open>int64\<close> can hold is refused only when the reduced one happens to be negative, and is otherwise
  sold for what is left of it.
\<close>

theorem single_line_charge:
  assumes "pm (c_product c) = Some p" and "p_status p = StatusOnSale" and "c_qty c \<le> p_stock p"
  shows "price_lines pm 0 [] [c] =
    (if int64 (p_price p * c_qty c) < 0 then Inl ErrInvalidOrderRequest
     else Inr (int64 (p_price p * c_qty c), [draft pm c]))"
proof -
  let ?l = "int64 (p_price p * c_qty c)"
  have "int64 (max_int64 - ?l) < 0 \<longleftrightarrow> ?l < 0" by (rule guard_wraps) simp
  then show ?thesis using assms by (simp add: Let_def draft_def)
qed

definition demo_gold :: product_row where
  "demo_gold = \<lparr>p_id = 13, p_name = ''Gold'', p_description = [], p_category = [], p_images = [],
     p_price = 4611686018427387905, p_stock = 4, p_status = ''on_sale''\<rparr>"

lemma single_line_charge_witness:
  "\<exists>its. price_lines [13 \<mapsto> demo_gold] 0 [] [\<lparr>c_id = 33, c_user = 1, c_product = 13, c_qty = 4\<rparr>] = Inr (4, its)"
proof -
  let ?c = "\<lparr>c_id = 33, c_user = 1, c_product = 13, c_qty = 4\<rparr>"
  have "[13 \<mapsto> demo_gold] (c_product ?c) = Some demo_gold" "p_status demo_gold = StatusOnSale"
    "c_qty ?c \<le> p_stock demo_gold" "int64 (p_price demo_gold * c_qty ?c) = 4"
    by (simp_all add: demo_gold_def int64_def)
  then show ?thesis using single_line_charge[of "[13 \<mapsto> demo_gold]" ?c demo_gold] by simp
qed

section \<open>Where a conflict is lost\<close>

text \<open>
  Two requests of a buyer with the same key race with different selections. The second one passes
  its first check before the first commits, finds its own cart rows in place and fails on the
  unique index.
\<close>

definition hash_ids :: "hash_payload \<Rightarrow> string" where
  "hash_ids p = (if length (hp_ids p) = 1 then ''g'' else ''h'')"

definition demo_raced :: db where
  "demo_raced = demo_ordered\<lparr>cart_items := [\<lparr>c_id = 34, c_user = 1, c_product = 12, c_qty = 1\<rparr>]\<rparr>"

definition late_env :: env where
  "late_env = demo_env\<lparr>e_hash := hash_ids, e_order := 72, e_no := ''ORD11-ab''\<rparr>"

definition late_req :: order_request where
  "late_req = \<lparr>CartItemIDs = [34], AddressID = 21\<rparr>"

text \<open>
  the loser of such a race is not told of the conflict: the check after the unique violation
  finds that the stored order answers a different request, but \<open>Execute\<close> drops that answer and
  returns the raw constraint error.
\<close>

theorem conflict_is_lost:
  "resolveAfterConflict late_env 1 ''k1'' late_req demo_raced = Inl ErrIdempotencyConflict \<and>
   Execute late_env 1 ''k1'' late_req demo_db demo_raced = (Inl UniqueViolation, demo_raced)"
proof
  show "resolveAfterConflict late_env 1 ''k1'' late_req demo_raced = Inl ErrIdempotencyConflict"
    by code_simp
  have "fst (Execute late_env 1 ''k1'' late_req demo_db demo_raced) = Inl UniqueViolation"
    by code_simp
  moreover have "snd (Execute late_env 1 ''k1'' late_req demo_db demo_raced) = demo_raced"
  proof (cases "Execute late_env 1 ''k1'' late_req demo_db demo_raced")
    case (Pair res d')
    then show ?thesis using Execute_cases[OF Pair] calculation by auto
  qed
  ultimately show "Execute late_env 1 ''k1'' late_req demo_db demo_raced = (Inl UniqueViolation, demo_raced)"
    by (simp add: prod_eq_iff)
qed

end
