(* ===== verification/RateLimit.thy ===== *)
theory RateLimit
  imports GoText
begin

text \<open>
  The fixed-window rate limiters: \<open>internal/middleware/rate_limit.go\<close>,
  \<open>internal/application/auth/rate_limit.go\<close> (buyer login, per IP) and
  \<open>internal/admin/rate_limit.go\<close> (administrator login, per account and per IP).

  A bucket is the start of its window and the number of requests it let through. Each limiter is a
  map from keys to buckets; \<open>now\<close> is the clock reading of the request, a number of nanoseconds
  whose \<open>0\<close> is Go's zero time. Differences of times are exact, because \<open>Sub\<close> only saturates
  beyond every window. What the three have in common is the locale \<open>fixed_window\<close>, and the bound
  on what passes is proved there once.
\<close>

type_synonym bucket = "int \<times> int"

text \<open>A limiter that a nonpositive configuration is clamped for.\<close>

definition clamp_limit :: "int \<Rightarrow> int" where
  "clamp_limit n = (if n < 1 then 1 else n)"

definition clamp_window :: "int \<Rightarrow> int" where
  "clamp_window w = (if w \<le> 0 then 60000000000 else w)"

section \<open>One bucket\<close>

text \<open>
  \<open>allowIntoBucket\<close> for the bucket of one key: whether the request passes, and the bucket after it.
\<close>

definition take_token :: "int \<Rightarrow> int \<Rightarrow> int \<Rightarrow> bucket option \<Rightarrow> bool \<times> bucket option" where
  "take_token limit window now b = (case b of
     None \<Rightarrow> (True, Some (now, 1))
   | Some (started, count) \<Rightarrow>
       if now - started \<ge> window then (True, Some (now, 1))
       else if count \<ge> limit then (False, Some (started, count))
       else (True, Some (started, count + 1)))"

section \<open>The limiters\<close>

type_synonym buckets = "string \<Rightarrow> bucket option"

definition allowIntoBucket ::
  "buckets \<Rightarrow> string \<Rightarrow> int \<Rightarrow> int \<Rightarrow> int \<Rightarrow> bool \<times> buckets" where
  "allowIntoBucket buckets key limit window now =
     (case buckets key of
        None \<Rightarrow> (True, buckets(key \<mapsto> (now, 1)))
      | Some (started, count) \<Rightarrow>
          if now - started \<ge> window then (True, buckets(key \<mapsto> (now, 1)))
          else if count \<ge> limit then (False, buckets)
          else (True, buckets(key \<mapsto> (started, count + 1))))"

text \<open>\<open>middleware.RateLimiter\<close>: an absent entry is the zero one.\<close>

definition RateLimiter_Allow :: "int \<Rightarrow> int \<Rightarrow> int \<Rightarrow> string \<Rightarrow> buckets \<Rightarrow> bool \<times> buckets" where
  "RateLimiter_Allow limit window now key entries =
     (let (started, count) = (case entries key of None \<Rightarrow> (0, 0) | Some b \<Rightarrow> b) in
      if started = 0 \<or> now - started \<ge> window then (True, entries(key \<mapsto> (now, 1)))
      else if count \<ge> limit then (False, entries)
      else (True, entries(key \<mapsto> (started, count + 1))))"

text \<open>\<open>auth.LoginRateLimiter\<close>.\<close>

definition BuyerLogin_Allow :: "int \<Rightarrow> int \<Rightarrow> int \<Rightarrow> string \<Rightarrow> buckets \<Rightarrow> bool \<times> buckets" where
  "BuyerLogin_Allow limit window now ip buckets =
     (let key = trim_space ip in
      case buckets key of
        None \<Rightarrow> (True, buckets(key \<mapsto> (now, 1)))
      | Some (started, count) \<Rightarrow>
          if now - started \<ge> window then (True, buckets(key \<mapsto> (now, 1)))
          else if count \<ge> limit then (False, buckets)
          else (True, buckets(key \<mapsto> (started, count + 1))))"

definition BuyerLogin_Reset :: "string \<Rightarrow> buckets \<Rightarrow> buckets" where
  "BuyerLogin_Reset ip buckets = buckets(trim_space ip := None)"

text \<open>
  \<open>admin.LoginRateLimiter\<close>. \<open>strings.ToLower\<close> is exact on ASCII; \<open>lower\<close> is its value on other
  text.
\<close>

definition lower_char :: "char \<Rightarrow> char" where
  "lower_char c = (if 65 \<le> byte c \<and> byte c \<le> 90 then char_of (byte c + 32) else c)"

definition ToLower :: "(string \<Rightarrow> string) \<Rightarrow> string \<Rightarrow> string" where
  "ToLower lower s = (if ascii s then map lower_char s else lower s)"

record login_limiter =
  accountLimit :: int
  accountWindow :: int
  ipLimit :: int
  ipWindow :: int
  accountBuckets :: buckets
  ipBuckets :: buckets

definition NewLoginRateLimiterConfig :: "int \<Rightarrow> int \<Rightarrow> int \<Rightarrow> int \<Rightarrow> login_limiter" where
  "NewLoginRateLimiterConfig al aw il iw =
     \<lparr>accountLimit = clamp_limit al, accountWindow = clamp_window aw, ipLimit = clamp_limit il,
      ipWindow = clamp_window iw, accountBuckets = Map.empty, ipBuckets = Map.empty\<rparr>"

definition AdminLogin_Allow ::
  "(string \<Rightarrow> string) \<Rightarrow> int \<Rightarrow> string \<Rightarrow> string \<Rightarrow> login_limiter \<Rightarrow> bool \<times> login_limiter" where
  "AdminLogin_Allow lower now username ip l =
     (let accountKey = ToLower lower (trim_space username); ipKey = trim_space ip;
          (ok, ab) = allowIntoBucket (accountBuckets l) accountKey (accountLimit l) (accountWindow l) now;
          l1 = l\<lparr>accountBuckets := ab\<rparr>
      in if \<not> ok then (False, l1)
         else if ipKey \<noteq> [] then
           let (ok2, ib) = allowIntoBucket (ipBuckets l1) ipKey (ipLimit l1) (ipWindow l1) now
           in (ok2, l1\<lparr>ipBuckets := ib\<rparr>)
         else (True, l1))"

definition AdminLogin_Reset ::
  "(string \<Rightarrow> string) \<Rightarrow> string \<Rightarrow> string \<Rightarrow> login_limiter \<Rightarrow> login_limiter" where
  "AdminLogin_Reset lower username ip l =
     (let l1 = l\<lparr>accountBuckets := (accountBuckets l)(ToLower lower (trim_space username) := None)\<rparr>;
          ipKey = trim_space ip
      in if ipKey \<noteq> [] then l1\<lparr>ipBuckets := (ipBuckets l1)(ipKey := None)\<rparr> else l1)"

section \<open>What passes a fixed window\<close>

text \<open>
  A limiter serves a run of requests, each with a clock reading. \<open>key\<close> says whether a request
  belongs to the bucket under scrutiny, and \<open>admissions\<close> counts those that pass. The law of one
  request: it either leaves the bucket alone and, if it belongs to the bucket, is refused, or takes
  a token from it and passes only if the bucket lets it.
\<close>

fun admissions ::
  "('q \<Rightarrow> int \<Rightarrow> 's \<Rightarrow> bool \<times> 's) \<Rightarrow> ('q \<Rightarrow> bool) \<Rightarrow> ('q \<times> int) list \<Rightarrow> 's \<Rightarrow> nat" where
  "admissions serve key [] s = 0"
| "admissions serve key ((q, now) # qs) s =
     (case serve q now s of (ok, s') \<Rightarrow> (if ok \<and> key q then 1 else 0) + admissions serve key qs s')"

locale fixed_window =
  fixes limit window :: int
    and serve :: "'q \<Rightarrow> int \<Rightarrow> 's \<Rightarrow> bool \<times> 's"
    and key :: "'q \<Rightarrow> bool"
    and bucket :: "'s \<Rightarrow> bucket option"
    and ok_state :: "'s \<Rightarrow> bool"
  assumes limit_pos: "1 \<le> limit" and window_pos: "0 < window"
    and serve_ok: "ok_state s \<Longrightarrow> 0 < now \<Longrightarrow> serve q now s = (ok, s') \<Longrightarrow> ok_state s'"
    and serve_law: "ok_state s \<Longrightarrow> 0 < now \<Longrightarrow> serve q now s = (ok, s') \<Longrightarrow>
      bucket s' = bucket s \<and> (key q \<longrightarrow> \<not> ok) \<or>
      (\<exists>b. take_token limit window now (bucket s) = (b, bucket s') \<and> (ok \<longrightarrow> b) \<and> key q)"
begin

text \<open>From a bucket that already let \<open>c\<close> requests through since \<open>t\<close>.\<close>

lemma passed_from:
  assumes "ok_state s" and "bucket s = Some (t, c)" and "1 \<le> c" and "c \<le> limit" and "0 < t"
    and "sorted (t # map snd qs)" and "\<forall>q\<in>set qs. snd q \<le> u" and "t \<le> u"
  shows "int (admissions serve key qs s) \<le> (limit - c) + limit * ((u - t) div window)"
  using assms
proof (induction qs arbitrary: s t c)
  case Nil
  then show ?case using limit_pos window_pos by (simp add: pos_imp_zdiv_nonneg_iff)
next
  case (Cons p qs)
  obtain q now where p: "p = (q, now)" by (cases p)
  obtain ok s' where sv: "serve q now s = (ok, s')" by (cases "serve q now s")
  have now: "t \<le> now" "now \<le> u" "sorted (now # map snd qs)" "sorted (t # map snd qs)" "0 < now"
    using Cons.prems p by auto
  have ok': "ok_state s'" by (rule serve_ok[OF Cons.prems(1) now(5) sv])
  have nn: "0 \<le> limit * ((u - now) div window)"
    using now(2) limit_pos window_pos by (simp add: pos_imp_zdiv_nonneg_iff)
  show ?case
    using serve_law[OF Cons.prems(1) now(5) sv]
  proof
    assume "bucket s' = bucket s \<and> (key q \<longrightarrow> \<not> ok)"
    then show ?thesis using Cons.IH[of s' t c] Cons.prems now ok' by (auto simp: p sv)
  next
    assume "\<exists>b. take_token limit window now (bucket s) = (b, bucket s') \<and> (ok \<longrightarrow> b) \<and> key q"
    then obtain b where b: "take_token limit window now (Some (t, c)) = (b, bucket s')" "ok \<longrightarrow> b"
      using Cons.prems(2) by auto
    show ?thesis
    proof (cases "now - t \<ge> window")
      case True
      then have "bucket s' = Some (now, 1)" using b by (auto simp: take_token_def)
      then have "int (admissions serve key qs s') \<le> (limit - 1) + limit * ((u - now) div window)"
        using Cons.IH[of s' now 1] Cons.prems now ok' limit_pos by (auto simp: p)
      moreover have "(u - now + window) div window = (u - now) div window + 1"
        using window_pos by (intro div_add_self2) simp
      then have "(u - now) div window + 1 \<le> (u - t) div window"
        using True window_pos zdiv_mono1[of "u - now + window" "u - t" window] by linarith
      then have "limit * ((u - now) div window + 1) \<le> limit * ((u - t) div window)"
        using limit_pos by (intro mult_left_mono) auto
      ultimately show ?thesis using Cons.prems(4) by (simp add: p sv algebra_simps)
    next
      case False
      then show ?thesis
        using b Cons.IH[of s' t c] Cons.IH[of s' t "c + 1"] Cons.prems now ok'
        by (cases "c \<ge> limit") (auto simp: p sv take_token_def)
    qed
  qed
qed

theorem passed_bound:
  assumes "ok_state s" and "bucket s = None" and "sorted (map snd qs)" and "\<forall>q\<in>set qs. t \<le> snd q \<and> snd q \<le> u"
    and "0 < t" and "t \<le> u"
  shows "int (admissions serve key qs s) \<le> limit * ((u - t) div window + 1)"
  using assms
proof (induction qs arbitrary: s)
  case Nil
  then show ?case using limit_pos window_pos by (simp add: pos_imp_zdiv_nonneg_iff)
next
  case (Cons p qs)
  obtain q now where p: "p = (q, now)" by (cases p)
  obtain ok s' where sv: "serve q now s = (ok, s')" by (cases "serve q now s")
  have now: "t \<le> now" "now \<le> u" "sorted (now # map snd qs)" "0 < now" using Cons.prems p by auto
  have ok': "ok_state s'" by (rule serve_ok[OF Cons.prems(1) now(4) sv])
  show ?case
    using serve_law[OF Cons.prems(1) now(4) sv]
  proof
    assume "bucket s' = bucket s \<and> (key q \<longrightarrow> \<not> ok)"
    then show ?thesis using Cons.IH[of s'] Cons.prems ok' by (auto simp: p sv)
  next
    assume "\<exists>b. take_token limit window now (bucket s) = (b, bucket s') \<and> (ok \<longrightarrow> b) \<and> key q"
    then have "bucket s' = Some (now, 1)" using Cons.prems(2) by (auto simp: take_token_def)
    then have "int (admissions serve key qs s') \<le> (limit - 1) + limit * ((u - now) div window)"
      using passed_from[of s' now 1 qs u] Cons.prems now ok' limit_pos by (auto simp: p)
    moreover have "(u - now) div window \<le> (u - t) div window"
      using now(1) window_pos by (intro zdiv_mono1) auto
    then have "limit * ((u - now) div window) \<le> limit * ((u - t) div window)"
      using limit_pos by (intro mult_left_mono) auto
    ultimately show ?thesis by (simp add: p sv algebra_simps)
  qed
qed

end

section \<open>The limiters are fixed windows\<close>

lemma clamp_pos: "1 \<le> clamp_limit n" "0 < clamp_window w"
  by (simp_all add: clamp_limit_def clamp_window_def)

lemma allowIntoBucket_take:
  "allowIntoBucket b k limit window now =
   (case take_token limit window now (b k) of (ok, v) \<Rightarrow> (ok, b(k := v)))"
  by (auto simp: allowIntoBucket_def take_token_def fun_upd_idem split: option.splits)

lemma BuyerLogin_Allow_take:
  "BuyerLogin_Allow limit window now ip b = allowIntoBucket b (trim_space ip) limit window now"
  by (simp add: BuyerLogin_Allow_def allowIntoBucket_def Let_def)

lemma fixed_window_bucket:
  assumes "allowIntoBucket b k limit window now = (ok, b')"
  shows "take_token limit window now (b k) = (ok, b' k)" and "\<And>j. j \<noteq> k \<Longrightarrow> b' j = b j"
  using assms by (auto simp: allowIntoBucket_take split: prod.splits)

text \<open>
  The middleware's limiter, whose absent entry is the zero one: no entry has the zero time, because
  every one was made by a request.
\<close>

interpretation endpoint: fixed_window "clamp_limit n" "clamp_window w"
  "\<lambda>q now. RateLimiter_Allow (clamp_limit n) (clamp_window w) now q" "\<lambda>q. q = k" "\<lambda>b. b k"
  "\<lambda>b. \<forall>j c. b j \<noteq> Some (0, c)" for n w k
  by unfold_locales
     (auto simp: clamp_pos RateLimiter_Allow_def take_token_def Let_def
      split: prod.splits option.splits if_splits)

interpretation buyer_login: fixed_window "clamp_limit n" "clamp_window w"
  "\<lambda>ip now. BuyerLogin_Allow (clamp_limit n) (clamp_window w) now ip"
  "\<lambda>ip. trim_space ip = k" "\<lambda>b. b k" "\<lambda>b. True" for n w k
  by unfold_locales
     (auto simp: clamp_pos BuyerLogin_Allow_take allowIntoBucket_take split: prod.splits, blast+)

interpretation account: fixed_window "clamp_limit n" "clamp_window w"
  "\<lambda>q now. AdminLogin_Allow lower now (fst q) (snd q)"
  "\<lambda>q. ToLower lower (trim_space (fst q)) = k" "\<lambda>l. accountBuckets l k"
  "\<lambda>l. accountLimit l = clamp_limit n \<and> accountWindow l = clamp_window w" for n w lower k
  by unfold_locales
     (auto simp: clamp_pos AdminLogin_Allow_def allowIntoBucket_take Let_def
      split: prod.splits if_splits)

interpretation ip_address: fixed_window "clamp_limit n" "clamp_window w"
  "\<lambda>q now. AdminLogin_Allow lower now (fst q) (snd q)"
  "\<lambda>q. trim_space (snd q) = k \<and> k \<noteq> []" "\<lambda>l. ipBuckets l k"
  "\<lambda>l. ipLimit l = clamp_limit n \<and> ipWindow l = clamp_window w" for n w lower k
  by unfold_locales
     (auto simp: clamp_pos AdminLogin_Allow_def allowIntoBucket_take Let_def
      split: prod.splits if_splits)

section \<open>What the limiters guarantee\<close>

text \<open>
  C23: Brute force against administrators is bounded in both dimensions: of any run of login
  attempts between two instants, from a fresh limiter and whatever other accounts and hosts do in
  between, at most the account limit per started account window pass for one account, however its
  name is spelled in case and white space, and at most the IP limit per started IP window pass for
  one client address.
\<close>

theorem admin_login_bounded:
  assumes "sorted (map snd qs)" and "\<forall>q\<in>set qs. t \<le> snd q \<and> snd q \<le> u" and "0 < t" and "t \<le> u"
  shows "int (admissions (\<lambda>q now. AdminLogin_Allow lower now (fst q) (snd q))
        (\<lambda>q. ToLower lower (trim_space (fst q)) = account) qs (NewLoginRateLimiterConfig al aw il iw))
      \<le> clamp_limit al * ((u - t) div clamp_window aw + 1) \<and>
    int (admissions (\<lambda>q now. AdminLogin_Allow lower now (fst q) (snd q))
        (\<lambda>q. trim_space (snd q) = ip \<and> ip \<noteq> []) qs (NewLoginRateLimiterConfig al aw il iw))
      \<le> clamp_limit il * ((u - t) div clamp_window iw + 1)"
  using account.passed_bound[OF _ _ assms, of "NewLoginRateLimiterConfig al aw il iw" al aw account lower]
    ip_address.passed_bound[OF _ _ assms, of "NewLoginRateLimiterConfig al aw il iw" il iw ip lower]
  by (simp add: NewLoginRateLimiterConfig_def)

definition login_attempts :: "((string \<times> string) \<times> int) list" where
  "login_attempts = [((''Root'', ''a''), 10), ((''root '', ''b''), 11), ((''ROOT'', ''c''), 12)]"

theorem admin_login_bounded_witness:
  "int (admissions (\<lambda>q now. AdminLogin_Allow (\<lambda>s. s) now (fst q) (snd q))
     (\<lambda>q. ToLower (\<lambda>s. s) (trim_space (fst q)) = ''root'') login_attempts
     (NewLoginRateLimiterConfig 2 100 9 100)) \<le> 2"
proof -
  have "sorted (map snd login_attempts)" and "\<forall>q\<in>set login_attempts. 10 \<le> snd q \<and> snd q \<le> 12"
    by (simp_all add: login_attempts_def)
  from admin_login_bounded[OF this, of "\<lambda>s. s" "''root''" 2 100 9 100 "[]"] show ?thesis
    by (simp add: clamp_limit_def clamp_window_def)
qed

lemma endpoint_run:
  assumes "b k = Some (t, c)" and "1 \<le> c" and "c \<le> limit" and "t \<noteq> 0"
    and "\<forall>now\<in>set ts. now - t < window"
  shows "admissions (\<lambda>q now. RateLimiter_Allow limit window now q) (\<lambda>_. True)
      (map (\<lambda>now. (k, now)) ts) b = min (length ts) (nat (limit - c))"
  using assms
proof (induction ts arbitrary: b c)
  case (Cons now ts)
  show ?case
  proof (cases "c \<ge> limit")
    case True
    then have "RateLimiter_Allow limit window now k b = (False, b)"
      using Cons.prems by (simp add: RateLimiter_Allow_def)
    then show ?thesis using Cons True by simp
  next
    case False
    then have "RateLimiter_Allow limit window now k b = (True, b(k \<mapsto> (t, c + 1)))"
      using Cons.prems by (simp add: RateLimiter_Allow_def)
    moreover have "admissions (\<lambda>q now. RateLimiter_Allow limit window now q) (\<lambda>_. True)
      (map (\<lambda>now. (k, now)) ts) (b(k \<mapsto> (t, c + 1))) = min (length ts) (nat (limit - (c + 1)))"
      using Cons.prems False by (intro Cons.IH) auto
    ultimately show ?thesis using False by (simp add: Suc_nat_eq_nat_zadd1)
  qed
qed simp

text \<open>
  An endpoint's limiter throttles nobody early and nobody late: of the requests of one client
  that fall into the window its first request opened, exactly the first \<open>limit\<close> pass.
\<close>

theorem endpoint_exact:
  assumes "ts = t # rest" and "0 < t" and "\<forall>now\<in>set rest. now - t < clamp_window w"
  shows "admissions (\<lambda>q now. RateLimiter_Allow (clamp_limit n) (clamp_window w) now q) (\<lambda>_. True)
      (map (\<lambda>now. (k, now)) ts) Map.empty = min (length ts) (nat (clamp_limit n))"
proof -
  have "RateLimiter_Allow (clamp_limit n) (clamp_window w) t k Map.empty = (True, [k \<mapsto> (t, 1)])"
    by (simp add: RateLimiter_Allow_def)
  moreover have "admissions (\<lambda>q now. RateLimiter_Allow (clamp_limit n) (clamp_window w) now q) (\<lambda>_. True)
      (map (\<lambda>now. (k, now)) rest) [k \<mapsto> (t, 1)] = min (length rest) (nat (clamp_limit n - 1))"
    using assms clamp_pos(1)[of n] by (intro endpoint_run[of _ _ t]) auto
  moreover have "Suc (nat (clamp_limit n - 1)) = nat (clamp_limit n)"
    using clamp_pos(1)[of n] by simp
  ultimately show ?thesis using assms(1) by (simp add: min_Suc_Suc)
qed

theorem endpoint_exact_witness:
  "admissions (\<lambda>q now. RateLimiter_Allow (clamp_limit 2) (clamp_window 60) now q) (\<lambda>_. True)
     (map (\<lambda>now. (''ip'', now)) [100, 110, 120, 159]) Map.empty = 2"
  using endpoint_exact[of "[100, 110, 120, 159]" 100 "[110, 120, 159]" 60 2 "''ip''"]
  by (simp add: clamp_limit_def clamp_window_def)

text \<open>
  The two budgets of an administrator's login are not independent: an attempt that the client
  address's exhausted budget refuses has already been charged to the account, so refused attempts
  from one host use up the budget the account's owner would log in with from another.
\<close>

theorem refused_by_ip_charges_account:
  assumes "accountBuckets l (ToLower lower (trim_space username)) = Some (s, c)"
    and "now - s < accountWindow l" and "c < accountLimit l"
    and "ipBuckets l (trim_space ip) = Some (s', c')" and "now - s' < ipWindow l"
    and "ipLimit l \<le> c'" and "trim_space ip \<noteq> []"
  shows "AdminLogin_Allow lower now username ip l =
    (False, l\<lparr>accountBuckets := (accountBuckets l)(ToLower lower (trim_space username) \<mapsto> (s, c + 1))\<rparr>)"
  using assms by (simp add: AdminLogin_Allow_def allowIntoBucket_def Let_def)

definition exhausted_host :: login_limiter where
  "exhausted_host = \<lparr>accountLimit = 5, accountWindow = 100, ipLimit = 3, ipWindow = 100,
     accountBuckets = [''root'' \<mapsto> (10, 4)], ipBuckets = [''evil'' \<mapsto> (10, 3)]\<rparr>"

theorem refused_by_ip_charges_account_witness:
  "\<exists>l. AdminLogin_Allow (\<lambda>s. s) 20 ''root'' ''evil'' exhausted_host = (False, l) \<and>
     fst (AdminLogin_Allow (\<lambda>s. s) 21 ''root'' ''home'' exhausted_host) \<and>
     \<not> fst (AdminLogin_Allow (\<lambda>s. s) 21 ''root'' ''home'' l)"
proof -
  let ?l = "exhausted_host\<lparr>accountBuckets := (accountBuckets exhausted_host)(''root'' \<mapsto> (10, 5))\<rparr>"
  have k: "ToLower (\<lambda>s. s) (trim_space ''root'') = ''root''" "trim_space ''evil'' = ''evil''"
    "trim_space ''home'' = ''home''" "trim_space ''root'' = ''root''"
    by code_simp+
  have "AdminLogin_Allow (\<lambda>s. s) 20 ''root'' ''evil'' exhausted_host = (False, ?l)"
    using refused_by_ip_charges_account[of exhausted_host "\<lambda>s. s" "''root''" 10 4 20 "''evil''" 10 3] k
    by (simp add: exhausted_host_def)
  then show ?thesis
    using k by (simp add: AdminLogin_Allow_def allowIntoBucket_def exhausted_host_def Let_def)
qed

end
