(* ===== verification/Tokens.thy ===== *)
theory Tokens
  imports Schema
begin

text \<open>
  \<open>internal/platform/tokens/service.go\<close>, its twin \<open>JWTService\<close> of \<open>internal/middleware/auth.go\<close> and
  \<open>JWTConfig\<close> of \<open>internal/config/config.go\<close>: the claims a session token carries, and what the
  gate makes of the text it is handed.

  \<open>golang-jwt\<close> is outside the repository. It is three parameters: \<open>nd\<close> is \<open>NewNumericDate\<close>,
  \<open>sign\<close> is \<open>SignedString\<close> of an HS256 token with the given key id, key and claims, and
  \<open>jwt_parse\<close> is \<open>ParseWithClaims\<close> of a parser with the given options and key function.
  \<open>jwt_library\<close> states what its documentation promises of the three; nothing but the round trips
  rests on it. The jti of a token is read nowhere and is an argument.
\<close>

section \<open>Configuration\<close>

record jwt_config =
  jc_issuer :: string
  jc_audience :: string
  jc_ttl :: int
  jc_kid :: string
  jc_keys :: "(string \<times> string) list"

definition second :: int where "second = 1000000000"
definition minute :: int where "minute = 60 * second"

definition kid_char :: "char \<Rightarrow> bool" where
  "kid_char ch \<longleftrightarrow> (let b = byte ch in
     97 \<le> b \<and> b \<le> 122 \<or> 65 \<le> b \<and> b \<le> 90 \<or> 48 \<le> b \<and> b \<le> 57) \<or>
     ch = CHR ''.'' \<or> ch = CHR ''_'' \<or> ch = CHR ''-''"

definition validKID :: "string \<Rightarrow> bool" where
  "validKID kid \<longleftrightarrow> length kid \<noteq> 0 \<and> \<not> length kid > 64 \<and> list_all kid_char kid"

text \<open>\<open>JWTConfig.Validate\<close> joins what it finds; here it is the list of the complaints.\<close>

definition complain :: "bool \<Rightarrow> string \<Rightarrow> string list" where
  "complain wrong message = (if wrong then [message] else [])"

definition JWTConfig_Validate :: "string \<Rightarrow> int \<Rightarrow> jwt_config \<Rightarrow> string list" where
  "JWTConfig_Validate name requiredTTL c =
     complain (trim_space (jc_issuer c) = []) (name @ '' JWT issuer is required'') @
     complain (trim_space (jc_audience c) = []) (name @ '' JWT audience is required'') @
     complain (jc_ttl c \<le> 0) (name @ '' JWT TTL must be positive'') @
     complain (0 < requiredTTL \<and> jc_ttl c \<noteq> requiredTTL) (name @ '' JWT TTL must be as required'') @
     complain (trim_space (jc_kid c) = []) (name @ '' JWT active kid is required'') @
     complain (jc_keys c = []) (name @ '' JWT keyring must not be empty'') @
     concat (map (\<lambda>(kid, key).
       complain (\<not> validKID kid) (name @ '' JWT key id '' @ kid @ '' is invalid'') @
       complain (length key < 32) (name @ '' JWT key '' @ kid @ '' must be at least 32 bytes''))
       (jc_keys c)) @
     complain (jc_kid c \<noteq> [] \<and> map_of (jc_keys c) (jc_kid c) = None)
       (name @ '' JWT active kid is not in keyring'')"

lemma complain_Nil [simp]: "complain w m = [] \<longleftrightarrow> \<not> w"
  by (simp add: complain_def)

lemma JWTConfig_Validate_Nil:
  "JWTConfig_Validate name required c = [] \<longleftrightarrow>
   trim_space (jc_issuer c) \<noteq> [] \<and> trim_space (jc_audience c) \<noteq> [] \<and> 0 < jc_ttl c \<and>
   (0 < required \<longrightarrow> jc_ttl c = required) \<and> trim_space (jc_kid c) \<noteq> [] \<and>
   (\<forall>(kid, key)\<in>set (jc_keys c). validKID kid \<and> 32 \<le> length key) \<and>
   (\<exists>key. map_of (jc_keys c) (jc_kid c) = Some key)"
  by (auto simp: JWTConfig_Validate_def not_less trim_space_Nil)

section \<open>Claims and the library\<close>

record claims =
  cl_issuer :: string
  cl_subject :: string
  cl_audience :: "string list"
  cl_expires :: "time option"
  cl_issued :: "time option"
  cl_not_before :: "time option"
  cl_jti :: string
  cl_version :: int

text \<open>
  The part of a token's header the key function reads: whether the method is HS256, and the key id,
  \<open>None\<close> when it is missing or not a text.
\<close>

record jwt_header =
  jh_hs256 :: bool
  jh_kid :: "string option"

record jwt_options =
  jo_issuer :: string
  jo_audience :: string
  jo_methods :: "string list"
  jo_exp_required :: bool
  jo_now :: time

type_synonym jwt_parser = "jwt_options \<Rightarrow> (jwt_header \<Rightarrow> err + string) \<Rightarrow> string \<Rightarrow> err + claims"

text \<open>
  What the documentation of the library says: dates are kept to the second; a token signed with a
  key is parsed with that key, under the issuer and audience asked for, from its \<open>nbf\<close> until just
  before its \<open>exp\<close>; and a parser that was told to require an expiry accepts no token without
  one, none that has expired and none that is not valid yet, and of no other issuer or audience.
\<close>

definition plain_claims :: "claims \<Rightarrow> bool" where
  "plain_claims c \<longleftrightarrow> ascii (cl_issuer c) \<and> ascii (cl_subject c) \<and> list_all ascii (cl_audience c) \<and>
     ascii (cl_jti c)"

definition jwt_accepts :: "jwt_options \<Rightarrow> claims \<Rightarrow> bool" where
  "jwt_accepts opts c \<longleftrightarrow> cl_issuer c = jo_issuer opts \<and> jo_audience opts \<in> set (cl_audience c) \<and>
     (case cl_expires c of None \<Rightarrow> \<not> jo_exp_required opts | Some t \<Rightarrow> jo_now opts < t) \<and>
     (case cl_not_before c of None \<Rightarrow> True | Some t \<Rightarrow> t \<le> jo_now opts)"

definition jwt_library ::
  "(time \<Rightarrow> time) \<Rightarrow> (string \<Rightarrow> string \<Rightarrow> claims \<Rightarrow> err + string) \<Rightarrow> jwt_parser \<Rightarrow> bool" where
  "jwt_library nd sign jwt_parse \<longleftrightarrow>
     (\<forall>t. nd t = t - t mod second) \<and>
     (\<forall>kid key c raw opts kf. sign kid key c = Inr raw \<longrightarrow> plain_claims c \<longrightarrow>
        kf \<lparr>jh_hs256 = True, jh_kid = Some kid\<rparr> = Inr key \<longrightarrow> ''HS256'' \<in> set (jo_methods opts) \<longrightarrow>
        jwt_accepts opts c \<longrightarrow> jwt_parse opts kf raw = Inr c \<and> raw \<noteq> [] \<and> ascii raw \<and>
          list_all (\<lambda>ch. \<not> is_space [ch]) raw) \<and>
     (\<forall>raw opts kf c. jwt_parse opts kf raw = Inr c \<longrightarrow> jwt_accepts opts c)"

section \<open>Issuing\<close>

text \<open>
  \<open>wall\<close> is the clock read when the caller passes the zero time. \<open>JWTService.IssueAt\<close> is the same
  text with other words in its errors.
\<close>

definition IssueAt ::
  "(time \<Rightarrow> time) \<Rightarrow> (string \<Rightarrow> string \<Rightarrow> claims \<Rightarrow> err + string) \<Rightarrow> jwt_config \<Rightarrow> string \<Rightarrow> time
   \<Rightarrow> string \<Rightarrow> int \<Rightarrow> time \<Rightarrow> int \<Rightarrow> err + string" where
  "IssueAt nd sign cfg jti wall subject tokenVersion now ttl =
     (if trim_space subject = [] then Inl (ErrOther ''subject is required'')
      else if ttl \<le> 0 then Inl (ErrOther ''TTL must be positive'')
      else if ttl > jc_ttl cfg then Inl (ErrOther ''TTL exceeds configured TTL'')
      else
        let now = (if now = 0 then wall else now);
            c = \<lparr>cl_issuer = jc_issuer cfg, cl_subject = subject, cl_audience = [jc_audience cfg],
              cl_expires = Some (nd (now + ttl)), cl_issued = Some (nd now),
              cl_not_before = Some (nd now), cl_jti = jti, cl_version = tokenVersion\<rparr>;
            key = (case map_of (jc_keys cfg) (jc_kid cfg) of None \<Rightarrow> [] | Some k \<Rightarrow> k)
        in (case sign (jc_kid cfg) key c of
              Inl e \<Rightarrow> Inl (ErrOther ''sign JWT'')
            | Inr raw \<Rightarrow> Inr raw))"

definition Issue ::
  "(time \<Rightarrow> time) \<Rightarrow> (string \<Rightarrow> string \<Rightarrow> claims \<Rightarrow> err + string) \<Rightarrow> jwt_config \<Rightarrow> string \<Rightarrow> time
   \<Rightarrow> string \<Rightarrow> int \<Rightarrow> time \<Rightarrow> err + string" where
  "Issue nd sign cfg jti wall subject tokenVersion now =
     IssueAt nd sign cfg jti wall subject tokenVersion now (jc_ttl cfg)"

section \<open>Parsing\<close>

definition keyfunc :: "jwt_config \<Rightarrow> jwt_header \<Rightarrow> err + string" where
  "keyfunc cfg h =
     (if \<not> jh_hs256 h then Inl (ErrOther ''unexpected JWT signing method'')
      else case jh_kid h of
          None \<Rightarrow> Inl (ErrOther ''JWT kid is required'')
        | Some kid \<Rightarrow>
          if kid = [] then Inl (ErrOther ''JWT kid is required'')
          else case map_of (jc_keys cfg) kid of
              None \<Rightarrow> Inl (ErrOther ''unknown JWT kid'')
            | Some key \<Rightarrow> Inr key)"

definition parse_options :: "jwt_config \<Rightarrow> time \<Rightarrow> jwt_options" where
  "parse_options cfg now = \<lparr>jo_issuer = jc_issuer cfg, jo_audience = jc_audience cfg,
     jo_methods = [''HS256''], jo_exp_required = True, jo_now = now\<rparr>"

definition check_lifetime :: "jwt_config \<Rightarrow> time \<Rightarrow> claims \<Rightarrow> err + claims" where
  "check_lifetime cfg now c =
     (case (cl_issued c, cl_expires c) of
        (Some iat, Some exp) \<Rightarrow>
          if iat > now + second then Inl (ErrOther ''JWT iat is in the future'')
          else if exp < iat \<or> exp - iat > jc_ttl cfg
          then Inl (ErrOther ''JWT lifetime exceeds configured TTL'')
          else Inr c
      | _ \<Rightarrow> Inl (ErrOther ''JWT iat and exp are required''))"

definition Parse :: "jwt_parser \<Rightarrow> jwt_config \<Rightarrow> time \<Rightarrow> string \<Rightarrow> time \<Rightarrow> err + claims" where
  "Parse jwt_parse cfg wall raw now =
     (if trim_space raw = [] then Inl (ErrOther ''token is required'')
      else
        let now = (if now = 0 then wall else now) in
        (case jwt_parse (parse_options cfg now) (keyfunc cfg) raw of
           Inl e \<Rightarrow> Inl (ErrOther ''parse JWT'')
         | Inr c \<Rightarrow> check_lifetime cfg now c))"

text \<open>
  \<open>JWTService.Parse\<close>, the middleware's copy. Its service is built from the signer by
  \<open>NewJWTServiceFromSigner\<close>, which copies the configuration and validates it.
\<close>

definition JWTService_Parse ::
  "jwt_parser \<Rightarrow> jwt_config \<Rightarrow> time \<Rightarrow> string \<Rightarrow> time \<Rightarrow> err + claims" where
  "JWTService_Parse jwt_parse cfg wall raw now =
     (if trim_space raw = [] then Inl (ErrOther ''JWT is required'')
      else
        let now = (if now = 0 then wall else now) in
        (case jwt_parse (parse_options cfg now) (keyfunc cfg) raw of
           Inl e \<Rightarrow> Inl (ErrOther ''parse JWT'')
         | Inr c \<Rightarrow> check_lifetime cfg now c))"

definition NewJWTServiceFromSigner :: "jwt_config \<Rightarrow> err + jwt_config" where
  "NewJWTServiceFromSigner source =
     (let cfg = \<lparr>jc_issuer = jc_issuer source, jc_audience = jc_audience source,
        jc_ttl = jc_ttl source, jc_kid = jc_kid source, jc_keys = jc_keys source\<rparr> in
      if JWTConfig_Validate ''JWT'' 0 cfg \<noteq> [] then Inl (ErrOther ''invalid JWT configuration'')
      else Inr cfg)"

lemma NewJWTServiceFromSigner_eq [simp]:
  "NewJWTServiceFromSigner source = Inr cfg \<longleftrightarrow> cfg = source \<and> JWTConfig_Validate ''JWT'' 0 source = []"
  by (cases source) (auto simp: NewJWTServiceFromSigner_def Let_def split: if_splits)

section \<open>What a token that is let through says\<close>

lemma JWTService_Parse_agrees:
  "JWTService_Parse jwt_parse cfg wall raw now = Inr c \<longleftrightarrow> Parse jwt_parse cfg wall raw now = Inr c"
  by (simp add: JWTService_Parse_def Parse_def)

lemma Parse_InrD:
  assumes "Parse jwt_parse cfg wall raw now = Inr c" "now \<noteq> 0"
  obtains iat exp where "jwt_parse (parse_options cfg now) (keyfunc cfg) raw = Inr c"
    "cl_issued c = Some iat" "cl_expires c = Some exp" "iat \<le> now + second" "iat \<le> exp"
    "exp - iat \<le> jc_ttl cfg"
  using assms by (auto simp: Parse_def check_lifetime_def split: sum.splits option.splits if_splits)

lemma truncate_bounds: "0 < (d::int) \<Longrightarrow> t - t mod d \<le> t \<and> t - d < t - t mod d"
  by (simp add: pos_mod_bound)

lemma truncate_add: "d dvd ttl \<Longrightarrow> (now + ttl) - (now + ttl) mod d = (now - now mod d) + (ttl::int)"
  by (auto simp: dvd_def)

lemma Issue_cases:
  assumes "Issue nd sign cfg jti wall subject v now = Inr raw" "now \<noteq> 0"
  obtains key where "trim_space subject \<noteq> []" "0 < jc_ttl cfg"
    "key = (case map_of (jc_keys cfg) (jc_kid cfg) of None \<Rightarrow> [] | Some k \<Rightarrow> k)"
    "sign (jc_kid cfg) key \<lparr>cl_issuer = jc_issuer cfg, cl_subject = subject,
       cl_audience = [jc_audience cfg], cl_expires = Some (nd (now + jc_ttl cfg)),
       cl_issued = Some (nd now), cl_not_before = Some (nd now), cl_jti = jti, cl_version = v\<rparr> = Inr raw"
  using assms by (auto simp: Issue_def IssueAt_def Let_def split: sum.splits if_splits)

lemma trim_space_token:
  assumes "raw \<noteq> []" "ascii raw" "list_all (\<lambda>ch. \<not> is_space [ch]) raw"
  shows "trim_space raw \<noteq> []"
  using assms by (cases raw) (simp_all add: trim_space_eq_Nil runes_ascii list_all_iff del: runes.simps)

theorem issued_token_parses:
  assumes lib: "jwt_library nd sign jwt_parse" and cfg: "JWTConfig_Validate name required cfg = []"
    and whole: "second dvd jc_ttl cfg"
    and plain: "ascii (jc_issuer cfg)" "ascii (jc_audience cfg)" "ascii subject" "ascii jti"
    and iss: "Issue nd sign cfg jti wall subject v now = Inr raw" "now \<noteq> 0"
    and t: "now \<le> t" "t < now - now mod second + jc_ttl cfg" "t \<noteq> 0"
  shows "\<exists>c. Parse jwt_parse cfg wall' raw t = Inr c \<and> cl_subject c = subject \<and> cl_version c = v"
proof -
  let ?c = "\<lparr>cl_issuer = jc_issuer cfg, cl_subject = subject,
       cl_audience = [jc_audience cfg], cl_expires = Some (nd (now + jc_ttl cfg)),
       cl_issued = Some (nd now), cl_not_before = Some (nd now), cl_jti = jti, cl_version = v\<rparr>"
  obtain key where key: "map_of (jc_keys cfg) (jc_kid cfg) = Some key"
    using cfg by (auto simp: JWTConfig_Validate_Nil)
  have kid: "jc_kid cfg \<noteq> []" and pos: "0 < jc_ttl cfg"
    using cfg by (auto simp: JWTConfig_Validate_Nil)
  have signed: "sign (jc_kid cfg) key ?c = Inr raw"
    using Issue_cases[OF iss] key by (metis option.simps(5))
  have nd: "\<And>t. nd t = t - t mod second" using lib by (simp add: jwt_library_def)
  have s: "0 < second" by (simp add: second_def)
  have exp: "nd (now + jc_ttl cfg) = nd now + jc_ttl cfg"
    unfolding nd by (rule truncate_add[OF whole])
  have b: "nd now \<le> now" "now - second < nd now" using truncate_bounds[OF s, of now] nd by auto
  have "plain_claims ?c" using plain by (simp add: plain_claims_def)
  moreover have "keyfunc cfg \<lparr>jh_hs256 = True, jh_kid = Some (jc_kid cfg)\<rparr> = Inr key"
    using key kid by (simp add: keyfunc_def)
  moreover have "jwt_accepts (parse_options cfg t) ?c"
    using b t exp nd[of now] by (simp add: jwt_accepts_def parse_options_def)
  moreover have "''HS256'' \<in> set (jo_methods (parse_options cfg t))" by (simp add: parse_options_def)
  ultimately have p: "jwt_parse (parse_options cfg t) (keyfunc cfg) raw = Inr ?c" and
    raw: "raw \<noteq> []" "ascii raw" "list_all (\<lambda>ch. \<not> is_space [ch]) raw"
    using lib signed unfolding jwt_library_def by blast+
  have "check_lifetime cfg t ?c = Inr ?c"
    using exp b t s pos by (simp add: check_lifetime_def)
  then have "Parse jwt_parse cfg wall' raw t = Inr ?c"
    using p t(3) trim_space_token[OF raw] by (simp add: Parse_def)
  then show ?thesis by auto
qed

end
