(* ===== verification/Admins.thy ===== *)
theory Admins
  imports Roles RateLimit
begin

text \<open>
  The accounts half of \<open>internal/admin/service.go\<close>: bootstrap, login, logout, password change,
  enabling and disabling, and the lists the console shows. A session is a token that carries the
  \<open>token_version\<close> of its account; \<open>AdminState\<close> and \<open>IsTokenVersionCurrent\<close> are what every request
  checks it against.

  Outside the model: the character classes of \<open>unicode\<close> beyond ASCII (\<open>uni\<close>), the token signer
  (\<open>issue\<close>), and here the password hash (\<open>hashed\<close> is its text, \<open>verify\<close> the comparison; their
  encoding is modelled in \<open>Passwords\<close>).
\<close>

section \<open>Policies\<close>

datatype rune_class = Upper | Lower | OtherLetter | Digit | PunctOrSymbol | OtherRune

definition classify :: "(string \<Rightarrow> rune_class) \<Rightarrow> string \<Rightarrow> rune_class" where
  "classify uni r =
     (if length r = 1 \<and> byte (hd r) < 128 then
        let b = byte (hd r) in
          if 65 \<le> b \<and> b \<le> 90 then Upper
          else if 97 \<le> b \<and> b \<le> 122 then Lower
          else if 48 \<le> b \<and> b \<le> 57 then Digit
          else if 33 \<le> b \<and> b \<le> 126 then PunctOrSymbol
          else OtherRune
      else uni r)"

definition ValidatePassword :: "(string \<Rightarrow> rune_class) \<Rightarrow> string \<Rightarrow> err + unit" where
  "ValidatePassword uni value =
     (if length value < 12 then Inl (ErrWeakPassword ''shorter than 12 characters'')
      else let cs = map (classify uni) (runes value) in
        if \<not> list_ex (\<lambda>c. c = Upper) cs then Inl (ErrWeakPassword ''missing uppercase letter'')
        else if \<not> list_ex (\<lambda>c. c = Lower) cs then Inl (ErrWeakPassword ''missing lowercase letter'')
        else if \<not> list_ex (\<lambda>c. c = Digit) cs then Inl (ErrWeakPassword ''missing digit'')
        else if \<not> list_ex (\<lambda>c. c = PunctOrSymbol) cs then Inl (ErrWeakPassword ''missing symbol'')
        else Inr ())"

definition username_rune :: "(string \<Rightarrow> rune_class) \<Rightarrow> string \<Rightarrow> bool" where
  "username_rune uni r \<longleftrightarrow> classify uni r \<in> {Upper, Lower, OtherLetter, Digit} \<or>
     r = ''.'' \<or> r = ''-'' \<or> r = ''_''"

definition ValidateUsername :: "(string \<Rightarrow> rune_class) \<Rightarrow> string \<Rightarrow> err + unit" where
  "ValidateUsername uni value =
     (let trimmed = trim_space value in
      if trimmed = [] then Inl (ErrInvalidUsername ''blank'')
      else if list_ex (\<lambda>c. c \<in> {CHR '' '', CHR 0x09, CHR 0x0D, CHR 0x0A}) trimmed
      then Inl (ErrInvalidUsername ''contains whitespace'')
      else if length trimmed < 3 \<or> 32 < length trimmed
      then Inl (ErrInvalidUsername ''length must be between 3 and 32 characters'')
      else (case find (\<lambda>r. \<not> username_rune uni r) (runes trimmed) of
          Some r \<Rightarrow> Inl (ErrInvalidUsername ''unsupported character'')
        | None \<Rightarrow> Inr ()))"

section \<open>Rows\<close>

definition find_username :: "string \<Rightarrow> db \<Rightarrow> admin_row option" where
  "find_username name d = find (\<lambda>a. ad_username a = name) (admins d)"

definition find_role_name :: "string \<Rightarrow> db \<Rightarrow> role_row option" where
  "find_role_name name d = find (\<lambda>r. r_name r = name) (roles d)"

text \<open>\<open>adminRoleName\<close> and \<open>lookupRoleName\<close>, which are the same function twice.\<close>

definition adminRoleName :: "uid \<Rightarrow> db \<Rightarrow> string" where
  "adminRoleName roleID d =
     (if roleID = 0 then []
      else case find_role roleID d of None \<Rightarrow> [] | Some r \<Rightarrow> r_name r)"

definition adminSubject :: "(uid \<Rightarrow> string) \<Rightarrow> uid \<Rightarrow> string" where
  "adminSubject us i = ''admin:'' @ us i"

definition insert_admin :: "admin_row \<Rightarrow> db \<Rightarrow> err + db" where
  "insert_admin r d =
     sbind (insert_checked (rune_count (ad_username r) \<le> 32 \<and> rune_count (ad_hash r) \<le> 255)
        (0 < ad_version r)
        (list_all (\<lambda>s. ad_id s \<noteq> ad_id r \<and> ad_username s \<noteq> ad_username r) (admins d))
        (ad_role r \<in> r_id ` set (roles d)) r (admins d))
      (\<lambda>t. Inr (d\<lparr>admins := t\<rparr>))"

text \<open>\<open>UPDATE admin_users .. WHERE id = i\<close>.\<close>

definition update_admin :: "uid \<Rightarrow> (admin_row \<Rightarrow> admin_row) \<Rightarrow> db \<Rightarrow> err + db" where
  "update_admin i f d =
     (let rows = filter (\<lambda>a. ad_id a = i) (admins d) in
      if \<not> list_all (\<lambda>a. rune_count (ad_hash (f a)) \<le> 255) rows then Inl StringTooLong
      else if \<not> list_all (\<lambda>a. 0 < ad_version (f a)) rows then Inl CheckViolation
      else if \<not> list_all (\<lambda>a. ad_role (f a) \<in> r_id ` set (roles d)) rows then Inl ForeignKeyViolation
      else Inr (d\<lparr>admins := update_where (\<lambda>a. ad_id a = i) f (admins d)\<rparr>))"

section \<open>Bootstrap\<close>

record bootstrap_input =
  bi_username :: string
  bi_password :: string
  bi_role :: string
  bi_actor :: string

record bootstrap_result =
  br_admin :: uid
  br_username :: string
  br_role :: string
  br_version :: int

definition bootstrap_tx ::
  "uid \<Rightarrow> uid \<Rightarrow> (string \<Rightarrow> err + string) \<Rightarrow> bootstrap_input \<Rightarrow> bootstrap_result tx" where
  "bootstrap_tx i ai hashed input d =
     (case find_role_name (bi_role input) d of
        None \<Rightarrow> Inl ErrUnknownRole
      | Some role \<Rightarrow>
        sbind (ensureAllPermissionsAreSeeded (r_id role) d) (\<lambda>_.
        sbind (hashed (bi_password input)) (\<lambda>hash.
        let admin = \<lparr>ad_id = i, ad_username = trim_space (bi_username input), ad_hash = hash,
              ad_version = 1, ad_role = r_id role, ad_enabled = True, ad_last_login = None\<rparr> in
        (case insert_admin admin d of
           Inl e \<Rightarrow> Inl (if is_unique_violation e then ErrAdministratorExists else e)
         | Inr d1 \<Rightarrow>
           sbind (write_audit ai \<lparr>ActorAdminID = None, ActorRole = ''system'',
               Action = ''admin.bootstrap'', TargetType = ''admin'', TargetID = Some (ad_id admin),
               Result = ''success'', BeforeData = [],
               AfterData = [(''username'', AStr (ad_username admin)),
                 (''role_name'', AStr (r_name role)), (''actor'', AStr (bi_actor input))]\<rparr> d1) (\<lambda>d2.
           Inr (\<lparr>br_admin = ad_id admin, br_username = ad_username admin, br_role = r_name role,
             br_version = ad_version admin\<rparr>, d2))))))"

definition BootstrapAdministrator ::
  "(string \<Rightarrow> rune_class) \<Rightarrow> uid \<Rightarrow> uid \<Rightarrow> (string \<Rightarrow> err + string) \<Rightarrow> bootstrap_input \<Rightarrow> db
   \<Rightarrow> (err + bootstrap_result) \<times> db" where
  "BootstrapAdministrator uni i ai hashed input d =
     (case sbind (ValidateUsername uni (bi_username input)) (\<lambda>_.
         ValidatePassword uni (bi_password input)) of
        Inl e \<Rightarrow> (Inl e, d)
      | Inr _ \<Rightarrow>
        if trim_space (bi_role input) = [] then (Inl ErrUnknownRole, d)
        else commit (bootstrap_tx i ai hashed input) d)"

section \<open>Login\<close>

record auth_input =
  in_username :: string
  in_password :: string
  in_ip :: string

record auth_result =
  ar_admin :: uid
  ar_subject :: string
  ar_username :: string
  ar_role :: uid
  ar_role_name :: string
  ar_permissions :: "string list"
  ar_version :: int
  ar_token :: string

definition auth_tx ::
  "(string \<Rightarrow> string \<Rightarrow> bool) \<Rightarrow> uid \<Rightarrow> time \<Rightarrow> auth_input \<Rightarrow> (admin_row \<times> string) tx" where
  "auth_tx verify ai now input d =
     (case find_username (trim_space (in_username input)) d of
        None \<Rightarrow> Inl ErrInvalidCredentials
      | Some admin \<Rightarrow>
        if \<not> ad_enabled admin then Inl ErrAdminDisabled
        else if \<not> verify (in_password input) (ad_hash admin) then Inl ErrInvalidCredentials
        else
          sbind (update_admin (ad_id admin) (\<lambda>a. a\<lparr>ad_last_login := Some now\<rparr>) d) (\<lambda>d1.
          let preloaded = preloaded_role_name admin d;
              roleName = (if preloaded \<noteq> [] then preloaded else adminRoleName (ad_role admin) d1) in
          sbind (write_audit ai \<lparr>ActorAdminID = Some (ad_id admin), ActorRole = roleName,
              Action = ''admin.login'', TargetType = ''admin'', TargetID = Some (ad_id admin),
              Result = ''success'', BeforeData = [],
              AfterData = [(''username'', AStr (ad_username admin)), (''role_name'', AStr roleName),
                (''ip'', AStr (in_ip input)), (''token_ver'', AInt (ad_version admin))]\<rparr> d1) (\<lambda>d2.
          Inr ((admin, roleName), d2))))"

definition failed_login_tx :: "uid \<Rightarrow> auth_input \<Rightarrow> string \<Rightarrow> unit tx" where
  "failed_login_tx fi input reason d =
     sbind (write_audit fi \<lparr>ActorAdminID = None, ActorRole = ''anonymous'', Action = ''admin.login'',
         TargetType = ''admin'', TargetID = None, Result = ''failure'', BeforeData = [],
         AfterData = [(''username'', AStr (in_username input)), (''ip'', AStr (in_ip input)),
           (''reason'', AStr reason)]\<rparr> d) (\<lambda>d'. Inr ((), d'))"

definition recordFailedLogin :: "uid \<Rightarrow> auth_input \<Rightarrow> string \<Rightarrow> db \<Rightarrow> db" where
  "recordFailedLogin fi input reason d = snd (commit (failed_login_tx fi input reason) d)"

interpretation refused_login: recorder "recordFailedLogin fi input reason" for fi input reason
  unfolding recordFailedLogin_def by (rule recorder_commit) (simp add: failed_login_tx_def)

text \<open>What follows a login that was let through by the limiter.\<close>

definition login_checked ::
  "(string \<Rightarrow> string \<Rightarrow> bool) \<Rightarrow> (string \<Rightarrow> int \<Rightarrow> time \<Rightarrow> err + string) \<Rightarrow> (uid \<Rightarrow> string) \<Rightarrow> uid
   \<Rightarrow> uid \<Rightarrow> time \<Rightarrow> auth_input \<Rightarrow> db \<Rightarrow> (err + auth_result) \<times> db" where
  "login_checked verify issue us ai fi now input d =
     (case commit (auth_tx verify ai now input) d of
        (Inl e, d') \<Rightarrow>
          (Inl e,
           if e = ErrAdminDisabled then recordFailedLogin fi input ''account_disabled'' d'
           else if e = ErrInvalidCredentials then recordFailedLogin fi input ''invalid_credentials'' d'
           else d')
      | (Inr (admin, roleName), d') \<Rightarrow>
        (sbind (rolePermissions (ad_role admin) d') (\<lambda>permissions.
         (case issue (adminSubject us (ad_id admin)) (ad_version admin) now of
            Inl e \<Rightarrow> Inl (ErrOther ''sign administrator token'')
          | Inr token \<Rightarrow> Inr \<lparr>ar_admin = ad_id admin, ar_subject = adminSubject us (ad_id admin),
              ar_username = ad_username admin, ar_role = ad_role admin, ar_role_name = roleName,
              ar_permissions = permissions, ar_version = ad_version admin, ar_token = token\<rparr>)), d'))"

definition Authenticate ::
  "(string \<Rightarrow> string) \<Rightarrow> (string \<Rightarrow> string \<Rightarrow> bool) \<Rightarrow> (string \<Rightarrow> int \<Rightarrow> time \<Rightarrow> err + string)
   \<Rightarrow> (uid \<Rightarrow> string) \<Rightarrow> uid \<Rightarrow> uid \<Rightarrow> time \<Rightarrow> auth_input \<Rightarrow> login_limiter option \<Rightarrow> db
   \<Rightarrow> (err + auth_result) \<times> login_limiter option \<times> db" where
  "Authenticate lower verify issue us ai fi now input limiter d =
     (if trim_space (in_username input) = [] then (Inl ErrInvalidCredentials, limiter, d)
      else if in_password input = [] then (Inl ErrInvalidCredentials, limiter, d)
      else case limiter of
          None \<Rightarrow> (case login_checked verify issue us ai fi now input d of (r, d') \<Rightarrow> (r, None, d'))
        | Some l \<Rightarrow>
          (case AdminLogin_Allow lower now (trim_space (in_username input)) (in_ip input) l of
             (False, l') \<Rightarrow> (Inl ErrRateLimited, Some l', d)
           | (True, l') \<Rightarrow>
             (case login_checked verify issue us ai fi now input d of (r, d') \<Rightarrow> (r, Some l', d'))))"

section \<open>Ending sessions\<close>

definition logout_tx :: "uid \<Rightarrow> string \<Rightarrow> uid \<Rightarrow> unit tx" where
  "logout_tx ai subject actorID d =
     (case find_admin actorID d of
        None \<Rightarrow> Inl ErrAdminNotFound
      | Some admin \<Rightarrow>
        let newVersion = int64 (ad_version admin + 1) in
        sbind (update_admin (ad_id admin) (\<lambda>a. a\<lparr>ad_version := newVersion\<rparr>) d) (\<lambda>d1.
        sbind (write_audit ai \<lparr>ActorAdminID = Some (ad_id admin),
            ActorRole = adminRoleName (ad_role admin) d1, Action = ''admin.logout'',
            TargetType = ''admin'', TargetID = Some (ad_id admin), Result = ''success'',
            BeforeData = [],
            AfterData = [(''username'', AStr (ad_username admin)), (''token_ver'', AInt newVersion),
              (''subject'', AStr subject)]\<rparr> d1) (\<lambda>d2.
        Inr ((), d2))))"

definition Logout :: "uid \<Rightarrow> string \<Rightarrow> uid \<Rightarrow> db \<Rightarrow> (err + unit) \<times> db" where
  "Logout ai subject actorID d = commit (logout_tx ai subject actorID) d"

record change_password_input =
  cp_actor :: uid
  cp_role :: string
  cp_old :: string
  cp_new :: string

record change_password_result =
  cr_admin :: uid
  cr_version :: int
  cr_username :: string
  cr_role_name :: string

definition change_password_tx ::
  "(string \<Rightarrow> string \<Rightarrow> bool) \<Rightarrow> (string \<Rightarrow> err + string) \<Rightarrow> uid \<Rightarrow> change_password_input
   \<Rightarrow> change_password_result tx" where
  "change_password_tx verify hashed ai input d =
     (case find_admin (cp_actor input) d of
        None \<Rightarrow> Inl ErrAdminNotFound
      | Some admin \<Rightarrow>
        if \<not> ad_enabled admin then Inl ErrAdminDisabled
        else if \<not> verify (cp_old input) (ad_hash admin) then Inl ErrInvalidCredentials
        else
          sbind (hashed (cp_new input)) (\<lambda>hash.
          let newVersion = int64 (ad_version admin + 1) in
          sbind (update_admin (ad_id admin)
            (\<lambda>a. a\<lparr>ad_hash := hash, ad_version := newVersion\<rparr>) d) (\<lambda>d1.
          let roleName = adminRoleName (ad_role admin) d1 in
          sbind (write_audit ai \<lparr>ActorAdminID = Some (ad_id admin), ActorRole = roleName,
              Action = ''admin.password.change'', TargetType = ''admin'',
              TargetID = Some (ad_id admin), Result = ''success'', BeforeData = [],
              AfterData = [(''username'', AStr (ad_username admin)), (''role_name'', AStr roleName),
                (''token_ver'', AInt newVersion), (''actor'', AStr (cp_role input))]\<rparr> d1) (\<lambda>d2.
          Inr (\<lparr>cr_admin = ad_id admin, cr_version = newVersion, cr_username = ad_username admin,
            cr_role_name = roleName\<rparr>, d2)))))"

definition ChangePassword ::
  "(string \<Rightarrow> rune_class) \<Rightarrow> (string \<Rightarrow> string \<Rightarrow> bool) \<Rightarrow> (string \<Rightarrow> err + string) \<Rightarrow> uid
   \<Rightarrow> change_password_input \<Rightarrow> db \<Rightarrow> (err + change_password_result) \<times> db" where
  "ChangePassword uni verify hashed ai input d =
     (case ValidatePassword uni (cp_new input) of
        Inl e \<Rightarrow> (Inl e, d)
      | Inr _ \<Rightarrow>
        if cp_old input = [] then (Inl ErrInvalidCredentials, d)
        else if cp_actor input = 0 then (Inl ErrAdminNotFound, d)
        else commit (change_password_tx verify hashed ai input) d)"

record update_admin_result =
  ur_admin :: uid
  ur_username :: string
  ur_enabled :: bool
  ur_role_name :: string
  ur_version :: int

text \<open>
  The columns written: nothing without a change of the flag, the flag alone when it is switched on,
  the flag and the next version when it is switched off.
\<close>

definition toggle :: "bool option \<Rightarrow> admin_row \<Rightarrow> admin_row" where
  "toggle enabled admin = (case enabled of
       None \<Rightarrow> admin
     | Some b \<Rightarrow>
       if b = ad_enabled admin then admin
       else if b then admin\<lparr>ad_enabled := True\<rparr>
       else admin\<lparr>ad_enabled := False, ad_version := int64 (ad_version admin + 1)\<rparr>)"

definition update_admin_tx ::
  "uid \<Rightarrow> uid \<Rightarrow> string \<Rightarrow> uid \<Rightarrow> bool option \<Rightarrow> update_admin_result tx" where
  "update_admin_tx ai actorID actorRole targetID enabled d =
     (case find_admin targetID d of
        None \<Rightarrow> Inl ErrAdminNotFound
      | Some admin \<Rightarrow>
        let new = toggle enabled admin in
        sbind (if new = admin then Inr d
          else update_admin (ad_id admin)
            (\<lambda>a. a\<lparr>ad_enabled := ad_enabled new, ad_version := ad_version new\<rparr>) d) (\<lambda>d1.
        let roleName = adminRoleName (ad_role admin) d1 in
        sbind (write_audit ai \<lparr>ActorAdminID = Some actorID, ActorRole = actorRole,
            Action = ''admin.update'', TargetType = ''admin'', TargetID = Some (ad_id admin),
            Result = ''success'',
            BeforeData = [(''enabled'', ABool (ad_enabled admin)), (''token_ver'', AInt (ad_version admin))],
            AfterData = [(''enabled'', ABool (ad_enabled new)), (''token_ver'', AInt (ad_version new)),
              (''role_name'', AStr roleName), (''actor'', AStr actorRole)]\<rparr> d1) (\<lambda>d2.
        Inr (\<lparr>ur_admin = ad_id admin, ur_username = ad_username admin, ur_enabled = ad_enabled new,
          ur_role_name = roleName, ur_version = ad_version new\<rparr>, d2))))"

definition UpdateAdmin ::
  "uid \<Rightarrow> uid \<Rightarrow> string \<Rightarrow> uid \<Rightarrow> bool option \<Rightarrow> db \<Rightarrow> (err + update_admin_result) \<times> db" where
  "UpdateAdmin ai actorID actorRole targetID enabled d =
     (if actorID = 0 \<or> targetID = 0 then (Inl ErrAdminNotFound, d)
      else commit (update_admin_tx ai actorID actorRole targetID enabled) d)"

record assign_role_result =
  sr_admin :: uid
  sr_username :: string
  sr_role_name :: string

definition assign_role_tx ::
  "uid \<Rightarrow> uid \<Rightarrow> string \<Rightarrow> uid \<Rightarrow> string \<Rightarrow> assign_role_result tx" where
  "assign_role_tx ai actorID actorRole targetID newRoleName d =
     (case find_admin targetID d of
        None \<Rightarrow> Inl ErrAdminNotFound
      | Some admin \<Rightarrow>
        let oldRoleName = adminRoleName (ad_role admin) d in
        (case find_role_name newRoleName d of
           None \<Rightarrow> Inl ErrUnknownRole
         | Some role \<Rightarrow>
           sbind (ensureAllPermissionsAreSeeded (r_id role) d) (\<lambda>_.
           sbind (update_admin (ad_id admin) (\<lambda>a. a\<lparr>ad_role := r_id role\<rparr>) d) (\<lambda>d1.
           sbind (write_audit ai \<lparr>ActorAdminID = Some actorID, ActorRole = actorRole,
               Action = ''admin.role.change'', TargetType = ''admin'', TargetID = Some (ad_id admin),
               Result = ''success'', BeforeData = [(''role_name'', AStr oldRoleName)],
               AfterData = [(''role_name'', AStr (r_name role)), (''actor'', AStr actorRole)]\<rparr> d1)
             (\<lambda>d2.
           Inr (\<lparr>sr_admin = ad_id admin, sr_username = ad_username admin,
             sr_role_name = r_name role\<rparr>, d2))))))"

definition AssignRole ::
  "uid \<Rightarrow> uid \<Rightarrow> string \<Rightarrow> uid \<Rightarrow> string \<Rightarrow> db \<Rightarrow> (err + assign_role_result) \<times> db" where
  "AssignRole ai actorID actorRole targetID newRoleName d =
     (if actorID = 0 \<or> targetID = 0 then (Inl ErrAdminNotFound, d)
      else if trim_space newRoleName = [] then (Inl ErrUnknownRole, d)
      else commit (assign_role_tx ai actorID actorRole targetID newRoleName) d)"

section \<open>Reads\<close>

record admin_state =
  as_enabled :: bool
  as_version :: int

definition AdminState :: "uid \<Rightarrow> db \<Rightarrow> err + admin_state" where
  "AdminState i d =
     (if i = 0 then Inl ErrAdminNotFound
      else case find_admin i d of
          None \<Rightarrow> Inl ErrAdminNotFound
        | Some a \<Rightarrow> Inr \<lparr>as_enabled = ad_enabled a, as_version = ad_version a\<rparr>)"

definition IsTokenVersionCurrent :: "uid \<Rightarrow> int \<Rightarrow> db \<Rightarrow> err + bool" where
  "IsTokenVersionCurrent i v d =
     (if i = 0 then Inl ErrAdminNotFound
      else case find_admin i d of
          None \<Rightarrow> Inl ErrAdminNotFound | Some a \<Rightarrow> Inr (ad_version a = v))"

definition clamp_page :: "int \<Rightarrow> int" where
  "clamp_page page = (if page < 1 then 1 else page)"

definition clamp_page_size :: "int \<Rightarrow> int" where
  "clamp_page_size n = (let n = (if n < 1 then 20 else n) in if 100 < n then 100 else n)"

definition page_of :: "int \<Rightarrow> int \<Rightarrow> 'r list \<Rightarrow> 'r list" where
  "page_of page pageSize rows =
     (let p = clamp_page page; n = clamp_page_size pageSize in
      offset_limit (int64 (int64 (p - 1) * n)) n rows)"

record admin_user_view =
  aw_id :: uid
  aw_username :: string
  aw_enabled :: bool
  aw_role :: uid
  aw_role_name :: string
  aw_permissions :: "string list"

fun admin_views :: "db \<Rightarrow> admin_row list \<Rightarrow> err + admin_user_view list" where
  "admin_views d [] = Inr []"
| "admin_views d (a # as) =
     sbind (rolePermissions (ad_role a) d) (\<lambda>permissions.
     sbind (admin_views d as) (\<lambda>out.
     Inr (\<lparr>aw_id = ad_id a, aw_username = ad_username a, aw_enabled = ad_enabled a,
       aw_role = ad_role a, aw_role_name = preloaded_role_name a d,
       aw_permissions = permissions\<rparr> # out)))"

definition ListAdminUsers :: "int \<Rightarrow> int \<Rightarrow> db \<Rightarrow> err + (admin_user_view list \<times> nat)" where
  "ListAdminUsers page pageSize d =
     sbind (admin_views d (page_of page pageSize (sort_key ad_id (admins d)))) (\<lambda>out.
       Inr (out, length (admins d)))"

record user_list_view =
  ul_id :: uid
  ul_nickname :: string
  ul_balance :: int
  ul_created :: time

text \<open>
  \<open>parse\<close> is \<open>uid.ParseCanonical\<close>, whose work a library does, and \<open>ilike\<close> the operator.
\<close>

definition keyword_matches ::
  "(string \<Rightarrow> uid option) \<Rightarrow> (string \<Rightarrow> string \<Rightarrow> bool) \<Rightarrow> string \<Rightarrow> user_row \<Rightarrow> bool" where
  "keyword_matches parse ilike keyword r =
     (if keyword = [] then True
      else case parse keyword of
          Some i \<Rightarrow> u_id r = i
        | None \<Rightarrow> ilike (''%'' @ keyword @ ''%'') (u_nickname r))"

definition ListUsers ::
  "(string \<Rightarrow> uid option) \<Rightarrow> (string \<Rightarrow> string \<Rightarrow> bool) \<Rightarrow> int \<Rightarrow> int \<Rightarrow> string \<Rightarrow> db
   \<Rightarrow> user_list_view list \<times> nat" where
  "ListUsers parse ilike page pageSize raw d =
     (let base = filter (keyword_matches parse ilike (trim_space raw)) (users d) in
      (map (\<lambda>r. \<lparr>ul_id = u_id r, ul_nickname = u_nickname r, ul_balance = u_balance r,
         ul_created = u_created r\<rparr>) (page_of page pageSize (sort_key u_id base)), length base))"

definition ListAuditLogs :: "int \<Rightarrow> int \<Rightarrow> db \<Rightarrow> audit_row list \<times> nat" where
  "ListAuditLogs page pageSize d =
     (page_of page pageSize (sort_desc au_id (audit_logs d)), length (audit_logs d))"

end
