(* ===== verification/Gate.thy ===== *)
theory Gate
  imports Tokens Admins
begin

text \<open>
  \<open>internal/middleware\<close> (\<open>auth.go\<close>, \<open>permission.go\<close>, \<open>csrf.go\<close>), \<open>internal/platform/uid\<close> and the
  envelope of \<open>internal/platform/http/response.go\<close>: what a request passes before a handler of the
  server sees it.

  A middleware of gin either aborts with an error reply or calls \<open>c.Next()\<close>: it is a function into
  \<open>http_error + context\<close>, and the chain of a route is their composition by \<open>sbind\<close>. A request is the
  part of it the gates read; cookies are the values gin hands out, unescaped. \<open>uuid.Parse\<close> and
  \<open>UUID.String\<close> are the parameters \<open>up\<close> and \<open>us\<close>, \<open>url.Parse\<close> is \<open>url_parse\<close>.
\<close>

section \<open>Replies and requests\<close>

text \<open>A message is a text, or the \<open>Error()\<close> of an error value, which the model keeps as the value.\<close>

datatype message = Text string | ErrorText err

datatype http_error = HttpError (status_of: int) (code_of: int) (message_of: message)

text \<open>\<open>platformhttp.Error\<close> and \<open>platformhttp.Success\<close>: a status and a code and message, or the data.\<close>

type_synonym 'a reply = "http_error + int \<times> 'a"

definition CodeBadRequest :: int where "CodeBadRequest = 1001"
definition CodeUnauthorized :: int where "CodeUnauthorized = 1002"
definition CodeForbidden :: int where "CodeForbidden = 1003"
definition CodeNotFound :: int where "CodeNotFound = 1004"
definition CodeConflict :: int where "CodeConflict = 2001"
definition CodeBusiness :: int where "CodeBusiness = 2002"
definition CodeRateLimited :: int where "CodeRateLimited = 3001"
definition CodeInternal :: int where "CodeInternal = 5001"

lemmas code_defs = CodeBadRequest_def CodeUnauthorized_def CodeForbidden_def CodeNotFound_def
  CodeConflict_def CodeBusiness_def CodeRateLimited_def CodeInternal_def

record request =
  rq_method :: string
  rq_path :: string
  rq_headers :: "(string \<times> string) list"
  rq_cookies :: "(string \<times> string) list"
  rq_query :: "(string \<times> string) list"
  rq_params :: "(string \<times> string) list"

definition GetHeader :: "request \<Rightarrow> string \<Rightarrow> string" where
  "GetHeader rq name = (case map_of (rq_headers rq) name of None \<Rightarrow> [] | Some v \<Rightarrow> v)"

definition Query :: "request \<Rightarrow> string \<Rightarrow> string" where
  "Query rq name = (case map_of (rq_query rq) name of None \<Rightarrow> [] | Some v \<Rightarrow> v)"

definition Param :: "request \<Rightarrow> string \<Rightarrow> string" where
  "Param rq name = (case map_of (rq_params rq) name of None \<Rightarrow> [] | Some v \<Rightarrow> v)"

definition Cookie :: "request \<Rightarrow> string \<Rightarrow> string option" where
  "Cookie rq name = map_of (rq_cookies rq) name"

text \<open>What the authentication of a request leaves in the context of gin.\<close>

record gin_context =
  cx_claims :: "claims option"
  cx_buyer :: "string option"
  cx_admin :: "string option"

definition no_context :: gin_context where
  "no_context = \<lparr>cx_claims = None, cx_buyer = None, cx_admin = None\<rparr>"

definition abortUnauthorized :: "http_error" where
  "abortUnauthorized = HttpError 401 1002 (Text ''unauthorized'')"

definition abortForbidden :: "string \<Rightarrow> http_error" where
  "abortForbidden message = HttpError 403 1003 (Text message)"

definition abortBusiness :: "int \<Rightarrow> string \<Rightarrow> http_error" where
  "abortBusiness status message = HttpError status 2002 (Text message)"

definition abortInternal :: "http_error" where
  "abortInternal = HttpError 500 5001 (Text ''internal server error'')"

lemmas abort_defs = abortUnauthorized_def abortForbidden_def abortBusiness_def abortInternal_def

section \<open>Identifiers\<close>

definition ParseCanonical :: "(string \<Rightarrow> uid option) \<Rightarrow> (uid \<Rightarrow> string) \<Rightarrow> string \<Rightarrow> err + uid" where
  "ParseCanonical up us text =
     (case up text of
        None \<Rightarrow> Inl (ErrOther ''invalid uuid'')
      | Some i \<Rightarrow> if us i \<noteq> text then Inl (ErrOther ''invalid uuid'') else Inr i)"

definition BuyerIDFromSubject :: "(string \<Rightarrow> uid option) \<Rightarrow> (uid \<Rightarrow> string) \<Rightarrow> string \<Rightarrow> err + uid" where
  "BuyerIDFromSubject up us subject =
     (if \<not> has_prefix subject ''buyer:'' then Inl (ErrOther ''subject does not have buyer prefix'')
      else ParseCanonical up us (drop (length ''buyer:'') subject))"

definition AdminIDFromSubject :: "(string \<Rightarrow> uid option) \<Rightarrow> (uid \<Rightarrow> string) \<Rightarrow> string \<Rightarrow> err + uid" where
  "AdminIDFromSubject up us subject =
     (if \<not> has_prefix subject ''admin:'' then Inl (ErrOther ''subject does not have admin prefix'')
      else ParseCanonical up us (drop (length ''admin:'') subject))"

lemma ParseCanonical_InrD: "ParseCanonical up us text = Inr i \<Longrightarrow> text = us i"
  by (auto simp: ParseCanonical_def split: option.splits if_splits)

lemma has_prefix_split: "has_prefix s p \<longleftrightarrow> s = p @ drop (length p) s"
  unfolding has_prefix_def by (metis append_eq_conv_conj append_take_drop_id)

lemma AdminIDFromSubject_InrD:
  assumes "AdminIDFromSubject up us subject = Inr i"
  shows "subject = adminSubject us i"
proof -
  have p: "has_prefix subject ''admin:''"
    and "ParseCanonical up us (drop (length ''admin:'') subject) = Inr i"
    using assms by (simp_all add: AdminIDFromSubject_def split: if_splits)
  then have "drop (length ''admin:'') subject = us i" by (simp add: ParseCanonical_InrD)
  with p show ?thesis unfolding adminSubject_def has_prefix_split by metis
qed

lemma BuyerIDFromSubject_InrD:
  assumes "BuyerIDFromSubject up us subject = Inr i"
  shows "subject = ''buyer:'' @ us i"
proof -
  have p: "has_prefix subject ''buyer:''"
    and "ParseCanonical up us (drop (length ''buyer:'') subject) = Inr i"
    using assms by (simp_all add: BuyerIDFromSubject_def split: if_splits)
  then have "drop (length ''buyer:'') subject = us i" by (simp add: ParseCanonical_InrD)
  with p show ?thesis unfolding has_prefix_split by metis
qed

lemma AdminIDFromSubject_id: "up (us i) = Some i \<Longrightarrow> AdminIDFromSubject up us (adminSubject us i) = Inr i"
  by (simp add: AdminIDFromSubject_def adminSubject_def has_prefix_def ParseCanonical_def)

text \<open>The two kinds of subject exclude each other.\<close>

lemma subjects_disjoint:
  "AdminIDFromSubject up us s = Inr i \<Longrightarrow> \<exists>e. BuyerIDFromSubject up us s = Inl e"
  by (auto simp: AdminIDFromSubject_def BuyerIDFromSubject_def has_prefix_def split: if_splits)

section \<open>Authentication\<close>

text \<open>
  \<open>service\<close> is \<open>JWTService.Parse\<close> under its configuration and keys. The two requests of the clock
  (\<open>time.Now\<close>, \<open>clock\<close>) are the argument \<open>now\<close>.
\<close>

definition BuyerAuthWithState ::
  "(string \<Rightarrow> uid option) \<Rightarrow> (uid \<Rightarrow> string) \<Rightarrow> (string \<Rightarrow> time \<Rightarrow> err + claims)
   \<Rightarrow> (uid \<Rightarrow> err + bool) option \<Rightarrow> time \<Rightarrow> request \<Rightarrow> gin_context \<Rightarrow> http_error + gin_context" where
  "BuyerAuthWithState up us service resolver now rq cx =
     (let header = GetHeader rq ''Authorization'' in
      if \<not> has_prefix header ''Bearer '' then Inl abortUnauthorized
      else case service (trim_space (drop (length ''Bearer '') header)) now of
          Inl e \<Rightarrow> Inl abortUnauthorized
        | Inr claims \<Rightarrow>
          let next = Inr (cx\<lparr>cx_claims := Some claims, cx_buyer := Some (cl_subject claims)\<rparr>) in
          (case resolver of
             None \<Rightarrow> next
           | Some exists \<Rightarrow>
             (case BuyerIDFromSubject up us (cl_subject claims) of
                Inl e \<Rightarrow> Inl abortUnauthorized
              | Inr buyerID \<Rightarrow>
                (case exists buyerID of
                   Inl e \<Rightarrow> Inl abortUnauthorized
                 | Inr False \<Rightarrow> Inl abortUnauthorized
                 | Inr True \<Rightarrow> next))))"

definition BuyerAuth ::
  "(string \<Rightarrow> uid option) \<Rightarrow> (uid \<Rightarrow> string) \<Rightarrow> (string \<Rightarrow> time \<Rightarrow> err + claims) \<Rightarrow> time \<Rightarrow> request
   \<Rightarrow> gin_context \<Rightarrow> http_error + gin_context" where
  "BuyerAuth up us service = BuyerAuthWithState up us service None"

text \<open>\<open>buyerExistsResolver\<close> of \<open>cmd/server\<close>.\<close>

definition BuyerExists :: "db \<Rightarrow> uid \<Rightarrow> err + bool" where
  "BuyerExists d buyerID =
     (if buyerID = 0 then Inr False
      else Inr (affected (\<lambda>r. u_id r = buyerID) (users d) > 0))"

definition AdminAuthWithClock ::
  "(string \<Rightarrow> uid option) \<Rightarrow> (uid \<Rightarrow> string) \<Rightarrow> (string \<Rightarrow> time \<Rightarrow> err + claims) \<Rightarrow> string
   \<Rightarrow> (uid \<Rightarrow> err + admin_state) option \<Rightarrow> time \<Rightarrow> request \<Rightarrow> gin_context
   \<Rightarrow> http_error + gin_context" where
  "AdminAuthWithClock up us service cookieName resolver now rq cx =
     (let cookieName = (if cookieName = [] then ''admin_access_token'' else cookieName) in
      case Cookie rq cookieName of
        None \<Rightarrow> Inl abortUnauthorized
      | Some raw \<Rightarrow>
        if raw = [] then Inl abortUnauthorized
        else case service raw now of
            Inl e \<Rightarrow> Inl abortUnauthorized
          | Inr claims \<Rightarrow>
            let next = Inr (cx\<lparr>cx_claims := Some claims, cx_admin := Some (cl_subject claims)\<rparr>) in
            (case resolver of
               None \<Rightarrow> next
             | Some state \<Rightarrow>
               (case AdminIDFromSubject up us (cl_subject claims) of
                  Inl e \<Rightarrow> Inl abortUnauthorized
                | Inr adminID \<Rightarrow>
                  (case state adminID of
                     Inl e \<Rightarrow> Inl abortUnauthorized
                   | Inr st \<Rightarrow>
                     if \<not> as_enabled st \<or> as_version st \<noteq> cl_version claims
                     then Inl abortUnauthorized else next))))"

section \<open>Permissions\<close>

text \<open>
  \<open>permissionGate\<close>: \<open>resolver\<close> reads the tables, \<open>onDenied\<close> writes to them. \<open>errors.Is\<close> sees the
  sentinel of the middleware in the error \<open>rolePermissions\<close> joins, which is \<open>ErrUnknownPermission\<close>.
\<close>

definition permissionGate ::
  "(string \<Rightarrow> uid option) \<Rightarrow> (uid \<Rightarrow> string) \<Rightarrow> (uid \<Rightarrow> db \<Rightarrow> err + string list) \<Rightarrow> string
   \<Rightarrow> (uid \<Rightarrow> db \<Rightarrow> db) option \<Rightarrow> gin_context \<Rightarrow> db \<Rightarrow> (http_error + unit) \<times> db" where
  "permissionGate up us resolver required onDenied cx d =
     (case cx_claims cx of
        None \<Rightarrow> (Inl abortUnauthorized, d)
      | Some claims \<Rightarrow>
        (case AdminIDFromSubject up us (cl_subject claims) of
           Inl e \<Rightarrow> (Inl abortUnauthorized, d)
         | Inr adminID \<Rightarrow>
           (case resolver adminID d of
              Inl (ErrUnknownPermission c) \<Rightarrow> (Inl (abortBusiness 422 ''unknown permission''), d)
            | Inl e \<Rightarrow> (Inl abortInternal, d)
            | Inr codes \<Rightarrow>
              if required \<in> set codes then (Inr (), d)
              else (Inl (abortForbidden ''insufficient permission''),
                case onDenied of None \<Rightarrow> d | Some record_denied \<Rightarrow> record_denied adminID d))))"

definition AdminPermission ::
  "(string \<Rightarrow> uid option) \<Rightarrow> (uid \<Rightarrow> string) \<Rightarrow> (uid \<Rightarrow> db \<Rightarrow> err + string list) \<Rightarrow> string
   \<Rightarrow> gin_context \<Rightarrow> db \<Rightarrow> (http_error + unit) \<times> db" where
  "AdminPermission up us resolver required = permissionGate up us resolver required None"

text \<open>The descriptor of a route: the action and the target type a denial is recorded under.\<close>

type_synonym descriptor = "string \<times> string"

definition AuditedAdminPermission ::
  "(string \<Rightarrow> uid option) \<Rightarrow> (uid \<Rightarrow> string) \<Rightarrow> (uid \<Rightarrow> db \<Rightarrow> err + string list) \<Rightarrow> string
   \<Rightarrow> (uid \<Rightarrow> descriptor \<Rightarrow> db \<Rightarrow> db) option \<Rightarrow> descriptor \<Rightarrow> gin_context \<Rightarrow> db
   \<Rightarrow> (http_error + unit) \<times> db" where
  "AuditedAdminPermission up us resolver required auditor descriptor =
     (case auditor of
        None \<Rightarrow> permissionGate up us resolver required None
      | Some record_denied \<Rightarrow>
        permissionGate up us resolver required (Some (\<lambda>adminID. record_denied adminID descriptor)))"

section \<open>Origins and forgery\<close>

record url =
  url_scheme :: string
  url_host :: string
  url_user :: "string option"
  url_path :: string
  url_query :: string
  url_fragment :: string

definition isWriteMethod :: "string \<Rightarrow> bool" where
  "isWriteMethod m \<longleftrightarrow> m = ''POST'' \<or> m = ''PUT'' \<or> m = ''PATCH'' \<or> m = ''DELETE''"

definition canonicalHTTPSOrigin ::
  "(string \<Rightarrow> string) \<Rightarrow> (string \<Rightarrow> url option) \<Rightarrow> string \<Rightarrow> string option" where
  "canonicalHTTPSOrigin lower url_parse text =
     (let raw = trim_space text in
      if raw = [] \<or> list_ex (\<lambda>c. c = CHR 0x0D \<or> c = CHR 0x0A) raw then None
      else case url_parse raw of
          None \<Rightarrow> None
        | Some u \<Rightarrow>
          if url_scheme u \<noteq> ''https'' \<or> url_host u = [] \<or> url_user u \<noteq> None \<or> url_path u \<noteq> [] \<or>
             url_query u \<noteq> [] \<or> url_fragment u \<noteq> [] then None
          else Some (ToLower lower (url_scheme u @ ''://'' @ url_host u)))"

definition AdminOrigin ::
  "(string \<Rightarrow> string) \<Rightarrow> (string \<Rightarrow> url option) \<Rightarrow> string list \<Rightarrow> request \<Rightarrow> http_error + unit" where
  "AdminOrigin lower url_parse allowedOrigins rq =
     (let allowed = List.map_filter (canonicalHTTPSOrigin lower url_parse) allowedOrigins in
      if \<not> isWriteMethod (rq_method rq) then Inr ()
      else case canonicalHTTPSOrigin lower url_parse (GetHeader rq ''Origin'') of
          None \<Rightarrow> Inl (abortForbidden ''invalid origin'')
        | Some origin \<Rightarrow>
          if origin \<notin> set allowed then Inl (abortForbidden ''invalid origin'') else Inr ())"

definition CSRF :: "string \<Rightarrow> string \<Rightarrow> request \<Rightarrow> http_error + unit" where
  "CSRF cookieName loginPath rq =
     (let cookieName = (if cookieName = [] then ''csrf_token'' else cookieName);
          loginPath = (if loginPath = [] then ''/api/admin/v1/auth/login'' else loginPath) in
      if \<not> isWriteMethod (rq_method rq) \<or> rq_path rq = loginPath then Inr ()
      else
        let header = GetHeader rq ''X-CSRF-Token'' in
        (case Cookie rq cookieName of
           None \<Rightarrow> Inl (abortForbidden ''invalid csrf token'')
         | Some cookie \<Rightarrow>
           if cookie = [] \<or> header = [] \<or> cookie \<noteq> header
           then Inl (abortForbidden ''invalid csrf token'') else Inr ()))"

section \<open>The chain before an administrator route\<close>

text \<open>
  The group of \<open>/api/admin/v1\<close> in \<open>NewRouter\<close> puts origin and forgery checks first; a route adds
  authentication with the admin service as resolver and, all but the three of \<open>/auth\<close>, a
  permission gate. What comes out is what the handler sees.
\<close>

record gate_env =
  ge_lower :: "string \<Rightarrow> string"
  ge_url :: "string \<Rightarrow> url option"
  ge_origins :: "string list"
  ge_cookie :: string
  ge_csrf :: string
  ge_up :: "string \<Rightarrow> uid option"
  ge_us :: "uid \<Rightarrow> string"
  ge_service :: "string \<Rightarrow> time \<Rightarrow> err + claims"

definition admin_group :: "gate_env \<Rightarrow> request \<Rightarrow> http_error + unit" where
  "admin_group g rq =
     sbind (AdminOrigin (ge_lower g) (ge_url g) (ge_origins g) rq) (\<lambda>_.
     CSRF (ge_csrf g) ''/api/admin/v1/auth/login'' rq)"

definition admin_session :: "gate_env \<Rightarrow> time \<Rightarrow> request \<Rightarrow> db \<Rightarrow> http_error + gin_context" where
  "admin_session g now rq d =
     sbind (admin_group g rq) (\<lambda>_.
     AdminAuthWithClock (ge_up g) (ge_us g) (ge_service g) (ge_cookie g)
       (Some (\<lambda>i. AdminState i d)) now rq no_context)"

definition admin_route ::
  "gate_env \<Rightarrow> string \<Rightarrow> (uid \<Rightarrow> descriptor \<Rightarrow> db \<Rightarrow> db) option \<Rightarrow> descriptor \<Rightarrow> time \<Rightarrow> request \<Rightarrow> db
   \<Rightarrow> (http_error + gin_context) \<times> db" where
  "admin_route g required auditor descriptor now rq d =
     (case admin_session g now rq d of
        Inl r \<Rightarrow> (Inl r, d)
      | Inr cx \<Rightarrow>
        (case AuditedAdminPermission (ge_up g) (ge_us g) PermissionsForAdmin required auditor
            descriptor cx d of
           (Inl r, d') \<Rightarrow> (Inl r, d')
         | (Inr _, d') \<Rightarrow> (Inr cx, d')))"

end
