(* ===== verification/Access.thy ===== *)
theory Access
  imports Gate
begin

text \<open>
  \<open>internal/application/access/access.go\<close>: role changes, account updates and password changes in
  front of the account service, and \<open>accessPasswordChanger\<close> of \<open>cmd/server\<close>, which is how the
  console's handler reaches them. The usecase is always configured by \<open>cmd/server\<close>.
\<close>

record change_role_input =
  ri_actor :: uid
  ri_role :: string
  ri_target :: uid
  ri_new_role :: string

definition isExpectedChangeRoleError :: "err \<Rightarrow> bool" where
  "isExpectedChangeRoleError e = (case e of
       ErrAdminNotFound \<Rightarrow> True | ErrUnknownRole \<Rightarrow> True | ErrUnknownPermission _ \<Rightarrow> True
     | _ \<Rightarrow> False)"

definition role_failure_tx :: "uid \<Rightarrow> change_role_input \<Rightarrow> err \<Rightarrow> unit tx" where
  "role_failure_tx fi input cause d =
     sbind (write_audit fi \<lparr>ActorAdminID = Some (ri_actor input), ActorRole = ri_role input,
         Action = ''admin.role.change'', TargetType = ''admin'', TargetID = Some (ri_target input),
         Result = ''failure'', BeforeData = [],
         AfterData = [(''role_name'', AStr (ri_new_role input)),
           (''reason'', AStr (err_text cause))]\<rparr> d) (\<lambda>d'. Inr ((), d'))"

definition recordRoleChangeFailure :: "uid \<Rightarrow> change_role_input \<Rightarrow> err \<Rightarrow> db \<Rightarrow> db" where
  "recordRoleChangeFailure fi input cause d = snd (commit (role_failure_tx fi input cause) d)"

interpretation refused_role: recorder "recordRoleChangeFailure fi input cause" for fi input cause
  unfolding recordRoleChangeFailure_def by (rule recorder_commit) (simp add: role_failure_tx_def)

definition ChangeRole ::
  "uid \<Rightarrow> uid \<Rightarrow> change_role_input \<Rightarrow> db \<Rightarrow> (err + assign_role_result) \<times> db" where
  "ChangeRole ai fi input d =
     (if trim_space (ri_role input) = [] then (Inl (ErrOther ''actor role is required''), d)
      else if ri_actor input = 0 \<or> ri_target input = 0 then (Inl ErrAdminNotFound, d)
      else if trim_space (ri_new_role input) = [] then (Inl ErrUnknownRole, d)
      else case AssignRole ai (ri_actor input) (ri_role input) (ri_target input) (ri_new_role input) d of
          (Inr r, d') \<Rightarrow> (Inr r, d')
        | (Inl e, d') \<Rightarrow>
          if \<not> isExpectedChangeRoleError e then (Inl e, d')
          else (Inl e, recordRoleChangeFailure fi input e d'))"

definition access_UpdateAdmin ::
  "uid \<Rightarrow> uid \<Rightarrow> string \<Rightarrow> uid \<Rightarrow> bool option \<Rightarrow> db \<Rightarrow> (err + update_admin_result) \<times> db" where
  "access_UpdateAdmin ai actorID actorRole targetID enabled d =
     (if trim_space actorRole = [] then (Inl (ErrOther ''actor role is required''), d)
      else if actorID = 0 \<or> targetID = 0 then (Inl ErrAdminNotFound, d)
      else UpdateAdmin ai actorID actorRole targetID enabled d)"

record access_password_input =
  ap_actor :: uid
  ap_role :: string
  ap_target :: uid
  ap_old :: string
  ap_new :: string

text \<open>The target is checked for zero and then not used: the password that changes is the actor's.\<close>

definition access_ChangePassword ::
  "(string \<Rightarrow> rune_class) \<Rightarrow> (string \<Rightarrow> string \<Rightarrow> bool) \<Rightarrow> (string \<Rightarrow> err + string) \<Rightarrow> uid
   \<Rightarrow> access_password_input \<Rightarrow> db \<Rightarrow> (err + change_password_result) \<times> db" where
  "access_ChangePassword uni verify hashed ai input d =
     (if trim_space (ap_role input) = [] then (Inl (ErrOther ''actor role is required''), d)
      else if ap_actor input = 0 \<or> ap_target input = 0 then (Inl ErrAdminNotFound, d)
      else case ValidatePassword uni (ap_new input) of
          Inl e \<Rightarrow> (Inl e, d)
        | Inr _ \<Rightarrow> ChangePassword uni verify hashed ai
            \<lparr>cp_actor = ap_actor input, cp_role = ap_role input, cp_old = ap_old input,
             cp_new = ap_new input\<rparr> d)"

definition accessPasswordChanger ::
  "(string \<Rightarrow> rune_class) \<Rightarrow> (string \<Rightarrow> string \<Rightarrow> bool) \<Rightarrow> (string \<Rightarrow> err + string) \<Rightarrow> uid
   \<Rightarrow> change_password_input \<Rightarrow> db \<Rightarrow> (err + change_password_result) \<times> db" where
  "accessPasswordChanger uni verify hashed ai input d =
     access_ChangePassword uni verify hashed ai
       \<lparr>ap_actor = cp_actor input, ap_role = cp_role input, ap_target = cp_actor input,
        ap_old = cp_old input, ap_new = cp_new input\<rparr> d"

section \<open>What the usecase adds\<close>

text \<open>The role of the actor in hand, the usecase is the service, and records what it refused.\<close>

lemma ChangeRole_ok:
  "trim_space (ri_role input) \<noteq> [] \<Longrightarrow>
   ChangeRole ai fi input d = (Inr r, d') \<longleftrightarrow>
   AssignRole ai (ri_actor input) (ri_role input) (ri_target input) (ri_new_role input) d = (Inr r, d')"
  by (auto simp: ChangeRole_def AssignRole_def split: prod.splits sum.splits if_splits)

lemma ChangeRole_refused:
  "ChangeRole ai fi input d = (Inl e, d') \<Longrightarrow> d' = d \<or> d' = recordRoleChangeFailure fi input e d"
  by (auto simp: ChangeRole_def AssignRole_def commit_failed split: prod.splits sum.splits if_splits)

lemma accessPasswordChanger_self:
  "trim_space (cp_role input) \<noteq> [] \<Longrightarrow> cp_actor input \<noteq> 0 \<Longrightarrow>
   accessPasswordChanger uni verify hashed ai input d = ChangePassword uni verify hashed ai input d"
  by (cases input) (simp add: accessPasswordChanger_def access_ChangePassword_def ChangePassword_def
      split: sum.splits)

text \<open>Asked to change another account's password, the usecase changes the actor's own.\<close>

lemma access_ChangePassword_target:
  "ap_target input \<noteq> 0 \<Longrightarrow> t \<noteq> 0 \<Longrightarrow>
   access_ChangePassword uni verify hashed ai (input\<lparr>ap_target := t\<rparr>) d =
   access_ChangePassword uni verify hashed ai input d"
  by (simp add: access_ChangePassword_def split: sum.split)

end
