(* ===== verification/Sessions.thy ===== *)
theory Sessions
  imports Admins Demo
begin

text \<open>
  What the account operations do to sessions. A token names an account and the version it was issued
  under. Versions only grow, whatever happens, so a token that a logout, a password change or a
  disabling has ended stays ended; logging in ends nobody's session.
\<close>

section \<open>Accounts stay well formed\<close>

definition admins_ok :: "db \<Rightarrow> bool" where
  "admins_ok d \<longleftrightarrow> distinct (map ad_id (admins d)) \<and> distinct (map ad_username (admins d)) \<and>
     (\<forall>a\<in>set (admins d). 0 < ad_version a \<and> in64 (ad_version a) \<and> ad_role a \<in> r_id ` set (roles d))"

definition version_of :: "uid \<Rightarrow> db \<Rightarrow> int option" where
  "version_of i d = map_option ad_version (find_admin i d)"

lemma insert_admin_eq_Inr [tx_elims]:
  "insert_admin r d = Inr d' \<longleftrightarrow> rune_count (ad_username r) \<le> 32 \<and> rune_count (ad_hash r) \<le> 255 \<and>
     0 < ad_version r \<and> ad_id r \<notin> ad_id ` set (admins d) \<and> ad_username r \<notin> ad_username ` set (admins d) \<and>
     ad_role r \<in> r_id ` set (roles d) \<and> d' = d\<lparr>admins := admins d @ [r]\<rparr>"
  by (auto simp: insert_admin_def tx_elims list_all_iff dest: notin_imageD)

lemma update_admin_eq_Inr [tx_elims]:
  "update_admin i f d = Inr d' \<longleftrightarrow>
   (\<forall>a\<in>set (admins d). ad_id a = i \<longrightarrow> rune_count (ad_hash (f a)) \<le> 255 \<and> 0 < ad_version (f a) \<and>
      ad_role (f a) \<in> r_id ` set (roles d)) \<and>
   d' = d\<lparr>admins := update_where (\<lambda>a. ad_id a = i) f (admins d)\<rparr>"
  by (auto simp: update_admin_def Let_def list_all_iff)

lemma find_admin_SomeD: "find_admin i d = Some a \<Longrightarrow> a \<in> set (admins d) \<and> ad_id a = i"
  by (auto simp: find_admin_def dest: find_SomeD)

lemma find_username_SomeD: "find_username n d = Some a \<Longrightarrow> a \<in> set (admins d) \<and> ad_username a = n"
  by (auto simp: find_username_def dest: find_SomeD)

lemma find_admin_id: "admins_ok d \<Longrightarrow> a \<in> set (admins d) \<Longrightarrow> find_admin (ad_id a) d = Some a"
  using find_key[of ad_id "admins d" a] by (simp add: admins_ok_def find_admin_def)

text \<open>What an operation on one account leaves: the account replaced, and the audit log longer.\<close>

definition account_set :: "uid \<Rightarrow> (admin_row \<Rightarrow> admin_row) \<Rightarrow> db \<Rightarrow> db \<Rightarrow> bool" where
  "account_set i f d d' \<longleftrightarrow>
     (\<exists>t. d' = d\<lparr>admins := update_where (\<lambda>a. ad_id a = i) f (admins d), audit_logs := t\<rparr>) \<and>
     (\<forall>a\<in>set (admins d). ad_id a = i \<longrightarrow> 0 < ad_version (f a) \<and> ad_role (f a) \<in> r_id ` set (roles d))"

lemma account_setI:
  assumes "update_admin i f d = Inr d1" and "write_audit ai e d1 = Inr d'"
  shows "account_set i f d d'"
  using assms by (auto simp: account_set_def update_admin_eq_Inr write_audit_eq_Inr)

lemma account_set_same:
  assumes "write_audit ai e d = Inr d'" and "admins_ok d"
  shows "account_set i (\<lambda>a. a) d d'"
proof -
  have "update_where (\<lambda>a. ad_id a = i) (\<lambda>a. a) (admins d) = admins d" by (induction "admins d") (auto simp: update_where_def)
  then show ?thesis
    using assms by (auto simp: account_set_def write_audit_eq_Inr admins_ok_def)
qed

lemma account_set_find:
  assumes "account_set i f d d'" and "\<And>a. ad_id (f a) = ad_id a"
  shows "find_admin j d' = (if j = i then map_option f (find_admin j d) else find_admin j d)"
proof -
  have "find (\<lambda>a. ad_id a = j) (update_where (\<lambda>a. ad_id a = i) f t) =
      (if j = i then map_option f (find (\<lambda>a. ad_id a = j) t) else find (\<lambda>a. ad_id a = j) t)" for t
    by (induction t) (auto simp: assms(2))
  then show ?thesis using assms(1) by (auto simp: account_set_def find_admin_def)
qed

lemma account_set_ok:
  assumes "account_set i f d d'" and "admins_ok d"
    and "\<And>a. ad_id (f a) = ad_id a" and "\<And>a. ad_username (f a) = ad_username a"
    and "\<And>a. a \<in> set (admins d) \<Longrightarrow> in64 (ad_version (f a))"
  shows "admins_ok d'"
proof -
  have "map ad_id (update_where (\<lambda>a. ad_id a = i) f (admins d)) = map ad_id (admins d)"
    "map ad_username (update_where (\<lambda>a. ad_id a = i) f (admins d)) = map ad_username (admins d)"
    by (rule map_update_where, simp add: assms(3,4))+
  then show ?thesis
    using assms(1,2,5) by (auto simp: account_set_def admins_ok_def set_update_where)
qed

section \<open>What each operation went through\<close>

lemma bootstrap_cases:
  assumes "BootstrapAdministrator uni i ai hashed input d = (Inr r, d')"
  obtains role hash d1 t where "find_role_name (bi_role input) d = Some role"
    "ensureAllPermissionsAreSeeded (r_id role) d = Inr ()" "hashed (bi_password input) = Inr hash"
    "insert_admin \<lparr>ad_id = i, ad_username = trim_space (bi_username input), ad_hash = hash,
       ad_version = 1, ad_role = r_id role, ad_enabled = True, ad_last_login = None\<rparr> d = Inr d1"
    "d' = d1\<lparr>audit_logs := t\<rparr>"
    "r = \<lparr>br_admin = i, br_username = trim_space (bi_username input), br_role = r_name role, br_version = 1\<rparr>"
    "trim_space (bi_username input) \<noteq> []" "12 \<le> length (bi_password input)"
proof -
  have tx: "bootstrap_tx i ai hashed input d = Inr (r, d')"
    and v: "ValidateUsername uni (bi_username input) = Inr ()" "ValidatePassword uni (bi_password input) = Inr ()"
    using assms by (auto simp: BootstrapAdministrator_def commit_ok sbind_eq_Inr split: sum.splits if_splits)
  have g: "trim_space (bi_username input) \<noteq> []" "12 \<le> length (bi_password input)"
    using v by (auto simp: ValidateUsername_def ValidatePassword_def Let_def split: if_splits)
  obtain role where role: "find_role_name (bi_role input) d = Some role"
    using tx by (auto simp: bootstrap_tx_def split: option.splits)
  let ?a = "\<lambda>hash. \<lparr>ad_id = i, ad_username = trim_space (bi_username input), ad_hash = hash,
       ad_version = 1, ad_role = r_id role, ad_enabled = True, ad_last_login = None\<rparr>"
  obtain hash where h: "ensureAllPermissionsAreSeeded (r_id role) d = Inr ()"
    "hashed (bi_password input) = Inr hash"
    using tx role by (auto simp: bootstrap_tx_def sbind_eq_Inr)
  obtain d1 where d1: "insert_admin (?a hash) d = Inr d1"
    using tx role h by (auto simp: bootstrap_tx_def Let_def split: sum.splits)
  obtain e where "write_audit ai e d1 = Inr d'"
    "r = \<lparr>br_admin = i, br_username = trim_space (bi_username input), br_role = r_name role, br_version = 1\<rparr>"
    using tx role h d1 by (auto simp: bootstrap_tx_def Let_def sbind_eq_Inr)
  then show thesis using that[OF role h d1 _ _ g] write_audit_only by metis
qed

lemma login_cases:
  assumes "login_checked verify issue us ai fi now input d = (res, d')"
  obtains (ok) admin where
      "find_username (trim_space (in_username input)) d = Some admin" "ad_enabled admin"
      "verify (in_password input) (ad_hash admin)"
      "account_set (ad_id admin) (\<lambda>a. a\<lparr>ad_last_login := Some now\<rparr>) d d'"
      "\<And>v. res = Inr v \<Longrightarrow> ar_admin v = ad_id admin \<and> ar_version v = ad_version admin \<and>
        issue (adminSubject us (ad_id admin)) (ad_version admin) now = Inr (ar_token v) \<and>
        rolePermissions (ad_role admin) d' = Inr (ar_permissions v)"
  | (refused) e t where "res = Inl e" "d' = d\<lparr>audit_logs := t\<rparr>"
proof -
  note fail = refused_login.only_log
  show thesis
  proof (cases "auth_tx verify ai now input d")
    case (Inl e)
    then have "res = Inl e" "d' = d \<or> (\<exists>reason. d' = recordFailedLogin fi input reason d)"
      using assms by (auto simp: login_checked_def commit_def split: if_splits)
    then show thesis using refused fail audit_same by metis
  next
    case (Inr p)
    obtain admin roleName d2 where p: "p = ((admin, roleName), d2)" by (metis surj_pair)
    have d': "d' = d2" using assms Inr p by (simp add: login_checked_def commit_def)
    from Inr p obtain d1 e where a: "find_username (trim_space (in_username input)) d = Some admin"
      "ad_enabled admin" "verify (in_password input) (ad_hash admin)"
      "update_admin (ad_id admin) (\<lambda>a. a\<lparr>ad_last_login := Some now\<rparr>) d = Inr d1"
      "write_audit ai e d1 = Inr d2"
      by (auto simp: auth_tx_def sbind_eq_Inr Let_def split: option.splits if_splits)
    have "ar_admin v = ad_id admin \<and> ar_version v = ad_version admin \<and>
        issue (adminSubject us (ad_id admin)) (ad_version admin) now = Inr (ar_token v) \<and>
        rolePermissions (ad_role admin) d' = Inr (ar_permissions v)" if "res = Inr v" for v
      using assms Inr p that
      by (cases "issue (adminSubject us (ad_id admin)) (ad_version admin) now")
        (auto simp: login_checked_def commit_def sbind_eq_Inr d')
    then show thesis using ok[of admin] a account_setI[OF a(4,5)] d' by blast
  qed
qed

lemma logout_cases:
  assumes "Logout ai subject i d = (Inr u, d')"
  obtains a where "find_admin i d = Some a"
    "account_set i (\<lambda>b. b\<lparr>ad_version := int64 (ad_version a + 1)\<rparr>) d d'"
proof -
  obtain a where a: "find_admin i d = Some a"
    using assms by (auto simp: Logout_def commit_ok logout_tx_def split: option.splits)
  moreover have "ad_id a = i" using find_admin_SomeD[OF a] by simp
  ultimately obtain d1 e where "update_admin i (\<lambda>b. b\<lparr>ad_version := int64 (ad_version a + 1)\<rparr>) d = Inr d1"
    "write_audit ai e d1 = Inr d'"
    using assms by (auto simp: Logout_def commit_ok logout_tx_def sbind_eq_Inr Let_def)
  then show thesis using that[OF a] account_setI by blast
qed

lemma change_password_cases:
  assumes "ChangePassword uni verify hashed ai input d = (Inr r, d')"
  obtains a hash where "find_admin (cp_actor input) d = Some a" "ad_enabled a"
    "verify (cp_old input) (ad_hash a)" "hashed (cp_new input) = Inr hash"
    "ValidatePassword uni (cp_new input) = Inr ()"
    "account_set (cp_actor input) (\<lambda>b. b\<lparr>ad_hash := hash, ad_version := int64 (ad_version a + 1)\<rparr>) d d'"
proof -
  have tx: "change_password_tx verify hashed ai input d = Inr (r, d')"
    and v: "ValidatePassword uni (cp_new input) = Inr ()"
    using assms by (auto simp: ChangePassword_def commit_ok split: sum.splits if_splits)
  obtain a where a: "find_admin (cp_actor input) d = Some a"
    using tx by (auto simp: change_password_tx_def split: option.splits)
  moreover have "ad_id a = cp_actor input" using find_admin_SomeD[OF a] by simp
  ultimately obtain hash d1 e where "ad_enabled a" "verify (cp_old input) (ad_hash a)"
    "hashed (cp_new input) = Inr hash"
    "update_admin (cp_actor input) (\<lambda>b. b\<lparr>ad_hash := hash, ad_version := int64 (ad_version a + 1)\<rparr>) d = Inr d1"
    "write_audit ai e d1 = Inr d'"
    using tx by (auto simp: change_password_tx_def sbind_eq_Inr Let_def split: if_splits)
  then show thesis using that[OF a] v account_setI by blast
qed

lemma update_admin_cases:
  assumes "UpdateAdmin ai actorID actorRole i enabled d = (Inr r, d')" and "admins_ok d"
  obtains a f where "find_admin i d = Some a" "account_set i f d d'" "f a = toggle enabled a"
    "\<And>b. ad_id (f b) = ad_id b" "\<And>b. ad_username (f b) = ad_username b"
    "\<And>b. in64 (ad_version b) \<Longrightarrow> in64 (ad_version (f b))"
proof -
  have tx: "update_admin_tx ai actorID actorRole i enabled d = Inr (r, d')"
    using assms(1) by (auto simp: UpdateAdmin_def commit_ok split: if_splits)
  obtain a where a: "find_admin i d = Some a"
    using tx by (auto simp: update_admin_tx_def split: option.splits)
  let ?n = "toggle enabled a"
  let ?f = "\<lambda>b. b\<lparr>ad_enabled := ad_enabled ?n, ad_version := ad_version ?n\<rparr>"
  have i: "ad_id a = i" "a \<in> set (admins d)" using find_admin_SomeD[OF a] by simp_all
  then have "in64 (ad_version a)" using assms(2) by (simp add: admins_ok_def)
  then have n: "in64 (ad_version ?n)" by (simp add: toggle_def split: option.split)
  have f: "?f a = ?n" by (cases a) (simp add: toggle_def split: option.split)
  from tx a i obtain d1 e where u: "(if ?n = a then Inr d else update_admin i ?f d) = Inr d1"
    "write_audit ai e d1 = Inr d'"
    by (auto simp: update_admin_tx_def sbind_eq_Inr Let_def)
  show thesis
  proof (cases "?n = a")
    case True
    then show thesis
      using u that[OF a account_set_same[of ai e d d' i, OF _ assms(2)]] by simp
  next
    case False
    then show thesis
      using u n by (intro that[OF a account_setI[of i ?f] f]) simp_all
  qed
qed

lemma assign_role_cases:
  assumes "AssignRole ai actorID actorRole i name d = (Inr r, d')"
  obtains a role where "find_admin i d = Some a" "find_role_name name d = Some role"
    "ensureAllPermissionsAreSeeded (r_id role) d = Inr ()"
    "account_set i (\<lambda>b. b\<lparr>ad_role := r_id role\<rparr>) d d'"
proof -
  have tx: "assign_role_tx ai actorID actorRole i name d = Inr (r, d')"
    using assms(1) by (auto simp: AssignRole_def commit_ok split: if_splits)
  obtain a where a: "find_admin i d = Some a"
    using tx by (auto simp: assign_role_tx_def split: option.splits)
  moreover have "ad_id a = i" using find_admin_SomeD[OF a] by simp
  ultimately obtain role d1 e where "find_role_name name d = Some role"
    "ensureAllPermissionsAreSeeded (r_id role) d = Inr ()"
    "update_admin i (\<lambda>b. b\<lparr>ad_role := r_id role\<rparr>) d = Inr d1" "write_audit ai e d1 = Inr d'"
    using tx by (auto simp: assign_role_tx_def sbind_eq_Inr Let_def split: option.splits)
  then show thesis using that[OF a] account_setI by blast
qed

section \<open>Versions only grow\<close>

text \<open>Every operation of the administration that writes an account or a role.\<close>

inductive admin_step :: "db \<Rightarrow> db \<Rightarrow> bool" where
  bootstrap: "admin_step d (snd (BootstrapAdministrator uni i ai hashed bin d))"
| login: "admin_step d (snd (snd (Authenticate lower verify issue us ai fi now lin limiter d)))"
| logout: "admin_step d (snd (Logout ai subject i d))"
| change_password: "admin_step d (snd (ChangePassword uni verify hashed ai cin d))"
| update_admin: "admin_step d (snd (UpdateAdmin ai actorID actorRole i enabled d))"
| assign_role: "admin_step d (snd (AssignRole ai actorID actorRole i name d))"

definition grows :: "db \<Rightarrow> db \<Rightarrow> bool" where
  "grows d d' \<longleftrightarrow> admins_ok d' \<and>
     (\<forall>j v. version_of j d = Some v \<longrightarrow> (\<exists>w. version_of j d' = Some w \<and> v \<le> w))"

lemma grows_refl: "admins_ok d \<Longrightarrow> grows d d"
  by (auto simp: grows_def)

lemma grows_audit: "admins_ok d \<Longrightarrow> grows d (d\<lparr>audit_logs := t\<rparr>)"
  using grows_refl[of d] by (simp add: grows_def admins_ok_def version_of_def find_admin_def)

lemma grows_set:
  assumes "account_set i f d d'" and "admins_ok d" and "find_admin i d = Some a"
    and "\<And>b. ad_id (f b) = ad_id b" and "\<And>b. ad_username (f b) = ad_username b"
    and "in64 (ad_version (f a))" and "ad_version a \<le> ad_version (f a)"
    and "\<And>b. in64 (ad_version b) \<Longrightarrow> in64 (ad_version (f b))"
  shows "grows d d'"
proof -
  have "admins_ok d'"
    by (rule account_set_ok[OF assms(1,2,4,5)]) (use assms(2,8) in \<open>auto simp: admins_ok_def\<close>)
  then show ?thesis
    using assms(3,7) account_set_find[OF assms(1,4)] by (auto simp: grows_def version_of_def)
qed

lemma int64_succ_pos: "0 < v \<Longrightarrow> in64 v \<Longrightarrow> 0 < int64 (v + 1) \<Longrightarrow> in64 (v + 1)"
  by (cases "v = 9223372036854775807") (auto simp: in64_def int64_def)

text \<open>The increment that the schema lets through is a real one: a wrap would not be positive.\<close>

lemma next_version:
  assumes "account_set i f d d'" and "find_admin i d = Some a" and "admins_ok d"
    and "ad_version (f a) = int64 (ad_version a + 1)"
  shows "int64 (ad_version a + 1) = ad_version a + 1" and "in64 (ad_version a + 1)"
proof -
  have a: "a \<in> set (admins d)" "ad_id a = i" using find_admin_SomeD[OF assms(2)] by simp_all
  then have "0 < ad_version (f a)" "0 < ad_version a" "in64 (ad_version a)"
    using assms(1,3) by (auto simp: account_set_def admins_ok_def)
  then show "in64 (ad_version a + 1)" using assms(4) int64_succ_pos by simp
  then show "int64 (ad_version a + 1) = ad_version a + 1" by simp
qed

lemma insert_admin_ok:
  assumes "insert_admin r d = Inr d'" and "admins_ok d" and "in64 (ad_version r)"
  shows "admins_ok d'" and "grows d d'"
proof -
  show ok: "admins_ok d'" using assms by (auto simp: insert_admin_eq_Inr admins_ok_def)
  have "version_of j d' = Some v" if "version_of j d = Some v" for j v
    using that assms(1) by (auto simp: insert_admin_eq_Inr version_of_def find_admin_def find_append)
  then show "grows d d'" using ok by (auto simp: grows_def)
qed

lemma int64_in64: "in64 (int64 x)"
  by simp

lemma Authenticate_db:
  "snd (snd (Authenticate lower verify issue us ai fi now input limiter d)) = d \<or>
   snd (snd (Authenticate lower verify issue us ai fi now input limiter d)) =
     snd (login_checked verify issue us ai fi now input d)"
  by (auto simp: Authenticate_def split: option.splits prod.splits bool.splits)

lemma login_grows: "admins_ok d \<Longrightarrow> grows d (snd (login_checked verify issue us ai fi now input d))"
proof -
  assume ok: "admins_ok d"
  obtain res d' where ex: "login_checked verify issue us ai fi now input d = (res, d')"
    by (cases "login_checked verify issue us ai fi now input d")
  then have "grows d d'"
  proof (cases rule: login_cases)
    case c: (ok admin)
    then have "admin \<in> set (admins d)" using find_username_SomeD by blast
    then have "find_admin (ad_id admin) d = Some admin" "in64 (ad_version admin)"
      using ok find_admin_id by (auto simp: admins_ok_def)
    then show ?thesis by (intro grows_set[OF c(4) ok]) simp_all
  qed (use ok grows_audit in simp)
  then show ?thesis by (simp add: ex)
qed

lemma unchanged_or:
  assumes "\<And>r d'. p = (Inr r, d') \<Longrightarrow> grows d d'" and "\<And>e d'. p = (Inl e, d') \<Longrightarrow> d' = d" and "admins_ok d"
  shows "grows d (snd p)"
  using assms grows_refl by (metis obj_sumE prod.collapse)

lemma failed_unchanged:
  "BootstrapAdministrator uni i ai hashed bin d = (Inl e, d') \<Longrightarrow> d' = d"
  "Logout ai subject i d = (Inl e, d') \<Longrightarrow> d' = d"
  "ChangePassword uni verify hashed ai cin d = (Inl e, d') \<Longrightarrow> d' = d"
  "UpdateAdmin ai actorID actorRole i enabled d = (Inl e, d') \<Longrightarrow> d' = d"
  "AssignRole ai actorID actorRole i name d = (Inl e, d') \<Longrightarrow> d' = d"
  by (auto simp: BootstrapAdministrator_def Logout_def ChangePassword_def UpdateAdmin_def AssignRole_def
      commit_failed split: sum.splits if_splits)

lemma bootstrap_grows:
  assumes ok: "admins_ok d"
  shows "grows d (snd (BootstrapAdministrator uni i ai hashed bin d))"
proof (rule unchanged_or[OF _ failed_unchanged(1) ok])
  fix r d'
  assume "BootstrapAdministrator uni i ai hashed bin d = (Inr r, d')"
  then obtain a d1 t where "insert_admin a d = Inr d1" "ad_version a = 1" "d' = d1\<lparr>audit_logs := t\<rparr>"
    by (rule bootstrap_cases) auto
  moreover have "grows d d1" "admins_ok d1"
    using calculation insert_admin_ok[OF _ ok] by (auto simp: in64_def)
  ultimately show "grows d d'"
    by (auto simp: grows_def admins_ok_def version_of_def find_admin_def)
qed

lemma logout_grows:
  assumes ok: "admins_ok d"
  shows "grows d (snd (Logout ai subject i d))"
proof (rule unchanged_or[OF _ failed_unchanged(2) ok])
  fix r d'
  assume "Logout ai subject i d = (Inr r, d')"
  then show "grows d d'"
  proof (rule logout_cases)
    fix a
    assume a: "find_admin i d = Some a" "account_set i (\<lambda>b. b\<lparr>ad_version := int64 (ad_version a + 1)\<rparr>) d d'"
    have e: "ad_version (a\<lparr>ad_version := int64 (ad_version a + 1)\<rparr>) = int64 (ad_version a + 1)" by simp
    note v = next_version[OF a(2,1) ok e]
    show "grows d d'" by (rule grows_set[OF a(2) ok a(1)]) (simp_all add: v)
  qed
qed

lemma change_password_grows:
  assumes ok: "admins_ok d"
  shows "grows d (snd (ChangePassword uni verify hashed ai cin d))"
proof (rule unchanged_or[OF _ failed_unchanged(3) ok])
  fix r d'
  assume "ChangePassword uni verify hashed ai cin d = (Inr r, d')"
  then show "grows d d'"
  proof (rule change_password_cases)
    fix a hash
    assume a: "find_admin (cp_actor cin) d = Some a"
      "account_set (cp_actor cin) (\<lambda>b. b\<lparr>ad_hash := hash, ad_version := int64 (ad_version a + 1)\<rparr>) d d'"
    have e: "ad_version (a\<lparr>ad_hash := hash, ad_version := int64 (ad_version a + 1)\<rparr>) =
        int64 (ad_version a + 1)" by simp
    note v = next_version[OF a(2,1) ok e]
    show "grows d d'" by (rule grows_set[OF a(2) ok a(1)]) (simp_all add: v)
  qed
qed

lemma update_admin_grows:
  assumes ok: "admins_ok d"
  shows "grows d (snd (UpdateAdmin ai actorID actorRole i enabled d))"
proof (rule unchanged_or[OF _ failed_unchanged(4) ok])
  fix r d'
  assume "UpdateAdmin ai actorID actorRole i enabled d = (Inr r, d')"
  then show "grows d d'"
  proof (rule update_admin_cases[OF _ ok])
    fix a f
    assume a: "find_admin i d = Some a" "account_set i f d d'" "f a = toggle enabled a"
      "\<And>b. ad_id (f b) = ad_id b" "\<And>b. ad_username (f b) = ad_username b"
      "\<And>b. in64 (ad_version b) \<Longrightarrow> in64 (ad_version (f b))"
    have v: "in64 (ad_version a)"
      using find_admin_SomeD[OF a(1)] ok by (auto simp: admins_ok_def)
    have "ad_version a \<le> ad_version (f a)"
    proof (cases "ad_version (f a) = int64 (ad_version a + 1)")
      case True
      then show ?thesis using next_version(1)[OF a(2,1) ok True] by linarith
    next
      case False
      then show ?thesis using a(3) by (auto simp: toggle_def split: option.splits if_splits)
    qed
    then show "grows d d'" using v by (intro grows_set[OF a(2) ok a(1,4,5)]) (simp_all add: a(6))
  qed
qed

lemma assign_role_grows:
  assumes ok: "admins_ok d"
  shows "grows d (snd (AssignRole ai actorID actorRole i name d))"
proof (rule unchanged_or[OF _ failed_unchanged(5) ok])
  fix r d'
  assume "AssignRole ai actorID actorRole i name d = (Inr r, d')"
  then show "grows d d'"
  proof (rule assign_role_cases)
    fix a role
    assume a: "find_admin i d = Some a" "account_set i (\<lambda>b. b\<lparr>ad_role := r_id role\<rparr>) d d'"
    then have "in64 (ad_version a)"
      using find_admin_SomeD[OF a(1)] ok by (auto simp: admins_ok_def)
    then show "grows d d'" by (intro grows_set[OF a(2) ok a(1)]) simp_all
  qed
qed

lemma admin_step_grows: "admin_step d d' \<Longrightarrow> admins_ok d \<Longrightarrow> grows d d'"
proof (induction rule: admin_step.induct)
  case (login d lower verify issue us ai fi now lin limiter)
  then show ?case
    using Authenticate_db[of lower verify issue us ai fi now lin limiter d] login_grows grows_refl by metis
qed (rule bootstrap_grows logout_grows change_password_grows update_admin_grows assign_role_grows, assumption)+

lemma admin_steps_grow: "admin_step\<^sup>*\<^sup>* d d' \<Longrightarrow> admins_ok d \<Longrightarrow> grows d d'"
proof (induction rule: rtranclp_induct)
  case (step d1 d2)
  then have "grows d d1" "admins_ok d1" by (auto simp: grows_def)
  then show ?case using admin_step_grows[OF step(2)] by (fastforce simp: grows_def)
qed (rule grows_refl)

section \<open>Properties\<close>

lemma demo_admins_ok: "admins_ok demo_db"
  by (simp add: admins_ok_def demo_defs in64_def)

text \<open>
  What ends the sessions of an account: a logout, a change of its password, and disabling it.
\<close>

inductive ends_sessions :: "uid \<Rightarrow> db \<Rightarrow> db \<Rightarrow> bool" where
  by_logout: "Logout ai subject i d = (Inr u, d') \<Longrightarrow> ends_sessions i d d'"
| by_password: "ChangePassword uni verify hashed ai input d = (Inr r, d') \<Longrightarrow> cp_actor input = i \<Longrightarrow>
    ends_sessions i d d'"
| by_disabling: "UpdateAdmin ai actorID actorRole i (Some False) d = (Inr w, d') \<Longrightarrow>
    map_option ad_enabled (find_admin i d) = Some True \<Longrightarrow> ends_sessions i d d'"

lemma ends_sessions_step: "ends_sessions i d d' \<Longrightarrow> admin_step d d'"
proof (induction rule: ends_sessions.induct)
  case (by_logout ai subject i d u d')
  then show ?case using admin_step.logout[of d ai subject i] by simp
next
  case (by_password uni verify hashed ai input d r d' i)
  then show ?case using admin_step.change_password[of d uni verify hashed ai input] by simp
next
  case (by_disabling ai actorID actorRole i d w d')
  then show ?case using admin_step.update_admin[of d ai actorID actorRole i "Some False"] by simp
qed

lemma account_set_bumps:
  assumes "account_set i f d d'" "find_admin i d = Some a" "\<And>b. ad_id (f b) = ad_id b"
    "ad_version (f a) = int64 (ad_version a + 1)" "admins_ok d" "version_of i d = Some v"
  shows "version_of i d' = Some (v + 1)"
  using assms(2,4,6) account_set_find[OF assms(1,3), of i] next_version(1)[OF assms(1,2,5,4)]
  by (simp add: version_of_def)

lemma ends_sessions_bumps:
  assumes "ends_sessions i d d'" "admins_ok d" "version_of i d = Some v"
  shows "version_of i d' = Some (v + 1)"
  using assms
proof (induction rule: ends_sessions.induct)
  case (by_logout ai subject i d u d')
  from by_logout(1) obtain a where a: "find_admin i d = Some a"
    "account_set i (\<lambda>b. b\<lparr>ad_version := int64 (ad_version a + 1)\<rparr>) d d'" by (rule logout_cases)
  show ?case by (rule account_set_bumps[OF a(2,1) _ _ by_logout(2,3)]) simp_all
next
  case (by_password uni verify hashed ai input d r d' i)
  from by_password(1,2) obtain a hash where a: "find_admin i d = Some a"
    "account_set i (\<lambda>b. b\<lparr>ad_hash := hash, ad_version := int64 (ad_version a + 1)\<rparr>) d d'"
    by (elim change_password_cases) simp
  show ?case by (rule account_set_bumps[OF a(2,1) _ _ by_password(3,4)]) simp_all
next
  case (by_disabling ai actorID actorRole i d w d')
  obtain a f where a: "find_admin i d = Some a" "account_set i f d d'" "f a = toggle (Some False) a"
    "\<And>b. ad_id (f b) = ad_id b"
    using update_admin_cases[OF by_disabling(1,3)] by metis
  show ?case
    by (rule account_set_bumps[OF a(2,1,4) _ by_disabling(3,4)])
      (use by_disabling(2) in \<open>simp add: a(1,3) toggle_def\<close>)
qed

text \<open>
  A session that was ended stays ended: no later sequence of logins, logouts, password changes, role
  assignments, bootstraps and re-enablings makes a version the account had before current again.
\<close>

lemma sessions_stay_ended:
  assumes "admins_ok d" "version_of i d = Some v" "ends_sessions i d d1" "admin_step\<^sup>*\<^sup>* d1 d2"
  shows "\<exists>w. version_of i d2 = Some w \<and> v < w"
proof -
  have "admins_ok d1"
    using admin_step_grows[OF ends_sessions_step[OF assms(3)] assms(1)] by (simp add: grows_def)
  from admin_steps_grow[OF assms(4) this] show ?thesis
    using ends_sessions_bumps[OF assms(3,1,2)] by (fastforce simp: grows_def)
qed

text \<open>
  logging in ends nobody's session: whatever the outcome, every account keeps its token version,
  its flag, its role and its password; a success answers with the version the account has.
\<close>

theorem login_keeps_sessions:
  assumes "Authenticate lower verify issue us ai fi now input limiter d = (res, limiter', d')"
    and "admins_ok d"
  shows "(\<forall>i. map_option (\<lambda>a. (ad_version a, ad_enabled a, ad_role a, ad_hash a)) (find_admin i d') =
      map_option (\<lambda>a. (ad_version a, ad_enabled a, ad_role a, ad_hash a)) (find_admin i d)) \<and>
    (\<forall>v. res = Inr v \<longrightarrow> version_of (ar_admin v) d' = Some (ar_version v))"
proof (cases "res \<in> range Inl \<and> d' = d")
  case True
  then show ?thesis by auto
next
  case False
  then have ex: "login_checked verify issue us ai fi now input d = (res, d')"
    using assms(1) by (auto simp: Authenticate_def split: option.splits prod.splits bool.splits if_splits)
  then show ?thesis
  proof (cases rule: login_cases)
    case c: (ok admin)
    have "find_admin (ad_id admin) d = Some admin"
      using c(1) find_username_SomeD find_admin_id[OF assms(2)] by blast
    then show ?thesis
      using account_set_find[OF c(4)] c(5) by (auto simp: version_of_def option.map_comp comp_def)
  qed (simp add: find_admin_def)
qed

lemma returned3: "\<not> isl (fst p) \<Longrightarrow> fst (snd p) = x \<Longrightarrow> p = (Inr (projr (fst p)), x, snd (snd p))"
  by (cases p) (auto simp: isl_def split: sum.splits)

definition demo_login :: auth_input where
  "demo_login = \<lparr>in_username = '' root'', in_password = ''pw'', in_ip = ''10.0.0.1''\<rparr>"

lemma login_keeps_sessions_witness:
  "\<exists>v d'. Authenticate (\<lambda>s. s) (\<lambda>p h. p = ''pw'' \<and> h = ''h'') (\<lambda>s v t. Inr (s @ format_int v)) demo_us 95 96 20
     demo_login None demo_db = (Inr v, None, d') \<and> version_of (ar_admin v) d' = Some (ar_version v)"
proof -
  let ?p = "Authenticate (\<lambda>s. s) (\<lambda>p h. p = ''pw'' \<and> h = ''h'') (\<lambda>s v t. Inr (s @ format_int v)) demo_us 95 96 20
     demo_login None demo_db"
  have "\<not> isl (fst ?p)" "fst (snd ?p) = None" by code_simp+
  from returned3[OF this] show ?thesis using login_keeps_sessions[OF _ demo_admins_ok] by blast
qed

section \<open>From bootstrap to the first login\<close>

lemma all_seeded_Inr: "all_seeded cs = Inr u \<longleftrightarrow> (\<forall>c\<in>set cs. seeded c)"
  by (induction cs) auto

lemma seeded_rolePermissions:
  "ensureAllPermissionsAreSeeded r d = Inr () \<Longrightarrow>
   \<exists>ps. rolePermissions r d = Inr ps \<and> set ps = m_code ` set (granted r d)"
  using rolePermissions_Inr[of r d] rolePermissions_set[of r d]
  by (auto simp: ensureAllPermissionsAreSeeded_def all_seeded_Inr)

text \<open>The transaction of a login whose account is live, whose password fits and whose role has a name.\<close>

lemma auth_tx_succeeds:
  assumes fu: "find_username (trim_space (in_username lin)) d = Some a"
    and live: "ad_enabled a" "verify (in_password lin) (ad_hash a)"
    and role: "preloaded_role_name a d = name" "name \<noteq> []" "rune_count name \<le> 32"
    and up: "update_admin (ad_id a) (\<lambda>b. b\<lparr>ad_last_login := Some now\<rparr>) d = Inr d2"
    and mem: "ad_id a \<in> ad_id ` set (admins d2)"
  shows "\<exists>d3. auth_tx verify ai now lin d = Inr ((a, name), d3) \<and> permissions d3 = permissions d2 \<and>
    role_permissions d3 = role_permissions d2"
proof -
  let ?e = "\<lparr>ActorAdminID = Some (ad_id a), ActorRole = name,
      Action = ''admin.login'', TargetType = ''admin'', TargetID = Some (ad_id a),
      Result = ''success'', BeforeData = [],
      AfterData = [(''username'', AStr (ad_username a)), (''role_name'', AStr name),
        (''ip'', AStr (in_ip lin)), (''token_ver'', AInt (ad_version a))]\<rparr>"
  have n: "rune_count ''admin.login'' \<le> 64" "rune_count ''admin'' \<le> 64" "rune_count ''success'' \<le> 16"
    by code_simp+
  have "audit_valid ai ?e d2"
    using n role(3) mem by (simp add: audit_valid_def audit_lengths_def audit_checks_def audit_row_of_def admin_ref_def)
  then obtain d3 where d3: "write_audit ai ?e d2 = Inr d3" by (simp add: write_audit_eq_Inr)
  then have "auth_tx verify ai now lin d = Inr ((a, name), d3)"
    using fu live role(1,2) up by (simp add: auth_tx_def Let_def)
  then show ?thesis using d3 by (auto simp: write_audit_eq_Inr)
qed

text \<open>What a bootstrap leaves: the account, found under its name, and its role.\<close>

lemma bootstrap_account:
  assumes boot: "BootstrapAdministrator uni i ai hashed input d = (Inr r, d')" and ok: "roles_ok d"
    and hash: "hashed (bi_password input) = Inr h"
  obtains role a where "ensureAllPermissionsAreSeeded (r_id role) d = Inr ()"
    "a = \<lparr>ad_id = i, ad_username = trim_space (bi_username input), ad_hash = h, ad_version = 1,
        ad_role = r_id role, ad_enabled = True, ad_last_login = None\<rparr>"
    "find_username (trim_space (bi_username input)) d' = Some a" "find_role (r_id role) d' = Some role"
    "r_name role = bi_role input" "rune_count (bi_role input) \<le> 32" "bi_role input \<noteq> []"
    "trim_space (bi_username input) \<noteq> []" "12 \<le> length (bi_password input)" "admins d' = admins d @ [a]"
    "permissions d' = permissions d" "role_permissions d' = role_permissions d" "rune_count h \<le> 255"
    "i \<notin> ad_id ` set (admins d)" "r_id role \<in> r_id ` set (roles d')"
proof -
  obtain role h' d1 t where role: "find_role_name (bi_role input) d = Some role"
    and seeds: "ensureAllPermissionsAreSeeded (r_id role) d = Inr ()" and h': "hashed (bi_password input) = Inr h'"
    and ins: "insert_admin \<lparr>ad_id = i, ad_username = trim_space (bi_username input), ad_hash = h',
       ad_version = 1, ad_role = r_id role, ad_enabled = True, ad_last_login = None\<rparr> d = Inr d1"
    and d': "d' = d1\<lparr>audit_logs := t\<rparr>" and filled: "trim_space (bi_username input) \<noteq> []"
      "12 \<le> length (bi_password input)"
    by (rule bootstrap_cases[OF boot]) blast
  have "trim_space (bi_role input) \<noteq> []"
    using boot by (auto simp: BootstrapAdministrator_def split: sum.splits if_splits)
  then have named: "bi_role input \<noteq> []" by auto
  define a where "a = \<lparr>ad_id = i, ad_username = trim_space (bi_username input), ad_hash = h,
       ad_version = 1, ad_role = r_id role, ad_enabled = True, ad_last_login = None\<rparr>"
  have "h' = h" using h' hash by simp
  then have new: "rune_count h \<le> 255" "i \<notin> ad_id ` set (admins d)"
    "trim_space (bi_username input) \<notin> ad_username ` set (admins d)"
    and db: "admins d' = admins d @ [a]" "roles d' = roles d" "permissions d' = permissions d"
    "role_permissions d' = role_permissions d"
    using ins by (auto simp: insert_admin_eq_Inr d' a_def)
  have r: "role \<in> set (roles d)" "r_name role = bi_role input"
    using role find_SomeD unfolding find_role_name_def by fastforce+
  have fr: "find_role (r_id role) d' = Some role"
    using ok r(1) find_key[of r_id "roles d" role] by (simp add: roles_ok_def find_role_def db)
  have "find (\<lambda>a. ad_username a = trim_space (bi_username input)) (admins d) = None"
    using new(3) by (force simp: find_None_iff)
  then have fu: "find_username (trim_space (bi_username input)) d' = Some a"
    by (simp add: find_username_def db find_append a_def)
  have short: "rune_count (bi_role input) \<le> 32" using ok r by (auto simp: roles_ok_def)
  have held: "r_id role \<in> r_id ` set (roles d')" using r(1) db(2) by simp
  show ?thesis by (rule that[OF seeds a_def fu fr r(2) short named filled db(1,3,4) new(1,2) held])
qed

text \<open>
  C22: whom a bootstrap created can log in: with the same name and password, and a hash that verifies
  it, the login succeeds under the first version, with the role that was named and exactly the
  permissions the role has.
\<close>

theorem bootstrap_then_login:
  assumes boot: "BootstrapAdministrator uni i ai hashed input d = (Inr r, d')" and ok: "roles_ok d"
    and hash: "hashed (bi_password input) = Inr h" "verify (bi_password input) h"
    and login: "in_username lin = bi_username input" "in_password lin = bi_password input"
    and sign: "issue (adminSubject us i) 1 now = Inr token"
  shows "\<exists>v d''. Authenticate lower verify issue us ai' fi now lin None d' = (Inr v, None, d'') \<and>
    ar_admin v = i \<and> ar_version v = 1 \<and> ar_token v = token \<and> ar_role_name v = bi_role input \<and>
    set (ar_permissions v) = m_code ` set (granted (ar_role v) d)"
proof -
  obtain role a where seeds: "ensureAllPermissionsAreSeeded (r_id role) d = Inr ()"
    and a: "a = \<lparr>ad_id = i, ad_username = trim_space (bi_username input), ad_hash = h, ad_version = 1,
        ad_role = r_id role, ad_enabled = True, ad_last_login = None\<rparr>"
    and fu: "find_username (trim_space (bi_username input)) d' = Some a"
    and fr: "find_role (r_id role) d' = Some role" and r: "r_name role = bi_role input" "rune_count (bi_role input) \<le> 32"
    and filled: "bi_role input \<noteq> []" "trim_space (bi_username input) \<noteq> []" "12 \<le> length (bi_password input)"
    and db: "admins d' = admins d @ [a]" "permissions d' = permissions d" "role_permissions d' = role_permissions d"
    and new: "rune_count h \<le> 255" "i \<notin> ad_id ` set (admins d)" "r_id role \<in> r_id ` set (roles d')"
    by (rule bootstrap_account[OF boot ok hash(1)]) blast
  define d2 where "d2 = d'\<lparr>admins := update_where (\<lambda>b. ad_id b = i) (\<lambda>b. b\<lparr>ad_last_login := Some now\<rparr>) (admins d')\<rparr>"
  have "update_admin i (\<lambda>b. b\<lparr>ad_last_login := Some now\<rparr>) d' = Inr d2"
    using new by (auto simp: update_admin_eq_Inr db d2_def a dest: notin_imageD)
  then have up: "update_admin (ad_id a) (\<lambda>b. b\<lparr>ad_last_login := Some now\<rparr>) d' = Inr d2" by (simp add: a)
  have pre: "preloaded_role_name a d' = bi_role input" using fr r(1) by (simp add: preloaded_role_name_def a)
  have mem: "ad_id a \<in> ad_id ` set (admins d2)" by (auto simp: d2_def db a)
  have live: "ad_enabled a" "verify (in_password lin) (ad_hash a)" using hash(2) login(2) by (simp_all add: a)
  have fu': "find_username (trim_space (in_username lin)) d' = Some a" using fu login(1) by simp
  obtain d3 where tx: "auth_tx verify ai' now lin d' = Inr ((a, bi_role input), d3)"
    and same: "permissions d3 = permissions d" "role_permissions d3 = role_permissions d"
    using auth_tx_succeeds[where ai = ai' and verify = verify and lin = lin, OF fu' live pre filled(1) r(2) up mem] by (auto simp: d2_def db)
  obtain ps where "rolePermissions (r_id role) d3 = Inr ps" "set ps = m_code ` set (granted (r_id role) d)"
    using seeded_rolePermissions[OF seeds] rolePermissions_frame same by metis
  then show ?thesis
    using tx sign filled login
    by (auto simp: Authenticate_def login_checked_def commit_def a)
qed

definition demo_boot :: bootstrap_input where
  "demo_boot = \<lparr>bi_username = ''alice'', bi_password = ''Correct-Horse1'', bi_role = ''super_admin'',
     bi_actor = ''ops''\<rparr>"

lemma bootstrap_then_login_witness:
  "\<exists>r d' v d''. BootstrapAdministrator (\<lambda>_. OtherRune) 42 95 Inr demo_boot demo_db = (Inr r, d') \<and>
     Authenticate (\<lambda>s. s) (=) (\<lambda>s v t. Inr s) demo_us 96 97 20
       \<lparr>in_username = ''alice'', in_password = ''Correct-Horse1'', in_ip = []\<rparr> None d' = (Inr v, None, d'') \<and>
     ar_admin v = 42"
proof -
  let ?p = "BootstrapAdministrator (\<lambda>_. OtherRune) 42 95 Inr demo_boot demo_db"
  let ?l = "\<lparr>in_username = ''alice'', in_password = ''Correct-Horse1'', in_ip = []\<rparr>"
  have p: "\<not> isl (fst ?p)" "roles_ok demo_db" by code_simp+
  then obtain r d' where e: "?p = (Inr r, d')" by (metis isl_def obj_sumE prod.collapse)
  have l: "in_username ?l = bi_username demo_boot" "in_password ?l = bi_password demo_boot"
    by (simp_all add: demo_boot_def)
  show ?thesis
    using bootstrap_then_login[OF e p(2), where verify = "(=)" and h = "bi_password demo_boot" and lin = ?l
      and issue = "\<lambda>s v t. Inr s" and us = demo_us and token = "adminSubject demo_us 42" and ai' = 96
      and fi = 97 and now = 20 and lower = "\<lambda>s. s", OF refl refl l refl] e by blast
qed

end
