(* ===== verification/Perimeter.thy ===== *)
theory Perimeter
  imports Access Sessions
begin

text \<open>
  What stands in front of the console: the gates of \<open>Gate\<close> on the accounts and roles of \<open>Admins\<close> and
  \<open>Roles\<close>. The middleware knows the admin service by two interfaces, \<open>AdminStateResolver\<close> and
  \<open>PermissionResolver\<close>; the locale states what it relies on of both, and the admin service provides
  it. From there: what a request that is let through has shown, that a login opens exactly what
  the role of the account grants, and that an ended session is locked out for good.
\<close>

section \<open>The two resolvers\<close>

locale session_store =
  fixes state :: "uid \<Rightarrow> db \<Rightarrow> err + admin_state" and perms :: "uid \<Rightarrow> db \<Rightarrow> err + string list"
    and live :: "db \<Rightarrow> uid \<Rightarrow> int \<Rightarrow> bool" and may :: "db \<Rightarrow> uid \<Rightarrow> string \<Rightarrow> bool"
  assumes state_live: "(\<exists>st. state i d = Inr st \<and> as_enabled st \<and> as_version st = v) \<longleftrightarrow> live d i v"
    and perms_may: "perms i d = Inr ps \<Longrightarrow> c \<in> set ps \<longleftrightarrow> may d i c"
begin

lemma state_check:
  "(case state i d of Inl e \<Rightarrow> Inl x | Inr st \<Rightarrow>
      if \<not> as_enabled st \<or> as_version st \<noteq> v then Inl x else r) = (if live d i v then r else Inl x)"
  using state_live[of i d v] by (cases "state i d") auto

lemma authenticated:
  "AdminAuthWithClock up us service cookieName (Some (\<lambda>i. state i d)) now rq cx = Inr cx' \<longleftrightarrow>
   (\<exists>raw c i. Cookie rq (if cookieName = [] then ''admin_access_token'' else cookieName) = Some raw \<and>
      raw \<noteq> [] \<and> service raw now = Inr c \<and> AdminIDFromSubject up us (cl_subject c) = Inr i \<and>
      live d i (cl_version c) \<and> cx' = cx\<lparr>cx_claims := Some c, cx_admin := Some (cl_subject c)\<rparr>)"
  unfolding AdminAuthWithClock_def Let_def option.case state_check
  by (auto split: option.splits sum.splits if_splits)

lemma permitted:
  assumes "permissionGate up us perms required onDenied cx d = (Inr u, d')"
  shows "d' = d \<and> (\<exists>c i. cx_claims cx = Some c \<and> AdminIDFromSubject up us (cl_subject c) = Inr i \<and>
     may d i required)"
  using assms perms_may
  by (auto simp: permissionGate_def split: option.splits sum.splits if_splits err.splits)

lemma permission_decides:
  assumes "cx_claims cx = Some c" "AdminIDFromSubject up us (cl_subject c) = Inr i"
    "perms i d = Inr ps"
  shows "(\<exists>u d'. permissionGate up us perms required onDenied cx d = (Inr u, d')) \<longleftrightarrow> may d i required"
  using assms perms_may by (auto simp: permissionGate_def)

end

definition live_account :: "db \<Rightarrow> uid \<Rightarrow> int \<Rightarrow> bool" where
  "live_account d i v \<longleftrightarrow> i \<noteq> 0 \<and>
     (case find_admin i d of None \<Rightarrow> False | Some a \<Rightarrow> ad_enabled a \<and> ad_version a = v)"

definition may_act :: "db \<Rightarrow> uid \<Rightarrow> string \<Rightarrow> bool" where
  "may_act d i c \<longleftrightarrow> i \<noteq> 0 \<and>
     (case find_admin i d of None \<Rightarrow> False | Some a \<Rightarrow> c \<in> m_code ` set (granted (ad_role a) d))"

interpretation console: session_store AdminState PermissionsForAdmin live_account may_act
proof
  fix i d v
  show "(\<exists>st. AdminState i d = Inr st \<and> as_enabled st \<and> as_version st = v) \<longleftrightarrow> live_account d i v"
    by (auto simp: AdminState_def live_account_def split: option.splits)
next
  fix i d ps c
  assume "PermissionsForAdmin i d = Inr ps"
  then show "c \<in> set ps \<longleftrightarrow> may_act d i c"
    by (auto simp: PermissionsForAdmin_def may_act_def dest!: rolePermissions_set
        split: option.splits if_splits)
qed

lemma may_act_seeded:
  "PermissionsForAdmin i d = Inr ps \<Longrightarrow> may_act d i c \<Longrightarrow> seeded c"
  by (auto simp: PermissionsForAdmin_def may_act_def dest!: rolePermissions_set
      split: option.splits if_splits)

section \<open>What is let through\<close>

lemma admin_group_InrD:
  assumes "admin_group g rq = Inr u" "isWriteMethod (rq_method rq)"
  obtains origin where
    "canonicalHTTPSOrigin (ge_lower g) (ge_url g) (GetHeader rq ''Origin'') = Some origin"
    "\<exists>a\<in>set (ge_origins g). canonicalHTTPSOrigin (ge_lower g) (ge_url g) a = Some origin"
    "rq_path rq \<noteq> ''/api/admin/v1/auth/login'' \<Longrightarrow> GetHeader rq ''X-CSRF-Token'' \<noteq> [] \<and>
       Cookie rq (if ge_csrf g = [] then ''csrf_token'' else ge_csrf g) =
         Some (GetHeader rq ''X-CSRF-Token'')"
proof -
  have o: "AdminOrigin (ge_lower g) (ge_url g) (ge_origins g) rq = Inr ()"
    and c: "CSRF (ge_csrf g) ''/api/admin/v1/auth/login'' rq = Inr u"
    using assms(1) by (auto simp: admin_group_def sbind_eq_Inr)
  obtain origin where origin:
    "canonicalHTTPSOrigin (ge_lower g) (ge_url g) (GetHeader rq ''Origin'') = Some origin"
    "origin \<in> set (List.map_filter (canonicalHTTPSOrigin (ge_lower g) (ge_url g)) (ge_origins g))"
    using o assms(2) by (auto simp: AdminOrigin_def Let_def split: option.splits if_splits)
  show thesis
  proof (rule that[OF origin(1)])
    show "\<exists>a\<in>set (ge_origins g). canonicalHTTPSOrigin (ge_lower g) (ge_url g) a = Some origin"
      using origin(2) by (auto simp: List.map_filter_def)
    show "GetHeader rq ''X-CSRF-Token'' \<noteq> [] \<and>
       Cookie rq (if ge_csrf g = [] then ''csrf_token'' else ge_csrf g) =
         Some (GetHeader rq ''X-CSRF-Token'')" if "rq_path rq \<noteq> ''/api/admin/v1/auth/login''"
      using c assms(2) that unfolding CSRF_def Let_def
      by (auto split: option.splits if_splits)
  qed
qed

lemma admin_route_InrD:
  assumes "admin_route g required auditor descriptor now rq d = (Inr cx, d')"
  obtains ps c i where "admin_group g rq = Inr ()" "d' = d"
    "admin_session g now rq d = Inr cx" "cx_claims cx = Some c"
    "AdminIDFromSubject (ge_up g) (ge_us g) (cl_subject c) = Inr i"
    "PermissionsForAdmin i d = Inr ps" "required \<in> set ps"
  using assms
  by (auto simp: admin_route_def admin_session_def AuditedAdminPermission_def permissionGate_def sbind_eq_Inr
      split: sum.splits prod.splits option.splits if_splits err.splits)

text \<open>Where a writing request has to come from.\<close>

definition from_console :: "gate_env \<Rightarrow> request \<Rightarrow> bool" where
  "from_console g rq \<longleftrightarrow>
     (\<exists>a\<in>set (ge_origins g). canonicalHTTPSOrigin (ge_lower g) (ge_url g) a \<noteq> None \<and>
        canonicalHTTPSOrigin (ge_lower g) (ge_url g) a =
        canonicalHTTPSOrigin (ge_lower g) (ge_url g) (GetHeader rq ''Origin'')) \<and>
     (rq_path rq \<noteq> ''/api/admin/v1/auth/login'' \<longrightarrow> GetHeader rq ''X-CSRF-Token'' \<noteq> [] \<and>
        Cookie rq (if ge_csrf g = [] then ''csrf_token'' else ge_csrf g) =
          Some (GetHeader rq ''X-CSRF-Token''))"


definition demo_claims :: claims where
  "demo_claims = \<lparr>cl_issuer = ''mall'', cl_subject = adminSubject demo_us 41, cl_audience = [''console''],
     cl_expires = Some (20 + 30 * minute), cl_issued = Some 20, cl_not_before = Some 20, cl_jti = ''j'',
     cl_version = 1\<rparr>"

definition demo_gate :: gate_env where
  "demo_gate = \<lparr>ge_lower = (\<lambda>s. s),
     ge_url = (\<lambda>s. Some \<lparr>url_scheme = ''https'', url_host = s, url_user = None, url_path = [],
       url_query = [], url_fragment = []\<rparr>),
     ge_origins = [''shop''], ge_cookie = [], ge_csrf = [],
     ge_up = (\<lambda>s. if s = demo_us 41 then Some 41 else None), ge_us = demo_us,
     ge_service = (\<lambda>raw now. if raw = ''tok'' then Inr demo_claims
       else if raw = ''tok2'' then Inr (demo_claims\<lparr>cl_version := 2\<rparr>) else Inl (ErrOther ''JWT''))\<rparr>"

definition demo_ship_request :: request where
  "demo_ship_request = \<lparr>rq_method = ''POST'', rq_path = ''/api/admin/v1/orders/:orderId/ship'',
     rq_headers = [(''Origin'', ''shop''), (''X-CSRF-Token'', ''t'')],
     rq_cookies = [(''admin_access_token'', ''tok''), (''csrf_token'', ''t'')],
     rq_query = [], rq_params = []\<rparr>"


section \<open>From login to entry, and no further than logout\<close>

text \<open>
  The token of a login, shown from the second it was issued on until its lifetime is over, while
  accounts and grants are what the login left: the authentication accepts it, and finds the account
  of the login with the permissions the login listed.
\<close>

lemma login_admits:
  assumes lib: "jwt_library nd sign jwt_parse" and cfg: "JWTConfig_Validate name required_ttl cfg = []"
    and whole: "second dvd jc_ttl cfg"
    and plain: "ascii (jc_issuer cfg)" "ascii (jc_audience cfg)" "ascii (us (ar_admin v))" "ascii jti"
    and login: "Authenticate lower verify (Issue nd sign cfg jti wall) us ai fi now lin limiter d =
      (Inr v, limiter', d')" and ok: "admins_ok d"
    and i: "ar_admin v \<noteq> 0" "ge_up g (us (ar_admin v)) = Some (ar_admin v)" "ge_us g = us"
    and service: "ge_service g = JWTService_Parse jwt_parse cfg wall'"
    and same: "admins d2 = admins d'" "permissions d2 = permissions d'" "role_permissions d2 = role_permissions d'"
    and rq: "admin_group g rq = Inr ()"
      "Cookie rq (if ge_cookie g = [] then ''admin_access_token'' else ge_cookie g) = Some (ar_token v)"
    and t: "now \<le> t" "t < now - now mod second + jc_ttl cfg" "now \<noteq> 0" "t \<noteq> 0"
  obtains cx c admin where "admin_session g t rq d2 = Inr cx" "cx_claims cx = Some c"
    "AdminIDFromSubject (ge_up g) (ge_us g) (cl_subject c) = Inr (ar_admin v)" "cl_version c = ad_version admin"
    "login_checked verify (Issue nd sign cfg jti wall) us ai fi now lin d = (Inr v, d')"
    "find_username (trim_space (in_username lin)) d = Some admin" "ad_enabled admin"
    "find_admin (ar_admin v) d2 = Some (admin\<lparr>ad_last_login := Some now\<rparr>)"
    "rolePermissions (ad_role admin) d2 = Inr (ar_permissions v)"
proof -
  have ex: "login_checked verify (Issue nd sign cfg jti wall) us ai fi now lin d = (Inr v, d')"
    using login by (auto simp: Authenticate_def split: option.splits prod.splits bool.splits if_splits)
  then obtain admin where a: "find_username (trim_space (in_username lin)) d = Some admin" "ad_enabled admin"
    "account_set (ad_id admin) (\<lambda>a. a\<lparr>ad_last_login := Some now\<rparr>) d d'"
    "ar_admin v = ad_id admin" "ar_version v = ad_version admin"
    "Issue nd sign cfg jti wall (adminSubject us (ad_id admin)) (ad_version admin) now = Inr (ar_token v)"
    "rolePermissions (ad_role admin) d' = Inr (ar_permissions v)"
    by (cases rule: login_cases) auto
  have "find_admin (ad_id admin) d = Some admin"
    using a(1) find_username_SomeD find_admin_id[OF ok] by blast
  then have f: "find_admin (ar_admin v) d2 = Some (admin\<lparr>ad_last_login := Some now\<rparr>)"
    using account_set_find[OF a(3)] a(4) same(1) by (simp add: find_admin_def)
  have perms: "rolePermissions (ad_role admin) d2 = Inr (ar_permissions v)"
    using a(7) rolePermissions_frame[OF same(2,3)] by simp
  have "ascii (adminSubject us (ad_id admin))"
    using plain(3) a(4) by (simp add: adminSubject_def ascii_def byte_def)
  then obtain c where c: "Parse jwt_parse cfg wall' (ar_token v) t = Inr c"
    "cl_subject c = adminSubject us (ad_id admin)" "cl_version c = ad_version admin"
    using issued_token_parses[OF lib cfg whole plain(1,2) _ plain(4) a(6) t(3,1,2,4)] by blast
  have who: "AdminIDFromSubject (ge_up g) (ge_us g) (cl_subject c) = Inr (ar_admin v)"
    using AdminIDFromSubject_id i(2,3) a(4) c(2) by metis
  have "live_account d2 (ar_admin v) (cl_version c)"
    using f a(2) c(3) i(1) by (simp add: live_account_def)
  moreover have "ar_token v \<noteq> []" using c(1) by (auto simp: Parse_def)
  ultimately obtain cx where "admin_session g t rq d2 = Inr cx" "cx_claims cx = Some c"
    using rq c(1) who service
    by (auto simp: admin_session_def console.authenticated JWTService_Parse_agrees)
  then show thesis using that who c(3) ex a(1,2) f perms by blast
qed

text \<open>
  C9: a login opens exactly what the role of the account grants: with the token it answered, and as
  long as accounts and grants are what the login left, a request that passes the checks of the
  group is let through to a route if and only if the login listed the permission of the route, from
  the second of the login on until the lifetime of the token is over.
\<close>

theorem login_opens_console:
  assumes lib: "jwt_library nd sign jwt_parse" and cfg: "JWTConfig_Validate name required_ttl cfg = []"
    and whole: "second dvd jc_ttl cfg"
    and plain: "ascii (jc_issuer cfg)" "ascii (jc_audience cfg)" "ascii (us (ar_admin v))" "ascii jti"
    and login: "Authenticate lower verify (Issue nd sign cfg jti wall) us ai fi now lin limiter d =
      (Inr v, limiter', d')" and ok: "admins_ok d"
    and i: "ar_admin v \<noteq> 0" "ge_up g (us (ar_admin v)) = Some (ar_admin v)" "ge_us g = us"
    and service: "ge_service g = JWTService_Parse jwt_parse cfg wall'"
    and same: "admins d2 = admins d'" "permissions d2 = permissions d'" "role_permissions d2 = role_permissions d'"
    and rq: "admin_group g rq = Inr ()"
      "Cookie rq (if ge_cookie g = [] then ''admin_access_token'' else ge_cookie g) = Some (ar_token v)"
    and t: "now \<le> t" "t < now - now mod second + jc_ttl cfg" "now \<noteq> 0" "t \<noteq> 0"
  shows "(\<exists>cx d3. admin_route g required auditor descriptor t rq d2 = (Inr cx, d3)) \<longleftrightarrow>
    required \<in> set (ar_permissions v)"
proof -
  obtain cx c admin where s: "admin_session g t rq d2 = Inr cx" "cx_claims cx = Some c"
    "AdminIDFromSubject (ge_up g) (ge_us g) (cl_subject c) = Inr (ar_admin v)"
    "find_admin (ar_admin v) d2 = Some (admin\<lparr>ad_last_login := Some now\<rparr>)"
    "rolePermissions (ad_role admin) d2 = Inr (ar_permissions v)"
    using login_admits[OF assms] by metis
  then have "PermissionsForAdmin (ar_admin v) d2 = Inr (ar_permissions v)"
    using i(1) by (simp add: PermissionsForAdmin_def)
  then show ?thesis
    using s by (auto simp: admin_route_def AuditedAdminPermission_def permissionGate_def split: option.splits)
qed

text \<open>
  An instance of the library that signs the one set of claims of the example and knows its text.
\<close>

definition demo_jwt :: jwt_config where
  "demo_jwt = \<lparr>jc_issuer = ''mall'', jc_audience = ''console'', jc_ttl = 30 * minute, jc_kid = ''k'',
     jc_keys = [(''k'', replicate 32 CHR ''x'')]\<rparr>"

definition demo_nd :: "time \<Rightarrow> time" where "demo_nd t = t - t mod second"

definition demo_signed :: claims where
  "demo_signed = demo_claims\<lparr>cl_expires := Some (30 * minute), cl_issued := Some 0, cl_not_before := Some 0\<rparr>"

definition demo_sign :: "string \<Rightarrow> string \<Rightarrow> claims \<Rightarrow> err + string" where
  "demo_sign kid key c =
     (if kid = ''k'' \<and> key = replicate 32 CHR ''x'' \<and> c = demo_signed then Inr ''tok''
      else Inl (ErrOther ''not the example''))"

definition demo_parse :: jwt_parser where
  "demo_parse opts kf raw =
     (if raw = ''tok'' \<and> kf \<lparr>jh_hs256 = True, jh_kid = Some ''k''\<rparr> = Inr (replicate 32 CHR ''x'') \<and>
        ''HS256'' \<in> set (jo_methods opts) \<and> jwt_accepts opts demo_signed then Inr demo_signed
      else Inl (ErrOther ''not the example''))"

lemma demo_library: "jwt_library demo_nd demo_sign demo_parse"
proof -
  have tok: "ascii ''tok''" "list_all (\<lambda>ch. \<not> is_space [ch]) ''tok''" by code_simp+
  show ?thesis
    unfolding jwt_library_def
  proof (intro conjI allI impI)
    fix kid key c raw opts and kf :: "jwt_header \<Rightarrow> err + string"
    assume s: "demo_sign kid key c = Inr raw" and k: "kf \<lparr>jh_hs256 = True, jh_kid = Some kid\<rparr> = Inr key"
      and h: "''HS256'' \<in> set (jo_methods opts)" and a: "jwt_accepts opts c"
    from s have e: "kid = ''k''" "key = replicate 32 CHR ''x''" "c = demo_signed" "raw = ''tok''"
      unfolding demo_sign_def by (metis sum.distinct(1) sum.inject(2))+
    show "demo_parse opts kf raw = Inr c" using k h a unfolding demo_parse_def e by (metis (full_types))
    show "raw \<noteq> []" "ascii raw" "list_all (\<lambda>ch. \<not> is_space [ch]) raw" using tok e(4) by simp_all
  next
    fix raw opts kf c
    assume "demo_parse opts kf raw = Inr c"
    then show "jwt_accepts opts c" unfolding demo_parse_def by (metis sum.distinct(1) sum.inject(2))
  qed (simp add: demo_nd_def)
qed

lemma login_opens_console_witness:
  "\<exists>v d' cx d3. Authenticate (\<lambda>s. s) (\<lambda>p h. p = ''pw'' \<and> h = ''h'') (Issue demo_nd demo_sign demo_jwt ''j'' 1)
       demo_us 95 96 20 demo_login None demo_db = (Inr v, None, d') \<and>
     ar_permissions v = [''order:ship''] \<and>
     admin_route (demo_gate\<lparr>ge_service := JWTService_Parse demo_parse demo_jwt 1\<rparr>) ''order:ship'' None
       ([], []) 30 demo_ship_request d' = (Inr cx, d3)"
proof -
  let ?p = "Authenticate (\<lambda>s. s) (\<lambda>p h. p = ''pw'' \<and> h = ''h'') (Issue demo_nd demo_sign demo_jwt ''j'' 1)
       demo_us 95 96 20 demo_login None demo_db"
  let ?g = "demo_gate\<lparr>ge_service := JWTService_Parse demo_parse demo_jwt 1\<rparr>"
  have "\<not> isl (fst ?p)" "fst (snd ?p) = None" by code_simp+
  from returned3[OF this] obtain v d' where p: "?p = (Inr v, None, d')" by blast
  have "map_sum (\<lambda>_. ()) (\<lambda>v. (ar_admin v, ar_token v, ar_permissions v)) (fst ?p) =
    Inr (41, ''tok'', [''order:ship''])" by code_simp
  then have v: "ar_admin v = 41" "ar_token v = ''tok''" "ar_permissions v = [''order:ship'']"
    by (simp_all add: p)
  have cfg: "JWTConfig_Validate ''admin'' (30 * minute) demo_jwt = []"
    "ascii (jc_issuer demo_jwt)" "ascii (jc_audience demo_jwt)" "ascii (demo_us 41)" "ascii ''j''"
    "ge_up ?g (demo_us 41) = Some 41" "admin_group ?g demo_ship_request = Inr ()"
    "Cookie demo_ship_request (if ge_cookie ?g = [] then ''admin_access_token'' else ge_cookie ?g) = Some ''tok''"
    by code_simp+
  have whole: "second dvd jc_ttl demo_jwt" by (simp add: demo_jwt_def minute_def)
  have us: "ge_us ?g = demo_us" by (simp add: demo_gate_def)
  have t: "(30::int) < 20 - 20 mod second + jc_ttl demo_jwt" by code_simp
  have "(\<exists>cx d3. admin_route ?g ''order:ship'' None ([], []) 30 demo_ship_request d' = (Inr cx, d3)) \<longleftrightarrow>
    ''order:ship'' \<in> set (ar_permissions v)"
    by (rule login_opens_console[OF demo_library cfg(1) whole cfg(2,3) _ cfg(5) p demo_admins_ok _ _ us _ refl refl refl
      cfg(7) _ _ t]) (use cfg v in simp_all)
  then show ?thesis using p v by auto
qed

text \<open>
  C7: an ended session is locked out for good: once an account logs out, changes its password or is
  disabled, no request whose token names it under the version it had then, or an earlier one, is let
  into the console again, whatever administrators do in between.
\<close>

theorem ended_session_locked_out:
  assumes "admins_ok d" "version_of i d = Some v" "ends_sessions i d d1" "admin_step\<^sup>*\<^sup>* d1 d2"
    and "ge_up g (ge_us g i) = Some i"
    and "admin_session g now rq d2 = Inr cx" "cx_claims cx = Some c" "cl_subject c = adminSubject (ge_us g) i"
  shows "v < cl_version c"
proof -
  obtain w where w: "version_of i d2 = Some w" "v < w"
    using sessions_stay_ended[OF assms(1-4)] by blast
  have "AdminIDFromSubject (ge_up g) (ge_us g) (cl_subject c) = Inr i"
    using AdminIDFromSubject_id[of "ge_up g" "ge_us g" i] assms(5,8) by simp
  then have "live_account d2 i (cl_version c)"
    using assms(6,7) by (auto simp: admin_session_def sbind_eq_Inr console.authenticated)
  then show ?thesis using w by (auto simp: live_account_def version_of_def split: option.splits)
qed

lemma ended_session_locked_out_witness:
  "\<exists>d1 cx. Logout 95 ''admin:41'' 41 demo_db = (Inr (), d1) \<and>
     admin_session demo_gate 30 (demo_ship_request\<lparr>rq_cookies :=
       [(''admin_access_token'', ''tok2''), (''csrf_token'', ''t'')]\<rparr>) d1 = Inr cx \<and>
     (1::int) < 2"
proof -
  let ?p = "Logout 95 ''admin:41'' 41 demo_db"
  let ?rq = "demo_ship_request\<lparr>rq_cookies := [(''admin_access_token'', ''tok2''), (''csrf_token'', ''t'')]\<rparr>"
  let ?s = "admin_session demo_gate 30 ?rq (snd ?p)"
  have e: "fst ?p = Inr ()" "version_of 41 demo_db = Some 1" "\<not> isl ?s"
    "map_sum (\<lambda>_. ()) cx_claims ?s = Inr (Some (demo_claims\<lparr>cl_version := 2\<rparr>))"
    "ge_up demo_gate (ge_us demo_gate 41) = Some 41"
    "cl_subject (demo_claims\<lparr>cl_version := 2\<rparr>) = adminSubject (ge_us demo_gate) 41" by code_simp+
  from e(1) have p: "?p = (Inr (), snd ?p)" by (simp add: prod_eq_iff)
  from e(3) obtain cx where cx: "?s = Inr cx" by (cases ?s) auto
  have c: "cx_claims cx = Some (demo_claims\<lparr>cl_version := 2\<rparr>)" using e(4) by (simp add: cx)
  have "1 < cl_version (demo_claims\<lparr>cl_version := 2\<rparr>)"
    by (rule ended_session_locked_out[OF demo_admins_ok e(2) ends_sessions.by_logout[OF p] rtranclp.rtrancl_refl
      e(5) cx c e(6)])
  then show ?thesis using p cx by auto
qed

end
