(* ===== verification/Config.thy ===== *)
theory Config
  imports Perimeter
begin

text \<open>
  \<open>internal/config/config.go\<close>: what the server reads from its environment and what it insists on
  before it starts. \<open>getenv\<close> is \<open>os.Getenv\<close>; \<open>time.ParseDuration\<close>, the decoder of a JSON object of
  strings, base64 and \<open>url.Parse\<close> are parameters. \<open>Validate\<close> joins what it finds wrong; here it is
  the list of the complaints, empty when nothing is. Go's maps are association lists.
\<close>

record wechat_config =
  wc_app_id :: string
  wc_secret :: string
  wc_endpoint :: string

definition WeChat_Configured :: "wechat_config \<Rightarrow> bool" where
  "WeChat_Configured c \<longleftrightarrow> wc_app_id c \<noteq> [] \<and> wc_secret c \<noteq> [] \<and> wc_endpoint c \<noteq> []"

record database_config =
  dc_url :: string
  dc_max_open :: int
  dc_max_idle :: int
  dc_lifetime :: int
  dc_idle_time :: int

record cookie_config =
  kc_access :: string
  kc_csrf :: string
  kc_path :: string
  kc_secure :: bool
  kc_http_only :: bool
  kc_strict :: bool
  kc_max_age :: int

definition DefaultAdminCookieConfig :: cookie_config where
  "DefaultAdminCookieConfig = \<lparr>kc_access = ''admin_access_token'', kc_csrf = ''csrf_token'',
     kc_path = ''/api/admin/v1'', kc_secure = True, kc_http_only = True, kc_strict = True,
     kc_max_age = 30 * minute\<rparr>"

record config =
  cf_environment :: string
  cf_addr :: string
  cf_base_url :: string
  cf_origins :: "string list"
  cf_database :: database_config
  cf_buyer :: jwt_config
  cf_admin :: jwt_config
  cf_cookie :: cookie_config
  cf_upload :: int
  cf_bonus :: int
  cf_pixels :: int
  cf_capacity :: int
  cf_grace :: int
  cf_cleanup :: int
  cf_volume :: string
  cf_wechat :: wechat_config

section \<open>Validation\<close>

definition MaxUploadLimitBytes :: int where
  "MaxUploadLimitBytes = 2 * 1024 * 1024"

definition validateHTTPSBaseURL :: "(string \<Rightarrow> url option) \<Rightarrow> string \<Rightarrow> bool" where
  "validateHTTPSBaseURL url_parse raw = (case url_parse (trim_space raw) of
       None \<Rightarrow> False
     | Some u \<Rightarrow> url_scheme u = ''https'' \<and> url_host u \<noteq> [] \<and> url_user u = None \<and>
         url_query u = [] \<and> url_fragment u = [])"

definition validateHTTPSOrigin :: "(string \<Rightarrow> url option) \<Rightarrow> string \<Rightarrow> bool" where
  "validateHTTPSOrigin url_parse raw = (case url_parse (trim_space raw) of
       None \<Rightarrow> False
     | Some u \<Rightarrow> url_scheme u = ''https'' \<and> url_host u \<noteq> [] \<and> url_path u = [] \<and>
         url_query u = [] \<and> url_fragment u = [] \<and> url_user u = None)"

definition WeChat_Validate :: "wechat_config \<Rightarrow> string list" where
  "WeChat_Validate c =
     (let set = length (filter (\<lambda>f. trim_space f \<noteq> []) [wc_app_id c, wc_secret c, wc_endpoint c]) in
      complain (set > 0 \<and> set < 3) ''wechat app id, secret and endpoint must be configured together'')"

definition Database_Validate :: "database_config \<Rightarrow> string list" where
  "Database_Validate c =
     complain (trim_space (dc_url c) = []) ''URL is required'' @
     complain (dc_max_open c \<le> 0) ''max open connections must be positive'' @
     complain (dc_max_idle c < 0 \<or> dc_max_idle c > dc_max_open c)
       ''max idle connections must be between zero and max open connections'' @
     complain (dc_lifetime c < 0 \<or> dc_idle_time c < 0) ''connection lifetimes must not be negative''"

definition Cookie_Validate :: "cookie_config \<Rightarrow> string list" where
  "Cookie_Validate c =
     (let want = DefaultAdminCookieConfig in
      complain (kc_access c \<noteq> kc_access want) ''access token cookie name'' @
      complain (kc_csrf c \<noteq> kc_csrf want) ''CSRF cookie name'' @
      complain (kc_path c \<noteq> kc_path want) ''cookie path'' @
      complain (\<not> kc_secure c \<or> \<not> kc_http_only c \<or> kc_strict c \<noteq> kc_strict want)
        ''admin access cookie must be Secure, HttpOnly and SameSite=Strict'' @
      complain (kc_max_age c \<noteq> kc_max_age want) ''admin cookie max age must be 30 minutes'')"

definition reused_keys :: "jwt_config \<Rightarrow> jwt_config \<Rightarrow> (string \<times> string) list" where
  "reused_keys b a = concat (map (\<lambda>(bk, bkey). map (\<lambda>(ak, akey). (bk, ak))
     (filter (\<lambda>(ak, akey). bkey = akey) (jc_keys a))) (jc_keys b))"

definition Config_Validate :: "(string \<Rightarrow> url option) \<Rightarrow> config \<Rightarrow> string list" where
  "Config_Validate url_parse c =
     complain (\<not> validateHTTPSBaseURL url_parse (cf_base_url c)) ''public base URL'' @
     complain (cf_origins c = []) ''admin allowed origins must not be empty'' @
     concat (map (\<lambda>o'. complain (\<not> validateHTTPSOrigin url_parse o') ''admin origin'') (cf_origins c)) @
     Database_Validate (cf_database c) @
     JWTConfig_Validate ''buyer'' 0 (cf_buyer c) @
     JWTConfig_Validate ''admin'' (30 * minute) (cf_admin c) @
     complain (jc_issuer (cf_buyer c) \<noteq> [] \<and> jc_issuer (cf_buyer c) = jc_issuer (cf_admin c))
       ''buyer and admin JWT issuers must be different'' @
     complain (jc_audience (cf_buyer c) \<noteq> [] \<and> jc_audience (cf_buyer c) = jc_audience (cf_admin c))
       ''buyer and admin JWT audiences must be different'' @
     complain (jc_kid (cf_buyer c) \<noteq> [] \<and> jc_kid (cf_buyer c) = jc_kid (cf_admin c))
       ''buyer and admin JWT active kids must be different'' @
     complain (jc_ttl (cf_buyer c) > 0 \<and> jc_ttl (cf_buyer c) = jc_ttl (cf_admin c))
       ''buyer and admin JWT TTLs must be different'' @
     map (\<lambda>(bk, ak). ''buyer and admin JWT keys reuse key material'') (reused_keys (cf_buyer c) (cf_admin c)) @
     Cookie_Validate (cf_cookie c) @
     complain (cf_upload c \<le> 0 \<or> cf_upload c > MaxUploadLimitBytes) ''upload limit'' @
     complain (cf_bonus c < 0) ''signup bonus must be non-negative'' @
     complain (cf_pixels c \<le> 0) ''image max pixels must be positive'' @
     complain (cf_capacity c \<le> 0) ''image storage capacity must be positive'' @
     complain (cf_grace c < 0) ''image grace period must not be negative'' @
     complain (cf_cleanup c \<le> 0) ''image cleanup interval must be positive'' @
     complain (trim_space (cf_volume c) = []) ''image volume directory is required'' @
     WeChat_Validate (cf_wechat c)"

section \<open>Loading\<close>

fun split_on :: "char \<Rightarrow> string \<Rightarrow> string list" where
  "split_on sep [] = [[]]"
| "split_on sep (c # cs) =
     (if c = sep then [] # split_on sep cs
      else case split_on sep cs of [] \<Rightarrow> [[c]] | w # ws \<Rightarrow> (c # w) # ws)"

definition splitCSV :: "string \<Rightarrow> string list" where
  "splitCSV raw = filter (\<lambda>v. v \<noteq> []) (map trim_space (split_on (CHR '','') raw))"

definition envOrDefault :: "(string \<Rightarrow> string) \<Rightarrow> string \<Rightarrow> string \<Rightarrow> string" where
  "envOrDefault getenv name fallback =
     (let value = trim_space (getenv name) in if value \<noteq> [] then value else fallback)"

definition intEnvOrDefault :: "(string \<Rightarrow> string) \<Rightarrow> string \<Rightarrow> int \<Rightarrow> err + int" where
  "intEnvOrDefault getenv name fallback =
     (let value = trim_space (getenv name) in
      if value = [] then Inr fallback
      else case parse_int64 value of
          None \<Rightarrow> Inl (ErrOther (name @ '' must be an integer'')) | Some n \<Rightarrow> Inr n)"

definition durationEnvOrDefault ::
  "(string \<Rightarrow> int option) \<Rightarrow> (string \<Rightarrow> string) \<Rightarrow> string \<Rightarrow> int \<Rightarrow> err + int" where
  "durationEnvOrDefault parse_duration getenv name fallback =
     (let value = trim_space (getenv name) in
      if value = [] then Inr fallback
      else case parse_duration value of
          None \<Rightarrow> Inl (ErrOther (name @ '' must be a duration'')) | Some n \<Rightarrow> Inr n)"

definition requiredInt64Env :: "(string \<Rightarrow> string) \<Rightarrow> string \<Rightarrow> err + int" where
  "requiredInt64Env getenv name =
     (let value = trim_space (getenv name) in
      if value = [] then Inl (ErrOther (name @ '' is required''))
      else case parse_int64 value of
          None \<Rightarrow> Inl (ErrOther (name @ '' must be an integer'')) | Some n \<Rightarrow> Inr n)"

fun decode_keys :: "(string \<Rightarrow> string option) \<Rightarrow> string \<Rightarrow> (string \<times> string) list \<Rightarrow> err + (string \<times> string) list" where
  "decode_keys base64 name [] = Inr []"
| "decode_keys base64 name ((kid, value) # rest) =
     (case base64 value of
        None \<Rightarrow> Inl (ErrOther (name @ '' key is not valid base64''))
      | Some key \<Rightarrow> sbind (decode_keys base64 name rest) (\<lambda>keys. Inr ((kid, key) # keys)))"

definition parseKeyringEnv ::
  "(string \<Rightarrow> (string \<times> string) list option) \<Rightarrow> (string \<Rightarrow> string option) \<Rightarrow> (string \<Rightarrow> string)
   \<Rightarrow> string \<Rightarrow> err + (string \<times> string) list" where
  "parseKeyringEnv json base64 getenv name =
     (let raw = trim_space (getenv name) in
      if raw = [] then Inl (ErrOther (name @ '' is required and must contain a base64 JSON keyring''))
      else case json raw of
          None \<Rightarrow> Inl (ErrOther (name @ '' is not valid JSON''))
        | Some encoded \<Rightarrow> decode_keys base64 name encoded)"

record loader =
  ld_duration :: "string \<Rightarrow> int option"
  ld_json :: "string \<Rightarrow> (string \<times> string) list option"
  ld_base64 :: "string \<Rightarrow> string option"
  ld_url :: "string \<Rightarrow> url option"

definition Load :: "loader \<Rightarrow> (string \<Rightarrow> string) \<Rightarrow> err + config" where
  "Load l getenv =
     sbind (intEnvOrDefault getenv ''DB_MAX_OPEN_CONNS'' 20) (\<lambda>maxOpen.
     sbind (intEnvOrDefault getenv ''DB_MAX_IDLE_CONNS'' 10) (\<lambda>maxIdle.
     sbind (durationEnvOrDefault (ld_duration l) getenv ''DB_CONN_MAX_LIFETIME'' (30 * minute)) (\<lambda>lifetime.
     sbind (durationEnvOrDefault (ld_duration l) getenv ''DB_CONN_MAX_IDLE_TIME'' (5 * minute)) (\<lambda>idle.
     sbind (durationEnvOrDefault (ld_duration l) getenv ''BUYER_JWT_TTL'' (24 * 60 * minute)) (\<lambda>buyerTTL.
     sbind (durationEnvOrDefault (ld_duration l) getenv ''ADMIN_JWT_TTL'' (30 * minute)) (\<lambda>adminTTL.
     sbind (durationEnvOrDefault (ld_duration l) getenv ''IMAGE_GRACE_PERIOD'' (24 * 60 * minute)) (\<lambda>grace.
     sbind (durationEnvOrDefault (ld_duration l) getenv ''IMAGE_CLEANUP_INTERVAL'' (60 * minute)) (\<lambda>cleanup.
     sbind (parseKeyringEnv (ld_json l) (ld_base64 l) getenv ''BUYER_JWT_KEYRING'') (\<lambda>buyerKeys.
     sbind (parseKeyringEnv (ld_json l) (ld_base64 l) getenv ''ADMIN_JWT_KEYRING'') (\<lambda>adminKeys.
     sbind (requiredInt64Env getenv ''UPLOAD_MAX_BYTES'') (\<lambda>upload.
     sbind (requiredInt64Env getenv ''SIGNUP_BONUS_POINTS'') (\<lambda>bonus.
     sbind (requiredInt64Env getenv ''IMAGE_MAX_PIXELS'') (\<lambda>pixels.
     sbind (requiredInt64Env getenv ''IMAGE_STORAGE_CAPACITY_BYTES'') (\<lambda>capacity.
     let cfg = \<lparr>cf_environment = envOrDefault getenv ''APP_ENV'' ''development'',
       cf_addr = envOrDefault getenv ''HTTP_ADDR'' '':8080'', cf_base_url = getenv ''PUBLIC_BASE_URL'',
       cf_origins = splitCSV (getenv ''ADMIN_ALLOWED_ORIGINS''),
       cf_database = \<lparr>dc_url = getenv ''DATABASE_URL'', dc_max_open = maxOpen, dc_max_idle = maxIdle,
         dc_lifetime = lifetime, dc_idle_time = idle\<rparr>,
       cf_buyer = \<lparr>jc_issuer = getenv ''BUYER_JWT_ISSUER'', jc_audience = getenv ''BUYER_JWT_AUDIENCE'',
         jc_ttl = buyerTTL, jc_kid = getenv ''BUYER_JWT_ACTIVE_KID'', jc_keys = buyerKeys\<rparr>,
       cf_admin = \<lparr>jc_issuer = getenv ''ADMIN_JWT_ISSUER'', jc_audience = getenv ''ADMIN_JWT_AUDIENCE'',
         jc_ttl = adminTTL, jc_kid = getenv ''ADMIN_JWT_ACTIVE_KID'', jc_keys = adminKeys\<rparr>,
       cf_cookie = DefaultAdminCookieConfig, cf_upload = upload, cf_bonus = bonus, cf_pixels = pixels,
       cf_capacity = capacity, cf_grace = grace, cf_cleanup = cleanup,
       cf_volume = envOrDefault getenv ''IMAGE_VOLUME_DIR'' ''/var/lib/shop-mall/images'',
       cf_wechat = \<lparr>wc_app_id = getenv ''WECHAT_APP_ID'', wc_secret = getenv ''WECHAT_APP_SECRET'',
         wc_endpoint = getenv ''WECHAT_ENDPOINT''\<rparr>\<rparr>
     in if Config_Validate (ld_url l) cfg \<noteq> [] then Inl (ErrOther ''invalid configuration'')
        else Inr cfg))))))))))))))"

section \<open>What a server that started was given\<close>

lemma Load_valid: "Load l getenv = Inr cfg \<Longrightarrow> Config_Validate (ld_url l) cfg = []"
  unfolding Load_def Let_def by (elim sbind_InrE) (simp split: if_splits)

lemma reused_keys_Nil:
  "reused_keys b a = [] \<longleftrightarrow> (\<forall>(bk, k)\<in>set (jc_keys b). \<forall>(ak, k')\<in>set (jc_keys a). k \<noteq> k')"
  by (fastforce simp: reused_keys_def filter_empty_conv)

lemma Config_Validate_realms:
  assumes "Config_Validate url_parse c = []"
  shows "JWTConfig_Validate ''buyer'' 0 (cf_buyer c) = []"
    "JWTConfig_Validate ''admin'' (30 * minute) (cf_admin c) = []"
    "jc_issuer (cf_buyer c) \<noteq> jc_issuer (cf_admin c)"
    "jc_audience (cf_buyer c) \<noteq> jc_audience (cf_admin c)"
    "reused_keys (cf_buyer c) (cf_admin c) = []"
  using assms by (auto simp: Config_Validate_def JWTConfig_Validate_Nil trim_space_Nil)

lemma Config_Validate_origins:
  "Config_Validate url_parse c = [] \<Longrightarrow> cf_origins c \<noteq> [] \<and>
   (\<forall>o'\<in>set (cf_origins c). validateHTTPSOrigin url_parse o') \<and> 0 \<le> cf_bonus c \<and>
   cf_cookie c = DefaultAdminCookieConfig"
  by (cases "cf_cookie c")
     (auto simp: Config_Validate_def Cookie_Validate_def Let_def DefaultAdminCookieConfig_def)

text \<open>
  The document of the library on what a parser returns: the claims are those the text carries,
  under whatever options and keys it was accepted.
\<close>

definition claims_of_text :: "jwt_parser \<Rightarrow> bool" where
  "claims_of_text jwt_parse \<longleftrightarrow>
     (\<forall>raw o1 o2 k1 k2 c1 c2. jwt_parse o1 k1 raw = Inr c1 \<longrightarrow> jwt_parse o2 k2 raw = Inr c2 \<longrightarrow> c1 = c2)"

lemma JWTService_Parse_issuer:
  assumes "jwt_library nd sign jwt_parse" and "JWTService_Parse jwt_parse conf w raw t = Inr d"
  shows "\<exists>o1 k1. jwt_parse o1 k1 raw = Inr d \<and> cl_issuer d = jc_issuer conf"
proof -
  define t' where "t' = (if t = 0 then w else t)"
  have p: "jwt_parse (parse_options conf t') (keyfunc conf) raw = Inr d"
    using assms(2) unfolding JWTService_Parse_def Let_def t'_def[symmetric]
    by (cases "jwt_parse (parse_options conf t') (keyfunc conf) raw")
       (auto simp: check_lifetime_def split: if_splits option.splits)
  then have "jwt_accepts (parse_options conf t') d" using assms(1) unfolding jwt_library_def by blast
  then show ?thesis using p by (auto simp: jwt_accepts_def parse_options_def)
qed

text \<open>
  C33: The realms of buyers and administrators are apart: in a server that started, no text passes as a
  buyer's token and as an administrator's, at whatever times it is shown.
\<close>

theorem realms_apart:
  assumes "Load l getenv = Inr cfg" and "jwt_library nd sign jwt_parse" and "claims_of_text jwt_parse"
    and "JWTService_Parse jwt_parse (cf_buyer cfg) wall raw now = Inr c"
  shows "\<exists>e. JWTService_Parse jwt_parse (cf_admin cfg) wall' raw now' = Inl e"
proof (rule ccontr)
  assume "\<nexists>e. JWTService_Parse jwt_parse (cf_admin cfg) wall' raw now' = Inl e"
  then obtain c' where c': "JWTService_Parse jwt_parse (cf_admin cfg) wall' raw now' = Inr c'"
    by (cases "JWTService_Parse jwt_parse (cf_admin cfg) wall' raw now'") auto
  have "c = c'" using JWTService_Parse_issuer[OF assms(2,4)] JWTService_Parse_issuer[OF assms(2) c'] assms(3) unfolding claims_of_text_def by blast
  then show False
    using JWTService_Parse_issuer[OF assms(2,4)] JWTService_Parse_issuer[OF assms(2) c'] Config_Validate_realms(3)[OF Load_valid[OF assms(1)]] by auto
qed

definition demo_getenv :: "string \<Rightarrow> string" where
  "demo_getenv name = (case map_of
     [(''PUBLIC_BASE_URL'', ''https://shop''), (''ADMIN_ALLOWED_ORIGINS'', ''https://a, ,https://b''),
      (''DATABASE_URL'', ''postgres''), (''BUYER_JWT_ISSUER'', ''mall''), (''BUYER_JWT_AUDIENCE'', ''console''),
      (''BUYER_JWT_TTL'', ''1h''), (''BUYER_JWT_ACTIVE_KID'', ''k''), (''ADMIN_JWT_ISSUER'', ''office''),
      (''ADMIN_JWT_AUDIENCE'', ''desk''), (''ADMIN_JWT_ACTIVE_KID'', ''a''),
      (''BUYER_JWT_KEYRING'', ''buyer''), (''ADMIN_JWT_KEYRING'', ''admin''),
      (''UPLOAD_MAX_BYTES'', ''1024''), (''SIGNUP_BONUS_POINTS'', ''100''), (''IMAGE_MAX_PIXELS'', ''4096''),
      (''IMAGE_STORAGE_CAPACITY_BYTES'', ''4096'')] name of None \<Rightarrow> [] | Some v \<Rightarrow> v)"

definition demo_loader :: loader where
  "demo_loader = \<lparr>ld_duration = (\<lambda>s. if s = ''1h'' then Some (60 * minute) else None),
     ld_json = (\<lambda>s. if s = ''buyer'' then Some [(''k'', ''X'')]
       else if s = ''admin'' then Some [(''a'', ''Y'')] else None),
     ld_base64 = (\<lambda>s. if s = ''X'' then Some (replicate 32 CHR ''x'')
       else if s = ''Y'' then Some (replicate 32 CHR ''y'') else None),
     ld_url = (\<lambda>s. Some \<lparr>url_scheme = ''https'', url_host = drop 8 s, url_user = None, url_path = [],
       url_query = [], url_fragment = []\<rparr>)\<rparr>"

lemma demo_claims_of_text: "claims_of_text demo_parse"
  unfolding claims_of_text_def demo_parse_def by (metis sum.distinct(1) sum.inject(2))

definition demo_config :: config where
  "demo_config = \<lparr>cf_environment = ''development'', cf_addr = '':8080'', cf_base_url = ''https://shop'',
     cf_origins = [''https://a'', ''https://b''],
     cf_database = \<lparr>dc_url = ''postgres'', dc_max_open = 20, dc_max_idle = 10, dc_lifetime = 30 * minute,
       dc_idle_time = 5 * minute\<rparr>,
     cf_buyer = \<lparr>jc_issuer = ''mall'', jc_audience = ''console'', jc_ttl = 60 * minute, jc_kid = ''k'',
       jc_keys = [(''k'', replicate 32 CHR ''x'')]\<rparr>,
     cf_admin = \<lparr>jc_issuer = ''office'', jc_audience = ''desk'', jc_ttl = 30 * minute, jc_kid = ''a'',
       jc_keys = [(''a'', replicate 32 CHR ''y'')]\<rparr>,
     cf_cookie = DefaultAdminCookieConfig, cf_upload = 1024, cf_bonus = 100, cf_pixels = 4096,
     cf_capacity = 4096, cf_grace = 24 * 60 * minute, cf_cleanup = 60 * minute,
     cf_volume = ''/var/lib/shop-mall/images'',
     cf_wechat = \<lparr>wc_app_id = [], wc_secret = [], wc_endpoint = []\<rparr>\<rparr>"

lemma demo_read:
  "intEnvOrDefault demo_getenv ''DB_MAX_OPEN_CONNS'' 20 = Inr 20"
  "intEnvOrDefault demo_getenv ''DB_MAX_IDLE_CONNS'' 10 = Inr 10"
  "durationEnvOrDefault (ld_duration demo_loader) demo_getenv ''DB_CONN_MAX_LIFETIME'' n = Inr n"
  "durationEnvOrDefault (ld_duration demo_loader) demo_getenv ''DB_CONN_MAX_IDLE_TIME'' n = Inr n"
  "durationEnvOrDefault (ld_duration demo_loader) demo_getenv ''BUYER_JWT_TTL'' n = Inr (60 * minute)"
  "durationEnvOrDefault (ld_duration demo_loader) demo_getenv ''ADMIN_JWT_TTL'' n = Inr n"
  "durationEnvOrDefault (ld_duration demo_loader) demo_getenv ''IMAGE_GRACE_PERIOD'' n = Inr n"
  "durationEnvOrDefault (ld_duration demo_loader) demo_getenv ''IMAGE_CLEANUP_INTERVAL'' n = Inr n"
  "parseKeyringEnv (ld_json demo_loader) (ld_base64 demo_loader) demo_getenv ''BUYER_JWT_KEYRING'' =
     Inr [(''k'', replicate 32 CHR ''x'')]"
  "parseKeyringEnv (ld_json demo_loader) (ld_base64 demo_loader) demo_getenv ''ADMIN_JWT_KEYRING'' =
     Inr [(''a'', replicate 32 CHR ''y'')]"
  "requiredInt64Env demo_getenv ''UPLOAD_MAX_BYTES'' = Inr 1024"
  "requiredInt64Env demo_getenv ''SIGNUP_BONUS_POINTS'' = Inr 100"
  "requiredInt64Env demo_getenv ''IMAGE_MAX_PIXELS'' = Inr 4096"
  "requiredInt64Env demo_getenv ''IMAGE_STORAGE_CAPACITY_BYTES'' = Inr 4096"
  "envOrDefault demo_getenv ''APP_ENV'' ''development'' = ''development''"
  "envOrDefault demo_getenv ''HTTP_ADDR'' '':8080'' = '':8080''"
  "splitCSV (demo_getenv ''ADMIN_ALLOWED_ORIGINS'') = [''https://a'', ''https://b'']"
  "envOrDefault demo_getenv ''IMAGE_VOLUME_DIR'' ''/var/lib/shop-mall/images'' = ''/var/lib/shop-mall/images''"
  by code_simp+

lemma demo_text:
  "demo_getenv ''PUBLIC_BASE_URL'' = ''https://shop''" "demo_getenv ''DATABASE_URL'' = ''postgres''"
  "demo_getenv ''BUYER_JWT_ISSUER'' = ''mall''" "demo_getenv ''BUYER_JWT_AUDIENCE'' = ''console''"
  "demo_getenv ''BUYER_JWT_ACTIVE_KID'' = ''k''" "demo_getenv ''ADMIN_JWT_ISSUER'' = ''office''"
  "demo_getenv ''ADMIN_JWT_AUDIENCE'' = ''desk''" "demo_getenv ''ADMIN_JWT_ACTIVE_KID'' = ''a''"
  "demo_getenv ''WECHAT_APP_ID'' = []" "demo_getenv ''WECHAT_APP_SECRET'' = []"
  "demo_getenv ''WECHAT_ENDPOINT'' = []"
  by (simp_all add: demo_getenv_def)

lemma demo_valid: "Config_Validate (ld_url demo_loader) demo_config = []"
  by code_simp

lemma demo_Load: "Load demo_loader demo_getenv = Inr demo_config"
  unfolding Load_def demo_read demo_text sbind_Inr Let_def demo_config_def[symmetric]
  by (simp add: demo_valid)

lemma realms_apart_witness:
  "\<exists>c e. Load demo_loader demo_getenv = Inr demo_config \<and>
     JWTService_Parse demo_parse (cf_buyer demo_config) 1 ''tok'' 30 = Inr c \<and>
     JWTService_Parse demo_parse (cf_admin demo_config) 1 ''tok'' 30 = Inl e"
proof -
  have "\<not> isl (JWTService_Parse demo_parse (cf_buyer demo_config) 1 ''tok'' 30)" by code_simp
  then obtain c where "JWTService_Parse demo_parse (cf_buyer demo_config) 1 ''tok'' 30 = Inr c"
    by (metis isl_def obj_sumE)
  then show ?thesis using realms_apart[OF demo_Load demo_library demo_claims_of_text] demo_Load by blast
qed

end
