(* ===== verification/Passwords.thy ===== *)
theory Passwords
  imports Config Sessions
begin

text \<open>
  The stored passwords of \<open>internal/admin/service.go\<close>: \<open>hashPassword\<close>, \<open>verifyPassword\<close> and
  \<open>decodePasswordHash\<close>, with what they use of \<open>fmt.Sscanf\<close> and \<open>strings.Split\<close>. Parameters are
  \<open>idkey password salt iterations memory parallelism length\<close>, which is \<open>argon2.IDKey\<close> (it panics on a
  stored text with no rounds or no threads, which \<open>hashPassword\<close> never writes), and \<open>enc\<close> and \<open>dec\<close>,
  the base64 of \<open>RawStdEncoding\<close>. \<open>salt\<close> is what \<open>rand.Read\<close> filled in, \<open>None\<close> when it failed.
\<close>

type_synonym kdf = "string \<Rightarrow> string \<Rightarrow> nat \<Rightarrow> nat \<Rightarrow> nat \<Rightarrow> nat \<Rightarrow> string"

section \<open>Scanning\<close>

text \<open>The blanks \<open>Sscanf\<close> skips before a number: spaces, but a newline is an error.\<close>

definition skip_blanks :: "string \<Rightarrow> string" where
  "skip_blanks s = concat (dropWhile (\<lambda>r. is_space r \<and> r \<noteq> [CHR 0x0A]) (runes s))"

definition scan_literal :: "string \<Rightarrow> string \<Rightarrow> string option" where
  "scan_literal p s = (if has_prefix s p then Some (drop (length p) s) else None)"

text \<open>\<open>%d\<close> into an unsigned integer below \<open>bound\<close>, and into an \<open>int\<close>, which may have a sign.\<close>

definition scan_digits :: "string \<Rightarrow> (nat \<times> string) option" where
  "scan_digits s = (let ds = takeWhile is_digit s in
     if ds = [] then None else Some (digits_value ds, drop (length ds) s))"

definition scan_uint :: "nat \<Rightarrow> string \<Rightarrow> (nat \<times> string) option" where
  "scan_uint bound s = (case scan_digits (skip_blanks s) of
     None \<Rightarrow> None | Some (n, rest) \<Rightarrow> if n < bound then Some (n, rest) else None)"

definition scan_int :: "string \<Rightarrow> (int \<times> string) option" where
  "scan_int s =
     (let t = skip_blanks s;
          neg = (t \<noteq> [] \<and> hd t = CHR ''-'');
          body = (if t \<noteq> [] \<and> (hd t = CHR ''-'' \<or> hd t = CHR ''+'') then tl t else t)
      in case scan_digits body of
           None \<Rightarrow> None
         | Some (n, rest) \<Rightarrow>
           let v = (if neg then - int n else int n) in if in64 v then Some (v, rest) else None)"

section \<open>The stored text\<close>

record argon_params =
  ap_memory :: nat
  ap_iterations :: nat
  ap_parallelism :: nat

definition argonParams :: argon_params where
  "argonParams = \<lparr>ap_memory = 64 * 1024, ap_iterations = 3, ap_parallelism = 2\<rparr>"

definition argonKeyLength :: nat where "argonKeyLength = 32"

definition argon2_Version :: nat where "argon2_Version = 0x13"

definition params_text :: "argon_params \<Rightarrow> string" where
  "params_text p = ''m='' @ format_nat (ap_memory p) @ '',t='' @ format_nat (ap_iterations p) @
     '',p='' @ format_nat (ap_parallelism p)"

definition encodeHash :: "(string \<Rightarrow> string) \<Rightarrow> string \<Rightarrow> string \<Rightarrow> string" where
  "encodeHash enc salt key = ''$argon2id$v='' @ format_nat argon2_Version @ ''$'' @
     params_text argonParams @ ''$'' @ enc salt @ ''$'' @ enc key"

definition hashPassword :: "kdf \<Rightarrow> (string \<Rightarrow> string) \<Rightarrow> string option \<Rightarrow> string \<Rightarrow> err + string" where
  "hashPassword idkey enc salt password = (case salt of
       None \<Rightarrow> Inl (ErrOther ''rand'')
     | Some salt \<Rightarrow> Inr (encodeHash enc salt (idkey password salt (ap_iterations argonParams)
         (ap_memory argonParams) (ap_parallelism argonParams) argonKeyLength)))"

definition scan_params :: "string \<Rightarrow> argon_params option" where
  "scan_params s = (case scan_literal ''m='' s of
       None \<Rightarrow> None
     | Some s \<Rightarrow> (case scan_uint (2 ^ 32) s of
         None \<Rightarrow> None
       | Some (m, s) \<Rightarrow> (case scan_literal '',t='' s of
           None \<Rightarrow> None
         | Some s \<Rightarrow> (case scan_uint (2 ^ 32) s of
             None \<Rightarrow> None
           | Some (t, s) \<Rightarrow> (case scan_literal '',p='' s of
               None \<Rightarrow> None
             | Some s \<Rightarrow> (case scan_uint (2 ^ 8) s of
                 None \<Rightarrow> None
               | Some (p, s) \<Rightarrow> Some \<lparr>ap_memory = m, ap_iterations = t, ap_parallelism = p\<rparr>))))))"

definition decodePasswordHash ::
  "(string \<Rightarrow> string option) \<Rightarrow> string \<Rightarrow> err + argon_params \<times> string \<times> string" where
  "decodePasswordHash dec encoded =
     (let parts = split_on (CHR ''$'') encoded in
      if length parts \<noteq> 6 then Inl (ErrOther ''invalid encoded hash'')
      else if parts ! 1 \<noteq> ''argon2id'' then Inl (ErrOther ''unsupported hash algorithm'')
      else case (case scan_literal ''v='' (parts ! 2) of None \<Rightarrow> None | Some s \<Rightarrow> scan_int s) of
          None \<Rightarrow> Inl (ErrOther ''scan'')
        | Some (version, _) \<Rightarrow>
          if version \<noteq> int argon2_Version then Inl (ErrOther ''unsupported argon2 version'')
          else case scan_params (parts ! 3) of
              None \<Rightarrow> Inl (ErrOther ''scan'')
            | Some params \<Rightarrow>
              (case dec (parts ! 4) of
                 None \<Rightarrow> Inl (ErrOther ''base64'')
               | Some salt \<Rightarrow>
                 (case dec (parts ! 5) of
                    None \<Rightarrow> Inl (ErrOther ''base64'') | Some key \<Rightarrow> Inr (params, salt, key))))"

definition verifyPassword :: "kdf \<Rightarrow> (string \<Rightarrow> string option) \<Rightarrow> string \<Rightarrow> string \<Rightarrow> bool" where
  "verifyPassword idkey dec password encoded = (case decodePasswordHash dec encoded of
       Inl e \<Rightarrow> False
     | Inr (params, salt, key) \<Rightarrow>
       idkey password salt (ap_iterations params) (ap_memory params) (ap_parallelism params)
         (length key mod 2 ^ 32) = key)"

section \<open>Reading back what was written\<close>

text \<open>The alphabet of base64 has no separator, and decoding inverts encoding (RFC 4648).\<close>

definition base64 :: "(string \<Rightarrow> string) \<Rightarrow> (string \<Rightarrow> string option) \<Rightarrow> bool" where
  "base64 enc dec \<longleftrightarrow> (\<forall>x. dec (enc x) = Some x \<and> CHR ''$'' \<notin> set (enc x))"

text \<open>The key has the length asked for.\<close>

definition key_length :: "kdf \<Rightarrow> bool" where
  "key_length idkey \<longleftrightarrow> (\<forall>p s t m n l. length (idkey p s t m n l) = l)"

lemma split_on_part: "sep \<notin> set p \<Longrightarrow> split_on sep (p @ sep # s) = p # split_on sep s"
  by (induction p) auto

lemma split_on_last: "sep \<notin> set p \<Longrightarrow> split_on sep p = [p]"
  by (induction p) auto

lemma skip_blanks_digit: "is_digit c \<Longrightarrow> skip_blanks (c # t) = c # t"
proof -
  assume "is_digit c"
  then have b: "byte c < 128" "\<not> is_space [c]" by (auto simp: is_digit_def is_space_ascii)
  have "runes (c # t) = [c] # runes t"
    using b(1) by (subst runes.simps) (simp add: rune_width_ascii)
  then show ?thesis using b(2) by (simp add: skip_blanks_def)
qed

lemma skip_blanks_format: "skip_blanks (format_nat n @ t) = format_nat n @ t"
  using hd_format_nat[of n] format_nat_facts[of n] skip_blanks_digit[of "hd (format_nat n)"]
  by (cases "format_nat n") auto

lemma scan_digits_format:
  assumes "rest = [] \<or> \<not> is_digit (hd rest)"
  shows "scan_digits (format_nat n @ rest) = Some (n, rest)"
proof -
  have "takeWhile is_digit (format_nat n @ rest) = format_nat n"
    using assms format_nat_facts[of n] by (cases rest) (auto simp: list_all_iff takeWhile_append)
  then show ?thesis using format_nat_facts[of n] by (simp add: scan_digits_def)
qed

lemma scan_uint_format:
  "n < bound \<Longrightarrow> rest = [] \<or> \<not> is_digit (hd rest) \<Longrightarrow> scan_uint bound (format_nat n @ rest) = Some (n, rest)"
  by (simp add: scan_uint_def skip_blanks_format scan_digits_format)

lemma scan_int_format: "in64 (int n) \<Longrightarrow> scan_int (format_nat n) = Some (int n, [])"
  using hd_format_nat[of n] skip_blanks_format[of n "[]"] scan_digits_format[of "[]" n]
  by (auto simp: scan_int_def Let_def not_digit_sign)

lemma scan_params_text:
  assumes "ap_memory p < 2 ^ 32" "ap_iterations p < 2 ^ 32" "ap_parallelism p < 2 ^ 8"
  shows "scan_params (params_text p) = Some p"
proof -
  have lit: "scan_literal q (q @ s) = Some s" for q s by (simp add: scan_literal_def)
  have nd: "\<not> is_digit (CHR '','')" by (simp add: is_digit_def byte_def)
  show ?thesis
    using assms nd scan_uint_format[of "ap_parallelism p" "2 ^ 8" "[]"]
    unfolding scan_params_def params_text_def
    by (simp only: lit option.case prod.case) (simp add: lit scan_uint_format del: append_Cons append_assoc)
qed

lemma no_separator: "CHR ''$'' \<notin> set (format_nat n)" "CHR ''$'' \<notin> set (params_text p)"
proof -
  have "\<not> is_digit (CHR ''$'')" by (simp add: is_digit_def byte_def)
  then show f: "CHR ''$'' \<notin> set (format_nat n)" for n using format_nat_facts[of n] by (auto simp: list_all_iff)
  show "CHR ''$'' \<notin> set (params_text p)" by (simp add: params_text_def f)
qed

lemma decode_encodeHash:
  assumes "base64 enc dec"
  shows "decodePasswordHash dec (encodeHash enc salt key) = Inr (argonParams, salt, key)"
proof -
  let ?v = "''v='' @ format_nat argon2_Version"
  have sep: "CHR ''$'' \<notin> set (enc x)" for x using assms by (simp add: base64_def)
  have n: "CHR ''$'' \<notin> set []" "CHR ''$'' \<notin> set ''argon2id''" "CHR ''$'' \<notin> set ?v"
    by (simp_all add: no_separator)
  have "encodeHash enc salt key = [] @ CHR ''$'' # ''argon2id'' @ CHR ''$'' # ?v @ CHR ''$'' #
      params_text argonParams @ CHR ''$'' # enc salt @ CHR ''$'' # enc key"
    by (simp add: encodeHash_def)
  then have s: "split_on (CHR ''$'') (encodeHash enc salt key) =
      [[], ''argon2id'', ?v, params_text argonParams, enc salt, enc key]"
    by (simp only: split_on_part[OF n(1)] split_on_part[OF n(2)] split_on_part[OF n(3)]
      split_on_part[OF no_separator(2)] split_on_part[OF sep] split_on_last[OF sep])
  have "scan_params (params_text argonParams) = Some argonParams"
    by (rule scan_params_text) (simp_all add: argonParams_def)
  moreover have "scan_literal ''v='' ?v = Some (format_nat argon2_Version)"
    by (simp add: scan_literal_def has_prefix_def)
  moreover have "scan_int (format_nat argon2_Version) = Some (int argon2_Version, [])"
    by (rule scan_int_format) (simp add: argon2_Version_def in64_def)
  ultimately show ?thesis
    using assms by (simp add: decodePasswordHash_def s Let_def base64_def)
qed

text \<open>
  C40: Stored passwords: what \<open>hashPassword\<close> wrote is accepted with the same password, and with another
  one only if the two have the same key under the salt that was drawn.
\<close>

theorem stored_password_verifies:
  assumes "base64 enc dec" and "key_length idkey"
    and "hashPassword idkey enc salt password = Inr encoded"
  shows "verifyPassword idkey dec password encoded \<and>
    (verifyPassword idkey dec other encoded \<longleftrightarrow>
       idkey other (the salt) 3 65536 2 32 = idkey password (the salt) 3 65536 2 32)"
  using assms
  by (auto simp: hashPassword_def verifyPassword_def decode_encodeHash key_length_def argonParams_def
      argonKeyLength_def split: option.splits)

fun escape :: "string \<Rightarrow> string" where
  "escape [] = []"
| "escape (c # s) = (if c = CHR ''$'' then ''-a'' @ escape s else if c = CHR ''-'' then ''-b'' @ escape s
     else c # escape s)"

fun unescape :: "string \<Rightarrow> string" where
  "unescape [] = []"
| "unescape [c] = [c]"
| "unescape (c # e # s) =
     (if c = CHR ''-'' then (if e = CHR ''a'' then CHR ''$'' else CHR ''-'') # unescape s
      else c # unescape (e # s))"

lemma base64_demo: "base64 escape (\<lambda>s. Some (unescape s))"
proof -
  have c: "c \<noteq> CHR ''-'' \<Longrightarrow> unescape (c # t) = c # unescape t" for c t by (cases t) auto
  have "unescape (escape x) = x" for x by (induction x) (auto simp: c)
  moreover have "CHR ''$'' \<notin> set (escape x)" for x by (induction x) auto
  ultimately show ?thesis by (simp add: base64_def)
qed

definition demo_kdf :: kdf where
  "demo_kdf p s t m n l = take l (p @ replicate l CHR 0x00)"

lemma stored_password_verifies_witness:
  "verifyPassword demo_kdf (\<lambda>s. Some (unescape s)) ''correct horse''
     (projr (hashPassword demo_kdf escape (Some ''$salt'') ''correct horse''))"
proof -
  have "key_length demo_kdf" by (simp add: key_length_def demo_kdf_def min_def)
  from stored_password_verifies[OF base64_demo this, of "Some ''$salt''" "''correct horse''"]
  show ?thesis by (simp add: hashPassword_def)
qed

end
