(* ===== verification/Http.thy ===== *)
theory Http
  imports Gate Storage
begin

text \<open>
  What the HTTP handlers of the packages share: reading the page of a list, the identifiers in paths
  and bodies, and who is asking. Every package has its own copy of these helpers; the copies are
  the same text (\<open>order/handler.go\<close> is the one mapped), the default page size apart.

  A handler takes the request, the context the authentication left and, where it reads one, the
  body: \<open>None\<close> when \<open>ShouldBindJSON\<close> reports an error, which is the decoder's business, otherwise
  the record of its fields. It returns the reply and the tables.
\<close>

section \<open>Reading requests\<close>

definition parsePaging :: "int \<Rightarrow> request \<Rightarrow> err + int \<times> int" where
  "parsePaging defaultSize rq =
     (case (if Query rq ''page'' = [] then Some 1 else parse_int64 (Query rq ''page'')) of
        None \<Rightarrow> Inl (ErrOther ''invalid page'')
      | Some page \<Rightarrow>
        if page < 1 then Inl (ErrOther ''invalid page'')
        else case (if Query rq ''page_size'' = [] then Some defaultSize
             else parse_int64 (Query rq ''page_size'')) of
            None \<Rightarrow> Inl (ErrOther ''invalid page_size'')
          | Some pageSize \<Rightarrow>
            if Query rq ''page_size'' \<noteq> [] \<and> (pageSize < 1 \<or> pageSize > 100)
            then Inl (ErrOther ''invalid page_size'')
            else Inr (page, pageSize))"

definition publicIDPattern :: "string \<Rightarrow> bool" where
  "publicIDPattern s \<longleftrightarrow> eat_groups [8, 4, 4, 4, 12] s = Some []"

definition parsePositiveID ::
  "(string \<Rightarrow> uid option) \<Rightarrow> (uid \<Rightarrow> string) \<Rightarrow> string \<Rightarrow> uid option" where
  "parsePositiveID up us raw =
     (if \<not> publicIDPattern raw then None
      else case ParseCanonical up us raw of Inl e \<Rightarrow> None | Inr i \<Rightarrow> Some i)"

section \<open>Who is asking\<close>

definition buyerIDFromGin ::
  "(string \<Rightarrow> uid option) \<Rightarrow> (uid \<Rightarrow> string) \<Rightarrow> gin_context \<Rightarrow> uid option" where
  "buyerIDFromGin up us cx =
     (case cx_buyer cx of
        None \<Rightarrow> None
      | Some subject \<Rightarrow>
        if subject = [] then None
        else case BuyerIDFromSubject up us subject of Inl e \<Rightarrow> None | Inr i \<Rightarrow> Some i)"

definition adminIDFromGin ::
  "(string \<Rightarrow> uid option) \<Rightarrow> (uid \<Rightarrow> string) \<Rightarrow> gin_context \<Rightarrow> uid option" where
  "adminIDFromGin up us cx =
     (case cx_claims cx of
        None \<Rightarrow> None
      | Some claims \<Rightarrow>
        (case AdminIDFromSubject up us (cl_subject claims) of Inl e \<Rightarrow> None | Inr i \<Rightarrow> Some i))"

definition resolveActor ::
  "(string \<Rightarrow> uid option) \<Rightarrow> (uid \<Rightarrow> string) \<Rightarrow> gin_context \<Rightarrow> db \<Rightarrow> actor option" where
  "resolveActor up us cx d =
     (case adminIDFromGin up us cx of
        None \<Rightarrow> None
      | Some adminID \<Rightarrow> Some \<lparr>AdminID = adminID,
          RoleName = (case FindByID adminID d of Inl e \<Rightarrow> [] | Inr view \<Rightarrow> av_role_name view)\<rparr>)"

section \<open>Answering\<close>

definition missing_buyer :: http_error where
  "missing_buyer = HttpError 401 CodeUnauthorized (Text ''missing buyer identity'')"

definition missing_admin :: http_error where
  "missing_admin = HttpError 401 CodeUnauthorized (Text ''missing administrator identity'')"

definition bad_request :: "string \<Rightarrow> http_error" where
  "bad_request m = HttpError 400 CodeBadRequest (Text m)"

definition internalError :: http_error where
  "internalError = HttpError 500 CodeInternal (Text ''internal server error'')"

text \<open>\<open>status, code := mapError(err); platformhttp.Error(c, status, code, err.Error())\<close>.\<close>

definition mapped :: "(err \<Rightarrow> int \<times> int) \<Rightarrow> err \<Rightarrow> http_error" where
  "mapped f e = (case f e of (status, code) \<Rightarrow> HttpError status code (ErrorText e))"

definition answer ::
  "int \<Rightarrow> ('r \<Rightarrow> 'j) \<Rightarrow> (err \<Rightarrow> int \<times> int) \<Rightarrow> (err + 'r) \<times> db \<Rightarrow> 'j reply \<times> db" where
  "answer status json f p = (case p of
       (Inl e, d) \<Rightarrow> (Inl (mapped f e), d)
     | (Inr r, d) \<Rightarrow> (Inr (status, json r), d))"

lemmas reply_defs = missing_buyer_def missing_admin_def bad_request_def internalError_def mapped_def
  answer_def

text \<open>The opening lines of the handlers: each answers at once when what it asks for is missing.\<close>

definition with_buyer ::
  "(string \<Rightarrow> uid option) \<Rightarrow> (uid \<Rightarrow> string) \<Rightarrow> gin_context \<Rightarrow> db \<Rightarrow> (uid \<Rightarrow> 'j reply \<times> db)
   \<Rightarrow> 'j reply \<times> db" where
  "with_buyer up us cx d h = (case buyerIDFromGin up us cx of
     None \<Rightarrow> (Inl missing_buyer, d) | Some userID \<Rightarrow> h userID)"

definition with_admin ::
  "(string \<Rightarrow> uid option) \<Rightarrow> (uid \<Rightarrow> string) \<Rightarrow> gin_context \<Rightarrow> db \<Rightarrow> (uid \<Rightarrow> 'j reply \<times> db)
   \<Rightarrow> 'j reply \<times> db" where
  "with_admin up us cx d h = (case adminIDFromGin up us cx of
     None \<Rightarrow> (Inl missing_admin, d) | Some adminID \<Rightarrow> h adminID)"

definition with_id ::
  "(string \<Rightarrow> uid option) \<Rightarrow> (uid \<Rightarrow> string) \<Rightarrow> string \<Rightarrow> string \<Rightarrow> db \<Rightarrow> (uid \<Rightarrow> 'j reply \<times> db)
   \<Rightarrow> 'j reply \<times> db" where
  "with_id up us raw message d h = (case parsePositiveID up us raw of
     None \<Rightarrow> (Inl (bad_request message), d) | Some i \<Rightarrow> h i)"

definition with_body :: "string \<Rightarrow> 'b option \<Rightarrow> db \<Rightarrow> ('b \<Rightarrow> 'j reply \<times> db) \<Rightarrow> 'j reply \<times> db" where
  "with_body message body d h = (case body of
     None \<Rightarrow> (Inl (bad_request message), d) | Some req \<Rightarrow> h req)"

definition with_parsed :: "err + 'b \<Rightarrow> db \<Rightarrow> ('b \<Rightarrow> 'j reply \<times> db) \<Rightarrow> 'j reply \<times> db" where
  "with_parsed p d h = (case p of
     Inl e \<Rightarrow> (Inl (HttpError 400 CodeBadRequest (ErrorText e)), d) | Inr x \<Rightarrow> h x)"

lemmas with_defs = with_buyer_def with_admin_def with_id_def with_body_def with_parsed_def

text \<open>A time printed with \<open>time.RFC3339\<close> is kept as its whole second.\<close>

definition whole_second :: "time \<Rightarrow> time" where
  "whole_second t = t - t mod second"

record 'a listing =
  pd_list :: "'a list"
  pd_total :: nat
  pd_page :: int
  pd_size :: int

definition page_data :: "('r \<Rightarrow> 'a) \<Rightarrow> int \<Rightarrow> int \<Rightarrow> 'r list \<times> nat \<Rightarrow> 'a listing" where
  "page_data json page pageSize p =
     \<lparr>pd_list = map json (fst p), pd_total = snd p, pd_page = page, pd_size = pageSize\<rparr>"

text \<open>A route of the console: its gate, and then its handler.\<close>

definition admin_endpoint ::
  "gate_env \<Rightarrow> string \<Rightarrow> (uid \<Rightarrow> descriptor \<Rightarrow> db \<Rightarrow> db) option \<Rightarrow> descriptor \<Rightarrow> time \<Rightarrow> request
   \<Rightarrow> (gin_context \<Rightarrow> db \<Rightarrow> 'j reply \<times> db) \<Rightarrow> db \<Rightarrow> 'j reply \<times> db" where
  "admin_endpoint g required auditor descriptor now rq handler d =
     (case admin_route g required auditor descriptor now rq d of
        (Inl r, d') \<Rightarrow> (Inl r, d')
      | (Inr cx, d') \<Rightarrow> handler cx d')"

text \<open>
  A route of a buyer: orders and the cart use \<open>BuyerAuth\<close> and then \<open>BuyerAuthWithState\<close> with the
  existence of the account; addresses and the profile use the second alone, which lets the same
  requests in (\<open>buyer_session_once\<close>). \<open>ge_service\<close> is the service of the buyers' tokens here.
\<close>

definition buyer_session :: "gate_env \<Rightarrow> time \<Rightarrow> request \<Rightarrow> db \<Rightarrow> http_error + gin_context" where
  "buyer_session g now rq d =
     sbind (BuyerAuth (ge_up g) (ge_us g) (ge_service g) now rq no_context) (\<lambda>cx.
     BuyerAuthWithState (ge_up g) (ge_us g) (ge_service g) (Some (BuyerExists d)) now rq cx)"

definition buyer_endpoint ::
  "gate_env \<Rightarrow> time \<Rightarrow> request \<Rightarrow> (gin_context \<Rightarrow> db \<Rightarrow> 'j reply \<times> db) \<Rightarrow> db \<Rightarrow> 'j reply \<times> db" where
  "buyer_endpoint g now rq handler d =
     (case buyer_session g now rq d of Inl r \<Rightarrow> (Inl r, d) | Inr cx \<Rightarrow> handler cx d)"

section \<open>What the readers accept\<close>

lemma parsePaging_InrD:
  "parsePaging n rq = Inr (page, k) \<Longrightarrow> 1 \<le> n \<Longrightarrow> n \<le> 100 \<Longrightarrow>
   1 \<le> page \<and> in64 page \<and> 1 \<le> k \<and> k \<le> 100"
  by (auto simp: parsePaging_def parse_int64_def Let_def in64_def split: option.splits if_splits)

lemma parsePositiveID_SomeD: "parsePositiveID up us raw = Some i \<Longrightarrow> raw = us i"
  by (auto simp: parsePositiveID_def split: sum.splits if_splits dest: ParseCanonical_InrD)

lemma buyerIDFromGin_SomeD:
  "buyerIDFromGin up us cx = Some i \<Longrightarrow> cx_buyer cx = Some (''buyer:'' @ us i)"
  by (auto simp: buyerIDFromGin_def split: option.splits sum.splits if_splits
      dest!: BuyerIDFromSubject_InrD)

lemma adminIDFromGin_SomeD:
  "adminIDFromGin up us cx = Some i \<Longrightarrow> \<exists>c. cx_claims cx = Some c \<and> cl_subject c = adminSubject us i"
  by (auto simp: adminIDFromGin_def split: option.splits sum.splits dest: AdminIDFromSubject_InrD)

text \<open>A buyer who is let in exists, and the handlers know the buyer by the subject of the token.\<close>

lemma buyer_session_InrD:
  assumes "buyer_session g now rq d = Inr cx"
  obtains raw c i where
    "ge_service g raw now = Inr c" "GetHeader rq ''Authorization'' \<noteq> []" "cl_subject c = ''buyer:'' @ ge_us g i"
    "i \<noteq> 0" "i \<in> u_id ` set (users d)" "buyerIDFromGin (ge_up g) (ge_us g) cx = Some i"
proof -
  obtain raw c i where b: "ge_service g raw now = Inr c" "has_prefix (GetHeader rq ''Authorization'') ''Bearer ''"
    "BuyerIDFromSubject (ge_up g) (ge_us g) (cl_subject c) = Inr i" "BuyerExists d i = Inr True"
    "cx_buyer cx = Some (cl_subject c)"
    using assms
    by (auto simp: buyer_session_def BuyerAuth_def BuyerAuthWithState_def Let_def sbind_eq_Inr
        split: sum.splits if_splits bool.splits option.splits)
  have s: "cl_subject c = ''buyer:'' @ ge_us g i" by (rule BuyerIDFromSubject_InrD[OF b(3)])
  have "i \<noteq> 0" "affected (\<lambda>r. u_id r = i) (users d) \<noteq> 0"
    using b(4) by (auto simp: BuyerExists_def split: if_splits)
  then have "i \<noteq> 0" "i \<in> u_id ` set (users d)" by (auto simp: affected_0_iff)
  moreover have "buyerIDFromGin (ge_up g) (ge_us g) cx = Some i"
    using b(3,5) s by (simp add: buyerIDFromGin_def)
  moreover have "GetHeader rq ''Authorization'' \<noteq> []" using b(2) by (auto simp: has_prefix_def)
  ultimately show thesis using that[OF b(1)] s by blast
qed

lemma buyer_session_once:
  "buyer_session g now rq d =
   BuyerAuthWithState (ge_up g) (ge_us g) (ge_service g) (Some (BuyerExists d)) now rq no_context"
  by (auto simp: buyer_session_def BuyerAuth_def BuyerAuthWithState_def Let_def split: sum.split bool.split)

end
