(* ===== verification/OrderHandlers.thy ===== *)
theory OrderHandlers
  imports Http Points
begin

text \<open>
  \<open>internal/order/handler.go\<close> and \<open>register.go\<close>: the endpoints of orders, refunds and points, of
  buyers and of administrators. The ids, clocks and hashes of the usecases they call are the
  parameters those usecases have; \<open>base\<close> is the trimmed public base URL.
\<close>

section \<open>Requests\<close>

record order_create_request =
  oc_cart_items :: "string list"
  oc_address :: string

record points_adjust_request =
  pr_user :: string
  pr_delta :: string
  pr_remark :: string

definition signedIntPattern :: "string \<Rightarrow> bool" where
  "signedIntPattern s =
     (let digits = (if has_prefix s ''-'' then drop 1 s else s) in
      digits \<noteq> [] \<and> list_all is_digit digits \<and> hd digits \<noteq> CHR ''0'')"

fun parse_cart_ids ::
  "(string \<Rightarrow> uid option) \<Rightarrow> (uid \<Rightarrow> string) \<Rightarrow> uid list \<Rightarrow> string list \<Rightarrow> err + uid list" where
  "parse_cart_ids up us seen [] = Inr []"
| "parse_cart_ids up us seen (raw # raws) =
     (if \<not> publicIDPattern raw then Inl (ErrOther ''invalid cart item id'')
      else case ParseCanonical up us raw of
          Inl e \<Rightarrow> Inl (ErrOther ''invalid cart item id'')
        | Inr i \<Rightarrow>
          if i \<in> set seen then Inl (ErrOther ''cart_item_ids must be unique'')
          else sbind (parse_cart_ids up us (i # seen) raws) (\<lambda>ids. Inr (i # ids)))"

definition parseOrderCreateRequest ::
  "(string \<Rightarrow> uid option) \<Rightarrow> (uid \<Rightarrow> string) \<Rightarrow> order_create_request \<Rightarrow> err + order_request" where
  "parseOrderCreateRequest up us req =
     (if oc_address req = [] \<or> \<not> publicIDPattern (oc_address req)
      then Inl (ErrOther ''invalid address id'')
      else case ParseCanonical up us (oc_address req) of
          Inl e \<Rightarrow> Inl (ErrOther ''invalid address id'')
        | Inr addressID \<Rightarrow>
          if oc_cart_items req = [] then Inl (ErrOther ''cart_item_ids is required'')
          else sbind (parse_cart_ids up us [] (oc_cart_items req)) (\<lambda>cartIDs.
            Inr \<lparr>CartItemIDs = cartIDs, AddressID = addressID\<rparr>))"

definition parsePointsAdjustRequest ::
  "(string \<Rightarrow> uid option) \<Rightarrow> (uid \<Rightarrow> string) \<Rightarrow> points_adjust_request \<Rightarrow> err + points_adjustment" where
  "parsePointsAdjustRequest up us req =
     (if \<not> publicIDPattern (pr_user req) then Inl (ErrOther ''invalid user id'')
      else case ParseCanonical up us (pr_user req) of
          Inl e \<Rightarrow> Inl (ErrOther ''invalid user id'')
        | Inr userID \<Rightarrow>
          if \<not> signedIntPattern (pr_delta req) then Inl (ErrOther ''invalid delta'')
          else case parse_int64 (pr_delta req) of
              None \<Rightarrow> Inl (ErrOther ''invalid delta'')
            | Some delta \<Rightarrow>
              if trim_space (pr_remark req) = [] then Inl (ErrOther ''remark is required'')
              else Inr \<lparr>pa_user = userID, pa_delta = delta, pa_remark = pr_remark req\<rparr>)"

definition parseOrderStatusQuery :: "request \<Rightarrow> err + order_status option" where
  "parseOrderStatusQuery rq =
     (let raw = Query rq ''status'' in
      if raw = [] then Inr None
      else case find (\<lambda>s. status_text s = raw) [Paid, Shipped, Completed, RefundRequested, Refunded] of
          None \<Rightarrow> Inl (ErrOther ''invalid status filter'')
        | Some s \<Rightarrow> Inr (Some s))"

section \<open>Replies\<close>

definition mapCreateOrderError :: "err \<Rightarrow> int \<times> int" where
  "mapCreateOrderError e =
     (if e = ErrInvalidIdempotencyKey \<or> e = PointsErrInvalidIdempotencyKey \<or> e = ErrInvalidOrderRequest
      then (400, CodeBadRequest)
      else if e = ErrIdempotencyConflict \<or> e = PointsErrIdempotencyConflict then (409, CodeConflict)
      else if e = ErrAddressNotFound \<or> e = ErrCartItemNotFound \<or> e = ErrProductNotFound \<or>
        e = ErrProductOffSale \<or> e = ErrInsufficientStock \<or> e = ErrInsufficientPoints
      then (422, CodeBusiness)
      else (500, CodeInternal))"

definition mapAdjustPointsError :: "err \<Rightarrow> int \<times> int" where
  "mapAdjustPointsError e =
     (if e = PointsErrInvalidIdempotencyKey \<or> e = ErrInvalidIdempotencyKey then (400, CodeBadRequest)
      else if e = PointsErrIdempotencyConflict then (409, CodeConflict)
      else if e = PointsErrInvalidAdjustment \<or> e = PointsErrUserNotFound \<or> e = PointsErrInsufficientPoints
      then (422, CodeBusiness)
      else (500, CodeInternal))"

definition mapRefundError :: "err \<Rightarrow> int \<times> int" where
  "mapRefundError e =
     (if e = ErrInvalidRefundReason then (400, CodeBadRequest)
      else if e = ErrOrderNotFound then (404, CodeNotFound)
      else if e = ErrOrderStateConflict then (409, CodeConflict)
      else (500, CodeInternal))"

definition trim_right_slashes :: "string \<Rightarrow> string" where
  "trim_right_slashes s = rev (dropWhile (\<lambda>c. c = CHR ''/'') (rev s))"

definition public_base :: "string \<Rightarrow> string" where
  "public_base raw = trim_right_slashes (trim_space raw)"

definition productImageURL :: "string \<Rightarrow> string \<Rightarrow> string" where
  "productImageURL publicBaseURL key =
     (if publicBaseURL = [] \<or> key = [] then key else publicBaseURL @ ''/static/images/'' @ key)"

record order_item_json =
  ij_product :: string
  ij_name :: string
  ij_image :: string
  ij_price :: string
  ij_qty :: int

record order_json =
  oj_id :: string
  oj_no :: string
  oj_status :: string
  oj_total :: string
  oj_receiver :: string
  oj_phone :: string
  oj_address :: string
  oj_items :: "order_item_json list"
  oj_paid_at :: time
  oj_shipped_at :: "time option"
  oj_completed_at :: "time option"
  oj_refunded_at :: "time option"
  oj_refund_reason :: string
  oj_reject_reason :: string
  oj_created :: time

definition toItemJSON :: "(uid \<Rightarrow> string) \<Rightarrow> string \<Rightarrow> order_item \<Rightarrow> order_item_json" where
  "toItemJSON us base i = \<lparr>ij_product = us (oi_product i), ij_name = oi_name i,
     ij_image = productImageURL base (oi_image i), ij_price = format_int (oi_price i), ij_qty = oi_qty i\<rparr>"

definition toOrderJSON :: "(uid \<Rightarrow> string) \<Rightarrow> string \<Rightarrow> order_view \<Rightarrow> order_json" where
  "toOrderJSON us base v = \<lparr>oj_id = us (ov_id v), oj_no = ov_no v, oj_status = status_text (ov_status v),
     oj_total = format_int (ov_total v), oj_receiver = ov_receiver v, oj_phone = ov_phone v,
     oj_address = ov_address v, oj_items = map (toItemJSON us base) (ov_items v),
     oj_paid_at = whole_second (ov_paid_at v),
     oj_shipped_at = map_option whole_second (ov_shipped_at v),
     oj_completed_at = map_option whole_second (ov_completed_at v),
     oj_refunded_at = map_option whole_second (ov_refunded_at v),
     oj_refund_reason = ov_refund_reason v, oj_reject_reason = ov_reject_reason v,
     oj_created = whole_second (ov_created v)\<rparr>"

record ledger_json =
  lj_id :: string
  lj_order :: "string option"
  lj_type :: string
  lj_delta :: string
  lj_after :: string
  lj_remark :: string
  lj_created :: time

definition ledger_type_text :: "ledger_type \<Rightarrow> string" where
  "ledger_type_text t = (case t of OrderPay \<Rightarrow> ''order_pay'' | OrderRefund \<Rightarrow> ''order_refund''
     | SignupBonus \<Rightarrow> ''signup_bonus'' | AdminAdjust \<Rightarrow> ''admin_adjust'')"

definition toLedgerJSON :: "(uid \<Rightarrow> string) \<Rightarrow> ledger_entry \<Rightarrow> ledger_json" where
  "toLedgerJSON us e = \<lparr>lj_id = us (le_id e), lj_order = map_option us (le_order e),
     lj_type = ledger_type_text (le_type e), lj_delta = format_int (le_delta e),
     lj_after = format_int (le_after e), lj_remark = le_remark e, lj_created = whole_second (le_created e)\<rparr>"

section \<open>Buyers\<close>

definition CreateOrder ::
  "(string \<Rightarrow> uid option) \<Rightarrow> string \<Rightarrow> env \<Rightarrow> db \<Rightarrow> request \<Rightarrow> order_create_request option
   \<Rightarrow> gin_context \<Rightarrow> db \<Rightarrow> order_json reply \<times> db" where
  "CreateOrder up base env early rq body cx d =
     with_buyer up (e_us env) cx d (\<lambda>userID.
     let idempotencyKey = GetHeader rq ''Idempotency-Key'' in
     if idempotencyKey = [] then (Inl (bad_request ''Idempotency-Key header is required''), d)
     else with_body ''invalid order payload'' body d (\<lambda>req.
     with_parsed (parseOrderCreateRequest up (e_us env) req) d (\<lambda>parsed.
     answer 200 (toOrderJSON (e_us env) base) mapCreateOrderError
       (Execute env userID idempotencyKey parsed early d))))"

definition ListOrders ::
  "(string \<Rightarrow> uid option) \<Rightarrow> (uid \<Rightarrow> string) \<Rightarrow> string \<Rightarrow> request \<Rightarrow> gin_context \<Rightarrow> db
   \<Rightarrow> order_json listing reply \<times> db" where
  "ListOrders up us base rq cx d =
     with_buyer up us cx d (\<lambda>userID.
     with_parsed (parsePaging 20 rq) d (\<lambda>(page, pageSize).
     with_parsed (parseOrderStatusQuery rq) d (\<lambda>status.
     (Inr (200, page_data (toOrderJSON us base) page pageSize
        (order_list userID page pageSize status d)), d))))"

definition order_or_404 ::
  "(uid \<Rightarrow> string) \<Rightarrow> string \<Rightarrow> err + order_view \<Rightarrow> db \<Rightarrow> order_json reply \<times> db" where
  "order_or_404 us base r d = (case r of
       Inl e \<Rightarrow>
         if e = ErrOrderNotFound then (Inl (HttpError 404 CodeNotFound (Text ''order not found'')), d)
         else (Inl internalError, d)
     | Inr order \<Rightarrow> (Inr (200, toOrderJSON us base order), d))"

definition GetOrder ::
  "(string \<Rightarrow> uid option) \<Rightarrow> (uid \<Rightarrow> string) \<Rightarrow> string \<Rightarrow> request \<Rightarrow> gin_context \<Rightarrow> db
   \<Rightarrow> order_json reply \<times> db" where
  "GetOrder up us base rq cx d =
     with_buyer up us cx d (\<lambda>userID.
     with_id up us (Param rq ''orderId'') ''invalid order id'' d (\<lambda>orderID.
     order_or_404 us base (order_get userID orderID d) d))"

definition ListPointsLedger ::
  "(string \<Rightarrow> uid option) \<Rightarrow> (uid \<Rightarrow> string) \<Rightarrow> request \<Rightarrow> gin_context \<Rightarrow> db
   \<Rightarrow> ledger_json listing reply \<times> db" where
  "ListPointsLedger up us rq cx d =
     with_buyer up us cx d (\<lambda>userID.
     with_parsed (parsePaging 20 rq) d (\<lambda>(page, pageSize).
     (Inr (200, page_data (toLedgerJSON us) page pageSize
        (order_list_ledger userID page pageSize d)), d)))"

text \<open>The bodies of the two refund requests are their reason.\<close>

definition RequestRefund ::
  "(string \<Rightarrow> uid option) \<Rightarrow> (uid \<Rightarrow> string) \<Rightarrow> string \<Rightarrow> request \<Rightarrow> string option \<Rightarrow> gin_context
   \<Rightarrow> db \<Rightarrow> order_json reply \<times> db" where
  "RequestRefund up us base rq body cx d =
     with_buyer up us cx d (\<lambda>userID.
     with_id up us (Param rq ''orderId'') ''invalid order id'' d (\<lambda>orderID.
     with_body ''invalid refund payload'' body d (\<lambda>reason.
     answer 200 (toOrderJSON us base) mapRefundError (RefundRequest userID orderID reason d))))"

definition ConfirmOrder ::
  "(string \<Rightarrow> uid option) \<Rightarrow> (uid \<Rightarrow> string) \<Rightarrow> string \<Rightarrow> time \<Rightarrow> request \<Rightarrow> gin_context \<Rightarrow> db
   \<Rightarrow> order_json reply \<times> db" where
  "ConfirmOrder up us base now rq cx d =
     with_buyer up us cx d (\<lambda>userID.
     with_id up us (Param rq ''orderId'') ''invalid order id'' d (\<lambda>orderID.
     answer 200 (toOrderJSON us base) mapRefundError (Confirm now userID orderID d)))"

section \<open>Administrators\<close>

definition AdminListLedger ::
  "(string \<Rightarrow> uid option) \<Rightarrow> (uid \<Rightarrow> string) \<Rightarrow> request \<Rightarrow> gin_context \<Rightarrow> db
   \<Rightarrow> ledger_json listing reply \<times> db" where
  "AdminListLedger up us rq cx d =
     with_id up us (Query rq ''user_id'') ''invalid user_id'' d (\<lambda>userID.
     with_parsed (parsePaging 20 rq) d (\<lambda>(page, pageSize).
     (Inr (200, page_data (toLedgerJSON us) page pageSize
        (order_list_ledger userID page pageSize d)), d)))"

definition AdminListOrders ::
  "(uid \<Rightarrow> string) \<Rightarrow> string \<Rightarrow> request \<Rightarrow> gin_context \<Rightarrow> db \<Rightarrow> order_json listing reply \<times> db" where
  "AdminListOrders us base rq cx d =
     with_parsed (parsePaging 20 rq) d (\<lambda>(page, pageSize).
     with_parsed (parseOrderStatusQuery rq) d (\<lambda>status.
     (Inr (200, page_data (toOrderJSON us base) page pageSize
        (order_list_all page pageSize status d)), d)))"

definition AdminGetOrder ::
  "(string \<Rightarrow> uid option) \<Rightarrow> (uid \<Rightarrow> string) \<Rightarrow> string \<Rightarrow> request \<Rightarrow> gin_context \<Rightarrow> db
   \<Rightarrow> order_json reply \<times> db" where
  "AdminGetOrder up us base rq cx d =
     with_id up us (Param rq ''orderId'') ''invalid order id'' d (\<lambda>orderID.
     order_or_404 us base (order_get_admin orderID d) d)"

definition AdminShipOrder ::
  "(string \<Rightarrow> uid option) \<Rightarrow> (uid \<Rightarrow> string) \<Rightarrow> string \<Rightarrow> uid \<Rightarrow> uid \<Rightarrow> time \<Rightarrow> request \<Rightarrow> gin_context
   \<Rightarrow> db \<Rightarrow> order_json reply \<times> db" where
  "AdminShipOrder up us base ai fi now rq cx d =
     with_admin up us cx d (\<lambda>adminID.
     with_id up us (Param rq ''orderId'') ''invalid order id'' d (\<lambda>orderID.
     answer 200 (toOrderJSON us base) mapRefundError (Ship True ai fi now adminID orderID d)))"

definition AdminApproveRefund ::
  "(string \<Rightarrow> uid option) \<Rightarrow> (uid \<Rightarrow> string) \<Rightarrow> string \<Rightarrow> uid \<Rightarrow> uid \<Rightarrow> uid \<Rightarrow> time \<Rightarrow> request
   \<Rightarrow> gin_context \<Rightarrow> db \<Rightarrow> order_json reply \<times> db" where
  "AdminApproveRefund up us base li ai fi now rq cx d =
     with_admin up us cx d (\<lambda>adminID.
     with_id up us (Param rq ''orderId'') ''invalid order id'' d (\<lambda>orderID.
     answer 200 (toOrderJSON us base) mapRefundError
       (RefundApprove True us li ai fi now adminID orderID d)))"

definition AdminRejectRefund ::
  "(string \<Rightarrow> uid option) \<Rightarrow> (uid \<Rightarrow> string) \<Rightarrow> string \<Rightarrow> uid \<Rightarrow> uid \<Rightarrow> time \<Rightarrow> request
   \<Rightarrow> string option \<Rightarrow> gin_context \<Rightarrow> db \<Rightarrow> order_json reply \<times> db" where
  "AdminRejectRefund up us base ai fi now rq body cx d =
     with_admin up us cx d (\<lambda>adminID.
     with_id up us (Param rq ''orderId'') ''invalid order id'' d (\<lambda>orderID.
     with_body ''invalid refund payload'' body d (\<lambda>reason.
     answer 200 (toOrderJSON us base) mapRefundError
       (RefundReject True ai fi now adminID orderID reason d))))"

definition AdminListRefunds ::
  "(uid \<Rightarrow> string) \<Rightarrow> string \<Rightarrow> request \<Rightarrow> gin_context \<Rightarrow> db \<Rightarrow> order_json listing reply \<times> db" where
  "AdminListRefunds us base rq cx d =
     with_parsed (parsePaging 20 rq) d (\<lambda>(page, pageSize).
     (Inr (200, page_data (toOrderJSON us base) page pageSize (order_list_refunds page pageSize d)), d))"

definition AdjustPointsHandler ::
  "(string \<Rightarrow> uid option) \<Rightarrow> (uid \<Rightarrow> string) \<Rightarrow> (uid \<times> int \<times> string \<Rightarrow> string) \<Rightarrow> uid \<Rightarrow> uid \<Rightarrow> uid
   \<Rightarrow> time \<Rightarrow> db \<Rightarrow> request \<Rightarrow> points_adjust_request option \<Rightarrow> gin_context \<Rightarrow> db
   \<Rightarrow> ledger_json reply \<times> db" where
  "AdjustPointsHandler up us hash li ai fi now early rq body cx d =
     with_admin up us cx d (\<lambda>adminID.
     let idempotencyKey = GetHeader rq ''Idempotency-Key'' in
     if idempotencyKey = [] then (Inl (bad_request ''Idempotency-Key header is required''), d)
     else with_body ''invalid points payload'' body d (\<lambda>req.
     with_parsed (parsePointsAdjustRequest up us req) d (\<lambda>adjust.
     answer 200 (toLedgerJSON us) mapAdjustPointsError
       (AdjustPoints hash us True li ai fi now adminID idempotencyKey adjust early d))))"

end
