(* ===== verification/Endpoints.thy ===== *)
theory Endpoints
  imports OrderHandlers Guards
begin

text \<open>
  What the endpoints of orders and points add to the usecases behind them: who a request acts for,
  which texts are accepted as numbers and ids, what a refusal leaves behind.
\<close>

section \<open>Numbers and ids\<close>

lemma format_int_Nil [simp]: "format_int n \<noteq> []"
  by (simp add: format_int_def)

lemma signed_text:
  assumes "has_prefix s ''-''"
  obtains cs where "s = CHR ''-'' # cs" "drop 1 s = cs"
  using assms by (cases s) (auto simp: has_prefix_def)

text \<open>The accepted texts of a signed number are the printed ones, zero apart.\<close>

lemma signed_delta_iff:
  "signedIntPattern s \<and> parse_int64 s = Some n \<longleftrightarrow> in64 n \<and> n \<noteq> 0 \<and> s = format_int n"
proof
  assume a: "signedIntPattern s \<and> parse_int64 s = Some n"
  define digits where "digits = (if has_prefix s ''-'' then drop 1 s else s)"
  obtain c cs where d: "digits = c # cs" "is_digit c" "list_all is_digit cs" "c \<noteq> CHR ''0''"
    using a by (cases digits) (auto simp: signedIntPattern_def Let_def digits_def[symmetric])
  have v: "0 < digits_value digits" using digits_value_pos[OF d(4,2,3)] d(1) by simp
  have f: "format_nat (digits_value digits) = digits" using format_digits_value[OF d(2,4,3)] d(1) by simp
  show "in64 n \<and> n \<noteq> 0 \<and> s = format_int n"
  proof (cases "has_prefix s ''-''")
    case True
    then have s: "s = CHR ''-'' # digits" by (cases s) (auto simp: has_prefix_def digits_def)
    then have "n = - int (digits_value digits)" "in64 n"
      using a by (auto simp: parse_int64_def Let_def split: if_splits)
    then show ?thesis using v f s by (simp add: format_int_def)
  next
    case False
    then have s: "s = digits" by (simp add: digits_def)
    have "c \<noteq> CHR ''-''" "c \<noteq> CHR ''+''" using d(2) not_digit_sign by auto
    then have "n = int (digits_value digits)" "in64 n"
      using a s d(1) by (auto simp: parse_int64_def Let_def split: if_splits)
    then show ?thesis using v f s by (simp add: format_int_def)
  qed
next
  assume a: "in64 n \<and> n \<noteq> 0 \<and> s = format_int n"
  then have p: "parse_int64 s = Some n" using parse_format_int by blast
  define m where "m = nat (abs n)"
  have m: "0 < m" using a by (simp add: m_def)
  have d: "list_all is_digit (format_nat m)" "format_nat m \<noteq> []" "hd (format_nat m) \<noteq> CHR ''0''"
    using digits_format_nat[of m] format_nat_not_Nil[of m] hd_format_nat_pos[OF m] by auto
  have h: "hd (format_nat m) \<noteq> CHR ''-''" using hd_format_nat[of m] not_digit_sign by metis
  show "signedIntPattern s \<and> parse_int64 s = Some n"
  proof (cases "n < 0")
    case True
    then have "s = CHR ''-'' # format_nat m" using a by (simp add: format_int_def m_def)
    then show ?thesis using d p by (simp add: signedIntPattern_def has_prefix_def)
  next
    case False
    then have s: "s = format_nat m" using a by (simp add: format_int_def m_def)
    moreover have "\<not> has_prefix (format_nat m) ''-''"
      using h d(2) by (cases "format_nat m") (auto simp: has_prefix_def)
    ultimately show ?thesis using d p by (simp add: signedIntPattern_def)
  qed
qed

lemma ParseCanonical_Inr: "ParseCanonical up us raw = Inr i \<longleftrightarrow> up raw = Some i \<and> us i = raw"
  by (auto simp: ParseCanonical_def split: option.splits)

text \<open>
  A points adjustment is read exactly from its printed form: the canonical text of the buyer's id
  and of a delta that is not zero and fits 64 bits, with a remark that is not blank.
\<close>

theorem points_request_canonical:
  "parsePointsAdjustRequest up us req = Inr p \<longleftrightarrow>
   publicIDPattern (pr_user req) \<and> up (pr_user req) = Some (pa_user p) \<and> pr_user req = us (pa_user p) \<and>
   in64 (pa_delta p) \<and> pa_delta p \<noteq> 0 \<and> pr_delta req = format_int (pa_delta p) \<and>
   trim_space (pr_remark req) \<noteq> [] \<and> pa_remark p = pr_remark req"
proof -
  have "parsePointsAdjustRequest up us req = Inr p \<longleftrightarrow>
      publicIDPattern (pr_user req) \<and> ParseCanonical up us (pr_user req) = Inr (pa_user p) \<and>
      (signedIntPattern (pr_delta req) \<and> parse_int64 (pr_delta req) = Some (pa_delta p)) \<and>
      trim_space (pr_remark req) \<noteq> [] \<and> pa_remark p = pr_remark req"
    by (cases p) (auto simp: parsePointsAdjustRequest_def split: sum.splits option.splits if_splits)
  then show ?thesis
    unfolding signed_delta_iff ParseCanonical_Inr eq_commute[of "us (pa_user p)" "pr_user req"] by blast
qed

text \<open>What a checkout request that is accepted selects: each of its ids once, in its order.\<close>

lemma parse_cart_ids_Inr:
  "parse_cart_ids up us seen raws = Inr ids \<Longrightarrow>
   map us ids = raws \<and> distinct ids \<and> set ids \<inter> set seen = {}"
proof (induction up us seen raws arbitrary: ids rule: parse_cart_ids.induct)
  case (2 up us seen raw raws)
  from "2.prems" obtain i js where i: "ParseCanonical up us raw = Inr i" "i \<notin> set seen"
    "parse_cart_ids up us (i # seen) raws = Inr js" "ids = i # js" "publicIDPattern raw"
    by (auto simp: sbind_eq_Inr split: if_splits sum.splits)
  have "map us js = raws \<and> distinct js \<and> set js \<inter> set (i # seen) = {}"
    using "2.IH"[of i js] i by simp
  then show ?case using i(1,2,4) by (auto simp: ParseCanonical_Inr)
qed simp

lemma parseOrderCreateRequest_Inr:
  assumes "parseOrderCreateRequest up us req = Inr p"
  shows "map us (CartItemIDs p) = oc_cart_items req \<and> distinct (CartItemIDs p) \<and> CartItemIDs p \<noteq> [] \<and>
    us (AddressID p) = oc_address req"
  using assms
  by (auto simp: parseOrderCreateRequest_def sbind_eq_Inr ParseCanonical_Inr split: sum.splits if_splits
      dest!: parse_cart_ids_Inr)

section \<open>Checkout\<close>

text \<open>
  C31: The checkout endpoint: an answer other than success, from the gate, the parser or the usecase,
  leaves every table as it was; a success is the usecase's work for the buyer the token names, who
  exists, on the selection and the address of the request.
\<close>

theorem checkout_endpoint:
  assumes "buyer_endpoint g now rq (CreateOrder (ge_up g) base env early rq body) d = (r, d')"
    and "e_us env = ge_us g"
  shows "case r of
      Inl e \<Rightarrow> d' = d
    | Inr (st, j) \<Rightarrow> st = 200 \<and> (\<exists>raw c i req p v. ge_service g raw now = Inr c \<and>
        cl_subject c = ''buyer:'' @ ge_us g i \<and> i \<in> u_id ` set (users d) \<and> body = Some req \<and>
        map (ge_us g) (CartItemIDs p) = oc_cart_items req \<and> distinct (CartItemIDs p) \<and>
        ge_us g (AddressID p) = oc_address req \<and>
        Execute env i (GetHeader rq ''Idempotency-Key'') p early d = (Inr v, d') \<and>
        j = toOrderJSON (ge_us g) base v)"
proof (cases "buyer_session g now rq d")
  case (Inl e)
  then show ?thesis using assms(1) by (auto simp: buyer_endpoint_def)
next
  case (Inr cx)
  obtain raw c i where b: "ge_service g raw now = Inr c" "cl_subject c = ''buyer:'' @ ge_us g i"
    "i \<in> u_id ` set (users d)" "buyerIDFromGin (ge_up g) (ge_us g) cx = Some i"
    by (rule buyer_session_InrD[OF Inr])
  have h: "CreateOrder (ge_up g) base env early rq body cx d = (r, d')"
    using assms(1) Inr by (simp add: buyer_endpoint_def)
  show ?thesis
  proof (cases "body = None \<or> GetHeader rq ''Idempotency-Key'' = [] \<or>
      (\<exists>e. parseOrderCreateRequest (ge_up g) (ge_us g) (the body) = Inl e)")
    case True
    then have "\<exists>e. r = Inl e" "d' = d"
      using h b(4) by (cases body; auto simp: CreateOrder_def with_defs Let_def assms(2) split: if_splits sum.splits)+
    then show ?thesis by auto
  next
    case False
    then obtain req p where req: "body = Some req" "parseOrderCreateRequest (ge_up g) (ge_us g) req = Inr p"
      by (cases body; cases "parseOrderCreateRequest (ge_up g) (ge_us g) (the body)") auto
    let ?x = "Execute env i (GetHeader rq ''Idempotency-Key'') p early d"
    have "(r, d') = answer 200 (toOrderJSON (ge_us g) base) mapCreateOrderError ?x"
      using h b(4) req False by (simp add: CreateOrder_def with_defs assms(2))
    then consider e where "r = Inl (mapped mapCreateOrderError e)" "?x = (Inl e, d')"
      | v where "r = Inr (200, toOrderJSON (ge_us g) base v)" "?x = (Inr v, d')"
      by (auto simp: answer_def split: prod.splits sum.splits)
    then show ?thesis
    proof cases
      case 1
      then show ?thesis by (simp add: Execute_error_atomic)
    next
      case 2
      then show ?thesis
        using b(1-3) req(1) parseOrderCreateRequest_Inr[OF req(2)] unfolding 2(1) sum.case prod.case by blast
    qed
  qed
qed

definition buyer_us :: "uid \<Rightarrow> string" where
  "buyer_us i = (let n = format_nat (unat i) in
     ''00000000-0000-0000-0000-'' @ replicate (12 - length n) (CHR ''0'') @ n)"

definition buyer_gate :: gate_env where
  "buyer_gate = \<lparr>ge_lower = (\<lambda>s. s), ge_url = (\<lambda>s. None), ge_origins = [], ge_cookie = [], ge_csrf = [],
     ge_up = (\<lambda>s. find (\<lambda>i. buyer_us i = s) [1, 2, 21, 31, 32, 71]), ge_us = buyer_us,
     ge_service = (\<lambda>raw now. if raw = ''tok'' then Inr \<lparr>cl_issuer = ''mall'',
       cl_subject = ''buyer:'' @ buyer_us 1, cl_audience = [''mini''], cl_expires = Some 90, cl_issued = Some 5,
       cl_not_before = Some 5, cl_jti = ''j'', cl_version = 0\<rparr> else Inl (ErrOther ''JWT''))\<rparr>"

definition buyer_request :: request where
  "buyer_request = \<lparr>rq_method = ''POST'', rq_path = ''/api/v1/orders'',
     rq_headers = [(''Authorization'', ''Bearer tok''), (''Idempotency-Key'', ''key-1'')],
     rq_cookies = [], rq_query = [], rq_params = []\<rparr>"

definition buyer_body :: order_create_request where
  "buyer_body = \<lparr>oc_cart_items = [buyer_us 31, buyer_us 32], oc_address = buyer_us 21\<rparr>"

definition buyer_env :: env where
  "buyer_env = demo_env\<lparr>e_us := buyer_us\<rparr>"

definition buyer_ordered :: db where
  "buyer_ordered = snd (buyer_endpoint buyer_gate 10 buyer_request
     (CreateOrder (ge_up buyer_gate) [] buyer_env demo_db buyer_request (Some buyer_body)) demo_db)"

lemma checkout_endpoint_witness:
  "\<exists>i p v. map buyer_us (CartItemIDs p) = oc_cart_items buyer_body \<and>
     Execute buyer_env i ''key-1'' p demo_db demo_db = (Inr v, buyer_ordered)"
proof -
  let ?p = "buyer_endpoint buyer_gate 10 buyer_request
     (CreateOrder (ge_up buyer_gate) [] buyer_env demo_db buyer_request (Some buyer_body)) demo_db"
  have "\<not> isl (fst ?p)" by code_simp
  then have e: "?p = (Inr (projr (fst ?p)), snd ?p)" by (rule returned)
  have u: "e_us buyer_env = ge_us buyer_gate" "ge_us buyer_gate = buyer_us"
    by (simp_all add: buyer_env_def demo_env_def buyer_gate_def)
  have k: "GetHeader buyer_request ''Idempotency-Key'' = ''key-1''" by code_simp
  show ?thesis
    using checkout_endpoint[OF e u(1)] unfolding u(2) k buyer_ordered_def
    by (cases "projr (fst ?p)") auto
qed

section \<open>Reads\<close>

lemma pageSelect_rows:
  "pageSelect d base page pageSize = (rows, n) \<Longrightarrow> 0 \<le> pageSize \<Longrightarrow>
   n = length base \<and> length rows \<le> nat pageSize \<and> (\<forall>x\<in>set rows. \<exists>r\<in>set base. x = preload_items d r)"
  using set_offset_limit[of "int64 (int64 (page - 1) * pageSize)" pageSize "sort_desc (\<lambda>r. (o_created r, o_id r)) base"]
    length_offset_limit[of pageSize "int64 (int64 (page - 1) * pageSize)" "sort_desc (\<lambda>r. (o_created r, o_id r)) base"]
  by (auto simp: pageSelect_def) blast

lemma order_list_rows:
  assumes "0 \<le> pageSize"
  shows "snd (order_list u page pageSize status d) =
      length (filter (\<lambda>r. o_user r = u \<and> has_status status r) (orders d)) \<and>
    length (fst (order_list u page pageSize status d)) \<le> nat pageSize \<and>
    (\<forall>v\<in>set (fst (order_list u page pageSize status d)). \<exists>r\<in>set (orders d). o_user r = u \<and>
       has_status status r \<and> v = ToOrder (preload_items d r))"
proof -
  obtain rows n where p: "pageSelect d (filter (\<lambda>r. o_user r = u \<and> has_status status r) (orders d))
      page pageSize = (rows, n)" by fastforce
  show ?thesis using pageSelect_rows[OF p assms] p by (fastforce simp: order_list_def OrdersByUser_def)
qed

text \<open>
  C32: The list of orders shows a buyer nothing but orders of the account the token names, at most a
  hundred of them, and counts exactly those; reading changes nothing.
\<close>

theorem buyer_lists_own_orders:
  assumes "buyer_endpoint g now rq (ListOrders (ge_up g) (ge_us g) base rq) d = (Inr (st, page), d')"
  shows "d' = d \<and> length (pd_list page) \<le> 100 \<and> (\<exists>raw c i status. ge_service g raw now = Inr c \<and>
    cl_subject c = ''buyer:'' @ ge_us g i \<and> parseOrderStatusQuery rq = Inr status \<and>
    pd_total page = length (filter (\<lambda>r. o_user r = i \<and> has_status status r) (orders d)) \<and>
    (\<forall>j\<in>set (pd_list page). \<exists>r\<in>set (orders d). o_user r = i \<and> has_status status r \<and>
       j = toOrderJSON (ge_us g) base (ToOrder (preload_items d r))))"
proof (cases "buyer_session g now rq d")
  case (Inl e)
  then show ?thesis using assms by (simp add: buyer_endpoint_def)
next
  case (Inr cx)
  obtain raw c i where b: "ge_service g raw now = Inr c" "cl_subject c = ''buyer:'' @ ge_us g i"
    "buyerIDFromGin (ge_up g) (ge_us g) cx = Some i"
    by (rule buyer_session_InrD[OF Inr])
  have h: "ListOrders (ge_up g) (ge_us g) base rq cx d = (Inr (st, page), d')"
    using assms Inr by (simp add: buyer_endpoint_def)
  note ld = ListOrders_def with_buyer_def with_parsed_def
  obtain n k where q1: "parsePaging 20 rq = Inr (n, k)"
    using h b(3) by (cases "parsePaging 20 rq") (simp_all add: ld split: prod.splits)
  obtain status where q2: "parseOrderStatusQuery rq = Inr status"
    using h b(3) q1 by (cases "parseOrderStatusQuery rq") (simp_all add: ld)
  have page: "page = page_data (toOrderJSON (ge_us g) base) n k (order_list i n k status d)" "d' = d"
    using h b(3) q1 q2 by (auto simp: ld)
  have k: "1 \<le> k" "k \<le> 100" using parsePaging_InrD[OF q1] by auto
  note rows = order_list_rows[of k i n status d]
  have "length (pd_list page) \<le> nat k" using rows k by (simp add: page page_data_def)
  then have "length (pd_list page) \<le> 100" using k(2) by simp
  moreover have "pd_total page = length (filter (\<lambda>r. o_user r = i \<and> has_status status r) (orders d))"
    using rows k by (simp add: page page_data_def)
  moreover have "\<forall>j\<in>set (pd_list page). \<exists>r\<in>set (orders d). o_user r = i \<and> has_status status r \<and>
       j = toOrderJSON (ge_us g) base (ToOrder (preload_items d r))"
  proof
    fix j assume "j \<in> set (pd_list page)"
    then obtain v where "v \<in> set (fst (order_list i n k status d))" "j = toOrderJSON (ge_us g) base v"
      by (auto simp: page page_data_def)
    then show "\<exists>r\<in>set (orders d). o_user r = i \<and> has_status status r \<and>
       j = toOrderJSON (ge_us g) base (ToOrder (preload_items d r))" using rows k by fastforce
  qed
  ultimately show ?thesis using page(2) b(1,2) q2 by blast
qed

lemma buyer_lists_own_orders_witness:
  "\<exists>st page. buyer_endpoint buyer_gate 10 buyer_request
      (ListOrders (ge_up buyer_gate) buyer_us [] buyer_request) buyer_ordered =
      (Inr (st, page), buyer_ordered) \<and> length (pd_list page) \<le> 100"
proof -
  let ?p = "buyer_endpoint buyer_gate 10 buyer_request
      (ListOrders (ge_up buyer_gate) (ge_us buyer_gate) [] buyer_request) buyer_ordered"
  have "\<not> isl (fst ?p)" by code_simp
  then obtain st page d' where e: "?p = (Inr (st, page), d')"
    using returned[of ?p] by (metis prod.collapse)
  have "d' = buyer_ordered" "length (pd_list page) \<le> 100" using buyer_lists_own_orders[OF e] by blast+
  moreover have "ge_us buyer_gate = buyer_us" by (simp add: buyer_gate_def)
  ultimately show ?thesis using e by metis
qed

end
