(* ===== verification/BuyerHandlers.thy ===== *)
theory BuyerHandlers
  imports Http Cart Address User
begin

text \<open>
  The endpoints of the catalogue (\<open>internal/product/handler.go\<close>), the cart
  (\<open>internal/cart/cart_handler.go\<close>), addresses and profile (\<open>internal/user/address_handler.go\<close>,
  \<open>profile_handler.go\<close>), and the login of buyers (\<open>internal/application/auth/login.go\<close>,
  \<open>handler.go\<close>). A body is the record of its fields, a pointer field an option; a body with one
  field is that field.

  \<open>wechat\<close> is \<open>Code2Session\<close>, which yields the open and the union id; the session key it yields too
  is dropped at once. \<open>issue\<close> is the signer of buyers' tokens, \<open>client_ip\<close> gin's \<open>ClientIP\<close>.
\<close>

section \<open>Products\<close>

record product_json =
  pj_id :: string
  pj_name :: string
  pj_description :: string
  pj_category :: string
  pj_main :: string
  pj_images :: "string list"
  pj_price :: string
  pj_stock :: int
  pj_status :: string

definition toProductJSON :: "(uid \<Rightarrow> string) \<Rightarrow> product_view \<Rightarrow> product_json" where
  "toProductJSON us v = \<lparr>pj_id = us (pv_id v), pj_name = pv_name v, pj_description = pv_description v,
     pj_category = pv_category v, pj_main = pv_main v, pj_images = pv_images v,
     pj_price = format_int (pv_price v), pj_stock = pv_stock v, pj_status = pv_status v\<rparr>"

record product_write_request =
  pw_name :: string
  pw_description :: string
  pw_category :: string
  pw_images :: "string list"
  pw_price :: string
  pw_stock :: "int option"
  pw_status :: "string option"

definition stockValue :: "int option \<Rightarrow> int" where
  "stockValue v = (case v of None \<Rightarrow> 0 | Some n \<Rightarrow> n)"

definition product_toInput :: "product_write_request \<Rightarrow> product_input" where
  "product_toInput r = \<lparr>pi_name = pw_name r, pi_description = pw_description r,
     pi_category = pw_category r, pi_images = pw_images r, pi_price = pw_price r,
     pi_stock = stockValue (pw_stock r),
     pi_status = (case pw_status r of None \<Rightarrow> [] | Some s \<Rightarrow> s)\<rparr>"

definition mapProductError :: "err \<Rightarrow> int \<times> int" where
  "mapProductError e = (case e of
       ErrInvalidPrice _ \<Rightarrow> (422, CodeBusiness)
     | ErrInvalidProduct _ \<Rightarrow> (422, CodeBusiness)
     | ErrEmptyProductUpdate \<Rightarrow> (422, CodeBusiness)
     | _ \<Rightarrow> (500, CodeInternal))"

text \<open>What the four reads answer: a refused filter is 400, a missing product 404.\<close>

definition product_page ::
  "(uid \<Rightarrow> string) \<Rightarrow> string \<Rightarrow> int \<Rightarrow> int \<Rightarrow> err + product_view list \<times> nat \<Rightarrow> db
   \<Rightarrow> product_json listing reply \<times> db" where
  "product_page us message page pageSize r d = (case r of
       Inl (ErrInvalidProduct m) \<Rightarrow> (Inl (bad_request message), d)
     | Inl e \<Rightarrow> (Inl internalError, d)
     | Inr p \<Rightarrow> (Inr (200, page_data (toProductJSON us) page pageSize p), d))"

definition product_or_404 ::
  "(uid \<Rightarrow> string) \<Rightarrow> err + product_view \<Rightarrow> db \<Rightarrow> product_json reply \<times> db" where
  "product_or_404 us r d = (case r of
       Inl e \<Rightarrow>
         if e = ErrProductNotFound then (Inl (HttpError 404 CodeNotFound (Text ''product not found'')), d)
         else (Inl internalError, d)
     | Inr p \<Rightarrow> (Inr (200, toProductJSON us p), d))"

definition ListProducts ::
  "(string \<Rightarrow> string \<Rightarrow> bool) \<Rightarrow> (uid \<Rightarrow> string) \<Rightarrow> string \<Rightarrow> request \<Rightarrow> db
   \<Rightarrow> product_json listing reply \<times> db" where
  "ListProducts ilike us base rq d =
     with_parsed (parsePaging 10 rq) d (\<lambda>(page, pageSize).
     product_page us ''invalid category filter'' page pageSize
       (ListPublic ilike base page pageSize (Query rq ''category'')
         (trim_space (Query rq ''keyword'')) d) d)"

definition ListCategoriesHandler :: "db \<Rightarrow> category_info list reply \<times> db" where
  "ListCategoriesHandler d = (Inr (200, ListCategories d), d)"

definition GetProduct ::
  "(string \<Rightarrow> uid option) \<Rightarrow> (uid \<Rightarrow> string) \<Rightarrow> string \<Rightarrow> request \<Rightarrow> db \<Rightarrow> product_json reply \<times> db" where
  "GetProduct up us base rq d =
     with_id up us (Param rq ''productId'') ''invalid product id'' d (\<lambda>i.
     product_or_404 us (GetPublic base i d) d)"

definition AdminListProducts ::
  "(uid \<Rightarrow> string) \<Rightarrow> string \<Rightarrow> request \<Rightarrow> gin_context \<Rightarrow> db \<Rightarrow> product_json listing reply \<times> db" where
  "AdminListProducts us base rq cx d =
     with_parsed (parsePaging 20 rq) d (\<lambda>(page, pageSize).
     let raw = Query rq ''status''; status = (if raw = [] then None else Some raw) in
     product_page us ''invalid status filter'' page pageSize (ListAdmin base page pageSize status d) d)"

definition AdminCreateProduct ::
  "(string \<Rightarrow> uid option) \<Rightarrow> (uid \<Rightarrow> string) \<Rightarrow> string \<Rightarrow> uid \<Rightarrow> uid \<Rightarrow> product_write_request option
   \<Rightarrow> gin_context \<Rightarrow> db \<Rightarrow> product_json reply \<times> db" where
  "AdminCreateProduct up us base pid aid body cx d =
     with_body ''invalid product payload'' body d (\<lambda>req.
     if pw_stock req = None then (Inl (bad_request ''stock is required''), d)
     else case resolveActor up us cx d of
         None \<Rightarrow> (Inl missing_admin, d)
       | Some actor \<Rightarrow>
         answer 201 (toProductJSON us) mapProductError
           (product_create base pid aid actor (product_toInput req) d))"

definition AdminGetProduct ::
  "(string \<Rightarrow> uid option) \<Rightarrow> (uid \<Rightarrow> string) \<Rightarrow> string \<Rightarrow> request \<Rightarrow> gin_context \<Rightarrow> db
   \<Rightarrow> product_json reply \<times> db" where
  "AdminGetProduct up us base rq cx d =
     with_id up us (Param rq ''productId'') ''invalid product id'' d (\<lambda>i.
     product_or_404 us (GetAdmin base i d) d)"

text \<open>The body of a patch is \<open>ProductUpdate\<close> itself. The keys it drops are touched by the service.\<close>

definition AdminUpdateProduct ::
  "(string \<Rightarrow> uid option) \<Rightarrow> (uid \<Rightarrow> string) \<Rightarrow> string \<Rightarrow> uid \<Rightarrow> request \<Rightarrow> product_update option
   \<Rightarrow> gin_context \<Rightarrow> db \<Rightarrow> product_json reply \<times> db" where
  "AdminUpdateProduct up us base aid rq body cx d =
     with_id up us (Param rq ''productId'') ''invalid product id'' d (\<lambda>i.
     with_body ''invalid product payload'' body d (\<lambda>req.
     case resolveActor up us cx d of
       None \<Rightarrow> (Inl missing_admin, d)
     | Some actor \<Rightarrow>
       (case product_update_op base aid actor i req d of
          (Inl e, d') \<Rightarrow>
            if e = ErrProductNotFound
            then (Inl (HttpError 404 CodeNotFound (Text ''product not found'')), d')
            else (Inl (mapped mapProductError e), d')
        | (Inr (product, dropped), d') \<Rightarrow> (Inr (200, toProductJSON us product), d'))))"

section \<open>Cart\<close>

record cart_item_json =
  xj_id :: string
  xj_product_id :: string
  xj_qty :: int
  xj_product :: product_json

text \<open>The product nested in a line is the projection without category and gallery.\<close>

definition toCartProductJSON :: "(uid \<Rightarrow> string) \<Rightarrow> product_view \<Rightarrow> product_json" where
  "toCartProductJSON us v = (toProductJSON us v)\<lparr>pj_category := [], pj_images := []\<rparr>"

definition toCartItemJSON :: "(uid \<Rightarrow> string) \<Rightarrow> cart_view \<Rightarrow> cart_item_json" where
  "toCartItemJSON us v = \<lparr>xj_id = us (cv_id v), xj_product_id = us (cv_product v), xj_qty = cv_qty v,
     xj_product = toCartProductJSON us (cv_view v)\<rparr>"

definition mapAddCartError :: "err \<Rightarrow> int \<times> int" where
  "mapAddCartError e =
     (if e = ErrCartProductNotFound \<or> e = ErrQuantityOverflow then (422, CodeBusiness)
      else (500, CodeInternal))"

definition mapCartItemError :: "err \<Rightarrow> int \<times> int" where
  "mapCartItemError e =
     (if e = ErrCartItemNotFound then (404, CodeNotFound)
      else if e = ErrInvalidCartItem then (400, CodeBadRequest)
      else (500, CodeInternal))"

definition bad_quantity :: http_error where
  "bad_quantity = bad_request ''quantity must be at least 1''"

definition GetCart ::
  "(string \<Rightarrow> uid option) \<Rightarrow> (uid \<Rightarrow> string) \<Rightarrow> string \<Rightarrow> gin_context \<Rightarrow> db
   \<Rightarrow> cart_item_json list reply \<times> db" where
  "GetCart up us base cx d =
     with_buyer up us cx d (\<lambda>userID. (Inr (200, map (toCartItemJSON us) (cart_list base userID d)), d))"

definition AddCartItem ::
  "(string \<Rightarrow> uid option) \<Rightarrow> (uid \<Rightarrow> string) \<Rightarrow> string \<Rightarrow> uid \<Rightarrow> (string \<times> int option) option
   \<Rightarrow> gin_context \<Rightarrow> db \<Rightarrow> cart_item_json reply \<times> db" where
  "AddCartItem up us base fresh body cx d =
     with_body ''invalid cart payload'' body d (\<lambda>(product_id, quantity).
     with_id up us product_id ''invalid product id'' d (\<lambda>productID.
     case quantity of
       None \<Rightarrow> (Inl bad_quantity, d)
     | Some n \<Rightarrow>
       if n < 1 then (Inl bad_quantity, d)
       else with_buyer up us cx d (\<lambda>userID.
         answer 200 (toCartItemJSON us) mapAddCartError (cart_add base fresh userID productID n d))))"

definition UpdateCartItem ::
  "(string \<Rightarrow> uid option) \<Rightarrow> (uid \<Rightarrow> string) \<Rightarrow> string \<Rightarrow> request \<Rightarrow> int option option
   \<Rightarrow> gin_context \<Rightarrow> db \<Rightarrow> cart_item_json reply \<times> db" where
  "UpdateCartItem up us base rq body cx d =
     with_id up us (Param rq ''itemId'') ''invalid cart item id'' d (\<lambda>itemID.
     with_body ''invalid cart payload'' body d (\<lambda>quantity.
     case quantity of
       None \<Rightarrow> (Inl bad_quantity, d)
     | Some n \<Rightarrow>
       if n < 1 then (Inl bad_quantity, d)
       else with_buyer up us cx d (\<lambda>userID.
         answer 200 (toCartItemJSON us) mapCartItemError (cart_update base userID itemID n d))))"

definition DeleteCartItem ::
  "(string \<Rightarrow> uid option) \<Rightarrow> (uid \<Rightarrow> string) \<Rightarrow> request \<Rightarrow> gin_context \<Rightarrow> db \<Rightarrow> unit reply \<times> db" where
  "DeleteCartItem up us rq cx d =
     with_id up us (Param rq ''itemId'') ''invalid cart item id'' d (\<lambda>itemID.
     with_buyer up us cx d (\<lambda>userID.
     answer 200 (\<lambda>u. u) mapCartItemError (cart_delete userID itemID d)))"

section \<open>Addresses\<close>

record address_json =
  aj_id :: string
  aj_receiver :: string
  aj_phone :: string
  aj_region :: string
  aj_detail :: string
  aj_default :: bool
  aj_version :: string

definition toAddressJSON :: "(uid \<Rightarrow> string) \<Rightarrow> address_view \<Rightarrow> address_json" where
  "toAddressJSON us v = \<lparr>aj_id = us (address_view.av_id v), aj_receiver = av_receiver v,
     aj_phone = av_phone v, aj_region = av_region v, aj_detail = av_detail v,
     aj_default = av_default v, aj_version = format_int (address_view.av_version v)\<rparr>"

definition mapCreateAddressError :: "err \<Rightarrow> int \<times> int" where
  "mapCreateAddressError e = (case e of
       ErrInvalidAddress _ \<Rightarrow> (422, CodeBusiness)
     | ErrDefaultAddressConflict \<Rightarrow> (422, CodeBusiness)
     | _ \<Rightarrow> (500, CodeInternal))"

definition mapUpdateAddressError :: "err \<Rightarrow> int \<times> int" where
  "mapUpdateAddressError e = (case e of
       ErrAddressNotFound \<Rightarrow> (404, CodeNotFound)
     | ErrInvalidAddress _ \<Rightarrow> (400, CodeBadRequest)
     | ErrEmptyUpdate \<Rightarrow> (400, CodeBadRequest)
     | ErrDefaultAddressConflict \<Rightarrow> (400, CodeBadRequest)
     | _ \<Rightarrow> (500, CodeInternal))"

definition mapDeleteAddressError :: "err \<Rightarrow> int \<times> int" where
  "mapDeleteAddressError e =
     (if e = ErrAddressNotFound then (404, CodeNotFound) else (500, CodeInternal))"

definition ListAddresses ::
  "(string \<Rightarrow> uid option) \<Rightarrow> (uid \<Rightarrow> string) \<Rightarrow> gin_context \<Rightarrow> db \<Rightarrow> address_json list reply \<times> db" where
  "ListAddresses up us cx d =
     with_buyer up us cx d (\<lambda>userID.
     case address_list userID d of
       Inl e \<Rightarrow> (Inl internalError, d)
     | Inr views \<Rightarrow> (Inr (200, map (toAddressJSON us) views), d))"

definition CreateAddress ::
  "(string \<Rightarrow> uid option) \<Rightarrow> (uid \<Rightarrow> string) \<Rightarrow> time \<Rightarrow> uid \<Rightarrow> address_input option \<Rightarrow> gin_context
   \<Rightarrow> db \<Rightarrow> address_json reply \<times> db" where
  "CreateAddress up us clock fresh body cx d =
     with_body ''invalid address payload'' body d (\<lambda>req.
     with_buyer up us cx d (\<lambda>userID.
     answer 201 (toAddressJSON us) mapCreateAddressError (address_create clock fresh userID req d)))"

definition UpdateAddress ::
  "(string \<Rightarrow> uid option) \<Rightarrow> (uid \<Rightarrow> string) \<Rightarrow> time \<Rightarrow> request \<Rightarrow> address_update option
   \<Rightarrow> gin_context \<Rightarrow> db \<Rightarrow> address_json reply \<times> db" where
  "UpdateAddress up us clock rq body cx d =
     with_id up us (Param rq ''addressId'') ''invalid address id'' d (\<lambda>i.
     with_body ''invalid address payload'' body d (\<lambda>req.
     with_buyer up us cx d (\<lambda>userID.
     answer 200 (toAddressJSON us) mapUpdateAddressError (address_update_op clock userID i req d))))"

definition DeleteAddress ::
  "(string \<Rightarrow> uid option) \<Rightarrow> (uid \<Rightarrow> string) \<Rightarrow> request \<Rightarrow> gin_context \<Rightarrow> db \<Rightarrow> unit reply \<times> db" where
  "DeleteAddress up us rq cx d =
     with_id up us (Param rq ''addressId'') ''invalid address id'' d (\<lambda>i.
     with_buyer up us cx d (\<lambda>userID.
     answer 200 (\<lambda>u. u) mapDeleteAddressError (address_delete userID i d)))"

section \<open>Profile\<close>

record user_json =
  uj_id :: string
  uj_nickname :: string
  uj_avatar :: string
  uj_balance :: string

definition toProfileJSON :: "(uid \<Rightarrow> string) \<Rightarrow> user_view \<Rightarrow> user_json" where
  "toProfileJSON us u = \<lparr>uj_id = us (uv_id u), uj_nickname = uv_nickname u, uj_avatar = uv_avatar u,
     uj_balance = format_int (uv_balance u)\<rparr>"

definition mapProfileError :: "err \<Rightarrow> int \<times> int" where
  "mapProfileError e =
     (if e = UserErrUserNotFound then (404, CodeNotFound) else (500, CodeInternal))"

definition GetMe ::
  "(string \<Rightarrow> uid option) \<Rightarrow> (uid \<Rightarrow> string) \<Rightarrow> gin_context \<Rightarrow> db \<Rightarrow> user_json reply \<times> db" where
  "GetMe up us cx d =
     with_buyer up us cx d (\<lambda>userID.
     answer 200 (toProfileJSON us) mapProfileError (user_get userID d, d))"

definition too_long :: "string \<Rightarrow> http_error" where
  "too_long message = HttpError 422 CodeBusiness (Text message)"

text \<open>The body of a profile update: the nickname and the avatar's URL, each only if it was sent.\<close>

definition UpdateMe ::
  "(string \<Rightarrow> uid option) \<Rightarrow> (uid \<Rightarrow> string) \<Rightarrow> time \<Rightarrow> (string option \<times> string option) option
   \<Rightarrow> gin_context \<Rightarrow> db \<Rightarrow> user_json reply \<times> db" where
  "UpdateMe up us clock body cx d =
     with_body ''invalid profile payload'' body d (\<lambda>(nick, avatarURL).
     with_buyer up us cx d (\<lambda>userID.
     if nick = None \<and> avatarURL = None then (Inl (bad_request ''empty profile update''), d)
     else
       let nickname = map_option trim_space nick in
       if (case nickname of None \<Rightarrow> False | Some s \<Rightarrow> rune_count s > 64)
       then (Inl (too_long ''nickname must be at most 64 characters''), d)
       else if (case avatarURL of None \<Rightarrow> False | Some s \<Rightarrow> rune_count s > 2048)
       then (Inl (too_long ''avatar_url must be at most 2048 characters''), d)
       else answer 200 (toProfileJSON us) mapProfileError
         (UpdateProfile clock userID nickname avatarURL d)))"

section \<open>Login\<close>

record login_result =
  lr_user :: user_view
  lr_token :: string

definition LoginExecute ::
  "(string \<Rightarrow> err + string \<times> string) \<Rightarrow> (string \<Rightarrow> int \<Rightarrow> time \<Rightarrow> err + string) \<Rightarrow> (uid \<Rightarrow> string)
   \<Rightarrow> uid \<Rightarrow> uid \<Rightarrow> time \<Rightarrow> int \<Rightarrow> time \<Rightarrow> string \<Rightarrow> db \<Rightarrow> (err + login_result) \<times> db" where
  "LoginExecute wechat issue us fresh lid clock signupBonus now code d =
     (if trim_space code = [] then (Inl ErrLoginCodeRequired, d)
      else case wechat code of
          Inl e \<Rightarrow> (Inl (ErrWeChatLookup (err_text e)), d)
        | Inr (openID, unionID) \<Rightarrow>
          if trim_space openID = [] then (Inl ErrEmptyOpenID, d)
          else case UpsertByOpenID us fresh lid clock openID unionID signupBonus None now d of
              (Inl e, d') \<Rightarrow> (Inl e, d')
            | (Inr buyer, d') \<Rightarrow>
              (case issue (Subject us buyer) 1 now of
                 Inl e \<Rightarrow> (Inl e, d')
               | Inr token \<Rightarrow> (Inr \<lparr>lr_user = buyer, lr_token = token\<rparr>, d')))"

definition mapLoginError :: "err \<Rightarrow> int \<times> int" where
  "mapLoginError e = (case e of
       ErrLoginCodeRequired \<Rightarrow> (400, CodeBadRequest)
     | ErrWeChatLookup _ \<Rightarrow> (422, CodeBusiness)
     | ErrEmptyOpenID \<Rightarrow> (422, CodeBusiness)
     | _ \<Rightarrow> (500, CodeInternal))"

definition loginClientIP :: "string \<Rightarrow> request \<Rightarrow> string" where
  "loginClientIP client_ip rq =
     (let ip = trim_space client_ip in
      if ip = [] then trim_space (GetHeader rq ''X-Forwarded-For'') else ip)"

record login_env =
  lg_wechat :: "string \<Rightarrow> err + string \<times> string"
  lg_issue :: "string \<Rightarrow> int \<Rightarrow> time \<Rightarrow> err + string"
  lg_us :: "uid \<Rightarrow> string"
  lg_bonus :: int
  lg_limit :: int
  lg_window :: int

text \<open>\<open>LoginHandler.Login\<close>; \<open>buckets\<close> are those of the limiter, \<open>None\<close> when none is configured.\<close>

definition LoginHandler ::
  "login_env \<Rightarrow> uid \<Rightarrow> uid \<Rightarrow> time \<Rightarrow> int \<Rightarrow> time \<Rightarrow> string \<Rightarrow> request \<Rightarrow> string option
   \<Rightarrow> buckets option \<Rightarrow> db \<Rightarrow> (string \<times> user_json) reply \<times> buckets option \<times> db" where
  "LoginHandler env fresh lid clock tick now client_ip rq body buckets d =
     (case body of
        None \<Rightarrow> (Inl (bad_request ''invalid login payload''), buckets, d)
      | Some raw \<Rightarrow>
        let code = trim_space raw in
        if code = [] then (Inl (bad_request ''WeChat login code is required''), buckets, d)
        else if rune_count code > 512
        then (Inl (bad_request ''WeChat login code is too long''), buckets, d)
        else
          let ip = loginClientIP client_ip rq;
              (allowed, buckets1) = (case buckets of
                  None \<Rightarrow> (True, None)
                | Some b \<Rightarrow> (case BuyerLogin_Allow (lg_limit env) (lg_window env) tick ip b of
                    (ok, b') \<Rightarrow> (ok, Some b')))
          in if \<not> allowed
             then (Inl (HttpError 429 CodeRateLimited (Text ''too many login attempts'')), buckets1, d)
             else case LoginExecute (lg_wechat env) (lg_issue env) (lg_us env) fresh lid clock
                 (lg_bonus env) now code d of
                 (Inl e, d') \<Rightarrow> (Inl (mapped mapLoginError e), buckets1, d')
               | (Inr r, d') \<Rightarrow>
                 (Inr (200, lr_token r, toProfileJSON (lg_us env) (lr_user r)),
                  map_option (BuyerLogin_Reset ip) buckets1, d'))"

end
