(* ===== verification/AdminHandlers.thy ===== *)
theory AdminHandlers
  imports Perimeter Http Config
begin

text \<open>
  \<open>internal/admin/handler.go\<close>: the endpoints of the console for sessions, roles, accounts, members
  and the audit log. The conventions are those of \<open>Http\<close>; a handler that sets cookies returns them
  beside the reply. The audit log's trace id and time are not in the model's rows and left out.
\<close>

section \<open>Cookies\<close>

text \<open>
  A \<open>Set-Cookie\<close> header. \<open>MaxAge\<close> is in seconds, negative for "delete now";
  \<open>Seconds()\<close> goes through a float, which is exact for the 30 minutes the configuration insists on.
\<close>

record set_cookie =
  sc_name :: string
  sc_value :: string
  sc_path :: string
  sc_max_age :: int
  sc_secure :: bool
  sc_http_only :: bool
  sc_strict :: bool
  sc_expires :: "time option"

definition setAdminCookie ::
  "string \<Rightarrow> string \<Rightarrow> int \<Rightarrow> string \<Rightarrow> bool \<Rightarrow> bool \<Rightarrow> bool \<Rightarrow> set_cookie" where
  "setAdminCookie name value maxAge path secure httpOnly strict =
     \<lparr>sc_name = name, sc_value = value, sc_path = path, sc_max_age = maxAge div second,
      sc_secure = secure, sc_http_only = httpOnly, sc_strict = strict, sc_expires = None\<rparr>"

definition clearAdminCookie :: "string \<Rightarrow> string \<Rightarrow> set_cookie" where
  "clearAdminCookie name path =
     \<lparr>sc_name = name, sc_value = [], sc_path = path, sc_max_age = -1, sc_secure = False,
      sc_http_only = False, sc_strict = False, sc_expires = Some 0\<rparr>"

section \<open>Errors\<close>

definition mapAccessWriteError :: "err \<Rightarrow> int \<times> int" where
  "mapAccessWriteError e = (case e of
       ErrRoleNotFound \<Rightarrow> (404, CodeNotFound)
     | ErrAdminNotFound \<Rightarrow> (404, CodeNotFound)
     | ErrInvalidRoleName \<Rightarrow> (400, CodeBadRequest)
     | ErrRoleUpdateEmpty \<Rightarrow> (400, CodeBadRequest)
     | ErrAdminUserUpdateEmpty \<Rightarrow> (400, CodeBadRequest)
     | ErrUnknownRole \<Rightarrow> (422, CodeBusiness)
     | ErrUnknownPermission _ \<Rightarrow> (422, CodeBusiness)
     | ErrRoleExists \<Rightarrow> (409, CodeConflict)
     | _ \<Rightarrow> (500, CodeInternal))"

definition mapAuthError :: "err \<Rightarrow> int \<times> int" where
  "mapAuthError e = (case e of
       ErrAdminNotFound \<Rightarrow> (401, CodeUnauthorized)
     | ErrInvalidCredentials \<Rightarrow> (401, CodeUnauthorized)
     | ErrAdminDisabled \<Rightarrow> (403, CodeForbidden)
     | ErrWeakPassword _ \<Rightarrow> (400, CodeBadRequest)
     | ErrInvalidUsername _ \<Rightarrow> (400, CodeBadRequest)
     | ErrUnknownRole \<Rightarrow> (400, CodeBadRequest)
     | ErrUnknownPermission _ \<Rightarrow> (400, CodeBadRequest)
     | ErrAdministratorExists \<Rightarrow> (409, CodeConflict)
     | ErrRateLimited \<Rightarrow> (429, CodeRateLimited)
     | _ \<Rightarrow> (500, CodeInternal))"

section \<open>Who is asking\<close>

definition adminSubjectFromClaims :: "gin_context \<Rightarrow> string" where
  "adminSubjectFromClaims cx = (case cx_claims cx of None \<Rightarrow> [] | Some claims \<Rightarrow> cl_subject claims)"

definition with_subject ::
  "(string \<Rightarrow> uid option) \<Rightarrow> (uid \<Rightarrow> string) \<Rightarrow> gin_context \<Rightarrow> (http_error \<Rightarrow> 'a)
   \<Rightarrow> (string \<Rightarrow> uid \<Rightarrow> 'a) \<Rightarrow> 'a" where
  "with_subject up us cx refuse h =
     (let subject = adminSubjectFromClaims cx in
      if subject = [] then refuse (HttpError 401 CodeUnauthorized (Text ''missing subject''))
      else case AdminIDFromSubject up us subject of
          Inl e \<Rightarrow> refuse (HttpError 401 CodeUnauthorized (Text ''invalid subject''))
        | Inr actorID \<Rightarrow> h subject actorID)"

definition actorIdentity ::
  "(string \<Rightarrow> uid option) \<Rightarrow> (uid \<Rightarrow> string) \<Rightarrow> gin_context \<Rightarrow> db \<Rightarrow> actor option" where
  "actorIdentity up us cx d =
     (let subject = adminSubjectFromClaims cx in
      if subject = [] then None
      else case AdminIDFromSubject up us subject of
          Inl e \<Rightarrow> None
        | Inr actorID \<Rightarrow>
          (case FindByID actorID d of
             Inl e \<Rightarrow> None
           | Inr view \<Rightarrow> Some \<lparr>AdminID = actorID, RoleName = av_role_name view\<rparr>))"

definition with_actor ::
  "(string \<Rightarrow> uid option) \<Rightarrow> (uid \<Rightarrow> string) \<Rightarrow> gin_context \<Rightarrow> db \<Rightarrow> (actor \<Rightarrow> 'j reply \<times> db)
   \<Rightarrow> 'j reply \<times> db" where
  "with_actor up us cx d h = (case actorIdentity up us cx d of
     None \<Rightarrow> (Inl missing_admin, d) | Some act \<Rightarrow> h act)"

text \<open>The console's own \<open>parsePositiveID\<close>: it trims, and leaves the form to the UUID parser.\<close>

definition console_id :: "(string \<Rightarrow> uid option) \<Rightarrow> (uid \<Rightarrow> string) \<Rightarrow> string \<Rightarrow> uid option" where
  "console_id up us raw = (case ParseCanonical up us (trim_space raw) of
     Inl e \<Rightarrow> None | Inr i \<Rightarrow> Some i)"

definition with_console_id ::
  "(string \<Rightarrow> uid option) \<Rightarrow> (uid \<Rightarrow> string) \<Rightarrow> string \<Rightarrow> string \<Rightarrow> db \<Rightarrow> (uid \<Rightarrow> 'j reply \<times> db)
   \<Rightarrow> 'j reply \<times> db" where
  "with_console_id up us raw message d h = (case console_id up us raw of
     None \<Rightarrow> (Inl (bad_request message), d) | Some i \<Rightarrow> h i)"

section \<open>Sessions\<close>

record role_json =
  rj_id :: string
  rj_name :: string
  rj_permissions :: "string list"

record session_json =
  sj_admin :: string
  sj_username :: string
  sj_role :: role_json

record me_json =
  mj_admin :: string
  mj_username :: string
  mj_role :: role_json
  mj_version :: int
  mj_enabled :: bool

definition clientIP :: "string \<Rightarrow> request \<Rightarrow> string" where
  "clientIP client_ip rq =
     (let ip = trim_space client_ip in
      if ip = [] then trim_space (GetHeader rq ''X-Forwarded-For'') else ip)"

text \<open>
  What the handler is built from: \<open>lower\<close>, \<open>verify\<close>, \<open>issue\<close>, \<open>us\<close> and \<open>up\<close> as in \<open>Authenticate\<close> and
  \<open>Gate\<close>, the classes of runes, \<open>hashPassword\<close>, and the cookie configuration.
\<close>

record console =
  co_lower :: "string \<Rightarrow> string"
  co_verify :: "string \<Rightarrow> string \<Rightarrow> bool"
  co_issue :: "string \<Rightarrow> int \<Rightarrow> time \<Rightarrow> err + string"
  co_us :: "uid \<Rightarrow> string"
  co_up :: "string \<Rightarrow> uid option"
  co_classes :: "string \<Rightarrow> rune_class"
  co_hash :: "string \<Rightarrow> err + string"
  co_cookie :: cookie_config

text \<open>The handler and the service share the one limiter \<open>cmd/server\<close> builds; \<open>csrf\<close> is \<open>newCSRFToken\<close>.\<close>

definition login_cookies :: "cookie_config \<Rightarrow> string \<Rightarrow> string \<Rightarrow> set_cookie list" where
  "login_cookies k token csrf =
     [setAdminCookie (kc_access k) token (kc_max_age k) (kc_path k) (kc_secure k) (kc_http_only k) (kc_strict k),
      setAdminCookie (kc_csrf k) csrf (kc_max_age k) ''/'' False False (kc_strict k)]"

definition logout_cookies :: "cookie_config \<Rightarrow> set_cookie list" where
  "logout_cookies k = [clearAdminCookie (kc_access k) (kc_path k), clearAdminCookie (kc_csrf k) (kc_path k)]"

definition ConsoleLogin ::
  "console \<Rightarrow> uid \<Rightarrow> uid \<Rightarrow> time \<Rightarrow> string \<Rightarrow> string \<Rightarrow> request \<Rightarrow> (string \<times> string) option
   \<Rightarrow> login_limiter \<Rightarrow> db \<Rightarrow> (session_json reply \<times> set_cookie list) \<times> login_limiter \<times> db" where
  "ConsoleLogin h ai fi now csrf client_ip rq body limiter d =
     (case body of
        None \<Rightarrow> ((Inl (bad_request ''invalid login payload''), []), limiter, d)
      | Some (user, password) \<Rightarrow>
        let username = trim_space user in
        if username = [] \<or> password = []
        then ((Inl (bad_request ''username and password are required''), []), limiter, d)
        else
          let ip = clientIP client_ip rq in
          (case Authenticate (co_lower h) (co_verify h) (co_issue h) (co_us h) ai fi now
               \<lparr>in_username = username, in_password = password, in_ip = ip\<rparr> (Some limiter) d of
             (Inl e, l, d') \<Rightarrow> ((Inl (mapped mapAuthError e), []), the l, d')
           | (Inr r, l, d') \<Rightarrow>
             ((Inr (200, \<lparr>sj_admin = co_us h (ar_admin r), sj_username = ar_username r,
                 sj_role = \<lparr>rj_id = co_us h (ar_role r), rj_name = ar_role_name r,
                   rj_permissions = ar_permissions r\<rparr>\<rparr>),
               login_cookies (co_cookie h) (ar_token r) csrf),
              AdminLogin_Reset (co_lower h) username ip (the l), d')))"

definition ConsoleLogout ::
  "console \<Rightarrow> uid \<Rightarrow> gin_context \<Rightarrow> db \<Rightarrow> (unit reply \<times> set_cookie list) \<times> db" where
  "ConsoleLogout h ai cx d =
     with_subject (co_up h) (co_us h) cx (\<lambda>e. ((Inl e, []), d)) (\<lambda>subject actorID.
     (case Logout ai subject actorID d of
        (Inl e, d') \<Rightarrow> ((Inl (mapped mapAuthError e), []), d')
      | (Inr _, d') \<Rightarrow> ((Inr (200, ()), logout_cookies (co_cookie h)), d')))"

definition ConsoleChangePassword ::
  "console \<Rightarrow> uid \<Rightarrow> (string \<times> string) option \<Rightarrow> gin_context \<Rightarrow> db
   \<Rightarrow> (unit reply \<times> set_cookie list) \<times> db" where
  "ConsoleChangePassword h ai body cx d =
     (case body of
        None \<Rightarrow> ((Inl (bad_request ''invalid password payload''), []), d)
      | Some (current, new) \<Rightarrow>
        if current = [] \<or> new = []
        then ((Inl (bad_request ''current and new passwords are required''), []), d)
        else with_subject (co_up h) (co_us h) cx (\<lambda>e. ((Inl e, []), d)) (\<lambda>subject actorID.
          (case accessPasswordChanger (co_classes h) (co_verify h) (co_hash h) ai
               \<lparr>cp_actor = actorID, cp_role = ''self'', cp_old = current, cp_new = new\<rparr> d of
             (Inl e, d') \<Rightarrow> ((Inl (mapped mapAuthError e), []), d')
           | (Inr _, d') \<Rightarrow> ((Inr (200, ()), logout_cookies (co_cookie h)), d'))))"

definition me_data :: "(uid \<Rightarrow> string) \<Rightarrow> admin_view \<Rightarrow> me_json" where
  "me_data us view =
     \<lparr>mj_admin = us (admin_view.av_id view), mj_username = av_username view,
      mj_role = \<lparr>rj_id = us (av_role view), rj_name = av_role_name view,
        rj_permissions = av_permissions view\<rparr>,
      mj_version = admin_view.av_version view, mj_enabled = av_enabled view\<rparr>"

definition Me :: "console \<Rightarrow> gin_context \<Rightarrow> db \<Rightarrow> me_json reply \<times> db" where
  "Me h cx d =
     with_subject (co_up h) (co_us h) cx (\<lambda>e. (Inl e, d)) (\<lambda>subject actorID.
     (case cx_claims cx of
        None \<Rightarrow> (Inl (HttpError 401 CodeUnauthorized (Text ''missing claims'')), d)
      | Some claims \<Rightarrow>
        (case IsTokenVersionCurrent actorID (cl_version claims) d of
           Inl e \<Rightarrow> (Inl (mapped mapAuthError e), d)
         | Inr current \<Rightarrow>
           if \<not> current
           then (Inl (HttpError 401 CodeUnauthorized (Text ''token version no longer current'')), d)
           else answer 200 (me_data (co_us h)) mapAuthError (FindByID actorID d, d))))"

section \<open>Roles and accounts\<close>

definition role_data :: "(uid \<Rightarrow> string) \<Rightarrow> role_view \<Rightarrow> role_json" where
  "role_data us r = \<lparr>rj_id = us (rv_id r), rj_name = rv_name r, rj_permissions = rv_permissions r\<rparr>"

definition ConsoleListRoles :: "console \<Rightarrow> db \<Rightarrow> role_json list reply \<times> db" where
  "ConsoleListRoles h d = (case ListRoles d of
     Inl e \<Rightarrow> (Inl (HttpError 500 CodeInternal (Text ''list roles'')), d)
   | Inr rs \<Rightarrow> (Inr (200, map (role_data (co_us h)) rs), d))"

record account_json =
  cj_id :: string
  cj_username :: string
  cj_enabled :: bool
  cj_role :: role_json

definition account_data :: "(uid \<Rightarrow> string) \<Rightarrow> admin_user_view \<Rightarrow> account_json" where
  "account_data us a =
     \<lparr>cj_id = us (aw_id a), cj_username = aw_username a, cj_enabled = aw_enabled a,
      cj_role = \<lparr>rj_id = us (aw_role a), rj_name = aw_role_name a, rj_permissions = aw_permissions a\<rparr>\<rparr>"

definition ConsoleListAdminUsers ::
  "console \<Rightarrow> request \<Rightarrow> db \<Rightarrow> account_json listing reply \<times> db" where
  "ConsoleListAdminUsers h rq d =
     with_parsed (parsePaging 20 rq) d (\<lambda>(page, pageSize).
     (case ListAdminUsers page pageSize d of
        Inl e \<Rightarrow> (Inl (HttpError 500 CodeInternal (Text ''list administrator accounts'')), d)
      | Inr p \<Rightarrow> (Inr (200, page_data (account_data (co_us h)) page pageSize p), d)))"

text \<open>The bodies: a name and permission codes; each optional in an update; a flag and a role's id.\<close>

definition ConsoleCreateRole ::
  "console \<Rightarrow> uid \<Rightarrow> uid \<Rightarrow> (string \<times> string list) option \<Rightarrow> gin_context \<Rightarrow> db
   \<Rightarrow> role_json reply \<times> db" where
  "ConsoleCreateRole h i ai body cx d =
     with_body ''invalid role payload'' body d (\<lambda>(name, codes).
     with_actor (co_up h) (co_us h) cx d (\<lambda>act.
     answer 201 (role_data (co_us h)) mapAccessWriteError (CreateRole i ai act name codes d)))"

definition ConsoleUpdateRole ::
  "console \<Rightarrow> uid \<Rightarrow> request \<Rightarrow> (string option \<times> string list option) option \<Rightarrow> gin_context \<Rightarrow> db
   \<Rightarrow> role_json reply \<times> db" where
  "ConsoleUpdateRole h ai rq body cx d =
     with_console_id (co_up h) (co_us h) (Param rq ''roleId'') ''invalid role id'' d (\<lambda>roleID.
     with_body ''invalid role payload'' body d (\<lambda>(name, codes).
     if name = None \<and> codes = None then (Inl (mapped mapAccessWriteError ErrRoleUpdateEmpty), d)
     else with_actor (co_up h) (co_us h) cx d (\<lambda>act.
     answer 200 (role_data (co_us h)) mapAccessWriteError (UpdateRole ai act roleID name codes d))))"

text \<open>The role is looked up before anything is written; the flag and the role are two transactions.\<close>

definition target_role ::
  "console \<Rightarrow> string \<Rightarrow> db \<Rightarrow> http_error + string" where
  "target_role h raw d =
     (if trim_space raw = [] then Inr []
      else case console_id (co_up h) (co_us h) raw of
          None \<Rightarrow> Inl (bad_request ''invalid role_id'')
        | Some roleID \<Rightarrow>
          (case RoleNameByID roleID d of
             Inl e \<Rightarrow> Inl (mapped mapAccessWriteError e) | Inr name \<Rightarrow> Inr name))"

definition view_data :: "(uid \<Rightarrow> string) \<Rightarrow> admin_view \<Rightarrow> account_json" where
  "view_data us view =
     \<lparr>cj_id = us (admin_view.av_id view), cj_username = av_username view, cj_enabled = av_enabled view,
      cj_role = \<lparr>rj_id = us (av_role view), rj_name = av_role_name view,
        rj_permissions = av_permissions view\<rparr>\<rparr>"

definition account_writes ::
  "uid \<Rightarrow> uid \<Rightarrow> actor \<Rightarrow> uid \<Rightarrow> bool option \<Rightarrow> string \<Rightarrow> db \<Rightarrow> (err + admin_view) \<times> db" where
  "account_writes ai ri act targetID enabled roleName d =
     (case (if enabled = None then (Inr (), d)
            else case UpdateAdmin ai (AdminID act) (RoleName act) targetID enabled d of
                (Inl e, d') \<Rightarrow> (Inl e, d') | (Inr _, d') \<Rightarrow> (Inr (), d')) of
        (Inl e, d1) \<Rightarrow> (Inl e, d1)
      | (Inr _, d1) \<Rightarrow>
        (case (if roleName = [] then (Inr (), d1)
               else case AssignRole ri (AdminID act) (RoleName act) targetID roleName d1 of
                   (Inl e, d') \<Rightarrow> (Inl e, d') | (Inr _, d') \<Rightarrow> (Inr (), d')) of
           (Inl e, d2) \<Rightarrow> (Inl e, d2)
         | (Inr _, d2) \<Rightarrow> (FindByID targetID d2, d2)))"

definition ConsoleUpdateAdminUser ::
  "console \<Rightarrow> uid \<Rightarrow> uid \<Rightarrow> request \<Rightarrow> (bool option \<times> string) option \<Rightarrow> gin_context \<Rightarrow> db
   \<Rightarrow> account_json reply \<times> db" where
  "ConsoleUpdateAdminUser h ai ri rq body cx d =
     with_console_id (co_up h) (co_us h) (Param rq ''adminUserId'') ''invalid administrator id'' d (\<lambda>targetID.
     with_body ''invalid administrator payload'' body d (\<lambda>(enabled, rawRole).
     if enabled = None \<and> trim_space rawRole = []
     then (Inl (mapped mapAccessWriteError ErrAdminUserUpdateEmpty), d)
     else with_actor (co_up h) (co_us h) cx d (\<lambda>act.
     (case target_role h rawRole d of
        Inl r \<Rightarrow> (Inl r, d)
      | Inr roleName \<Rightarrow>
        answer 200 (view_data (co_us h)) mapAccessWriteError
          (account_writes ai ri act targetID enabled roleName d)))))"

section \<open>Members and the audit log\<close>

record member_json =
  bj_id :: string
  bj_nickname :: string
  bj_balance :: string
  bj_created :: time

definition member_data :: "(uid \<Rightarrow> string) \<Rightarrow> user_list_view \<Rightarrow> member_json" where
  "member_data us u =
     \<lparr>bj_id = us (ul_id u), bj_nickname = ul_nickname u, bj_balance = format_int (ul_balance u),
      bj_created = whole_second (ul_created u)\<rparr>"

definition ConsoleListUsers ::
  "(string \<Rightarrow> string \<Rightarrow> bool) \<Rightarrow> console \<Rightarrow> request \<Rightarrow> db \<Rightarrow> member_json listing reply \<times> db" where
  "ConsoleListUsers ilike h rq d =
     with_parsed (parsePaging 20 rq) d (\<lambda>(page, pageSize).
     (Inr (200, page_data (member_data (co_us h)) page pageSize
        (ListUsers (\<lambda>s. case ParseCanonical (co_up h) (co_us h) s of Inl e \<Rightarrow> None | Inr i \<Rightarrow> Some i)
           ilike page pageSize (trim_space (Query rq ''keyword'')) d)), d))"

record audit_json =
  ej_id :: string
  ej_actor :: "string option"
  ej_role :: string
  ej_action :: string
  ej_target_type :: string
  ej_target :: "string option"
  ej_result :: string
  ej_before :: audit_data
  ej_after :: audit_data

definition audit_entry_data :: "(uid \<Rightarrow> string) \<Rightarrow> audit_row \<Rightarrow> audit_json" where
  "audit_entry_data us r =
     \<lparr>ej_id = us (au_id r), ej_actor = map_option us (au_actor r), ej_role = au_role r,
      ej_action = au_action r, ej_target_type = au_target_type r,
      ej_target = map_option us (au_target r), ej_result = au_result r,
      ej_before = au_before r, ej_after = au_after r\<rparr>"

definition ConsoleListAuditLogs :: "console \<Rightarrow> request \<Rightarrow> db \<Rightarrow> audit_json listing reply \<times> db" where
  "ConsoleListAuditLogs h rq d =
     with_parsed (parsePaging 20 rq) d (\<lambda>(page, pageSize).
     (Inr (200, page_data (audit_entry_data (co_us h)) page pageSize (ListAuditLogs page pageSize d)), d))"

section \<open>What a login answers\<close>

lemma adminRoleName_preloaded:
  "(if preloaded_role_name a d \<noteq> [] then preloaded_role_name a d else adminRoleName (ad_role a) d') =
   preloaded_role_name a d" if "roles d' = roles d"
  using that by (auto simp: preloaded_role_name_def adminRoleName_def find_role_def split: option.splits)

lemma login_reports:
  assumes "login_checked verify issue us ai fi now input d = (Inr v, d')"
  obtains admin where "find_username (trim_space (in_username input)) d = Some admin"
    "ar_username v = ad_username admin" "ar_role v = ad_role admin"
    "ar_role_name v = preloaded_role_name admin d" "roles d' = roles d"
proof (cases "auth_tx verify ai now input d")
  case (Inl e)
  then show thesis using assms by (simp add: login_checked_def commit_def)
next
  case (Inr p)
  obtain admin roleName d2 where p: "p = ((admin, roleName), d2)" by (metis surj_pair)
  obtain d1 e where a: "find_username (trim_space (in_username input)) d = Some admin"
    "update_admin (ad_id admin) (\<lambda>a. a\<lparr>ad_last_login := Some now\<rparr>) d = Inr d1"
    "write_audit ai e d1 = Inr d2"
    "roleName = (if preloaded_role_name admin d \<noteq> [] then preloaded_role_name admin d
       else adminRoleName (ad_role admin) d1)"
    using Inr p by (auto simp: auth_tx_def sbind_eq_Inr Let_def split: option.splits if_splits)
  have r: "roles d1 = roles d" "roles d2 = roles d"
    using a(2,3) by (auto simp: update_admin_eq_Inr write_audit_eq_Inr)
  then have "roleName = preloaded_role_name admin d"
    using a(4) adminRoleName_preloaded[OF r(1), of admin] by simp
  moreover have "d' = d2 \<and> ar_username v = ad_username admin \<and> ar_role v = ad_role admin \<and>
      ar_role_name v = roleName"
    using assms Inr p
    by (cases "issue (adminSubject us (ad_id admin)) (ad_version admin) now")
      (auto simp: login_checked_def commit_def sbind_eq_Inr)
  ultimately show thesis using that a(1) r(2) by simp
qed

lemma ConsoleLogin_InrD:
  assumes "ConsoleLogin h ai fi now csrf client_ip rq body limiter d = ((Inr (st, s), ck), limiter', d')"
  obtains user password r l where "body = Some (user, password)" "trim_space user \<noteq> []"
    "Authenticate (co_lower h) (co_verify h) (co_issue h) (co_us h) ai fi now
       \<lparr>in_username = trim_space user, in_password = password, in_ip = clientIP client_ip rq\<rparr>
       (Some limiter) d = (Inr r, l, d')"
    "s = \<lparr>sj_admin = co_us h (ar_admin r), sj_username = ar_username r,
       sj_role = \<lparr>rj_id = co_us h (ar_role r), rj_name = ar_role_name r, rj_permissions = ar_permissions r\<rparr>\<rparr>"
    "ck = login_cookies (co_cookie h) (ar_token r) csrf" "st = 200"
proof -
  obtain user password where b: "body = Some (user, password)" "trim_space user \<noteq> []" "password \<noteq> []"
    using assms by (auto simp: ConsoleLogin_def Let_def split: option.splits if_splits)
  define p where "p = Authenticate (co_lower h) (co_verify h) (co_issue h) (co_us h) ai fi now
    \<lparr>in_username = trim_space user, in_password = password, in_ip = clientIP client_ip rq\<rparr> (Some limiter) d"
  obtain res l d2 where p': "p = (res, l, d2)" by (metis surj_pair)
  show thesis
  proof (cases res)
    case (Inr r)
    show thesis
      by (rule that[OF b(1,2), of r l]; use assms b p' Inr in \<open>simp add: ConsoleLogin_def p_def\<close>)
  qed (use assms b p' in \<open>simp add: ConsoleLogin_def p_def\<close>)
qed

lemma FindByID_found:
  "find_admin i d = Some a \<Longrightarrow> rolePermissions (ad_role a) d = Inr ps \<Longrightarrow>
   FindByID i d = Inr \<lparr>admin_view.av_id = ad_id a, av_username = ad_username a, av_role = ad_role a,
     av_role_name = preloaded_role_name a d, av_permissions = ps, av_enabled = ad_enabled a,
     av_version = ad_version a\<rparr>"
  by (simp add: FindByID_def)

lemma Me_found:
  assumes "cx_claims cx = Some c" "AdminIDFromSubject (co_up h) (co_us h) (cl_subject c) = Inr i" "i \<noteq> 0"
    "find_admin i d = Some a" "ad_version a = cl_version c" "rolePermissions (ad_role a) d = Inr ps"
  shows "Me h cx d = (Inr (200, \<lparr>mj_admin = co_us h (ad_id a), mj_username = ad_username a,
     mj_role = \<lparr>rj_id = co_us h (ad_role a), rj_name = preloaded_role_name a d, rj_permissions = ps\<rparr>,
     mj_version = ad_version a, mj_enabled = ad_enabled a\<rparr>), d)"
proof -
  have "adminSubjectFromClaims cx \<noteq> []" "adminSubjectFromClaims cx = cl_subject c"
    using assms(1,2) by (auto simp: adminSubjectFromClaims_def AdminIDFromSubject_def has_prefix_def split: if_splits)
  then show ?thesis
    using assms by (simp add: Me_def with_subject_def IsTokenVersionCurrent_def answer_def
        FindByID_found me_data_def)
qed

text \<open>
  The console's front page: the cookie a login sets lets its requests in until the token's lifetime
  is over, and \<open>/auth/me\<close> then answers the account, the role and the permissions the login
  answered, as long as accounts, roles and grants are what the login left.
\<close>

theorem me_after_login:
  assumes lib: "jwt_library nd sign jwt_parse" and cfg: "JWTConfig_Validate name required_ttl cfg = []"
    and whole: "second dvd jc_ttl cfg"
    and plain: "ascii (jc_issuer cfg)" "ascii (jc_audience cfg)" "ascii jti"
    and h: "co_issue h = Issue nd sign cfg jti wall"
    and login: "ConsoleLogin h ai fi now csrf client_ip rq0 body limiter d = ((Inr (st, s), ck), limiter', d')"
    and ok: "admins_ok d" and ids: "\<forall>a\<in>set (admins d). ad_id a \<noteq> 0 \<and>
      co_up h (co_us h (ad_id a)) = Some (ad_id a) \<and> ascii (co_us h (ad_id a))"
    and gate: "ge_up g = co_up h" "ge_us g = co_us h" "ge_cookie g = kc_access (co_cookie h)"
      "ge_cookie g \<noteq> []" "ge_service g = JWTService_Parse jwt_parse cfg wall'"
    and same: "admins d2 = admins d'" "permissions d2 = permissions d'"
      "role_permissions d2 = role_permissions d'" "roles d2 = roles d'"
    and rq: "admin_group g rq = Inr ()" "Cookie rq (sc_name (hd ck)) = Some (sc_value (hd ck))"
    and t: "now \<le> t" "t < now - now mod second + jc_ttl cfg" "now \<noteq> 0" "t \<noteq> 0"
  shows "\<exists>cx m. admin_session g t rq d2 = Inr cx \<and> Me h cx d2 = (Inr (200, m), d2) \<and>
    mj_admin m = sj_admin s \<and> mj_username m = sj_username s \<and> mj_role m = sj_role s \<and> mj_enabled m"
proof -
  obtain user password r l where L:
    "Authenticate (co_lower h) (co_verify h) (co_issue h) (co_us h) ai fi now
       \<lparr>in_username = trim_space user, in_password = password, in_ip = clientIP client_ip rq0\<rparr>
       (Some limiter) d = (Inr r, l, d')"
    "s = \<lparr>sj_admin = co_us h (ar_admin r), sj_username = ar_username r,
       sj_role = \<lparr>rj_id = co_us h (ar_role r), rj_name = ar_role_name r, rj_permissions = ar_permissions r\<rparr>\<rparr>"
    "ck = login_cookies (co_cookie h) (ar_token r) csrf"
    using login by (rule ConsoleLogin_InrD)
  let ?lin = "\<lparr>in_username = trim_space user, in_password = password, in_ip = clientIP client_ip rq0\<rparr>"
  have "login_checked (co_verify h) (co_issue h) (co_us h) ai fi now ?lin d = (Inr r, d')"
    using L(1) by (auto simp: Authenticate_def split: option.splits prod.splits bool.splits if_splits)
  then obtain a0 where a0: "find_username (trim_space (in_username ?lin)) d = Some a0" "ar_username r = ad_username a0"
      "ar_role r = ad_role a0" "ar_role_name r = preloaded_role_name a0 d" "roles d' = roles d"
    by (rule login_reports)
  have admin: "ar_admin r = ad_id a0" "a0 \<in> set (admins d)"
    using \<open>login_checked _ _ _ _ _ _ _ _ = _\<close> a0(1) find_username_SomeD by (cases rule: login_cases; auto)+
  then have i: "ar_admin r \<noteq> 0" "ge_up g (co_us h (ar_admin r)) = Some (ar_admin r)" "ascii (co_us h (ar_admin r))"
    using ids gate(1) by auto
  have cookie: "Cookie rq (if ge_cookie g = [] then ''admin_access_token'' else ge_cookie g) = Some (ar_token r)"
    using rq(2) gate(3,4) L(3) by (simp add: login_cookies_def setAdminCookie_def)
  obtain cx c where s: "admin_session g t rq d2 = Inr cx" "cx_claims cx = Some c"
    "AdminIDFromSubject (ge_up g) (ge_us g) (cl_subject c) = Inr (ar_admin r)" "cl_version c = ad_version a0"
    "ad_enabled a0" "find_admin (ar_admin r) d2 = Some (a0\<lparr>ad_last_login := Some now\<rparr>)"
    "rolePermissions (ad_role a0) d2 = Inr (ar_permissions r)"
    using login_admits[OF lib cfg whole plain(1,2) i(3) plain(3) L(1)[unfolded h] ok i(1,2) gate(2,5) same(1-3)
        rq(1) cookie t] a0(1) by (metis option.inject)
  have "preloaded_role_name (a0\<lparr>ad_last_login := Some now\<rparr>) d2 = preloaded_role_name a0 d"
    using same(4) a0(5) by (simp add: preloaded_role_name_def find_role_def)
  then show ?thesis
    using Me_found[OF s(2) s(3)[unfolded gate] i(1) s(6)] s(1,4,5,7) L(2) a0(2-4) admin(1) by simp
qed

definition demo_console :: console where
  "demo_console = \<lparr>co_lower = (\<lambda>s. s), co_verify = (\<lambda>p h. p = ''pw'' \<and> h = ''h''),
     co_issue = Issue demo_nd demo_sign demo_jwt ''j'' 1, co_us = demo_us, co_up = ge_up demo_gate,
     co_classes = (\<lambda>_. OtherLetter), co_hash = Inr, co_cookie = DefaultAdminCookieConfig\<rparr>"

definition demo_console_gate :: gate_env where
  "demo_console_gate = demo_gate\<lparr>ge_cookie := ''admin_access_token'',
     ge_service := JWTService_Parse demo_parse demo_jwt 1\<rparr>"

lemma me_after_login_witness:
  "\<exists>s ck l d' cx m. ConsoleLogin demo_console 95 96 20 ''csrf'' ''10.0.0.1'' demo_ship_request
       (Some (''root'', ''pw'')) (NewLoginRateLimiterConfig 5 100 5 100) demo_db = ((Inr (200, s), ck), l, d') \<and>
     admin_session demo_console_gate 30 demo_ship_request d' = Inr cx \<and>
     Me demo_console cx d' = (Inr (200, m), d') \<and> mj_role m = sj_role s"
proof -
  let ?p = "ConsoleLogin demo_console 95 96 20 ''csrf'' ''10.0.0.1'' demo_ship_request
       (Some (''root'', ''pw'')) (NewLoginRateLimiterConfig 5 100 5 100) demo_db"
  have "map_sum (\<lambda>_. ()) (\<lambda>r. (fst r, map sc_name (snd (fst ?p)), map sc_value (snd (fst ?p)))) (fst (fst ?p)) =
    Inr (200 , [''admin_access_token'', ''csrf_token''], [''tok'', ''csrf''])"
    by code_simp
  then obtain s where "fst (fst ?p) = Inr (200, s)" and c: "sc_name (hd (snd (fst ?p))) = ''admin_access_token''"
      "sc_value (hd (snd (fst ?p))) = ''tok''"
    by (cases "fst (fst ?p)") (auto simp: map_eq_Cons_conv)
  then have p: "?p = ((Inr (200, s), snd (fst ?p)), fst (snd ?p), snd (snd ?p))" by (metis prod.collapse)
  have cfg: "JWTConfig_Validate ''admin'' (30 * minute) demo_jwt = []"
    "ascii (jc_issuer demo_jwt)" "ascii (jc_audience demo_jwt)" "ascii ''j''"
    "admin_group demo_console_gate demo_ship_request = Inr ()"
    "Cookie demo_ship_request ''admin_access_token'' = Some ''tok''" "ge_cookie demo_console_gate \<noteq> []"
    "ge_cookie demo_console_gate = kc_access (co_cookie demo_console)"
    "list_all (\<lambda>a. ad_id a \<noteq> 0 \<and> co_up demo_console (co_us demo_console (ad_id a)) = Some (ad_id a) \<and>
       ascii (co_us demo_console (ad_id a))) (admins demo_db)"
    by code_simp+
  have whole: "second dvd jc_ttl demo_jwt" by (simp add: demo_jwt_def minute_def)
  have t: "(30::int) < 20 - 20 mod second + jc_ttl demo_jwt" by code_simp
  have "\<exists>cx m. admin_session demo_console_gate 30 demo_ship_request (snd (snd ?p)) = Inr cx \<and>
    Me demo_console cx (snd (snd ?p)) = (Inr (200, m), snd (snd ?p)) \<and>
    mj_admin m = sj_admin s \<and> mj_username m = sj_username s \<and> mj_role m = sj_role s \<and> mj_enabled m"
    by (rule me_after_login[OF demo_library cfg(1) whole cfg(2-4) _ p demo_admins_ok _ _ _ cfg(8,7) _
        refl refl refl refl cfg(5) _ _ t])
      (use cfg(6,9) c in \<open>simp_all add: demo_console_def demo_console_gate_def demo_gate_def list_all_iff\<close>)
  then show ?thesis using p by blast
qed

section \<open>What the handlers leave behind\<close>

text \<open>
  Logging out does not take the CSRF cookie away: the header that should delete it names the path of
  the console, and the login set it for the whole site. The cookie itself is set without \<open>Secure\<close>
  and readable by scripts.
\<close>

lemma logout_misses_csrf_cookie:
  assumes "kc_path k \<noteq> ''/''" and "kc_access k \<noteq> kc_csrf k"
    and "c \<in> set (login_cookies k token csrf)" "sc_name c = kc_csrf k" and "l \<in> set (logout_cookies k)"
  shows "sc_path l \<noteq> sc_path c \<and> \<not> sc_secure c \<and> \<not> sc_http_only c"
  using assms by (auto simp: login_cookies_def logout_cookies_def setAdminCookie_def clearAdminCookie_def)

text \<open>
  An update of an account with a flag and a role is two transactions: refused for the role, it has
  already switched the account off.
\<close>

definition unseeded_role_db :: db where
  "unseeded_role_db = roles_demo\<lparr>
     admins := [\<lparr>ad_id = 41, ad_username = ''root'', ad_hash = ''h'', ad_version = 1, ad_role = 51,
         ad_enabled = True, ad_last_login = None\<rparr>,
       \<lparr>ad_id = 42, ad_username = ''eve'', ad_hash = ''h'', ad_version = 1, ad_role = 51,
         ad_enabled = True, ad_last_login = None\<rparr>],
     permissions := [\<lparr>m_id = 61, m_code = ''order:ship''\<rparr>, \<lparr>m_id = 63, m_code = ''order:burn''\<rparr>],
     role_permissions := [\<lparr>rp_role = 51, rp_permission = 61\<rparr>, \<lparr>rp_role = 52, rp_permission = 63\<rparr>]\<rparr>"

lemma refused_update_half_done:
  "case account_writes 95 96 \<lparr>AdminID = 41, RoleName = ''ops''\<rparr> 42 (Some False) ''old'' unseeded_role_db of
     (r, d') \<Rightarrow> r = Inl (ErrUnknownPermission ''order:burn'') \<and>
       map (\<lambda>a. (ad_id a, ad_enabled a, ad_role a)) (admins d') = [(41, True, 51), (42, False, 51)]"
  by code_simp

end
