(* ===== verification/Uploads.thy ===== *)
theory Uploads
  imports BuyerHandlers OrderHandlers AdminHandlers
begin

text \<open>
  Uploads over HTTP: \<open>internal/admin/image_handler.go\<close>, whose images products refer to, and
  \<open>internal/user/avatar_handler.go\<close>. A request's file is what \<open>FormFile\<close> finds: nothing, or the size
  its header declares and its bytes, \<open>None\<close> when reading them fails. \<open>uuid\<close> is the text
  \<open>uuid.NewString\<close> draws, \<open>now\<close> the clock of the file system. The volume is \<open>Storage\<close>'s; another
  request may come between the check of its usage and the write, which checks again.
\<close>

section \<open>Receiving a file\<close>

definition CodePayloadTooBig :: int where "CodePayloadTooBig = 3002"
definition CodeUnsupported :: int where "CodeUnsupported = 4001"
definition CodeStorageFailure :: int where "CodeStorageFailure = 4002"

text \<open>
  What both handlers are built from: the limits, whether a reader of the volume's usage is
  configured (\<open>cmd/server\<close> configures one), the public base URL, the decoders of images.
\<close>

record upload_env =
  ue_limit :: int
  ue_pixels :: int
  ue_capacity :: int
  ue_metered :: bool
  ue_base :: string
  ue_config :: "string \<Rightarrow> image_format \<Rightarrow> (int \<times> int) option"
  ue_image :: "string \<Rightarrow> image_format \<Rightarrow> (int \<times> int) option"

type_synonym upload = "(int \<times> string option) option"

definition too_large :: http_error where
  "too_large = HttpError 413 CodePayloadTooBig (Text ''file exceeds upload limit'')"

definition storage_full :: http_error where
  "storage_full = HttpError 507 CodeStorageFailure (Text ''image storage is full'')"

definition read_upload :: "upload_env \<Rightarrow> upload \<Rightarrow> http_error + string" where
  "read_upload env file = (case file of
       None \<Rightarrow> Inl (bad_request ''file field is required'')
     | Some (declared, bytes) \<Rightarrow>
       if ue_limit env < declared then Inl too_large
       else case bytes of
           None \<Rightarrow> Inl (bad_request ''failed to read upload'')
         | Some content \<Rightarrow> Inr (take (nat (int64 (ue_limit env + 1))) content))"

definition upload_error :: "storage_err \<Rightarrow> http_error" where
  "upload_error e = (case e of
       ErrImageTooLarge \<Rightarrow> too_large
     | ErrUnsupportedFormat \<Rightarrow> HttpError 415 CodeUnsupported (Text ''unsupported image format'')
     | ErrTooManyPixels \<Rightarrow> HttpError 422 CodeBusiness (Text ''image exceeds pixel limit'')
     | ErrInvalidImage \<Rightarrow> HttpError 422 CodeBusiness (Text ''invalid image data'')
     | _ \<Rightarrow> bad_request ''invalid image upload'')"

text \<open>The check of the capacity, the key and the write, in both handlers.\<close>

definition store_image ::
  "upload_env \<Rightarrow> string \<Rightarrow> time \<Rightarrow> string \<Rightarrow> image_info \<Rightarrow> volume \<Rightarrow> http_error + string \<times> volume" where
  "store_image env uuid now content info v =
     (if ue_metered env \<and> ue_capacity env < int64 (usedBytesLocked v + im_size info)
      then Inl storage_full
      else
        let key = uuid @ Extension (im_format info) in
        case Put key (length content) (im_size info) now v of
          Inr v' \<Rightarrow> Inr (key, v')
        | Inl e \<Rightarrow>
          if e = ErrCapacityExceeded then Inl storage_full
          else Inl (HttpError 500 CodeInternal (Text ''failed to store image'')))"

record image_json =
  gj_key :: string
  gj_url :: string
  gj_width :: int
  gj_height :: int
  gj_size :: int

definition image_data :: "string \<Rightarrow> string \<Rightarrow> image_info \<Rightarrow> image_json" where
  "image_data key url info = \<lparr>gj_key = key, gj_url = url, gj_width = im_width info,
     gj_height = im_height info, gj_size = im_size info\<rparr>"

section \<open>Images of products\<close>

definition image_actorID :: "(string \<Rightarrow> uid option) \<Rightarrow> (uid \<Rightarrow> string) \<Rightarrow> gin_context \<Rightarrow> uid option" where
  "image_actorID up us cx =
     (let subject = adminSubjectFromClaims cx in
      if subject = [] then None
      else case AdminIDFromSubject up us subject of Inl e \<Rightarrow> None | Inr i \<Rightarrow> Some i)"

definition image_actorRole ::
  "(string \<Rightarrow> uid option) \<Rightarrow> (uid \<Rightarrow> string) \<Rightarrow> gin_context \<Rightarrow> db \<Rightarrow> string" where
  "image_actorRole up us cx d = (case image_actorID up us cx of
       None \<Rightarrow> []
     | Some i \<Rightarrow> (case FindByID i d of Inl e \<Rightarrow> [] | Inr view \<Rightarrow> av_role_name view))"

definition publicURL :: "string \<Rightarrow> string \<Rightarrow> string" where
  "publicURL base key = base @ ''/static/images/'' @ key"

definition has_suffix :: "string \<Rightarrow> string \<Rightarrow> bool" where
  "has_suffix s p \<longleftrightarrow> has_prefix (rev s) (rev p)"

definition extensionToFormat :: "string \<Rightarrow> string" where
  "extensionToFormat key =
     (if has_suffix key ''.jpg'' then ''jpg'' else if has_suffix key ''.png'' then ''png''
      else if has_suffix key ''.webp'' then ''webp'' else ''unknown'')"

definition reasonForUploadError :: "storage_err \<Rightarrow> string" where
  "reasonForUploadError e = (case e of
       ErrImageTooLarge \<Rightarrow> ''too_large''
     | ErrUnsupportedFormat \<Rightarrow> ''unsupported_format''
     | ErrTooManyPixels \<Rightarrow> ''too_many_pixels''
     | ErrInvalidImage \<Rightarrow> ''invalid_image''
     | _ \<Rightarrow> ''invalid_upload'')"

definition image_entry ::
  "(string \<Rightarrow> uid option) \<Rightarrow> (uid \<Rightarrow> string) \<Rightarrow> gin_context \<Rightarrow> db \<Rightarrow> string \<Rightarrow> audit_data \<Rightarrow> audit_entry" where
  "image_entry up us cx d result data =
     \<lparr>ActorAdminID = image_actorID up us cx, ActorRole = image_actorRole up us cx d, Action = ''image.upload'',
      TargetType = ''image'', TargetID = None, Result = result, BeforeData = [], AfterData = data\<rparr>"

definition image_tx ::
  "(string \<Rightarrow> uid option) \<Rightarrow> (uid \<Rightarrow> string) \<Rightarrow> uid \<Rightarrow> gin_context \<Rightarrow> string \<Rightarrow> audit_data \<Rightarrow> unit tx" where
  "image_tx up us ai cx result data d =
     sbind (write_audit ai (image_entry up us cx d result data) d) (\<lambda>d'. Inr ((), d'))"

definition writeAudit ::
  "(string \<Rightarrow> uid option) \<Rightarrow> (uid \<Rightarrow> string) \<Rightarrow> uid \<Rightarrow> gin_context \<Rightarrow> image_json \<Rightarrow> db \<Rightarrow> db" where
  "writeAudit up us ai cx response d =
     snd (commit (image_tx up us ai cx ''success''
       [(''format'', AStr (extensionToFormat (gj_key response))), (''width'', AInt (gj_width response)),
        (''height'', AInt (gj_height response)), (''size'', AInt (gj_size response))]) d)"

definition writeFailureAudit ::
  "(string \<Rightarrow> uid option) \<Rightarrow> (uid \<Rightarrow> string) \<Rightarrow> uid \<Rightarrow> gin_context \<Rightarrow> string \<Rightarrow> string \<Rightarrow> db \<Rightarrow> db" where
  "writeFailureAudit up us ai cx cause reason d =
     snd (commit (image_tx up us ai cx ''failure'' [(''cause'', AStr cause), (''reason'', AStr reason)]) d)"

interpretation image_log: recorder "writeAudit up us ai cx response"
  for up us ai cx response
  unfolding writeAudit_def by (rule recorder_commit) (simp add: image_tx_def)

interpretation image_failure_log: recorder "writeFailureAudit up us ai cx cause reason"
  for up us ai cx cause reason
  unfolding writeFailureAudit_def by (rule recorder_commit) (simp add: image_tx_def)

definition Upload ::
  "upload_env \<Rightarrow> (string \<Rightarrow> uid option) \<Rightarrow> (uid \<Rightarrow> string) \<Rightarrow> string \<Rightarrow> uid \<Rightarrow> time \<Rightarrow> upload
   \<Rightarrow> gin_context \<Rightarrow> volume \<Rightarrow> db \<Rightarrow> image_json reply \<times> volume \<times> db" where
  "Upload env up us uuid ai now file cx v d =
     (case read_upload env file of
        Inl r \<Rightarrow> (Inl r, v, d)
      | Inr content \<Rightarrow>
        (case ValidateImage (ue_config env) (ue_image env) content (ue_limit env) (ue_pixels env) of
           Inl e \<Rightarrow> (Inl (upload_error e), v,
             writeFailureAudit up us ai cx ''invalid_image'' (reasonForUploadError e) d)
         | Inr info \<Rightarrow>
           (case store_image env uuid now content info v of
              Inl r \<Rightarrow> (Inl r, v, d)
            | Inr (key, v') \<Rightarrow>
              let response = image_data key (publicURL (public_base (ue_base env)) key) info in
              (Inr (201, response), v', writeAudit up us ai cx response d))))"

section \<open>Avatars\<close>

definition publicImageURL :: "string \<Rightarrow> string \<Rightarrow> string" where
  "publicImageURL base key = trim_right_slashes base @ ''/static/images/'' @ key"

definition UploadAvatar ::
  "upload_env \<Rightarrow> (string \<Rightarrow> uid option) \<Rightarrow> (uid \<Rightarrow> string) \<Rightarrow> string \<Rightarrow> time \<Rightarrow> time \<Rightarrow> upload
   \<Rightarrow> gin_context \<Rightarrow> volume \<Rightarrow> db \<Rightarrow> image_json reply \<times> volume \<times> db" where
  "UploadAvatar env up us uuid clock now file cx v d =
     (case buyerIDFromGin up us cx of
        None \<Rightarrow> (Inl missing_buyer, v, d)
      | Some userID \<Rightarrow>
        (case read_upload env file of
           Inl r \<Rightarrow> (Inl r, v, d)
         | Inr content \<Rightarrow>
           (case ValidateImage (ue_config env) (ue_image env) content (ue_limit env) (ue_pixels env) of
              Inl e \<Rightarrow> (Inl (upload_error e), v, d)
            | Inr info \<Rightarrow>
              (case store_image env uuid now content info v of
                 Inl r \<Rightarrow> (Inl r, v, d)
               | Inr (key, v') \<Rightarrow>
                 let url = publicImageURL (ue_base env) key in
                 (case UpdateProfile clock userID None (Some url) d of
                    (Inl e, d') \<Rightarrow>
                      (Inl (HttpError 500 CodeInternal (Text ''failed to update profile'')), v', d')
                  | (Inr _, d') \<Rightarrow> (Inr (201, image_data key url info), v', d'))))))"

section \<open>What an upload leaves on the volume\<close>

text \<open>
  Limits as \<open>Config_Validate\<close> accepts them, whatever the volume: a file of the limit's size still
  fits the integers of the code.
\<close>

definition limits_ok :: "upload_env \<Rightarrow> volume \<Rightarrow> bool" where
  "limits_ok env v \<longleftrightarrow> 0 < ue_limit env \<and> ue_limit env + v_capacity v < max_int64"

lemma key_valid:
  assumes "publicIDPattern uuid"
  shows "ValidObjectKey (uuid @ Extension f)"
proof -
  have "eat_groups ns s = Some [] \<Longrightarrow> ns \<noteq> [] \<Longrightarrow> eat_groups ns (s @ t) = Some t" for ns s t
  proof (induction ns s rule: eat_groups.induct)
    case (2 n s)
    have "eat_hex n s = Some r \<Longrightarrow> eat_hex n (s @ t) = Some (r @ t)" for n s r
      by (induction n s rule: eat_hex.induct) (auto split: if_splits)
    then show ?case using 2 by fastforce
  next
    case (3 n m ns s)
    have h: "eat_hex n s = Some r \<Longrightarrow> eat_hex n (s @ t) = Some (r @ t)" for n s r
      by (induction n s rule: eat_hex.induct) (auto split: if_splits)
    obtain a b where "eat_hex n s = Some a" "eat_char (CHR ''-'') a = Some b" "eat_groups (m # ns) b = Some []"
      using 3(2) by (auto split: option.splits)
    then show ?case using 3(1)[of a b] h[of n s a] by (simp add: eat_char_Some)
  qed simp
  from this[of "[8, 4, 4, 4, 12]" uuid "Extension f"] assms show ?thesis
    by (cases f) (simp_all add: publicIDPattern_def ValidObjectKey_def Extension_def)
qed

lemma store_image_InrD:
  assumes "store_image env uuid now content info v = Inr (key, v')"
  shows "key = uuid @ Extension (im_format info)"
    "Put key (length content) (im_size info) now v = Inr v'"
  using assms by (auto simp: store_image_def Let_def split: if_splits sum.splits)

text \<open>What passes validation is the whole of what was sent, though at most the limit is ever read.\<close>

lemma read_upload_whole:
  assumes "read_upload env file = Inr content" and "0 < ue_limit env" "ue_limit env < max_int64"
    and "ValidateImage dc di content (ue_limit env) px = Inr info"
  shows "\<exists>declared. file = Some (declared, Some content)"
proof -
  obtain declared whole where f: "file = Some (declared, Some whole)"
    and c: "content = take (nat (int64 (ue_limit env + 1))) whole"
    using assms(1) by (auto simp: read_upload_def split: option.splits if_splits)
  have "int64 (ue_limit env + 1) = ue_limit env + 1"
    using assms(2,3) by (simp add: in64_def min_int64_def max_int64_def)
  moreover have "int (length content) \<le> ue_limit env" using assms(4) by (simp add: ValidateImage_ok)
  ultimately have "length whole \<le> nat (ue_limit env + 1)" using c by simp
  then show ?thesis using f c \<open>int64 (ue_limit env + 1) = ue_limit env + 1\<close> by simp
qed

lemma Put_fresh:
  assumes "Put key n sz now v = Inr v'" and "key \<notin> f_name ` set (v_files v)"
  shows "v_files v' = v_files v @ [\<lparr>f_name = key, f_mtime = now, f_size = sz\<rparr>]" "v_capacity v' = v_capacity v"
  using assms by (auto simp: Put_def delete_where_def filter_id_conv split: if_splits)

text \<open>
  Both handlers store the same way: the file is the one sent, under a key of the server's making
  that names a file of the volume's own directory, and the volume stays within its capacity.
\<close>

lemma stored_file:
  assumes read: "read_upload env file = Inr content"
    and valid: "ValidateImage (ue_config env) (ue_image env) content (ue_limit env) (ue_pixels env) = Inr info"
    and store: "store_image env uuid now content info v = Inr (key, v')"
    and v: "volume_ok v" "limits_ok env v" and uuid: "publicIDPattern uuid"
    and fresh: "\<forall>f. uuid @ Extension f \<notin> f_name ` set (v_files v)"
  shows "volume_ok v' \<and> (\<exists>declared. file = Some (declared, Some content)) \<and> key = uuid @ Extension (im_format info) \<and>
    ValidObjectKey key \<and> CHR ''/'' \<notin> set key \<and> int (length content) \<le> ue_limit env \<and> im_size info = int (length content) \<and>
    v_files v' = v_files v @ [\<lparr>f_name = key, f_mtime = now, f_size = int (length content)\<rparr>]"
proof -
  note i = valid[unfolded ValidateImage_ok] and k = store_image_InrD[OF store]
  have cap: "0 \<le> v_capacity v" using v(1) used_nonneg[OF v(1)] by (simp add: volume_ok_def)
  have key: "ValidObjectKey key" using key_valid[OF uuid] k(1) by simp
  have "int (length content) \<le> max_int64 - v_capacity v" using i v(2) by (simp add: limits_ok_def)
  then have "volume_ok v'" by (rule Put_within_capacity[OF v(1) k(2)])
  moreover have "CHR ''/'' \<notin> set key" using ValidObjectKey_stays_inside[OF key] by blast
  moreover have "ue_limit env < max_int64" "0 < ue_limit env" using v(2) cap by (simp_all add: limits_ok_def)
  ultimately show ?thesis
    using i k key Put_fresh(1)[OF k(2)] fresh read_upload_whole[OF read _ _ valid] by simp
qed


definition demo_upload :: upload_env where
  "demo_upload = \<lparr>ue_limit = 100, ue_pixels = 100, ue_capacity = 100, ue_metered = True,
     ue_base = ''https://shop/'', ue_config = (\<lambda>_ _. Some (4, 5)), ue_image = (\<lambda>_ _. Some (4, 5))\<rparr>"

definition demo_png :: string where
  "demo_png = CHR 0x89 # ''PNG'' @ [CHR 0x0D, CHR 0x0A, CHR 0x1A, CHR 0x0A]"

definition demo_uuid :: string where
  "demo_uuid = ''0390a1b2-c3d4-7e5f-8a9b-0c1d2e3f4a5b''"

lemma upload_demo_facts:
  "volume_ok demo_volume" "limits_ok demo_upload demo_volume" "publicIDPattern demo_uuid"
  "demo_uuid @ Extension f \<notin> f_name ` set (v_files demo_volume)"
  by (code_simp, simp add: limits_ok_def demo_upload_def demo_volume_def max_int64_def, code_simp,
      simp add: demo_volume_def demo_uuid_def demo_key_def)


section \<open>Avatars and the sweep\<close>

lemma UpdateProfile_avatar:
  assumes "UpdateProfile clock i None (Some url) d = (Inr view, d')"
  shows "\<exists>row. find_user i d' = Some row \<and> u_avatar row = url"
proof -
  have "user_get i d' = Inr view" and d': "d' = d\<lparr>users := update_where (\<lambda>r. u_id r = i)
      (profile_assign clock None (Some url)) (users d)\<rparr>"
    using assms by (auto simp: UpdateProfile_def Let_def split: if_splits)
  then obtain row where row: "find_user i d' = Some row"
    by (auto simp: user_get_def split: if_splits option.splits)
  then have m: "row \<in> set (users d')" "u_id row = i" by (auto simp: find_user_def dest: find_SomeD)
  have "(\<exists>r. row = profile_assign clock None (Some url) r) \<or> u_id row \<noteq> i"
    using m(1) by (auto simp: d' update_where_def)
  then have "u_avatar row = url" using m(2) by (auto simp: profile_assign_def)
  then show ?thesis using row by blast
qed

text \<open>
  C39: The sweep knows the galleries of products only: an avatar that was uploaded with success is gone
  after the first quiet sweep past the grace period, while the profile still points at it.
\<close>

theorem avatar_swept:
  assumes "UploadAvatar env up us uuid clock now file cx v d = (Inr (st, j), v', d')"
    and "volume_ok v" "limits_ok env v" "publicIDPattern uuid"
    and "\<forall>f. uuid @ Extension f \<notin> f_name ` set (v_files v)"
    and "\<forall>p\<in>set (products d'). gj_key j \<notin> set (p_images p)"
    and "t \<noteq> 0" "grace \<le> t - now"
  shows "\<exists>i row. buyerIDFromGin up us cx = Some i \<and> find_user i d' = Some row \<and> u_avatar row = gj_url j \<and>
    gj_url j = publicImageURL (ue_base env) (gj_key j) \<and>
    (\<exists>f. Stat (gj_key j) v' = Inr f) \<and>
    Stat (gj_key j) (snd (Cleanup (\<lambda>k. Inr (IsImageKeyReferenced k d')) True grace t t (\<lambda>_ w. w) v')) = Inl ErrObjectNotFound"
proof -
  obtain i content info key view where i: "buyerIDFromGin up us cx = Some i"
    and read: "read_upload env file = Inr content"
    and valid: "ValidateImage (ue_config env) (ue_image env) content (ue_limit env) (ue_pixels env) = Inr info"
    and store: "store_image env uuid now content info v = Inr (key, v')"
    and upd: "UpdateProfile clock i None (Some (publicImageURL (ue_base env) key)) d = (Inr view, d')"
    and j: "j = image_data key (publicImageURL (ue_base env) key) info"
    using assms(1) by (auto simp: UploadAvatar_def Let_def split: option.splits sum.splits prod.splits)
  note s = stored_file[OF read valid store assms(2-5)]
  have ok: "volume_ok v'" and kv: "ValidObjectKey key" using s by auto
  have u: "\<not> IsImageKeyReferenced key d'"
    using assms(6) j by (simp add: IsImageKeyReferenced_def image_data_def affected_def filter_empty_conv)
  let ?f = "\<lparr>f_name = key, f_mtime = now, f_size = int (length content)\<rparr>"
  have mem: "?f \<in> set (v_files v')" using s by simp
  have d: "distinct (map f_name (v_files v'))" using ok by (simp add: volume_ok_def)
  have only: "g = ?f" if "g \<in> set (v_files v')" "f_name g = key" for g
    using distinct_map_unique[OF d that(1) mem] that(2) by simp
  have gone: "\<forall>g\<in>set (v_files (snd (Cleanup (\<lambda>k. Inr (IsImageKeyReferenced k d')) True grace t t (\<lambda>_ w. w) v'))).
      f_name g \<noteq> key"
  proof (intro ballI notI)
    fix g
    assume g: "g \<in> set (v_files (snd (Cleanup (\<lambda>k. Inr (IsImageKeyReferenced k d')) True grace t t (\<lambda>_ w. w) v')))"
      and k: "f_name g = key"
    have "g \<in> set (v_files v')" using g by (simp add: Cleanup_exact[OF ok] Let_def)
    then have "g = ?f" using only k by blast
    then show False using g kv u assms(7,8) by (simp add: Cleanup_exact[OF ok] Let_def protected_def)
  qed
  have "find (\<lambda>f. f_name f = key) (v_files v') \<noteq> None" using mem by (auto simp: find_None_iff)
  then have "\<exists>f. Stat key v' = Inr f" using kv by (auto simp: Stat_def split: option.splits)
  moreover have "Stat key (snd (Cleanup (\<lambda>k. Inr (IsImageKeyReferenced k d')) True grace t t (\<lambda>_ w. w) v')) = Inl ErrObjectNotFound"
    using gone kv by (auto simp: Stat_def find_None_iff split: option.splits dest: find_SomeD)
  ultimately show ?thesis using i UpdateProfile_avatar[OF upd] by (simp add: j image_data_def)
qed

definition avatar_context :: gin_context where
  "avatar_context = \<lparr>cx_claims = None, cx_buyer = Some ''buyer:u'', cx_admin = None\<rparr>"

lemma avatar_swept_witness:
  "\<exists>j w d'. UploadAvatar demo_upload (\<lambda>_. Some 1) (\<lambda>_. ''u'') demo_uuid 9 30 (Some (8, Some demo_png)) avatar_context
       demo_volume demo_db = (Inr (201, j), w, d') \<and>
     Stat (gj_key j) (snd (Cleanup (\<lambda>k. Inr (IsImageKeyReferenced k d')) True 50 80 80 (\<lambda>_ w. w) w)) = Inl ErrObjectNotFound"
proof -
  define p where "p = UploadAvatar demo_upload (\<lambda>_. Some 1) (\<lambda>_. ''u'') demo_uuid 9 30 (Some (8, Some demo_png))
    avatar_context demo_volume demo_db"
  have c: "(case p of (Inr (st, j), w, d') \<Rightarrow> st = 201 \<and> list_all (\<lambda>q. gj_key j \<notin> set (p_images q)) (products d') | _ \<Rightarrow> False)"
    unfolding p_def by code_simp
  then obtain j w d' where p: "p = (Inr (201, j), w, d')"
    and g: "\<forall>q\<in>set (products d'). gj_key j \<notin> set (p_images q)"
    by (auto split: prod.splits sum.splits simp: list_all_iff)
  show ?thesis
    using avatar_swept[OF p[unfolded p_def] upload_demo_facts(1-3) _ g, of 80 50] upload_demo_facts(4) p
    unfolding p_def by auto
qed

end
