(* ===== verification/Coupon.thy ===== *)
theory Coupon
  imports Http
begin

text \<open>
  \<open>internal/coupon\<close>: the coupon templates administrators issue, their list with the counts of used
  coupons, the three endpoints and the auditor of refused writes. \<open>coupon_templates\<close> is the table of
  migration 0006.

  \<open>col\<close> is what the driver keeps of a time in a \<open>TIMESTAMPTZ\<close> column, \<open>parse_time\<close> is
  \<open>time.Parse(time.RFC3339, _)\<close>.
\<close>

section \<open>The table\<close>

definition template_lengths :: "template_row \<Rightarrow> bool" where
  "template_lengths t \<longleftrightarrow> rune_count (t_name t) \<le> 64 \<and> rune_count (t_status t) \<le> 16"

definition template_checks :: "template_row \<Rightarrow> bool" where
  "template_checks t \<longleftrightarrow> 0 < t_threshold t \<and> 0 < t_discount t \<and> 0 < t_total t \<and> 0 < t_limit t \<and>
     t_discount t < t_threshold t \<and> 0 \<le> t_received t \<and> t_received t \<le> t_total t \<and>
     t_from t < t_until t \<and> (t_status t = TemplateActive \<or> t_status t = TemplateHalted)"

definition insert_template :: "template_row \<Rightarrow> db \<Rightarrow> err + db" where
  "insert_template t d =
     sbind (insert_checked (template_lengths t) (template_checks t)
        (list_all (\<lambda>s. t_id s \<noteq> t_id t) (templates d)) True t (templates d))
      (\<lambda>ts. Inr (d\<lparr>templates := ts\<rparr>))"

definition find_template :: "uid \<Rightarrow> db \<Rightarrow> template_row option" where
  "find_template i d = find (\<lambda>t. t_id t = i) (templates d)"

definition update_template :: "uid \<Rightarrow> (template_row \<Rightarrow> template_row) \<Rightarrow> db \<Rightarrow> err + db" where
  "update_template i f d =
     (if \<not> list_all (\<lambda>t. t_id t = i \<longrightarrow> template_lengths (f t)) (templates d) then Inl StringTooLong
      else if \<not> list_all (\<lambda>t. t_id t = i \<longrightarrow> template_checks (f t)) (templates d) then Inl CheckViolation
      else Inr (d\<lparr>templates := update_where (\<lambda>t. t_id t = i) f (templates d)\<rparr>))"

section \<open>Rules and views\<close>

record template_input =
  ti_name :: string
  ti_threshold :: int
  ti_discount :: int
  ti_total :: int
  ti_limit :: int
  ti_from :: time
  ti_until :: time

record template_view =
  tv_id :: uid
  tv_name :: string
  tv_threshold :: int
  tv_discount :: int
  tv_total :: int
  tv_limit :: int
  tv_received :: int
  tv_from :: time
  tv_until :: time
  tv_status :: string

definition toTemplateView :: "template_row \<Rightarrow> template_view" where
  "toTemplateView t = \<lparr>tv_id = t_id t, tv_name = t_name t, tv_threshold = t_threshold t,
     tv_discount = t_discount t, tv_total = t_total t, tv_limit = t_limit t,
     tv_received = t_received t, tv_from = t_from t, tv_until = t_until t, tv_status = t_status t\<rparr>"

definition templateAuditData :: "template_row \<Rightarrow> audit_data" where
  "templateAuditData t = [(''name'', AStr (t_name t)), (''threshold_points'', AInt (t_threshold t)),
     (''discount_points'', AInt (t_discount t)), (''total_count'', AInt (t_total t)),
     (''per_user_limit'', AInt (t_limit t)), (''valid_from'', ATime (whole_second (t_from t))),
     (''valid_until'', ATime (whole_second (t_until t))), (''status'', AStr (t_status t))]"

definition validateTemplateRules :: "template_input \<Rightarrow> err + unit" where
  "validateTemplateRules i =
     (if ti_threshold i \<le> 0 then Inl (ErrInvalidTemplate ''threshold_points must be a positive integer'')
      else if ti_discount i \<le> 0 then Inl (ErrInvalidTemplate ''discount_points must be a positive integer'')
      else if ti_discount i \<ge> ti_threshold i
      then Inl (ErrInvalidTemplate ''discount_points must be less than threshold_points'')
      else if ti_total i \<le> 0 then Inl (ErrInvalidTemplate ''total_count must be a positive integer'')
      else if ti_limit i \<le> 0 then Inl (ErrInvalidTemplate ''per_user_limit must be a positive integer'')
      else if \<not> ti_from i < ti_until i
      then Inl (ErrInvalidTemplate ''valid_until must be later than valid_from'')
      else Inr ())"

definition isIssuanceStatus :: "string \<Rightarrow> bool" where
  "isIssuanceStatus status \<longleftrightarrow> status = TemplateActive \<or> status = TemplateHalted"

section \<open>The service\<close>

definition new_template :: "uid \<Rightarrow> template_input \<Rightarrow> template_row" where
  "new_template fresh input = \<lparr>t_id = fillID fresh 0, t_name = trim_space (ti_name input),
     t_threshold = ti_threshold input, t_discount = ti_discount input, t_total = ti_total input,
     t_limit = ti_limit input, t_received = 0, t_from = ti_from input, t_until = ti_until input,
     t_status = TemplateActive\<rparr>"

definition stored :: "(time \<Rightarrow> time) \<Rightarrow> template_row \<Rightarrow> template_row" where
  "stored col t = t\<lparr>t_from := col (t_from t), t_until := col (t_until t)\<rparr>"

definition create_template_tx ::
  "(time \<Rightarrow> time) \<Rightarrow> uid \<Rightarrow> actor \<Rightarrow> template_row \<Rightarrow> unit tx" where
  "create_template_tx col ai actor template d =
     sbind (insert_template (stored col template) d) (\<lambda>d1.
     sbind (write_audit ai \<lparr>ActorAdminID = Some (AdminID actor), ActorRole = RoleName actor,
         Action = ''coupon_template.create'', TargetType = ''coupon_template'',
         TargetID = Some (t_id template), Result = ''success'', BeforeData = [],
         AfterData = templateAuditData template\<rparr> d1) (\<lambda>d2. Inr ((), d2)))"

definition CreateTemplate ::
  "(time \<Rightarrow> time) \<Rightarrow> uid \<Rightarrow> uid \<Rightarrow> actor \<Rightarrow> template_input \<Rightarrow> db \<Rightarrow> (err + template_view) \<times> db" where
  "CreateTemplate col fresh ai actor input d =
     (case validateTemplateRules input of
        Inl e \<Rightarrow> (Inl e, d)
      | Inr _ \<Rightarrow>
        let template = new_template fresh input in
        (case commit (create_template_tx col ai actor template) d of
           (Inl e, d') \<Rightarrow> (Inl e, d')
         | (Inr _, d') \<Rightarrow> (Inr (toTemplateView template), d')))"

definition set_status_tx :: "uid \<Rightarrow> actor \<Rightarrow> uid \<Rightarrow> string \<Rightarrow> template_row tx" where
  "set_status_tx ai actor i status d =
     (case find_template i d of
        None \<Rightarrow> Inl ErrTemplateNotFound
      | Some current \<Rightarrow>
        sbind (update_template i (\<lambda>t. t\<lparr>t_status := status\<rparr>) d) (\<lambda>d1.
        case find_template i d1 of
          None \<Rightarrow> Inl (ErrOther ''record not found'')
        | Some updated \<Rightarrow>
          sbind (write_audit ai \<lparr>ActorAdminID = Some (AdminID actor), ActorRole = RoleName actor,
              Action = ''coupon_template.status_change'', TargetType = ''coupon_template'',
              TargetID = Some i, Result = ''success'', BeforeData = templateAuditData current,
              AfterData = templateAuditData updated\<rparr> d1) (\<lambda>d2. Inr (updated, d2))))"

definition SetTemplateStatus ::
  "uid \<Rightarrow> actor \<Rightarrow> uid \<Rightarrow> string \<Rightarrow> db \<Rightarrow> (err + template_view) \<times> db" where
  "SetTemplateStatus ai actor i status d =
     (if i = 0 then (Inl ErrTemplateNotFound, d)
      else if \<not> isIssuanceStatus status then (Inl (ErrInvalidTemplate (''unknown status '' @ status)), d)
      else case commit (set_status_tx ai actor i status) d of
          (Inl e, d') \<Rightarrow> (Inl e, d')
        | (Inr updated, d') \<Rightarrow> (Inr (toTemplateView updated), d'))"

text \<open>One grouped query for the page: the templates with a used coupon, and how many they have.\<close>

definition countUsedCoupons :: "template_row list \<Rightarrow> db \<Rightarrow> (uid \<times> nat) list" where
  "countUsedCoupons ts d =
     (let used = filter (\<lambda>k. k_template k \<in> t_id ` set ts \<and> k_status k = ''used'') (user_coupons d) in
      map (\<lambda>i. (i, affected (\<lambda>k. k_template k = i) used)) (remdups (map k_template used)))"

definition ListTemplates :: "int \<Rightarrow> int \<Rightarrow> db \<Rightarrow> (template_view \<times> nat) list \<times> nat" where
  "ListTemplates page pageSize d =
     (let page = (if page < 1 then 1 else page);
          pageSize = (if pageSize < 1 \<or> pageSize > 100 then 20 else pageSize);
          ts = offset_limit (int64 (int64 (page - 1) * pageSize)) pageSize (sort_desc t_id (templates d));
          counts = countUsedCoupons ts d
      in (map (\<lambda>t. (toTemplateView t,
            case map_of counts (t_id t) of None \<Rightarrow> 0 | Some n \<Rightarrow> n)) ts,
          length (templates d)))"

section \<open>The auditor of refused writes\<close>

definition roleNameOf :: "uid \<Rightarrow> db \<Rightarrow> string" where
  "roleNameOf adminID d = (case FindByID adminID d of Inl e \<Rightarrow> [] | Inr view \<Rightarrow> av_role_name view)"

definition denied_entry :: "uid \<Rightarrow> descriptor \<Rightarrow> db \<Rightarrow> audit_entry" where
  "denied_entry adminID descriptor d =
     \<lparr>ActorAdminID = Some adminID, ActorRole = roleNameOf adminID d, Action = fst descriptor,
      TargetType = snd descriptor, TargetID = None, Result = ''failure'', BeforeData = [],
      AfterData = [(''reason'', AStr ''insufficient permission'')]\<rparr>"

definition denied_tx :: "uid \<Rightarrow> uid \<Rightarrow> descriptor \<Rightarrow> unit tx" where
  "denied_tx ai adminID descriptor d =
     sbind (write_audit ai (denied_entry adminID descriptor d) d) (\<lambda>d'. Inr ((), d'))"

definition RecordPermissionDenied :: "uid \<Rightarrow> uid \<Rightarrow> descriptor \<Rightarrow> db \<Rightarrow> db" where
  "RecordPermissionDenied ai adminID descriptor d = snd (commit (denied_tx ai adminID descriptor) d)"

interpretation denied: recorder "RecordPermissionDenied ai adminID descriptor"
  for ai adminID descriptor
  unfolding RecordPermissionDenied_def by (rule recorder_commit) (simp add: denied_tx_def)

section \<open>The endpoints\<close>

record create_template_request =
  ct_name :: string
  ct_threshold :: int
  ct_discount :: int
  ct_total :: int
  ct_limit :: int
  ct_from :: string
  ct_until :: string

definition parseTimestamp :: "(string \<Rightarrow> time option) \<Rightarrow> string \<Rightarrow> err + time" where
  "parseTimestamp parse_time raw = (case parse_time (trim_space raw) of
       None \<Rightarrow> Inl (ErrOther ''invalid timestamp'') | Some t \<Rightarrow> Inr t)"

definition toInput ::
  "(string \<Rightarrow> time option) \<Rightarrow> create_template_request \<Rightarrow> err + template_input" where
  "toInput parse_time r =
     sbind (parseTimestamp parse_time (ct_from r)) (\<lambda>validFrom.
     sbind (parseTimestamp parse_time (ct_until r)) (\<lambda>validUntil.
     Inr \<lparr>ti_name = ct_name r, ti_threshold = ct_threshold r, ti_discount = ct_discount r,
       ti_total = ct_total r, ti_limit = ct_limit r, ti_from = validFrom, ti_until = validUntil\<rparr>))"

record template_json =
  tj_id :: string
  tj_name :: string
  tj_threshold :: int
  tj_discount :: int
  tj_total :: int
  tj_limit :: int
  tj_received :: int
  tj_from :: time
  tj_until :: time
  tj_status :: string

definition toTemplateJSON :: "(uid \<Rightarrow> string) \<Rightarrow> template_view \<Rightarrow> template_json" where
  "toTemplateJSON us v = \<lparr>tj_id = us (tv_id v), tj_name = tv_name v, tj_threshold = tv_threshold v,
     tj_discount = tv_discount v, tj_total = tv_total v, tj_limit = tv_limit v,
     tj_received = tv_received v, tj_from = whole_second (tv_from v),
     tj_until = whole_second (tv_until v), tj_status = tv_status v\<rparr>"

definition template_error :: "err \<Rightarrow> http_error" where
  "template_error e = (case e of
       ErrInvalidTemplate m \<Rightarrow> HttpError 400 CodeBadRequest (ErrorText e) | _ \<Rightarrow> internalError)"

definition AdminCreateTemplate ::
  "(string \<Rightarrow> time option) \<Rightarrow> (time \<Rightarrow> time) \<Rightarrow> (string \<Rightarrow> uid option) \<Rightarrow> (uid \<Rightarrow> string) \<Rightarrow> uid \<Rightarrow> uid
   \<Rightarrow> create_template_request option \<Rightarrow> gin_context \<Rightarrow> db \<Rightarrow> template_json reply \<times> db" where
  "AdminCreateTemplate parse_time col up us fresh ai body cx d =
     (case body of
        None \<Rightarrow> (Inl (bad_request ''invalid coupon template payload''), d)
      | Some req \<Rightarrow>
        (case toInput parse_time req of
           Inl e \<Rightarrow> (Inl (bad_request ''invalid coupon template payload''), d)
         | Inr input \<Rightarrow>
           (case resolveActor up us cx d of
              None \<Rightarrow> (Inl missing_admin, d)
            | Some actor \<Rightarrow>
              (case CreateTemplate col fresh ai actor input d of
                 (Inl e, d') \<Rightarrow> (Inl (template_error e), d')
               | (Inr template, d') \<Rightarrow> (Inr (201, toTemplateJSON us template), d')))))"

definition parseIssuanceStatus :: "string \<Rightarrow> string option" where
  "parseIssuanceStatus raw =
     (let status = trim_space raw in if \<not> isIssuanceStatus status then None else Some status)"

text \<open>The body of a switch is its status, the one field the decoder knows.\<close>

definition AdminUpdateTemplateStatus ::
  "(string \<Rightarrow> uid option) \<Rightarrow> (uid \<Rightarrow> string) \<Rightarrow> uid \<Rightarrow> request \<Rightarrow> string option \<Rightarrow> gin_context \<Rightarrow> db
   \<Rightarrow> template_json reply \<times> db" where
  "AdminUpdateTemplateStatus up us ai rq body cx d =
     (case parsePositiveID up us (Param rq ''templateId'') of
        None \<Rightarrow> (Inl (bad_request ''invalid coupon template id''), d)
      | Some i \<Rightarrow>
        (case body of
           None \<Rightarrow> (Inl (bad_request ''invalid coupon template payload''), d)
         | Some raw \<Rightarrow>
           (case parseIssuanceStatus raw of
              None \<Rightarrow> (Inl (bad_request ''invalid coupon template status''), d)
            | Some status \<Rightarrow>
              (case resolveActor up us cx d of
                 None \<Rightarrow> (Inl missing_admin, d)
               | Some actor \<Rightarrow>
                 (case SetTemplateStatus ai actor i status d of
                    (Inr template, d') \<Rightarrow> (Inr (200, toTemplateJSON us template), d')
                  | (Inl e, d') \<Rightarrow>
                    (if e = ErrTemplateNotFound
                     then (Inl (HttpError 404 CodeNotFound (Text ''coupon template not found'')), d')
                     else (Inl (template_error e), d')))))))"

definition AdminListTemplates ::
  "(uid \<Rightarrow> string) \<Rightarrow> request \<Rightarrow> db \<Rightarrow> (template_json \<times> nat) listing reply" where
  "AdminListTemplates us rq d =
     (case parsePaging 20 rq of
        Inl e \<Rightarrow> Inl (HttpError 400 CodeBadRequest (ErrorText e))
      | Inr (page, pageSize) \<Rightarrow>
        Inr (200, page_data (\<lambda>(v, n). (toTemplateJSON us v, n)) page pageSize
          (ListTemplates page pageSize d)))"

text \<open>The routes of \<open>RegisterAdminRoutes\<close>.\<close>

definition couponTemplateAuditDescriptor :: descriptor where
  "couponTemplateAuditDescriptor = (''coupon_template.create'', ''coupon_template'')"

definition couponTemplateStatusAuditDescriptor :: descriptor where
  "couponTemplateStatusAuditDescriptor = (''coupon_template.status_change'', ''coupon_template'')"

definition post_template ::
  "gate_env \<Rightarrow> (string \<Rightarrow> time option) \<Rightarrow> (time \<Rightarrow> time) \<Rightarrow> uid \<Rightarrow> uid \<Rightarrow> time \<Rightarrow> request
   \<Rightarrow> create_template_request option \<Rightarrow> db \<Rightarrow> template_json reply \<times> db" where
  "post_template g parse_time col fresh ai now rq body =
     admin_endpoint g ''coupon:write'' (Some (RecordPermissionDenied ai))
       couponTemplateAuditDescriptor now rq
       (AdminCreateTemplate parse_time col (ge_up g) (ge_us g) fresh ai body)"

definition patch_template ::
  "gate_env \<Rightarrow> uid \<Rightarrow> time \<Rightarrow> request \<Rightarrow> string option \<Rightarrow> db \<Rightarrow> template_json reply \<times> db" where
  "patch_template g ai now rq body =
     admin_endpoint g ''coupon:write'' (Some (RecordPermissionDenied ai))
       couponTemplateStatusAuditDescriptor now rq
       (AdminUpdateTemplateStatus (ge_up g) (ge_us g) ai rq body)"

definition get_templates ::
  "gate_env \<Rightarrow> time \<Rightarrow> request \<Rightarrow> db \<Rightarrow> (template_json \<times> nat) listing reply \<times> db" where
  "get_templates g now rq =
     admin_endpoint g ''coupon:read'' None ([], []) now rq (\<lambda>cx d. (AdminListTemplates (ge_us g) rq d, d))"

end
