(* ===== verification/CouponFacts.thy ===== *)
theory CouponFacts
  imports Coupon Perimeter Effects
begin

text \<open>
  What \<open>internal/coupon\<close> promises: templates satisfy the rules of their table and keep them for good,
  every accepted write is recorded with the account that made it, a refused one leaves a record and
  nothing else, and the list counts what was used.
\<close>

section \<open>What each operation went through\<close>

lemma insert_template_eq_Inr [tx_elims]:
  "insert_template t d = Inr d' \<longleftrightarrow> template_lengths t \<and> template_checks t \<and>
     t_id t \<notin> t_id ` set (templates d) \<and> d' = d\<lparr>templates := templates d @ [t]\<rparr>"
  by (auto simp: insert_template_def tx_elims list_all_iff dest: notin_imageD)

lemma update_template_eq_Inr [tx_elims]:
  "update_template i f d = Inr d' \<longleftrightarrow>
     (\<forall>t\<in>set (templates d). t_id t = i \<longrightarrow> template_lengths (f t) \<and> template_checks (f t)) \<and>
     d' = d\<lparr>templates := update_where (\<lambda>t. t_id t = i) f (templates d)\<rparr>"
  by (auto simp: update_template_def list_all_iff)

lemma stored_id [simp]: "t_id (stored col t) = t_id t"
  by (simp add: stored_def)

definition create_entry :: "actor \<Rightarrow> template_row \<Rightarrow> audit_entry" where
  "create_entry actor t = \<lparr>ActorAdminID = Some (AdminID actor), ActorRole = RoleName actor,
     Action = ''coupon_template.create'', TargetType = ''coupon_template'', TargetID = Some (t_id t),
     Result = ''success'', BeforeData = [], AfterData = templateAuditData t\<rparr>"

lemma CreateTemplate_cases:
  assumes "CreateTemplate col fresh ai actor input d = (Inr v, d')"
  obtains t where "validateTemplateRules input = Inr ()" "t = new_template fresh input"
    "v = toTemplateView t" "template_lengths (stored col t)" "template_checks (stored col t)"
    "fillID fresh 0 \<notin> t_id ` set (templates d)"
    "write_audit ai (create_entry actor t) (d\<lparr>templates := templates d @ [stored col t]\<rparr>) = Inr d'"
  using assms
  by (auto simp: CreateTemplate_def Let_def create_template_tx_def sbind_eq_Inr insert_template_eq_Inr
      commit_ok create_entry_def new_template_def split: sum.splits prod.splits)

lemma CreateTemplate_Inl:
  "CreateTemplate col fresh ai actor input d = (Inl e, d') \<Longrightarrow> d' = d"
  by (auto simp: CreateTemplate_def Let_def commit_failed split: sum.splits prod.splits)

lemma SetTemplateStatus_Inl: "SetTemplateStatus ai actor i status d = (Inl e, d') \<Longrightarrow> d' = d"
  by (auto simp: SetTemplateStatus_def commit_failed split: sum.splits prod.splits if_splits)

definition switch_entry :: "actor \<Rightarrow> uid \<Rightarrow> template_row \<Rightarrow> template_row \<Rightarrow> audit_entry" where
  "switch_entry actor i before after = \<lparr>ActorAdminID = Some (AdminID actor), ActorRole = RoleName actor,
     Action = ''coupon_template.status_change'', TargetType = ''coupon_template'', TargetID = Some i,
     Result = ''success'', BeforeData = templateAuditData before, AfterData = templateAuditData after\<rparr>"

lemma find_update_same:
  assumes "\<And>r. P r \<Longrightarrow> P (f r)"
  shows "find P (update_where P f t) = map_option f (find P t)"
  using assms by (induction t) auto

lemma find_template_switched:
  "find_template i (d\<lparr>templates := update_where (\<lambda>t. t_id t = i) (\<lambda>t. t\<lparr>t_status := s\<rparr>) (templates d)\<rparr>) =
   map_option (\<lambda>t. t\<lparr>t_status := s\<rparr>) (find_template i d)"
  unfolding find_template_def by (simp add: find_update_same)

lemma SetTemplateStatus_cases:
  assumes "SetTemplateStatus ai actor i status d = (Inr v, d')"
  obtains t where "i \<noteq> 0" "isIssuanceStatus status" "find_template i d = Some t"
    "v = toTemplateView (t\<lparr>t_status := status\<rparr>)"
    "write_audit ai (switch_entry actor i t (t\<lparr>t_status := status\<rparr>))
       (d\<lparr>templates := update_where (\<lambda>t. t_id t = i) (\<lambda>t. t\<lparr>t_status := status\<rparr>) (templates d)\<rparr>) = Inr d'"
    "\<forall>t\<in>set (templates d). t_id t = i \<longrightarrow> template_lengths (t\<lparr>t_status := status\<rparr>) \<and>
       template_checks (t\<lparr>t_status := status\<rparr>)"
  using assms
  by (auto simp: SetTemplateStatus_def set_status_tx_def sbind_eq_Inr update_template_eq_Inr commit_ok
      find_template_switched switch_entry_def split: sum.splits prod.splits if_splits option.splits)

section \<open>Invariant and frozen rules\<close>

text \<open>The ranges of the columns' types, which the decoder's Go types share.\<close>

definition template_typed :: "template_row \<Rightarrow> bool" where
  "template_typed t \<longleftrightarrow> in64 (t_threshold t) \<and> in64 (t_discount t) \<and> in32 (t_total t) \<and>
     in32 (t_limit t) \<and> in32 (t_received t)"

definition input_typed :: "template_input \<Rightarrow> bool" where
  "input_typed i \<longleftrightarrow> in64 (ti_threshold i) \<and> in64 (ti_discount i) \<and> in32 (ti_total i) \<and>
     in32 (ti_limit i)"

definition templates_ok :: "db \<Rightarrow> bool" where
  "templates_ok d \<longleftrightarrow> distinct (map t_id (templates d)) \<and>
     (\<forall>t\<in>set (templates d). template_lengths t \<and> template_checks t \<and> template_typed t)"

text \<open>All of a template but its status.\<close>

definition template_rules :: "template_row \<Rightarrow> template_row" where
  "template_rules t = t\<lparr>t_status := []\<rparr>"

text \<open>Rules are kept and templates stay; nothing but templates and the audit log changes.\<close>

definition rules_kept :: "db \<Rightarrow> db \<Rightarrow> bool" where
  "rules_kept d d' \<longleftrightarrow>
     (\<exists>new. map template_rules (templates d') = map template_rules (templates d) @ new) \<and>
     (\<exists>ts log. d' = d\<lparr>templates := ts, audit_logs := log\<rparr>)"

inductive coupon_step :: "db \<Rightarrow> db \<Rightarrow> bool" where
  create: "input_typed input \<Longrightarrow> coupon_step d (snd (CreateTemplate col fresh ai actor input d))"
| switch: "coupon_step d (snd (SetTemplateStatus ai actor i status d))"
| denied: "coupon_step d (RecordPermissionDenied ai adminID descriptor d)"

lemma rules_keptI:
  "map template_rules (templates d') = map template_rules (templates d) @ new \<Longrightarrow>
   d' = d\<lparr>templates := ts, audit_logs := log\<rparr> \<Longrightarrow> rules_kept d d'"
  unfolding rules_kept_def by blast

lemma rules_kept_refl: "rules_kept d d"
  by (rule rules_keptI[where new = "[]" and ts = "templates d" and log = "audit_logs d"]) simp_all

lemma rules_kept_trans:
  assumes "rules_kept d e" "rules_kept e f"
  shows "rules_kept d f"
proof -
  obtain n1 n2 t1 l1 t2 l2 where
    "map template_rules (templates e) = map template_rules (templates d) @ n1"
    "map template_rules (templates f) = map template_rules (templates e) @ n2"
    and e: "e = d\<lparr>templates := t1, audit_logs := l1\<rparr>" and f: "f = e\<lparr>templates := t2, audit_logs := l2\<rparr>"
    using assms unfolding rules_kept_def by blast
  then have "map template_rules (templates f) = map template_rules (templates d) @ (n1 @ n2)" by simp
  moreover have "f = d\<lparr>templates := t2, audit_logs := l2\<rparr>" by (simp add: e f)
  ultimately show ?thesis by (rule rules_keptI)
qed

lemma template_rules_status: "template_rules (t\<lparr>t_status := s\<rparr>) = template_rules t"
  by (simp add: template_rules_def)

lemma new_template_typed: "input_typed input \<Longrightarrow> template_typed (stored col (new_template fresh input))"
  by (simp add: input_typed_def template_typed_def stored_def new_template_def in32_def)

lemma CreateTemplate_step:
  assumes "input_typed input" "templates_ok d"
  shows "templates_ok (snd (CreateTemplate col fresh ai actor input d)) \<and>
    rules_kept d (snd (CreateTemplate col fresh ai actor input d))"
proof (cases "CreateTemplate col fresh ai actor input d")
  case (Pair r d')
  show ?thesis
  proof (cases r)
    case (Inl e)
    then show ?thesis using Pair CreateTemplate_Inl assms(2) rules_kept_refl by fastforce
  next
    case (Inr v)
    then obtain t log where t: "t = new_template fresh input" "template_lengths (stored col t)"
      "template_checks (stored col t)" "t_id (stored col t) \<notin> t_id ` set (templates d)"
      and d': "d' = d\<lparr>templates := templates d @ [stored col t], audit_logs := log\<rparr>"
      using CreateTemplate_cases[of col fresh ai actor input d v d'] Pair
      by (auto simp: write_audit_eq_Inr new_template_def)
    have "templates_ok d'"
      using assms t d' new_template_typed[OF assms(1)] by (auto simp: templates_ok_def)
    moreover have "rules_kept d d'"
      by (rule rules_keptI[OF _ d', where new = "[template_rules (stored col t)]"]) (simp add: d')
    ultimately show ?thesis by (simp add: Pair)
  qed
qed

lemma SetTemplateStatus_step:
  assumes "templates_ok d"
  shows "templates_ok (snd (SetTemplateStatus ai actor i status d)) \<and>
    rules_kept d (snd (SetTemplateStatus ai actor i status d))"
proof (cases "SetTemplateStatus ai actor i status d")
  case (Pair r d')
  show ?thesis
  proof (cases r)
    case (Inl e)
    then show ?thesis using Pair SetTemplateStatus_Inl assms rules_kept_refl by fastforce
  next
    case (Inr v)
    let ?ts = "update_where (\<lambda>t. t_id t = i) (\<lambda>t. t\<lparr>t_status := status\<rparr>) (templates d)"
    obtain log where ok: "\<forall>t\<in>set (templates d). t_id t = i \<longrightarrow>
        template_lengths (t\<lparr>t_status := status\<rparr>) \<and> template_checks (t\<lparr>t_status := status\<rparr>)"
      and d': "d' = d\<lparr>templates := ?ts, audit_logs := log\<rparr>"
      using SetTemplateStatus_cases[of ai actor i status d v d'] Pair Inr
      by (auto simp: write_audit_eq_Inr)
    have "map t_id ?ts = map t_id (templates d)" by (rule map_update_where) simp
    then have "templates_ok d'"
      using assms ok d' by (auto simp: templates_ok_def set_update_where template_typed_def)
    moreover have "rules_kept d d'"
      by (rule rules_keptI[OF _ d', where new = "[]"])
         (simp add: d' map_update_where template_rules_status)
    ultimately show ?thesis by (simp add: Pair)
  qed
qed

lemma RecordPermissionDenied_step:
  assumes "templates_ok d"
  shows "templates_ok (RecordPermissionDenied ai adminID descriptor d) \<and>
    rules_kept d (RecordPermissionDenied ai adminID descriptor d)"
proof -
  obtain t where t: "RecordPermissionDenied ai adminID descriptor d = d\<lparr>audit_logs := t\<rparr>"
    using denied.only_log by blast
  have "rules_kept d (d\<lparr>audit_logs := t\<rparr>)"
    by (rule rules_keptI[where new = "[]" and ts = "templates d" and log = t]) simp_all
  then show ?thesis using assms by (simp add: t templates_ok_def)
qed

lemma coupon_step_ok: "coupon_step d d' \<Longrightarrow> templates_ok d \<Longrightarrow> templates_ok d' \<and> rules_kept d d'"
  by (induction rule: coupon_step.induct)
     (blast dest: CreateTemplate_step SetTemplateStatus_step RecordPermissionDenied_step)+

text \<open>
  C35: Every stored template satisfies the types, lengths and rules of its table, and however templates
  are created and switched, the rules of a template are never changed and no template goes away;
  the rest of the shop is not touched.
\<close>

theorem templates_typed:
  assumes "coupon_step\<^sup>*\<^sup>* d d'" and "templates_ok d"
  shows "templates_ok d' \<and> rules_kept d d'"
  using assms
  by (induction rule: rtranclp_induct) (auto intro: rules_kept_refl rules_kept_trans dest: coupon_step_ok)

lemma coupon_demo_ok: "templates_ok demo_db"
  by (simp add: templates_ok_def demo_defs)

definition demo_template :: template_input where
  "demo_template = \<lparr>ti_name = '' Spring '', ti_threshold = 100, ti_discount = 20, ti_total = 50,
     ti_limit = 1, ti_from = 5000, ti_until = 9000\<rparr>"

definition demo_issued :: db where
  "demo_issued = snd (CreateTemplate (\<lambda>t. t) 101 96 \<lparr>AdminID = 41, RoleName = ''super_admin''\<rparr>
     demo_template demo_db)"

lemma templates_typed_witness:
  "rules_kept demo_db demo_issued \<and> map t_name (templates demo_issued) = [''Spring'']"
proof -
  have "input_typed demo_template" by (simp add: input_typed_def demo_template_def in64_def in32_def)
  then have "coupon_step demo_db demo_issued" unfolding demo_issued_def by (rule coupon_step.create)
  then have "rules_kept demo_db demo_issued"
    using templates_typed[OF r_into_rtranclp coupon_demo_ok] by blast
  moreover have "map t_name (templates demo_issued) = [''Spring'']" by code_simp
  ultimately show ?thesis by blast
qed

section \<open>The endpoints\<close>

lemma write_audit_denied:
  assumes "find_admin i d = Some a" "ai \<notin> au_id ` set (audit_logs d)" "rune_count (roleNameOf i d) \<le> 32"
    "rune_count (fst descriptor) \<le> 64" "rune_count (snd descriptor) \<le> 64"
  shows "RecordPermissionDenied ai i descriptor d =
    d\<lparr>audit_logs := audit_logs d @ [audit_row_of ai (denied_entry i descriptor d)]\<rparr>"
proof -
  have "i \<in> ad_id ` set (admins d)" using find_admin_SomeD[OF assms(1)] by force
  then have "audit_valid ai (denied_entry i descriptor d) d"
    using assms by (simp add: audit_valid_def audit_lengths_def audit_checks_def audit_row_of_def
        denied_entry_def admin_ref_def rune_count_ascii ascii_def byte_def)
  then have "write_audit ai (denied_entry i descriptor d) d =
      Inr (d\<lparr>audit_logs := audit_logs d @ [audit_row_of ai (denied_entry i descriptor d)]\<rparr>)"
    using assms(2) by (simp add: write_audit_eq_Inr audit_appended_def)
  then show ?thesis by (simp add: RecordPermissionDenied_def denied_tx_def commit_def)
qed

text \<open>
  C37: A write of an administrator without the permission is answered with 403 and leaves exactly one
  failure row, in the name of the administrator and of the write that was refused: no template is
  created and none is switched.
\<close>

theorem denied_write_audited:
  assumes "admin_session g now rq d = Inr cx" "cx_claims cx = Some c"
    and "AdminIDFromSubject (ge_up g) (ge_us g) (cl_subject c) = Inr i"
    and "PermissionsForAdmin i d = Inr ps" "''coupon:write'' \<notin> set ps"
    and "ai \<notin> au_id ` set (audit_logs d)" "rune_count (roleNameOf i d) \<le> 32"
  shows "post_template g parse_time col fresh ai now rq body d =
      (Inl (HttpError 403 CodeForbidden (Text ''insufficient permission'')),
       d\<lparr>audit_logs := audit_logs d @ [audit_row_of ai (denied_entry i couponTemplateAuditDescriptor d)]\<rparr>) \<and>
    patch_template g ai now rq status d =
      (Inl (HttpError 403 CodeForbidden (Text ''insufficient permission'')),
       d\<lparr>audit_logs := audit_logs d @
          [audit_row_of ai (denied_entry i couponTemplateStatusAuditDescriptor d)]\<rparr>)"
proof -
  obtain a where a: "find_admin i d = Some a"
    using assms(4) by (auto simp: PermissionsForAdmin_def split: option.splits if_splits)
  have short: "rune_count (fst couponTemplateAuditDescriptor) \<le> 64"
    "rune_count (snd couponTemplateAuditDescriptor) \<le> 64"
    "rune_count (fst couponTemplateStatusAuditDescriptor) \<le> 64"
    "rune_count (snd couponTemplateStatusAuditDescriptor) \<le> 64" by code_simp+
  have "admin_route g ''coupon:write'' (Some (RecordPermissionDenied ai)) desc now rq d =
      (Inl (HttpError 403 CodeForbidden (Text ''insufficient permission'')),
       RecordPermissionDenied ai i desc d)" for desc
    using assms(1-5)
    by (simp add: admin_route_def AuditedAdminPermission_def permissionGate_def abort_defs code_defs)
  then show ?thesis
    using write_audit_denied[OF a assms(6,7)] short
    by (simp add: post_template_def patch_template_def admin_endpoint_def)
qed

lemma denied_write_audited_witness:
  "map au_result (audit_logs (snd (post_template demo_gate (\<lambda>_. None) (\<lambda>t. t) 101 96 30
     demo_ship_request None demo_db))) = [''failure'']"
proof -
  let ?s = "admin_session demo_gate 30 demo_ship_request demo_db"
  have e: "\<not> isl ?s" "map_sum (\<lambda>_. ()) cx_claims ?s = Inr (Some demo_claims)"
    "AdminIDFromSubject (ge_up demo_gate) (ge_us demo_gate) (cl_subject demo_claims) = Inr 41"
    "PermissionsForAdmin 41 demo_db = Inr [''order:ship'']" "''coupon:write'' \<notin> set [''order:ship'']"
    "96 \<notin> au_id ` set (audit_logs demo_db)" "rune_count (roleNameOf 41 demo_db) \<le> 32" by code_simp+
  from e(1) obtain cx where cx: "?s = Inr cx" by (cases ?s) auto
  have c: "cx_claims cx = Some demo_claims" using e(2) by (simp add: cx)
  have "audit_logs demo_db = []" by (simp add: demo_defs)
  then show ?thesis
    using denied_write_audited[OF cx c e(3-7)] by (simp add: audit_row_of_def denied_entry_def)
qed

lemma admin_route_Inl_db:
  "admin_route g required (Some auditor) descriptor now rq d = (Inl r, d') \<Longrightarrow>
   d' = d \<or> (\<exists>i. d' = auditor i descriptor d)"
  by (auto simp: admin_route_def AuditedAdminPermission_def permissionGate_def
      split: sum.splits prod.splits option.splits if_splits err.splits)

lemma AdminCreateTemplate_cases:
  assumes "AdminCreateTemplate parse_time col up us fresh ai body cx d = (r, d')"
    and "resolveActor up us cx d = Some actor" and "ai \<notin> au_id ` set (audit_logs d)"
  shows "case r of
      Inl e \<Rightarrow> templates d' = templates d
    | Inr (st, j) \<Rightarrow> \<exists>req input t. body = Some req \<and> toInput parse_time req = Inr input \<and>
        t = new_template fresh input \<and> st = 201 \<and> j = toTemplateJSON us (toTemplateView t) \<and>
        d' = d\<lparr>templates := templates d @ [stored col t],
          audit_logs := audit_logs d @ [audit_row_of ai (create_entry actor t)]\<rparr>"
proof (cases body)
  case None
  then show ?thesis using assms(1) by (auto simp: AdminCreateTemplate_def)
next
  case (Some req)
  show ?thesis
  proof (cases "toInput parse_time req")
    case (Inl e)
    then show ?thesis using assms(1) Some by (auto simp: AdminCreateTemplate_def)
  next
    case (Inr input)
    show ?thesis
    proof (cases "CreateTemplate col fresh ai actor input d")
      case (Pair x d1)
      show ?thesis
      proof (cases x)
        case (Inl e)
        then show ?thesis
          using assms(1,2) Some Inr Pair CreateTemplate_Inl[of col fresh ai actor input d e d1]
          by (auto simp: AdminCreateTemplate_def)
      next
        case x: (Inr v)
        then have c: "CreateTemplate col fresh ai actor input d = (Inr v, d1)" using Pair by simp
        have rd: "r = Inr (201, toTemplateJSON us v)" "d' = d1"
          using assms(1,2) Some Inr Pair x by (auto simp: AdminCreateTemplate_def)
        show ?thesis
          using Some Inr rd assms(3)
          by (rule_tac CreateTemplate_cases[OF c]) (auto simp: write_audit_eq_Inr audit_appended_def)
      qed
    qed
  qed
qed

lemma denied_templates: "templates (RecordPermissionDenied ai i descriptor d) = templates d"
  by (rule denied.keeps) simp_all

text \<open>
  What a creation that is answered with success did: an administrator who may write coupons was
  named by the token; one template was added, with the rules of the request, none received and
  active; and one audit row was, in the name of that administrator and of the role held. Any
  other answer left the templates alone.
\<close>

theorem template_created:
  assumes "post_template g parse_time col fresh ai now rq body d = (r, d')"
    and "ai \<notin> au_id ` set (audit_logs d)"
  shows "case r of
      Inl e \<Rightarrow> templates d' = templates d
    | Inr (st, j) \<Rightarrow> \<exists>req input i t. body = Some req \<and> toInput parse_time req = Inr input \<and>
        may_act d i ''coupon:write'' \<and> t = new_template fresh input \<and>
        st = 201 \<and> j = toTemplateJSON (ge_us g) (toTemplateView t) \<and>
        d' = d\<lparr>templates := templates d @ [stored col t],
          audit_logs := audit_logs d @
            [audit_row_of ai (create_entry \<lparr>AdminID = i, RoleName = roleNameOf i d\<rparr> t)]\<rparr>"
proof (cases "admin_route g ''coupon:write'' (Some (RecordPermissionDenied ai))
    couponTemplateAuditDescriptor now rq d")
  case (Pair gate d1)
  show ?thesis
  proof (cases gate)
    case (Inl e)
    then have "r = Inl e" "d' = d1"
      using assms(1) Pair by (auto simp: post_template_def admin_endpoint_def)
    moreover have "d1 = d \<or> (\<exists>i. d1 = RecordPermissionDenied ai i couponTemplateAuditDescriptor d)"
      using Pair Inl by (simp add: admin_route_Inl_db)
    then have "templates d1 = templates d" by (elim disjE exE) (simp_all add: denied_templates)
    ultimately show ?thesis by simp
  next
    case (Inr cx)
    then obtain ps c i where g: "d1 = d" "cx_claims cx = Some c"
      "AdminIDFromSubject (ge_up g) (ge_us g) (cl_subject c) = Inr i"
      "PermissionsForAdmin i d = Inr ps" "''coupon:write'' \<in> set ps"
      using Pair admin_route_InrD by metis
    have may: "may_act d i ''coupon:write''" using console.perms_may g(4,5) by blast
    have actor: "resolveActor (ge_up g) (ge_us g) cx d = Some \<lparr>AdminID = i, RoleName = roleNameOf i d\<rparr>"
      using g(2,3) by (simp add: resolveActor_def adminIDFromGin_def roleNameOf_def)
    have h: "AdminCreateTemplate parse_time col (ge_up g) (ge_us g) fresh ai body cx d = (r, d')"
      using assms(1) Pair Inr g(1) by (simp add: post_template_def admin_endpoint_def)
    show ?thesis
      using AdminCreateTemplate_cases[OF h actor assms(2)] may by (cases r) (simp, clarsimp, blast)
  qed
qed

definition coupon_db :: db where
  "coupon_db = demo_db\<lparr>permissions := permissions demo_db @ [\<lparr>m_id = 63, m_code = ''coupon:write''\<rparr>],
     role_permissions := [\<lparr>rp_role = 51, rp_permission = 63\<rparr>]\<rparr>"

definition demo_body :: create_template_request where
  "demo_body = \<lparr>ct_name = ''Spring'', ct_threshold = 100, ct_discount = 20, ct_total = 50,
     ct_limit = 1, ct_from = ''a'', ct_until = ''ab''\<rparr>"

lemma template_created_witness:
  "\<exists>i. may_act coupon_db i ''coupon:write'' \<and>
     map t_name (templates (snd (post_template demo_gate (\<lambda>s. Some (int (length s))) (\<lambda>t. t) 101 96 30
       demo_ship_request (Some demo_body) coupon_db))) = [''Spring'']"
proof -
  let ?p = "post_template demo_gate (\<lambda>s. Some (int (length s))) (\<lambda>t. t) 101 96 30 demo_ship_request
    (Some demo_body) coupon_db"
  have e: "\<not> isl (fst ?p)" "96 \<notin> au_id ` set (audit_logs coupon_db)"
    "map t_name (templates (snd ?p)) = [''Spring'']" by code_simp+
  show ?thesis
    using template_created[OF returned[OF e(1)] e(2)] e(3) by (cases "projr (fst ?p)") auto
qed

section \<open>Used coupons\<close>

text \<open>
  The list gives every template of the page, newest first, the number of its used coupons, those
  without any included, from one query over the page.
\<close>

lemma map_of_graph: "map_of (map (\<lambda>i. (i, f i)) is) i = (if i \<in> set is then Some (f i) else None)"
  by (induction "is") auto

lemma used_counts:
  assumes "t \<in> set ts"
  shows "(case map_of (countUsedCoupons ts d) (t_id t) of None \<Rightarrow> 0 | Some n \<Rightarrow> n) =
    affected (\<lambda>k. k_template k = t_id t \<and> k_status k = ''used'') (user_coupons d)"
proof -
  have "filter (\<lambda>k. k_template k = t_id t \<and> k_template k \<in> t_id ` set ts \<and> k_status k = ''used'')
      (user_coupons d) =
    filter (\<lambda>k. k_template k = t_id t \<and> k_status k = ''used'') (user_coupons d)"
    using assms by (intro filter_cong) auto
  moreover have "filter (\<lambda>k. k_template k = t_id t) (filter (\<lambda>k. k_template k \<in> t_id ` set ts \<and>
      k_status k = ''used'') (user_coupons d)) = []"
    if "t_id t \<notin> set (map k_template (filter (\<lambda>k. k_template k \<in> t_id ` set ts \<and>
      k_status k = ''used'') (user_coupons d)))"
    using that by (force simp: filter_empty_conv)
  ultimately show ?thesis
    unfolding countUsedCoupons_def Let_def map_of_graph affected_def by (auto simp: conj_ac)
qed

lemma ListTemplates_counts:
  "(v, n) \<in> set (fst (ListTemplates page pageSize d)) \<Longrightarrow>
   n = affected (\<lambda>k. k_template k = tv_id v \<and> k_status k = ''used'') (user_coupons d)"
  by (auto simp: ListTemplates_def Let_def used_counts toTemplateView_def)

section \<open>Rules that are accepted and rows that are not\<close>

text \<open>
  The rules of a request do not bound the name, and compare times finer than the column keeps them:
  such a request passes them and fails in the table, which the endpoint reports as an internal
  error. The spec asks for 1001.
\<close>

lemma long_name_refused:
  assumes "validateTemplateRules input = Inr ()" "64 < rune_count (trim_space (ti_name input))"
  shows "CreateTemplate col fresh ai actor input d = (Inl StringTooLong, d) \<and>
    template_error StringTooLong = internalError"
  using assms
  by (simp add: CreateTemplate_def Let_def create_template_tx_def insert_template_def insert_checked_def
      template_lengths_def stored_def new_template_def commit_def template_error_def)

lemma short_window_refused:
  assumes "validateTemplateRules input = Inr ()" "rune_count (trim_space (ti_name input)) \<le> 64"
    and "col (ti_from input) = col (ti_until input)"
  shows "CreateTemplate col fresh ai actor input d = (Inl CheckViolation, d) \<and>
    template_error CheckViolation = internalError"
  using assms
  by (simp add: CreateTemplate_def Let_def create_template_tx_def insert_template_def insert_checked_def
      template_lengths_def template_checks_def stored_def new_template_def commit_def template_error_def
      rune_count_ascii ascii_def byte_def)

end
