(* ===== verification/Server.thy ===== *)
theory Server
  imports World Endpoints Uploads CouponFacts
begin

text \<open>
  The server: every endpoint, behind the gates \<open>register.go\<close> of its package puts in front of it, as one
  function \<open>serve\<close> from a call to what it does to the tables; the health check, the metrics and the
  static images, which touch none, are in \<open>Router\<close>. A request comes
  down to at most one operation of \<open>shop_step\<close>, or to work of the administration that leaves the shop
  alone, so what holds of every run of operations holds of every run of requests, whoever sends
  them.
\<close>

section \<open>Routes\<close>

text \<open>
  What the composition root builds: the gates of the two realms, the console, the public base URL as
  the constructors trim it, the hashes, time parsing, the column type of times, \<open>ILIKE\<close>, the login of
  buyers with the signup bonus, and the limits and decoders of uploads.
\<close>

record server =
  sv_buyer :: gate_env
  sv_admin :: gate_env
  sv_console :: console
  sv_login :: login_env
  sv_base :: string
  sv_order_hash :: "hash_payload \<Rightarrow> string"
  sv_points_hash :: "uid \<times> int \<times> string \<Rightarrow> string"
  sv_time :: "string \<Rightarrow> time option"
  sv_col :: "time \<Rightarrow> time"
  sv_ilike :: "string \<Rightarrow> string \<Rightarrow> bool"
  sv_upload :: upload_env

text \<open>What the processing of one request draws: new ids, readings of clocks, an order number.\<close>

record draw =
  dr_id :: "nat \<Rightarrow> uid"
  dr_now :: time
  dr_clock :: time
  dr_no :: string

definition order_env :: "server \<Rightarrow> draw \<Rightarrow> env" where
  "order_env s w = \<lparr>e_us = ge_us (sv_buyer s), e_hash = sv_order_hash s, e_order = dr_id w 0,
     e_item = (\<lambda>n. dr_id w (n + 2)), e_ledger = dr_id w 1, e_now = dr_now w, e_clock = dr_clock w,
     e_no = dr_no w\<rparr>"

text \<open>
  The calls, with their decoded bodies; \<open>early\<close> is what the first read of an idempotent request saw.
  The limiters' buckets belong to the process and are part of a login, the volume and the drawn
  UUID part of an upload.
\<close>

datatype get =
    Categories | Products | OneProduct | Myself | Addresses | CartItems | Orders | OneOrder | Ledger
  | Session | Roles | AdminUsers | Users | AuditLogs | AdminProducts | AdminOneProduct | Templates
  | AdminOrders | AdminOneOrder | AdminRefunds | AdminLedger

datatype call =
    BuyerLogin string "string option" "buckets option" int
  | PatchProfile "(string option \<times> string option) option"
  | PostAvatar upload volume string
  | PostAddress "address_input option"
  | PatchAddress "address_update option"
  | RemoveAddress
  | PostCartItem "(string \<times> int option) option"
  | PatchCartItem "int option option"
  | RemoveCartItem
  | PostOrder "order_create_request option" db
  | PostRefund "string option"
  | PostConfirm
  | AdminLogin string string "(string \<times> string) option" login_limiter
  | AdminLogout
  | AdminPassword "(string \<times> string) option"
  | PostRole "(string \<times> string list) option"
  | PatchRole "(string option \<times> string list option) option"
  | PatchAdminUser "(bool option \<times> string) option"
  | PostProduct "product_write_request option"
  | PatchProduct "product_update option"
  | PostTemplate "create_template_request option"
  | PatchTemplate "string option"
  | PostImage upload volume string
  | PostShip
  | PostApprove
  | PostReject "string option"
  | PostAdjust "points_adjust_request option" db
  | Get get

text \<open>The three endpoints of \<open>/auth\<close> need a session but no permission.\<close>

definition session_endpoint :: "gate_env \<Rightarrow> time \<Rightarrow> request \<Rightarrow> (gin_context \<Rightarrow> db \<Rightarrow> 'a \<times> db) \<Rightarrow> db \<Rightarrow> db" where
  "session_endpoint g now rq h d =
     (case admin_session g now rq d of Inl r \<Rightarrow> d | Inr cx \<Rightarrow> snd (h cx d))"

definition serve_buyer :: "server \<Rightarrow> draw \<Rightarrow> request \<Rightarrow> (gin_context \<Rightarrow> db \<Rightarrow> 'j reply \<times> db) \<Rightarrow> db \<Rightarrow> db" where
  "serve_buyer s w rq h d = snd (buyer_endpoint (sv_buyer s) (dr_now w) rq h d)"

definition serve_admin ::
  "server \<Rightarrow> draw \<Rightarrow> string \<Rightarrow> request \<Rightarrow> (gin_context \<Rightarrow> db \<Rightarrow> 'j reply \<times> db) \<Rightarrow> db \<Rightarrow> db" where
  "serve_admin s w required rq h d =
     snd (admin_endpoint (sv_admin s) required None ([], []) (dr_now w) rq h d)"

text \<open>An upload's reply and tables; its volume is not the database's.\<close>

definition tables_of :: "'r \<times> volume \<times> db \<Rightarrow> 'r \<times> db" where
  "tables_of p = (fst p, snd (snd p))"

text \<open>
  One definition per function that registers routes; \<open>None\<close> for a call that is not one of its routes.
\<close>

type_synonym routes = "server \<Rightarrow> draw \<Rightarrow> request \<Rightarrow> call \<Rightarrow> db \<Rightarrow> db option"

definition RegisterBuyerAuthRoutes :: routes where
  "RegisterBuyerAuthRoutes s w rq c d = (case c of
       BuyerLogin client_ip body buckets tick \<Rightarrow>
         Some (snd (snd (LoginHandler (sv_login s) (dr_id w 0) (dr_id w 1) (dr_clock w) tick (dr_now w)
           client_ip rq body buckets d)))
     | _ \<Rightarrow> None)"

definition RegisterPublicRoutes :: routes where
  "RegisterPublicRoutes s w rq c d =
     (let us = ge_us (sv_buyer s); up = ge_up (sv_buyer s); base = sv_base s in
      case c of
        Get Products \<Rightarrow> Some (snd (ListProducts (sv_ilike s) us base rq d))
      | Get OneProduct \<Rightarrow> Some (snd (GetProduct up us base rq d))
      | Get Categories \<Rightarrow> Some (snd (ListCategoriesHandler d))
      | _ \<Rightarrow> None)"

definition RegisterProfileRoutes :: routes where
  "RegisterProfileRoutes s w rq c d =
     (let us = ge_us (sv_buyer s); up = ge_up (sv_buyer s); clock = dr_clock w in
      case c of
        Get Myself \<Rightarrow> Some (serve_buyer s w rq (GetMe up us) d)
      | PatchProfile body \<Rightarrow> Some (serve_buyer s w rq (UpdateMe up us clock body) d)
      | PostAvatar file v uuid \<Rightarrow> Some (serve_buyer s w rq
          (\<lambda>cx d. tables_of (UploadAvatar (sv_upload s) up us uuid clock clock file cx v d)) d)
      | _ \<Rightarrow> None)"

definition RegisterAddressRoutes :: routes where
  "RegisterAddressRoutes s w rq c d =
     (let us = ge_us (sv_buyer s); up = ge_up (sv_buyer s); clock = dr_clock w in
      case c of
        Get Addresses \<Rightarrow> Some (serve_buyer s w rq (ListAddresses up us) d)
      | PostAddress body \<Rightarrow> Some (serve_buyer s w rq (CreateAddress up us clock (dr_id w 0) body) d)
      | PatchAddress body \<Rightarrow> Some (serve_buyer s w rq (UpdateAddress up us clock rq body) d)
      | RemoveAddress \<Rightarrow> Some (serve_buyer s w rq (DeleteAddress up us rq) d)
      | _ \<Rightarrow> None)"

definition cart_RegisterRoutes :: routes where
  "cart_RegisterRoutes s w rq c d =
     (let us = ge_us (sv_buyer s); up = ge_up (sv_buyer s); base = sv_base s in
      case c of
        Get CartItems \<Rightarrow> Some (serve_buyer s w rq (GetCart up us base) d)
      | PostCartItem body \<Rightarrow> Some (serve_buyer s w rq (AddCartItem up us base (dr_id w 0) body) d)
      | PatchCartItem body \<Rightarrow> Some (serve_buyer s w rq (UpdateCartItem up us base rq body) d)
      | RemoveCartItem \<Rightarrow> Some (serve_buyer s w rq (DeleteCartItem up us rq) d)
      | _ \<Rightarrow> None)"

definition order_RegisterBuyerRoutes :: routes where
  "order_RegisterBuyerRoutes s w rq c d =
     (let us = ge_us (sv_buyer s); up = ge_up (sv_buyer s); base = sv_base s in
      case c of
        PostOrder body early \<Rightarrow> Some (serve_buyer s w rq (CreateOrder up base (order_env s w) early rq body) d)
      | Get Orders \<Rightarrow> Some (serve_buyer s w rq (ListOrders up us base rq) d)
      | Get OneOrder \<Rightarrow> Some (serve_buyer s w rq (GetOrder up us base rq) d)
      | PostRefund body \<Rightarrow> Some (serve_buyer s w rq (RequestRefund up us base rq body) d)
      | PostConfirm \<Rightarrow> Some (serve_buyer s w rq (ConfirmOrder up us base (dr_now w) rq) d)
      | Get Ledger \<Rightarrow> Some (serve_buyer s w rq (ListPointsLedger up us rq) d)
      | _ \<Rightarrow> None)"

definition admin_RegisterRoutes :: routes where
  "admin_RegisterRoutes s w rq c d =
     (let g = sv_admin s; h = sv_console s; i0 = dr_id w 0; i1 = dr_id w 1; now = dr_now w in
      case c of
        AdminLogin csrf client_ip body limiter \<Rightarrow>
          Some (case admin_group g rq of
             Inl r \<Rightarrow> d
           | Inr _ \<Rightarrow> snd (snd (ConsoleLogin h i0 i1 now csrf client_ip rq body limiter d)))
      | AdminLogout \<Rightarrow> Some (session_endpoint g now rq (ConsoleLogout h i0) d)
      | AdminPassword body \<Rightarrow> Some (session_endpoint g now rq (ConsoleChangePassword h i0 body) d)
      | Get Session \<Rightarrow> Some (session_endpoint g now rq (Me h) d)
      | Get Roles \<Rightarrow> Some (serve_admin s w ''role:manage'' rq (\<lambda>cx. ConsoleListRoles h) d)
      | PostRole body \<Rightarrow> Some (serve_admin s w ''role:manage'' rq (ConsoleCreateRole h i0 i1 body) d)
      | PatchRole body \<Rightarrow> Some (serve_admin s w ''role:manage'' rq (ConsoleUpdateRole h i0 rq body) d)
      | Get AdminUsers \<Rightarrow> Some (serve_admin s w ''role:manage'' rq (\<lambda>cx. ConsoleListAdminUsers h rq) d)
      | PatchAdminUser body \<Rightarrow>
          Some (serve_admin s w ''role:manage'' rq (ConsoleUpdateAdminUser h i0 i1 rq body) d)
      | Get Users \<Rightarrow> Some (serve_admin s w ''user:read'' rq (\<lambda>cx. ConsoleListUsers (sv_ilike s) h rq) d)
      | Get AuditLogs \<Rightarrow> Some (serve_admin s w ''audit:read'' rq (\<lambda>cx. ConsoleListAuditLogs h rq) d)
      | _ \<Rightarrow> None)"

definition product_RegisterAdminRoutes :: routes where
  "product_RegisterAdminRoutes s w rq c d =
     (let us = ge_us (sv_admin s); up = ge_up (sv_admin s); base = sv_base s in
      case c of
        Get AdminProducts \<Rightarrow> Some (serve_admin s w ''product:read'' rq (AdminListProducts us base rq) d)
      | PostProduct body \<Rightarrow>
          Some (serve_admin s w ''product:write'' rq (AdminCreateProduct up us base (dr_id w 0) (dr_id w 1) body) d)
      | Get AdminOneProduct \<Rightarrow> Some (serve_admin s w ''product:read'' rq (AdminGetProduct up us base rq) d)
      | PatchProduct body \<Rightarrow>
          Some (serve_admin s w ''product:write'' rq (AdminUpdateProduct up us base (dr_id w 0) rq body) d)
      | _ \<Rightarrow> None)"

definition coupon_RegisterAdminRoutes :: routes where
  "coupon_RegisterAdminRoutes s w rq c d =
     (let g = sv_admin s; i0 = dr_id w 0; now = dr_now w in
      case c of
        PostTemplate body \<Rightarrow>
          Some (snd (post_template g (sv_time s) (sv_col s) i0 (dr_id w 1) now rq body d))
      | PatchTemplate body \<Rightarrow> Some (snd (patch_template g i0 now rq body d))
      | Get Templates \<Rightarrow> Some (snd (get_templates g now rq d))
      | _ \<Rightarrow> None)"

definition RegisterImageRoutes :: routes where
  "RegisterImageRoutes s w rq c d = (case c of
       PostImage file v uuid \<Rightarrow> Some (serve_admin s w ''image:write'' rq
         (\<lambda>cx d. tables_of (Upload (sv_upload s) (ge_up (sv_admin s)) (ge_us (sv_admin s)) uuid (dr_id w 0)
            (dr_clock w) file cx v d)) d)
     | _ \<Rightarrow> None)"

definition order_RegisterAdminRoutes :: routes where
  "order_RegisterAdminRoutes s w rq c d =
     (let us = ge_us (sv_admin s); up = ge_up (sv_admin s); base = sv_base s;
          i0 = dr_id w 0; i1 = dr_id w 1; i2 = dr_id w 2; now = dr_now w in
      case c of
        Get AdminOrders \<Rightarrow> Some (serve_admin s w ''order:read'' rq (AdminListOrders us base rq) d)
      | Get AdminOneOrder \<Rightarrow> Some (serve_admin s w ''order:read'' rq (AdminGetOrder up us base rq) d)
      | PostShip \<Rightarrow> Some (serve_admin s w ''order:ship'' rq (AdminShipOrder up us base i0 i1 now rq) d)
      | Get AdminRefunds \<Rightarrow> Some (serve_admin s w ''refund:read'' rq (\<lambda>cx. AdminListRefunds us base rq cx) d)
      | PostApprove \<Rightarrow> Some (serve_admin s w ''refund:approve'' rq (AdminApproveRefund up us base i0 i1 i2 now rq) d)
      | PostReject body \<Rightarrow> Some (serve_admin s w ''refund:approve'' rq (AdminRejectRefund up us base i0 i1 now rq body) d)
      | PostAdjust body early \<Rightarrow> Some (serve_admin s w ''points:adjust'' rq
          (AdjustPointsHandler up us (sv_points_hash s) i0 i1 i2 now early rq body) d)
      | Get AdminLedger \<Rightarrow> Some (serve_admin s w ''points:adjust'' rq (AdminListLedger up us rq) d)
      | _ \<Rightarrow> None)"

text \<open>\<open>buildRouter\<close> registers the routes in this order; a request no group answers changes nothing.\<close>

fun routed :: "routes list \<Rightarrow> routes" where
  "routed [] s w rq c d = None"
| "routed (r # rs) s w rq c d = (case r s w rq c d of None \<Rightarrow> routed rs s w rq c d | Some d' \<Rightarrow> Some d')"

definition serve :: "server \<Rightarrow> draw \<Rightarrow> request \<Rightarrow> call \<Rightarrow> db \<Rightarrow> db" where
  "serve s w rq c d = (case routed [RegisterBuyerAuthRoutes, RegisterPublicRoutes, RegisterProfileRoutes,
       RegisterAddressRoutes, cart_RegisterRoutes, order_RegisterBuyerRoutes, admin_RegisterRoutes,
       product_RegisterAdminRoutes, coupon_RegisterAdminRoutes, RegisterImageRoutes,
       order_RegisterAdminRoutes] s w rq c d of None \<Rightarrow> d | Some d' \<Rightarrow> d')"

lemmas routes_defs = RegisterBuyerAuthRoutes_def RegisterPublicRoutes_def RegisterProfileRoutes_def
  RegisterAddressRoutes_def cart_RegisterRoutes_def order_RegisterBuyerRoutes_def
  admin_RegisterRoutes_def product_RegisterAdminRoutes_def coupon_RegisterAdminRoutes_def
  RegisterImageRoutes_def order_RegisterAdminRoutes_def

text \<open>What the JSON decoder guarantees of a body: its integers are in the range of their Go type.\<close>

definition decoded :: "call \<Rightarrow> bool" where
  "decoded c \<longleftrightarrow> (case c of
       PostCartItem (Some (_, Some n)) \<Rightarrow> in32 n
     | PatchCartItem (Some (Some n)) \<Rightarrow> in32 n
     | PostProduct (Some b) \<Rightarrow> in32 (stockValue (pw_stock b))
     | PatchProduct (Some b) \<Rightarrow> (case pu_stock b of None \<Rightarrow> True | Some n \<Rightarrow> in32 n)
     | _ \<Rightarrow> True)"

section \<open>Work of the administration\<close>

text \<open>Accounts, roles, coupon templates and the log may change; no account goes away.\<close>

definition office_only :: "db \<Rightarrow> db \<Rightarrow> bool" where
  "office_only d d' \<longleftrightarrow> users d' = users d \<and> products d' = products d \<and> addresses d' = addresses d \<and>
     cart_items d' = cart_items d \<and> orders d' = orders d \<and> order_items d' = order_items d \<and>
     ledger d' = ledger d \<and> ad_id ` set (admins d) \<subseteq> ad_id ` set (admins d')"

lemma office_only_refl [simp]: "office_only d d"
  by (simp add: office_only_def)

lemma office_only_trans: "office_only d d1 \<Longrightarrow> office_only d1 d2 \<Longrightarrow> office_only d d2"
  by (auto simp: office_only_def)

lemma office_only_log [simp]: "office_only d (d\<lparr>audit_logs := t\<rparr>)"
  by (simp add: office_only_def)

lemma office_only_shop_ok: "office_only d d' \<Longrightarrow> shop_ok d \<Longrightarrow> shop_ok d'"
  by (rule shop_ok_frame) (auto simp: office_only_def shop_ok_def intro: tables_ok_frame)

lemma office_only_account:
  assumes "account_set i f d d'" and "\<And>b. ad_id (f b) = ad_id b"
  shows "office_only d d'"
proof -
  have "map ad_id (update_where (\<lambda>a. ad_id a = i) f (admins d)) = map ad_id (admins d)"
    by (rule map_update_where) (rule assms(2))
  then have "ad_id ` set (update_where (\<lambda>a. ad_id a = i) f (admins d)) = ad_id ` set (admins d)"
    by (metis list.set_map)
  then show ?thesis using assms(1) by (auto simp: account_set_def office_only_def)
qed

lemma office_only_result:
  assumes "\<And>v d'. p = (Inr v, d') \<Longrightarrow> office_only d d'" and "\<And>e d'. p = (Inl e, d') \<Longrightarrow> d' = d"
  shows "office_only d (snd p)"
  using assms by (cases p; cases "fst p") auto

lemma login_office: "office_only d (snd (login_checked verify issue us ai fi now input d))"
proof -
  obtain res d' where p: "login_checked verify issue us ai fi now input d = (res, d')" by fastforce
  then show ?thesis by (cases rule: login_cases) (auto simp: p intro: office_only_account)
qed

lemma Authenticate_office:
  "office_only d (snd (snd (Authenticate lower verify issue us ai fi now input limiter d)))"
  using login_office[of d verify issue us ai fi now input]
  by (auto simp: Authenticate_def split: option.split prod.split bool.split)

lemma Logout_office: "office_only d (snd (Logout ai subject i d))"
proof (rule office_only_result)
  fix v d' assume "Logout ai subject i d = (Inr v, d')"
  then show "office_only d d'" by (rule logout_cases) (auto intro: office_only_account)
qed (auto simp: Logout_def commit_failed)

lemma ChangePassword_office: "office_only d (snd (ChangePassword uni verify hashed ai input d))"
proof (rule office_only_result)
  fix v d' assume "ChangePassword uni verify hashed ai input d = (Inr v, d')"
  then show "office_only d d'" by (rule change_password_cases) (auto intro: office_only_account)
qed (auto simp: ChangePassword_def commit_failed split: sum.splits if_splits)

lemma UpdateAdmin_office: "office_only d (snd (UpdateAdmin ai actorID actorRole i enabled d))"
proof (rule office_only_result)
  fix v d' assume "UpdateAdmin ai actorID actorRole i enabled d = (Inr v, d')"
  then have "update_admin_tx ai actorID actorRole i enabled d = Inr (v, d')"
    by (auto simp: UpdateAdmin_def commit_ok split: if_splits)
  then obtain a d1 e where e: "write_audit ai e d1 = Inr d'"
    and u: "(if toggle enabled a = a then Inr d else update_admin (ad_id a)
      (\<lambda>b. b\<lparr>ad_enabled := ad_enabled (toggle enabled a), ad_version := ad_version (toggle enabled a)\<rparr>) d) = Inr d1"
    by (auto simp: update_admin_tx_def sbind_eq_Inr Let_def split: option.splits)
  show "office_only d d'"
  proof (cases "toggle enabled a = a")
    case True
    then show ?thesis using e u by (auto simp: write_audit_eq_Inr)
  next
    case False
    then show ?thesis
      using office_only_account[OF account_setI[OF _ e, of "ad_id a"
        "\<lambda>b. b\<lparr>ad_enabled := ad_enabled (toggle enabled a), ad_version := ad_version (toggle enabled a)\<rparr>"]] u
      by simp
  qed
qed (auto simp: UpdateAdmin_def commit_failed split: if_splits)

lemma AssignRole_office: "office_only d (snd (AssignRole ai actorID actorRole i name d))"
proof (rule office_only_result)
  fix v d' assume "AssignRole ai actorID actorRole i name d = (Inr v, d')"
  then show "office_only d d'" by (rule assign_role_cases) (auto intro: office_only_account)
qed (auto simp: AssignRole_def commit_failed split: if_splits)

lemma replaceRolePermissions_office: "replaceRolePermissions r codes d = Inr d' \<Longrightarrow> office_only d d'"
  by (erule replaceRolePermissions_Inr) (simp add: office_only_def)

lemma CreateRole_office: "office_only d (snd (CreateRole i ai act raw codes d))"
proof (rule office_only_result)
  fix v d' assume "CreateRole i ai act raw codes d = (Inr v, d')"
  then obtain perms d1 d2 t where "insert_role \<lparr>r_id = i, r_name = trim_space raw\<rparr> d = Inr d1"
    "replaceRolePermissions i perms d1 = Inr d2" "d' = d2\<lparr>audit_logs := t\<rparr>" by (rule CreateRole_cases)
  moreover have "office_only d d1" using calculation(1) by (simp add: insert_role_eq_Inr office_only_def)
  ultimately show "office_only d d'" by (metis office_only_log office_only_trans replaceRolePermissions_office)
qed (auto simp: CreateRole_def Let_def commit_failed split: if_splits sum.splits)

lemma UpdateRole_office: "office_only d (snd (UpdateRole ai act i name codes d))"
proof (rule office_only_result)
  fix v d' assume "UpdateRole ai act i name codes d = (Inr v, d')"
  then show "office_only d d'"
  proof (rule UpdateRole_cases)
    fix role n perms d1 d2 t
    assume r: "(if n \<noteq> r_name role then rename_role i n d else Inr d) = Inr d1"
      "(case codes of None \<Rightarrow> Inr d1 | Some _ \<Rightarrow> replaceRolePermissions i perms d1) = Inr d2"
      "d' = d2\<lparr>audit_logs := t\<rparr>"
    have "office_only d d1" using r(1) by (auto simp: rename_role_def office_only_def split: if_splits)
    moreover have "office_only d1 d2" using r(2) replaceRolePermissions_office by (auto split: option.splits)
    ultimately show "office_only d d'" unfolding r(3) by (metis office_only_log office_only_trans)
  qed
qed (auto simp: UpdateRole_def commit_failed split: if_splits)

lemma coupon_office:
  "office_only d (snd (CreateTemplate col fresh ai actor input d))"
  "office_only d (snd (SetTemplateStatus ai actor i status d))"
  "office_only d (RecordPermissionDenied ai i descriptor d)"
proof -
  show "office_only d (snd (CreateTemplate col fresh ai actor input d))"
  proof (rule office_only_result)
    fix v d' assume "CreateTemplate col fresh ai actor input d = (Inr v, d')"
    then show "office_only d d'" by (rule CreateTemplate_cases) (auto simp: write_audit_eq_Inr office_only_def)
  qed (rule CreateTemplate_Inl)
  show "office_only d (snd (SetTemplateStatus ai actor i status d))"
  proof (rule office_only_result)
    fix v d' assume "SetTemplateStatus ai actor i status d = (Inr v, d')"
    then show "office_only d d'" by (rule SetTemplateStatus_cases) (auto simp: write_audit_eq_Inr office_only_def)
  qed (rule SetTemplateStatus_Inl)
  obtain t where "RecordPermissionDenied ai i descriptor d = d\<lparr>audit_logs := t\<rparr>"
    using denied.only_log by blast
  then show "office_only d (RecordPermissionDenied ai i descriptor d)" by simp
qed

section \<open>What a call comes down to\<close>

definition request_step :: "db \<Rightarrow> db \<Rightarrow> bool" where
  "request_step d d' \<longleftrightarrow> shop_step d d' \<or> office_only d d'"

definition does :: "db \<Rightarrow> 'a \<times> db \<Rightarrow> bool" where
  "does d p \<longleftrightarrow> request_step d (snd p)"

named_theorems does_intros

lemma does_same [does_intros]: "does d (r, d)"
  by (simp add: does_def request_step_def)

lemma does_buyer [does_intros]: "(\<And>u. does d (h u)) \<Longrightarrow> does d (with_buyer up us cx d h)"
  by (simp add: with_buyer_def does_same split: option.split)

lemma does_admin [does_intros]: "(\<And>u. does d (h u)) \<Longrightarrow> does d (with_admin up us cx d h)"
  by (simp add: with_admin_def does_same split: option.split)

lemma does_id [does_intros]: "(\<And>i. does d (h i)) \<Longrightarrow> does d (with_id up us raw m d h)"
  by (simp add: with_id_def does_same split: option.split)

lemma does_console_id [does_intros]: "(\<And>i. does d (h i)) \<Longrightarrow> does d (with_console_id up us raw m d h)"
  by (simp add: with_console_id_def does_same split: option.split)

lemma does_actor [does_intros]: "(\<And>a. does d (h a)) \<Longrightarrow> does d (with_actor up us cx d h)"
  by (simp add: with_actor_def does_same split: option.split)

lemma does_body [does_intros]: "(\<And>b. body = Some b \<Longrightarrow> does d (h b)) \<Longrightarrow> does d (with_body m body d h)"
  by (simp add: with_body_def does_same split: option.split)

lemma does_parsed [does_intros]: "(\<And>x. p = Inr x \<Longrightarrow> does d (h x)) \<Longrightarrow> does d (with_parsed p d h)"
  by (simp add: with_parsed_def does_same split: sum.split)

lemma does_answer [does_intros]: "request_step d (snd p) \<Longrightarrow> does d (answer status json f p)"
  by (auto simp: answer_def does_def split: prod.split sum.split)

lemma does_if [does_intros]: "(b \<Longrightarrow> does d p) \<Longrightarrow> (\<not> b \<Longrightarrow> does d q) \<Longrightarrow> does d (if b then p else q)"
  by simp

lemma does_option [does_intros]:
  "(x = None \<Longrightarrow> does d p) \<Longrightarrow> (\<And>y. x = Some y \<Longrightarrow> does d (q y)) \<Longrightarrow>
   does d (case x of None \<Rightarrow> p | Some y \<Rightarrow> q y)"
  by (simp split: option.split)

lemma does_let [does_intros]: "does d (f x) \<Longrightarrow> does d (Let x f)"
  by simp

lemma does_prod [does_intros]: "(\<And>a b. x = (a, b) \<Longrightarrow> does d (f a b)) \<Longrightarrow> does d (case x of (a, b) \<Rightarrow> f a b)"
  by (simp split: prod.split)

lemma shopI: "shop_step d d' \<Longrightarrow> request_step d d'" and officeI: "office_only d d' \<Longrightarrow> request_step d d'"
  by (simp_all add: request_step_def)

lemma request_step_refl [simp]: "request_step d d"
  by (simp add: request_step_def)

lemma request_step_denied [simp]: "request_step d (RecordPermissionDenied ai i descriptor d)"
  by (rule officeI) (rule coupon_office)

lemma buyer_calls:
  "does d (UpdateMe up us clock pbody cx d)"
  "does d (CreateAddress up us clock fresh abody cx d)"
  "does d (UpdateAddress up us clock rq ubody cx d)"
  "does d (DeleteAddress up us rq cx d)"
  "does d (DeleteCartItem up us rq cx d)"
  "does d (CreateOrder up base env early rq obody cx d)"
  "does d (RequestRefund up us base rq rbody cx d)"
  "does d (ConfirmOrder up us base now rq cx d)"
  unfolding UpdateMe_def CreateAddress_def UpdateAddress_def DeleteAddress_def DeleteCartItem_def
    CreateOrder_def RequestRefund_def ConfirmOrder_def
  by (intro does_intros shopI shop_step.intros)+

lemma office_log: "\<exists>t. d' = d\<lparr>audit_logs := audit_logs d @ t\<rparr> \<Longrightarrow> office_only d d'"
  by (auto simp: office_only_def)

lemma upload_calls:
  "does d (tables_of (UploadAvatar env up us uuid clock now file cx v d))"
  "does d (tables_of (Upload env up us uuid ai now file cx v d))"
proof -
  have p: "request_step d d'" if "UpdateProfile clock i nick url d = (r, d')" for i nick url r d'
    using shop_step.profile[of d clock i nick url] that by (simp add: request_step_def)
  show "does d (tables_of (UploadAvatar env up us uuid clock now file cx v d))"
    by (auto simp: UploadAvatar_def tables_of_def does_def officeI Let_def dest: p
        split: option.split sum.split prod.split)
  show "does d (tables_of (Upload env up us uuid ai now file cx v d))"
    by (auto simp: Upload_def tables_of_def does_def Let_def split: option.split sum.split prod.split
        intro!: officeI office_log image_log.appends image_failure_log.appends)
qed

lemma cart_calls:
  "decoded (PostCartItem body) \<Longrightarrow> does d (AddCartItem up us base fresh body cx d)"
  "decoded (PatchCartItem qbody) \<Longrightarrow> does d (UpdateCartItem up us base rq qbody cx d)"
  unfolding AddCartItem_def UpdateCartItem_def
  by (intro does_intros shopI shop_step.intros; simp add: decoded_def)+

lemma parsed_delta: "parsePointsAdjustRequest up us req = Inr p \<Longrightarrow> in64 (pa_delta p)"
  by (auto simp: parsePointsAdjustRequest_def parse_int64_def Let_def split: if_splits sum.splits option.splits)

lemma order_admin_calls:
  "does d (AdminShipOrder up us base ai fi now rq cx d)"
  "does d (AdminApproveRefund up us base li ai fi now rq cx d)"
  "does d (AdminRejectRefund up us base ai fi now rq rbody cx d)"
  "does d (AdjustPointsHandler up us hash li ai fi now early rq pbody cx d)"
  unfolding AdminShipOrder_def AdminApproveRefund_def AdminRejectRefund_def AdjustPointsHandler_def
  by (intro does_intros shopI shop_step.intros; (erule parsed_delta)?)+

lemma product_calls:
  "decoded (PostProduct body) \<Longrightarrow> does d (AdminCreateProduct up us base pid aid body cx d)"
  "decoded (PatchProduct ubody) \<Longrightarrow> does d (AdminUpdateProduct up us base aid rq ubody cx d)"
proof -
  assume "decoded (PostProduct body)"
  then show "does d (AdminCreateProduct up us base pid aid body cx d)"
    unfolding AdminCreateProduct_def
    by (intro does_intros shopI shop_step.intros) (simp_all add: decoded_def product_toInput_def)
next
  assume dec: "decoded (PatchProduct ubody)"
  have up: "shop_step d d'" if "ubody = Some req" "product_update_op base aid actor i req d = (a, d')" for actor i req a d'
  proof -
    have "shop_step d (snd (product_update_op base aid actor i req d))"
      using dec that(1) by (intro shop_step.update_product) (auto simp: decoded_def)
    then show ?thesis by (simp add: that(2))
  qed
  then show "does d (AdminUpdateProduct up us base aid rq ubody cx d)"
    unfolding AdminUpdateProduct_def
    by (intro does_intros) (auto simp: does_def request_step_def split: sum.split)
qed


lemma BuyerLogin_does: "in64 (lg_bonus env) \<Longrightarrow>
  request_step d (snd (snd (LoginHandler env fresh lid clock tick now client_ip rq body buckets d)))"
proof -
  assume b: "in64 (lg_bonus env)"
  have "request_step d (snd (LoginExecute wechat issue us fresh lid clock (lg_bonus env) now code d))"
    for wechat issue us code
    using shop_step.login[OF b, of d us fresh lid clock _ _ None now]
    by (auto simp: LoginExecute_def request_step_def split: sum.split prod.split)
      (metis snd_conv)+
  then show ?thesis
    by (auto simp: LoginHandler_def Let_def request_step_def split: option.split prod.split sum.split)
      (metis snd_conv)+
qed

lemma with_subject_does:
  assumes "\<And>e. request_step d (snd (refuse e))" and "\<And>s i. request_step d (snd (h s i))"
  shows "request_step d (snd (with_subject up us cx refuse h))"
  using assms by (simp add: with_subject_def Let_def split: sum.split)

lemma console_sessions:
  "request_step d (snd (snd (ConsoleLogin h ai fi now csrf client_ip rq body limiter d)))"
  "request_step d (snd (ConsoleLogout h ai cx d))"
  "request_step d (snd (ConsoleChangePassword h ai pbody cx d))"
proof -
  have l: "request_step d d'" if "Authenticate lower verify issue us ai fi now lin lim d = (r, l, d')"
    for lower verify issue us lin lim r l d'
    using Authenticate_office[of d lower verify issue us ai fi now lin lim] that by (simp add: request_step_def)
  show "request_step d (snd (snd (ConsoleLogin h ai fi now csrf client_ip rq body limiter d)))"
    by (auto simp: ConsoleLogin_def Let_def officeI split: option.split prod.split sum.split dest: l)
  have "request_step d d'" if "Logout ai s i d = (r, d')" for s i r d'
    using Logout_office[of d ai s i] that by (simp add: request_step_def)
  then show "request_step d (snd (ConsoleLogout h ai cx d))"
    unfolding ConsoleLogout_def
    by (intro with_subject_does) (auto simp: officeI split: prod.split sum.split)
  have "request_step d d'" if "accessPasswordChanger uni verify hashed ai p d = (r, d')" for uni verify hashed p r d'
    using that ChangePassword_office[of d uni verify hashed ai]
    by (auto simp: accessPasswordChanger_def access_ChangePassword_def request_step_def
        split: if_splits sum.splits) (metis snd_conv)
  then show "request_step d (snd (ConsoleChangePassword h ai pbody cx d))"
    unfolding ConsoleChangePassword_def
    by (auto intro!: with_subject_does simp: officeI split: option.split prod.split sum.split)
qed

lemma account_writes_office: "office_only d (snd (account_writes ai ri act t enabled name d))"
proof -
  define p where "p = (if enabled = None then (Inr (), d)
    else case UpdateAdmin ai (AdminID act) (RoleName act) t enabled d of
      (Inl e, d') \<Rightarrow> (Inl e, d') | (Inr _, d') \<Rightarrow> (Inr (), d'))"
  obtain r d1 where p: "p = (r, d1)" by fastforce
  have "office_only d (snd p)"
    using UpdateAdmin_office[of d ai "AdminID act" "RoleName act" t enabled]
    by (cases "UpdateAdmin ai (AdminID act) (RoleName act) t enabled d") (simp add: p_def split: sum.split)
  then have 1: "office_only d d1" by (simp add: p)
  define q where "q = (if name = [] then (Inr (), d1)
    else case AssignRole ri (AdminID act) (RoleName act) t name d1 of
      (Inl e, d') \<Rightarrow> (Inl e, d') | (Inr _, d') \<Rightarrow> (Inr (), d'))"
  obtain r2 d2 where q: "q = (r2, d2)" by fastforce
  have "office_only d1 (snd q)"
    using AssignRole_office[of d1 ri "AdminID act" "RoleName act" t name]
    by (cases "AssignRole ri (AdminID act) (RoleName act) t name d1") (simp add: q_def split: sum.split)
  then have "office_only d d2" using 1 q office_only_trans by simp
  then show ?thesis
    using 1 p q unfolding account_writes_def p_def[symmetric]
    by (cases r; cases r2) (simp_all add: q_def[symmetric])
qed

lemma console_calls:
  "does d (ConsoleCreateRole h i ai rbody cx d)"
  "does d (ConsoleUpdateRole h ai rq ubody cx d)"
  "does d (ConsoleUpdateAdminUser h ai ri rq abody cx d)"
  unfolding ConsoleCreateRole_def ConsoleUpdateRole_def ConsoleUpdateAdminUser_def
  by (intro does_intros officeI CreateRole_office UpdateRole_office;
      auto simp: does_same split: sum.split intro!: does_answer officeI account_writes_office)+


lemma admin_route_db:
  "admin_route g required auditor descriptor now rq d = (Inr cx, d') \<Longrightarrow> d' = d"
  "admin_route g required None descriptor now rq d = (Inl r, d') \<Longrightarrow> d' = d"
  by (auto simp: admin_route_def AuditedAdminPermission_def permissionGate_def
      split: sum.splits prod.splits option.splits if_splits err.splits)

lemma serve_buyer_does: "(\<And>cx. does d (h cx d)) \<Longrightarrow> request_step d (serve_buyer s w rq h d)"
  by (simp add: serve_buyer_def buyer_endpoint_def does_def officeI split: sum.split)

lemma serve_admin_does: "(\<And>cx. does d (h cx d)) \<Longrightarrow> request_step d (serve_admin s w required rq h d)"
  by (auto simp: serve_admin_def admin_endpoint_def does_def officeI split: prod.split sum.split
      dest: admin_route_db)

lemma session_endpoint_does:
  "(\<And>cx. request_step d (snd (h cx d))) \<Longrightarrow> request_step d (session_endpoint g now rq h d)"
  by (simp add: session_endpoint_def officeI split: sum.split)

lemma coupon_endpoint_does:
  assumes "\<And>cx. does d (h cx d)"
  shows "does d (admin_endpoint g required (Some (RecordPermissionDenied ai)) descriptor now rq h d)"
  using assms
  by (auto simp: admin_endpoint_def does_def split: prod.split sum.split
      dest: admin_route_db admin_route_Inl_db)

lemma template_calls:
  "does d (post_template g parse_time col fresh ai now rq body d)"
  "does d (patch_template g ai now rq sbody d)"
proof -
  have c: "request_step d d'" if "CreateTemplate col fresh ai actor input d = (r, d')" for actor input r d'
    using coupon_office(1)[of d col fresh ai actor input] that by (simp add: request_step_def)
  show "does d (post_template g parse_time col fresh ai now rq body d)"
    unfolding post_template_def
    by (intro coupon_endpoint_does)
      (auto simp: AdminCreateTemplate_def does_def officeI split: option.split sum.split prod.split dest: c)
  have t: "request_step d d'" if "SetTemplateStatus ai actor i status d = (r, d')" for actor i status r d'
    using coupon_office(2)[of d ai actor i status] that by (simp add: request_step_def)
  show "does d (patch_template g ai now rq sbody d)"
    unfolding patch_template_def
    by (intro coupon_endpoint_does)
      (auto simp: AdminUpdateTemplateStatus_def does_def officeI split: option.split sum.split prod.split dest: t)
qed

lemma product_page_db: "snd (product_page us message page pageSize r d) = d"
  by (auto simp: product_page_def split: sum.split err.split)

lemma or_404_db: "snd (product_or_404 us p d) = d" "snd (order_or_404 us base r d) = d"
  by (simp_all add: product_or_404_def order_or_404_def split: sum.split)

lemma buyer_reads:
  "snd (GetMe up us cx d) = d" "snd (ListAddresses up us cx d) = d" "snd (GetCart up us base cx d) = d"
  "snd (ListOrders up us base rq cx d) = d" "snd (GetOrder up us base rq cx d) = d"
  "snd (ListPointsLedger up us rq cx d) = d" "snd (ListProducts ilike us base rq d) = d"
  "snd (GetProduct up us base rq d) = d" "snd (ListCategoriesHandler d) = d"
  by (auto simp: GetMe_def ListAddresses_def GetCart_def ListOrders_def GetOrder_def ListPointsLedger_def
      ListProducts_def GetProduct_def ListCategoriesHandler_def with_defs answer_def or_404_db
      product_page_db split: option.split sum.split prod.split)

lemma console_reads:
  "snd (Me h cx d) = d" "snd (ConsoleListRoles h d) = d" "snd (ConsoleListAdminUsers h rq d) = d"
  "snd (ConsoleListUsers ilike h rq d) = d" "snd (ConsoleListAuditLogs h rq d) = d"
  "snd (AdminListProducts us base rq cx d) = d" "snd (AdminGetProduct up us base rq cx d) = d"
  "snd (AdminListOrders us base rq cx d) = d" "snd (AdminGetOrder up us base rq cx d) = d"
  "snd (AdminListRefunds us base rq cx d) = d" "snd (AdminListLedger up us rq cx d) = d"
  by (auto simp: Me_def ConsoleListRoles_def ConsoleListAdminUsers_def ConsoleListUsers_def
      ConsoleListAuditLogs_def AdminListProducts_def AdminGetProduct_def AdminListOrders_def
      AdminGetOrder_def AdminListRefunds_def AdminListLedger_def with_defs with_subject_def Let_def
      answer_def or_404_db product_page_db split: option.split sum.split prod.split)

lemma serve_reads:
  "(\<And>cx. snd (h cx d) = d) \<Longrightarrow> serve_buyer s w rq h d = d"
  "(\<And>cx. snd (h cx d) = d) \<Longrightarrow> serve_admin s w required rq h d = d"
  "(\<And>cx. snd (h' cx d) = d) \<Longrightarrow> session_endpoint g now rq h' d = d"
  by (auto simp: serve_buyer_def buyer_endpoint_def serve_admin_def admin_endpoint_def session_endpoint_def
      split: prod.split sum.split dest: admin_route_db)

lemma get_templates_db: "snd (get_templates g now rq d) = d"
  by (auto simp: get_templates_def admin_endpoint_def split: prod.split sum.split dest: admin_route_db)

text \<open>No \<open>GET\<close> changes a table.\<close>

lemma get_changes_nothing: "serve s w rq (Get g) d = d"
  by (cases g) (simp_all add: serve_def routes_defs Let_def serve_reads buyer_reads console_reads get_templates_db)

lemma serve_step:
  assumes "decoded c" and "in64 (lg_bonus (sv_login s))"
  shows "request_step d (serve s w rq c d)"
proof (cases "\<exists>g. c = Get g")
  case True
  then show ?thesis using get_changes_nothing[of s w rq _ d] officeI[of d d] by auto
next
  case other: False
  note [simp] = serve_def routes_defs Let_def
  note calls = serve_buyer_does serve_admin_does session_endpoint_does buyer_calls cart_calls order_admin_calls
    product_calls console_sessions console_calls upload_calls
  show ?thesis
    using assms other template_calls[unfolded does_def]
    by (cases c) (auto intro!: calls BuyerLogin_does split: sum.split)
qed

section \<open>Any run of requests\<close>

type_synonym traffic = "(draw \<times> request \<times> call) list"

fun run_server :: "server \<Rightarrow> traffic \<Rightarrow> db \<Rightarrow> db" where
  "run_server s [] d = d"
| "run_server s ((w, rq, c) # rest) d = run_server s rest (serve s w rq c d)"

lemma request_step_keeps:
  assumes "request_step d d'" and "shop_ok d"
  shows "shop_ok d'" and "orders_evolve d d'"
  using assms shop_step_ok shop_step_evolves office_only_shop_ok
    orders_evolve_same[of d' d]
  by (auto simp: request_step_def office_only_def)


text \<open>What becomes of the orders that were there.\<close>

definition orders_carried :: "db \<Rightarrow> db \<Rightarrow> bool" where
  "orders_carried d d' \<longleftrightarrow> (\<forall>r\<in>set (orders d). \<exists>r'\<in>set (orders d'). o_id r' = o_id r \<and> o_no r' = o_no r \<and>
     o_user r' = o_user r \<and> o_total r' = o_total r \<and> lifecycle\<^sup>*\<^sup>* (o_status r) (o_status r'))"

lemma orders_carried_step:
  assumes "orders_evolve d d1" and "orders_carried d1 d2"
  shows "orders_carried d d2"
  unfolding orders_carried_def
proof
  fix r assume "r \<in> set (orders d)"
  then obtain r1 where r1: "r1 \<in> set (orders d1)" "follows r r1" using orders_evolve_old[OF assms(1)] by blast
  then obtain r2 where "r2 \<in> set (orders d2)" "o_id r2 = o_id r1" "o_no r2 = o_no r1" "o_user r2 = o_user r1"
    "o_total r2 = o_total r1" "lifecycle\<^sup>*\<^sup>* (o_status r1) (o_status r2)"
    using assms(2) unfolding orders_carried_def by blast
  moreover have "lifecycle\<^sup>*\<^sup>* (o_status r) (o_status r1)" using r1(2) by (auto simp: follows_def)
  ultimately show "\<exists>r'\<in>set (orders d2). o_id r' = o_id r \<and> o_no r' = o_no r \<and> o_user r' = o_user r \<and>
      o_total r' = o_total r \<and> lifecycle\<^sup>*\<^sup>* (o_status r) (o_status r')"
    using r1(2) by (intro bexI[of _ r2]) (auto simp: follows_def)
qed

text \<open>
  C4: Whatever requests arrive, authorized or not and with whatever they say, the shop stays in order:
  tables well formed, accounts and orders settled; and no order goes away, changes its number,
  buyer or total, or moves against the state machine.
\<close>

theorem server_keeps_order:
  assumes "\<forall>(w, rq, c)\<in>set traffic. decoded c" and "in64 (lg_bonus (sv_login s))" and "shop_ok d"
  shows "shop_ok (run_server s traffic d) \<and> orders_carried d (run_server s traffic d)"
  using assms(1,3)
proof (induction traffic arbitrary: d)
  case Nil
  then show ?case by (auto simp: orders_carried_def)
next
  case (Cons q traffic)
  obtain w rq c where q: "q = (w, rq, c)" by (metis surj_pair)
  have "request_step d (serve s w rq c d)" using serve_step assms(2) Cons.prems(1) q by simp
  note step = request_step_keeps[OF this Cons.prems(2)]
  show ?case using Cons.IH[OF _ step(1)] Cons.prems(1) orders_carried_step[OF step(2)] q by simp
qed

definition demo_server :: server where
  "demo_server = \<lparr>sv_buyer = buyer_gate, sv_admin = demo_console_gate, sv_console = demo_console,
     sv_login = \<lparr>lg_wechat = (\<lambda>c. Inl (ErrOther ''offline'')), lg_issue = (\<lambda>_ _ _. Inr ''tok''), lg_us = buyer_us,
       lg_bonus = 100, lg_limit = 20, lg_window = 60 * second\<rparr>,
     sv_base = [], sv_order_hash = (\<lambda>p. ''h''), sv_points_hash = (\<lambda>p. ''h''), sv_time = (\<lambda>_. None),
     sv_col = (\<lambda>t. t), sv_ilike = (\<lambda>_ _. True), sv_upload = demo_upload\<rparr>"

definition demo_draw :: draw where
  "demo_draw = \<lparr>dr_id = (\<lambda>n. if n = 0 then 71 else 90 + of_nat n), dr_now = 10, dr_clock = 10,
     dr_no = ''ORD10-ab''\<rparr>"

definition refund_call :: request where
  "refund_call = buyer_request\<lparr>rq_params := [(''orderId'', buyer_us 71)]\<rparr>"

definition demo_traffic :: traffic where
  "demo_traffic = [(demo_draw, buyer_request, PostOrder (Some buyer_body) demo_db),
     (demo_draw, refund_call, PostRefund (Some ''too late'')),
     (demo_draw, buyer_request\<lparr>rq_headers := []\<rparr>, PostConfirm)]"

lemma server_keeps_order_witness:
  "shop_ok (run_server demo_server demo_traffic demo_db) \<and>
   map (\<lambda>r. (o_user r, o_status r)) (orders (run_server demo_server demo_traffic demo_db)) =
     [(1, RefundRequested)]"
proof -
  have "\<forall>(w, rq, c)\<in>set demo_traffic. decoded c" by (simp add: demo_traffic_def decoded_def)
  moreover have "in64 (lg_bonus (sv_login demo_server))" by (simp add: demo_server_def in64_def)
  moreover have "map (\<lambda>r. (o_user r, o_status r)) (orders (run_server demo_server demo_traffic demo_db)) =
     [(1, RefundRequested)]" by code_simp
  ultimately show ?thesis using server_keeps_order demo_db_ok by blast
qed

end
