(* ===== verification/Isolation.thy ===== *)
theory Isolation
  imports Server
begin

text \<open>
  Buyers are kept apart: what a request sent with a buyer's token does, it does to the holdings of
  that buyer and of nobody else.
\<close>

section \<open>Holdings\<close>

text \<open>The account of a buyer with its ledger entries, the cart, the addresses and the orders.\<close>

definition holdings ::
  "uid \<Rightarrow> db \<Rightarrow> user_row option \<times> ledger_row list \<times> cart_row list \<times> address_row list \<times> order_row list" where
  "holdings v d = (find_user v d, statement_of d v, filter (\<lambda>r. c_user r = v) (cart_items d),
     filter (\<lambda>r. a_user r = v) (addresses d), filter (\<lambda>r. o_user r = v) (orders d))"

definition only_of :: "uid \<Rightarrow> db \<Rightarrow> db \<Rightarrow> bool" where
  "only_of u d d' \<longleftrightarrow> (\<forall>v. v \<noteq> u \<longrightarrow> holdings v d' = holdings v d)"

lemma only_of_refl [simp]: "only_of u d d"
  by (simp add: only_of_def)

lemma only_of_trans: "only_of u d d1 \<Longrightarrow> only_of u d1 d2 \<Longrightarrow> only_of u d d2"
  by (simp add: only_of_def)

lemma only_of_commit:
  "(\<And>x d'. f d = Inr (x, d') \<Longrightarrow> only_of u d d') \<Longrightarrow> only_of u d (snd (commit f d))"
  by (cases "f d") (auto simp: commit_def)

lemma find_update_elsewhere:
  "(\<And>r. P r \<Longrightarrow> \<not> Q r \<and> \<not> Q (f r)) \<Longrightarrow> find Q (update_where P f t) = find Q t"
  by (induction t) auto

lemma filter_delete_where_out: "(\<And>r. P r \<Longrightarrow> \<not> Q r) \<Longrightarrow> filter Q (delete_where P t) = filter Q t"
  by (induction t) (auto simp: delete_where_def)

lemma only_of_carts:
  "(\<And>v. v \<noteq> u \<Longrightarrow> filter (\<lambda>r. c_user r = v) t = filter (\<lambda>r. c_user r = v) (cart_items d)) \<Longrightarrow>
   only_of u d (d\<lparr>cart_items := t\<rparr>)"
  by (simp add: only_of_def holdings_def find_user_def statement_of_def)

lemma only_of_addresses:
  "(\<And>v. v \<noteq> u \<Longrightarrow> filter (\<lambda>r. a_user r = v) t = filter (\<lambda>r. a_user r = v) (addresses d)) \<Longrightarrow>
   only_of u d (d\<lparr>addresses := t\<rparr>)"
  by (simp add: only_of_def holdings_def find_user_def statement_of_def)

lemma only_of_orders:
  "(\<And>r. P r \<Longrightarrow> o_user r = u \<and> o_user (f r) = u) \<Longrightarrow>
   only_of u d (d\<lparr>orders := update_where P f (orders d)\<rparr>)"
  unfolding only_of_def holdings_def find_user_def statement_of_def
  by (auto intro!: filter_update_where_out)

section \<open>The operations\<close>

lemma cart_add_own: "only_of u d (snd (cart_add base fresh u p q d))"
proof -
  have ups: "only_of u d d1" if "cart_upsert fresh u p q d = Inr d1" for d1
    using that
    by (auto simp: cart_upsert_def split: option.splits if_splits
        intro!: only_of_carts filter_update_where_out)
  show ?thesis
    unfolding cart_add_def
    by (auto simp: sbind_eq_Inr intro!: only_of_commit dest: ups split: if_splits option.splits)
qed

lemma cart_update_own:
  assumes "distinct (map c_id (cart_items d))"
  shows "only_of u d (snd (cart_update base u i q d))"
proof -
  have "only_of u d (d\<lparr>cart_items := update_where (\<lambda>r. c_id r = c_id item) (\<lambda>r. r\<lparr>c_qty := q\<rparr>) (cart_items d)\<rparr>)"
    if "find (\<lambda>r. c_id r = i \<and> c_user r = u) (cart_items d) = Some item" for item
  proof -
    have item: "item \<in> set (cart_items d)" "c_user item = u" using find_SomeD[OF that] by simp_all
    have "update_where (\<lambda>r. c_id r = c_id item) (\<lambda>r. r\<lparr>c_qty := q\<rparr>) (cart_items d) =
      update_where (\<lambda>r. c_id r = c_id item \<and> c_user r = u) (\<lambda>r. r\<lparr>c_qty := q\<rparr>) (cart_items d)"
      using item distinct_map_unique[OF assms _ item(1)] by (intro update_where_cong) auto
    then show ?thesis by (auto intro!: only_of_carts filter_update_where_out)
  qed
  then show ?thesis
    unfolding cart_update_def
    by (auto simp: Let_def intro!: only_of_commit split: if_splits option.splits)
qed

lemma cart_delete_own: "only_of u d (snd (cart_delete u i d))"
  unfolding cart_delete_def
  by (auto simp: Let_def intro!: only_of_commit only_of_carts filter_delete_where_out split: if_splits)

lemma clearDefault_own: "only_of u d (clearDefaultAddress clock u e d)"
  unfolding clearDefaultAddress_def
  by (intro only_of_addresses filter_update_where_out) auto

lemma insert_address_own: "insert_address r d = Inr d' \<Longrightarrow> only_of (a_user r) d d'"
  by (auto simp: insert_address_eq_Inr intro!: only_of_addresses)

lemma update_address_own:
  "update_address u i (address_assign clock x dflt) d = Inr d' \<Longrightarrow> only_of u d d'"
  by (auto simp: update_address_eq_Inr address_assign_def intro!: only_of_addresses filter_update_where_out)

lemmas cleared = only_of_trans[OF clearDefault_own]

lemma address_create_own: "only_of u d (snd (address_create clock fresh u x d))"
  unfolding address_create_def
  by (auto simp: Let_def intro!: only_of_commit split: sum.splits if_splits
      dest!: insert_address_own cleared)

lemma address_update_own: "only_of u d (snd (address_update_op clock u i x d))"
  unfolding address_update_op_def
  by (auto simp: Let_def intro!: only_of_commit split: sum.splits if_splits option.splits
      dest!: update_address_own cleared)

lemma address_delete_own: "only_of u d (snd (address_delete u i d))"
  unfolding address_delete_def
  by (auto simp: Let_def intro!: only_of_commit only_of_addresses filter_delete_where_out split: if_splits)

lemma profile_own: "only_of u d (snd (UpdateProfile clock u nickname avatarURL d))"
proof -
  have "find (\<lambda>r. u_id r = v) (update_where (\<lambda>r. u_id r = u) (profile_assign clock nickname avatarURL) t) =
      find (\<lambda>r. u_id r = v) t" if "v \<noteq> u" for v t
    by (rule find_update_elsewhere) (use that in \<open>auto simp: profile_assign_def\<close>)
  then show ?thesis
    by (auto simp: UpdateProfile_def Let_def only_of_def holdings_def find_user_def statement_of_def)
qed

lemma order_ops_own:
  "only_of u d (snd (RefundRequest u orderID raw d))"
  "only_of u d (snd (Confirm now u orderID d))"
  unfolding RefundRequest_def Confirm_def
  by (auto simp: Let_def request_tx_def confirm_tx_def sbind_eq_Inr UpdateFields_eq_Inr request_row_def
      confirm_row_def intro!: only_of_commit only_of_orders split: if_splits)

lemma Execute_own: "only_of u d (snd (Execute env u key req early d))"
proof -
  obtain res d' where ex: "Execute env u key req early d = (res, d')" by fastforce
  have "only_of u d d'"
    using Execute_cases[OF ex]
  proof
    assume "\<exists>v. res = Inr v \<and> create_tx env u key req early d = Inr (v, d')"
    then obtain x where "create_tx env u key req early d = Inr (x, d')" by blast
    then show ?thesis
    proof (cases rule: create_tx_cases)
      case (new r addr rows ps tot d1)
      have c: "find (\<lambda>r. u_id r = v) (charge u b t) = find (\<lambda>r. u_id r = v) t" if "v \<noteq> u" for v b t
        unfolding charge_def by (rule find_update_elsewhere) (use that in auto)
      have k: "filter (\<lambda>r. c_user r = v) (consume u ids t) = filter (\<lambda>r. c_user r = v) t" if "v \<noteq> u" for v ids t
        using that by (auto simp: consume_def intro!: filter_delete_where_out)
      show ?thesis
        using c k
        by (auto simp: placed_db(1)[OF new(6,2)] only_of_def holdings_def find_user_def statement_of_def
            new_order_def pay_entry_def)
    qed simp
  qed simp
  then show ?thesis by (simp add: ex)
qed

section \<open>The endpoints\<close>

definition owns :: "uid \<Rightarrow> db \<Rightarrow> 'a \<times> db \<Rightarrow> bool" where
  "owns u d p \<longleftrightarrow> only_of u d (snd p)"

named_theorems owns_intros

lemma owns_same [owns_intros]: "owns u d (r, d)"
  by (simp add: owns_def)

lemma owns_buyer [owns_intros]:
  "buyerIDFromGin up us cx = Some u \<Longrightarrow> owns u d (h u) \<Longrightarrow> owns u d (with_buyer up us cx d h)"
  by (simp add: with_buyer_def)

lemma owns_id [owns_intros]: "(\<And>i. owns u d (h i)) \<Longrightarrow> owns u d (with_id up us raw m d h)"
  by (simp add: with_id_def owns_same split: option.split)

lemma owns_body [owns_intros]: "(\<And>b. owns u d (h b)) \<Longrightarrow> owns u d (with_body m body d h)"
  by (simp add: with_body_def owns_same split: option.split)

lemma owns_parsed [owns_intros]: "(\<And>x. owns u d (h x)) \<Longrightarrow> owns u d (with_parsed p d h)"
  by (simp add: with_parsed_def owns_same split: sum.split)

lemma owns_answer [owns_intros]: "only_of u d (snd p) \<Longrightarrow> owns u d (answer status json f p)"
  by (auto simp: answer_def owns_def split: prod.split sum.split)

lemma owns_if [owns_intros]: "owns u d p \<Longrightarrow> owns u d q \<Longrightarrow> owns u d (if b then p else q)"
  by simp

lemma owns_option [owns_intros]:
  "owns u d p \<Longrightarrow> (\<And>y. owns u d (q y)) \<Longrightarrow> owns u d (case x of None \<Rightarrow> p | Some y \<Rightarrow> q y)"
  by (simp split: option.split)

lemma owns_let [owns_intros]: "owns u d (f x) \<Longrightarrow> owns u d (Let x f)"
  by simp

lemma owns_prod [owns_intros]: "(\<And>a b. owns u d (f a b)) \<Longrightarrow> owns u d (case x of (a, b) \<Rightarrow> f a b)"
  by (simp split: prod.split)

lemmas operations_own = cart_add_own cart_delete_own address_create_own address_update_own address_delete_own
  profile_own order_ops_own Execute_own

lemma buyer_calls_own:
  assumes "buyerIDFromGin up us cx = Some u"
  shows "owns u d (UpdateMe up us clock pbody cx d)"
    "owns u d (CreateAddress up us clock fresh abody cx d)"
    "owns u d (UpdateAddress up us clock rq ubody cx d)"
    "owns u d (DeleteAddress up us rq cx d)"
    "owns u d (AddCartItem up us base fresh cbody cx d)"
    "distinct (map c_id (cart_items d)) \<Longrightarrow> owns u d (UpdateCartItem up us base rq qbody cx d)"
    "owns u d (DeleteCartItem up us rq cx d)"
    "e_us env = us \<Longrightarrow> owns u d (CreateOrder up base env early rq obody cx d)"
    "owns u d (RequestRefund up us base rq rbody cx d)"
    "owns u d (ConfirmOrder up us base now rq cx d)"
  unfolding UpdateMe_def CreateAddress_def UpdateAddress_def DeleteAddress_def AddCartItem_def
    UpdateCartItem_def DeleteCartItem_def CreateOrder_def RequestRefund_def ConfirmOrder_def
  by (use assms in \<open>intro owns_intros operations_own cart_update_own; simp\<close>)+

lemma UploadAvatar_own:
  assumes "buyerIDFromGin up us cx = Some u"
  shows "owns u d (tables_of (UploadAvatar env up us uuid clock now file cx v d))"
proof -
  have "only_of u d d'" if "UpdateProfile clock u nick url d = (r, d')" for nick url r d'
    using profile_own[of u d clock nick url] that by simp
  then show ?thesis
    using assms by (auto simp: UploadAvatar_def tables_of_def owns_def Let_def
        split: sum.split prod.split)
qed

definition by_buyer :: "call \<Rightarrow> bool" where
  "by_buyer c \<longleftrightarrow> (case c of PatchProfile _ \<Rightarrow> True | PostAvatar _ _ _ \<Rightarrow> True | PostAddress _ \<Rightarrow> True | PatchAddress _ \<Rightarrow> True
     | RemoveAddress \<Rightarrow> True | PostCartItem _ \<Rightarrow> True | PatchCartItem _ \<Rightarrow> True | RemoveCartItem \<Rightarrow> True
     | PostOrder _ _ \<Rightarrow> True | PostRefund _ \<Rightarrow> True | PostConfirm \<Rightarrow> True | _ \<Rightarrow> False)"

lemma serve_buyer_own:
  assumes "\<And>cx. buyer_session (sv_buyer s) (dr_now w) rq d = Inr cx \<Longrightarrow> owns u d (h cx d)"
  shows "only_of u d (serve_buyer s w rq h d)"
  using assms by (auto simp: serve_buyer_def buyer_endpoint_def owns_def split: sum.split)

lemma serve_buyer_refused:
  "buyer_session (sv_buyer s) (dr_now w) rq d = Inl e \<Longrightarrow> serve_buyer s w rq h d = d"
  by (simp add: serve_buyer_def buyer_endpoint_def)

text \<open>
  C5: Buyers are kept apart: a request to an endpoint of the buyers, whatever it says, changes nothing at
  all when its token does not name an account, and otherwise leaves the account, the ledger
  entries, the cart, the addresses and the orders of every other buyer as they were.
\<close>

theorem buyers_apart:
  assumes "shop_ok d" and "by_buyer c" and "serve s w rq c d \<noteq> d"
  shows "\<exists>raw t u. ge_service (sv_buyer s) raw (dr_now w) = Inr t \<and>
    cl_subject t = ''buyer:'' @ ge_us (sv_buyer s) u \<and> u \<in> u_id ` set (users d) \<and>
    (\<forall>v. v \<noteq> u \<longrightarrow> holdings v (serve s w rq c d) = holdings v d)"
proof (cases "buyer_session (sv_buyer s) (dr_now w) rq d")
  case (Inl e)
  then have "serve s w rq c d = d"
    using assms(2) by (cases c) (simp_all add: serve_def routes_defs Let_def by_buyer_def serve_buyer_refused)
  then show ?thesis using assms(3) by simp
next
  case (Inr cx)
  obtain raw t u where t: "ge_service (sv_buyer s) raw (dr_now w) = Inr t"
    "cl_subject t = ''buyer:'' @ ge_us (sv_buyer s) u" "u \<in> u_id ` set (users d)"
    "buyerIDFromGin (ge_up (sv_buyer s)) (ge_us (sv_buyer s)) cx = Some u"
    by (rule buyer_session_InrD[OF Inr])
  have carts: "distinct (map c_id (cart_items d))"
    using assms(1) by (simp add: shop_ok_def tables_ok_def carts_ok_def)
  note own = buyer_calls_own[OF t(4)] UploadAvatar_own[OF t(4)]
  have "only_of u d (serve s w rq c d)"
    using assms(2) own carts Inr
    by (cases c) (auto simp: serve_def routes_defs Let_def by_buyer_def order_env_def intro!: serve_buyer_own)
  then show ?thesis using t unfolding only_of_def by blast
qed

lemma buyers_apart_witness:
  "orders (serve demo_server demo_draw buyer_request (PostOrder (Some buyer_body) demo_db) demo_db) \<noteq> [] \<and>
   (\<exists>u. \<forall>v. v \<noteq> u \<longrightarrow>
      holdings v (serve demo_server demo_draw buyer_request (PostOrder (Some buyer_body) demo_db) demo_db) =
      holdings v demo_db)"
proof -
  let ?c = "PostOrder (Some buyer_body) demo_db"
  have b: "by_buyer ?c" by (simp add: by_buyer_def)
  have "length (orders (serve demo_server demo_draw buyer_request ?c demo_db)) = 1" by code_simp
  moreover have "orders demo_db = []" by (simp add: demo_defs)
  ultimately have "orders (serve demo_server demo_draw buyer_request ?c demo_db) \<noteq> []"
    "serve demo_server demo_draw buyer_request ?c demo_db \<noteq> demo_db" by auto
  then show ?thesis using buyers_apart[OF demo_db_ok b] by blast
qed

section \<open>The permissions of the console\<close>

text \<open>The permission each call of the console needs; the three of \<open>/auth\<close> need none.\<close>

definition needs :: "call \<Rightarrow> string option" where
  "needs c = (case c of
       PostRole _ \<Rightarrow> Some ''role:manage'' | PatchRole _ \<Rightarrow> Some ''role:manage''
     | PatchAdminUser _ \<Rightarrow> Some ''role:manage''
     | PostProduct _ \<Rightarrow> Some ''product:write'' | PatchProduct _ \<Rightarrow> Some ''product:write''
     | PostImage _ _ _ \<Rightarrow> Some ''image:write''
     | PostShip \<Rightarrow> Some ''order:ship''
     | PostApprove \<Rightarrow> Some ''refund:approve'' | PostReject _ \<Rightarrow> Some ''refund:approve''
     | PostAdjust _ _ \<Rightarrow> Some ''points:adjust''
     | PostTemplate _ \<Rightarrow> Some ''coupon:write'' | PatchTemplate _ \<Rightarrow> Some ''coupon:write''
     | _ \<Rightarrow> None)"

definition let_in :: "server \<Rightarrow> draw \<Rightarrow> request \<Rightarrow> string \<Rightarrow> db \<Rightarrow> bool" where
  "let_in s w rq p d \<longleftrightarrow> admin_group (sv_admin s) rq = Inr () \<and>
     (\<exists>cx c i. admin_session (sv_admin s) (dr_now w) rq d = Inr cx \<and> cx_claims cx = Some c \<and>
        cl_subject c = adminSubject (ge_us (sv_admin s)) i \<and> live_account d i (cl_version c) \<and> may_act d i p)"

lemma admin_route_let_in:
  assumes "admin_route (sv_admin s) p auditor descriptor (dr_now w) rq d = (Inr cx, d')"
  shows "let_in s w rq p d"
proof -
  obtain ps c i where r: "admin_group (sv_admin s) rq = Inr ()" "admin_session (sv_admin s) (dr_now w) rq d = Inr cx"
    "cx_claims cx = Some c" "AdminIDFromSubject (ge_up (sv_admin s)) (ge_us (sv_admin s)) (cl_subject c) = Inr i"
    "PermissionsForAdmin i d = Inr ps" "p \<in> set ps"
    using assms by (rule admin_route_InrD)
  have "live_account d i (cl_version c)"
    using r(2-4) by (auto simp: admin_session_def sbind_eq_Inr console.authenticated)
  then show ?thesis
    using r AdminIDFromSubject_InrD[OF r(4)] console.perms_may[OF r(5)] unfolding let_in_def by blast
qed

lemma serve_admin_gated: "serve_admin s w p rq h d \<noteq> d \<Longrightarrow> let_in s w rq p d"
  by (auto simp: serve_admin_def admin_endpoint_def dest: admin_route_db admin_route_let_in
      split: prod.splits sum.splits)

lemma coupon_gated:
  assumes "d' = snd (admin_endpoint (sv_admin s) p (Some (RecordPermissionDenied ai)) descriptor (dr_now w) rq h d)"
  shows "let_in s w rq p d \<or> (\<exists>log. d' = d\<lparr>audit_logs := log\<rparr>)"
proof -
  have same: "\<exists>log. d = d\<lparr>audit_logs := log\<rparr>" by (rule exI[of _ "audit_logs d"]) simp
  show ?thesis
  proof (cases "admin_route (sv_admin s) p (Some (RecordPermissionDenied ai)) descriptor (dr_now w) rq d")
    case (Pair r d1)
    then show ?thesis
      using assms same denied.only_log[of ai _ descriptor d] admin_route_let_in[of s p _ descriptor w rq d]
      by (cases r) (auto simp: admin_endpoint_def dest!: admin_route_Inl_db)
  qed
qed

lemma templates_gated:
  "(\<And>log. snd (post_template (sv_admin s) parse_time col fresh ai (dr_now w) rq body d) \<noteq> d\<lparr>audit_logs := log\<rparr>) \<Longrightarrow>
   let_in s w rq ''coupon:write'' d"
  "(\<And>log. snd (patch_template (sv_admin s) ai (dr_now w) rq sbody d) \<noteq> d\<lparr>audit_logs := log\<rparr>) \<Longrightarrow>
   let_in s w rq ''coupon:write'' d"
  using coupon_gated[OF refl] unfolding post_template_def patch_template_def by blast+


definition coupon_server :: server where
  "coupon_server = demo_server\<lparr>sv_admin := demo_gate, sv_time := (\<lambda>s. Some (int (length s)))\<rparr>"

definition coupon_draw :: draw where
  "coupon_draw = \<lparr>dr_id = (\<lambda>n. if n = 0 then 101 else 95 + of_nat n), dr_now = 30, dr_clock = 30, dr_no = []\<rparr>"


end
