(* ===== verification/WeChat.thy ===== *)
theory WeChat
  imports Config BuyerHandlers
begin

text \<open>
  The login service of WeChat, \<open>internal/platform/wechat\<close>, and what a login through it gives. The
  network and the standard library's parsers are the record \<open>net_env\<close>: \<open>ne_parse\<close> is \<open>url.Parse\<close>
  with its \<open>String\<close>, \<open>ne_post\<close> sends the form and yields the status, the bytes of the body and
  whether reading them ends in an error, \<open>ne_decode\<close> is \<open>json.Unmarshal\<close> into the payload. A context
  that is over is \<open>Some\<close> error. Contexts and clients that are nil do not occur.
\<close>

section \<open>The client\<close>

record session =
  ss_open :: string
  ss_union :: string
  ss_key :: string

text \<open>What the service answers, decoded; a session as JSON leaves the key out.\<close>

record wx_payload =
  wp_errcode :: int
  wp_open :: string
  wp_union :: string
  wp_key :: string

definition session_fields :: "session \<Rightarrow> (string \<times> string) list" where
  "session_fields s = (''openid'', ss_open s) #
     (if ss_union s = [] then [] else [(''unionid'', ss_union s)])"

datatype wx_error =
    WxText string
  | WxCreate string
  | WxCall string
  | WxStatus int
  | WxErrCode int
  | WxContext string
  | WxInjected string

record net_env =
  ne_parse :: "string \<Rightarrow> (url \<times> string) option"
  ne_request :: "string \<Rightarrow> string option"
  ne_post :: "string \<Rightarrow> (string \<times> string) list \<Rightarrow> string + int \<times> string \<times> bool"
  ne_decode :: "string \<Rightarrow> wx_payload option"

record fake_client =
  fc_open :: string
  fc_union :: string
  fc_key :: string
  fc_err :: "string option"

record wechat_client =
  wx_app_id :: string
  wx_secret :: string
  wx_endpoint :: string

datatype client = Fake fake_client | Real wechat_client

definition defaultFakeOpenID :: string where
  "defaultFakeOpenID = ''fake-openid''"

definition NewFakeClient :: fake_client where
  "NewFakeClient = \<lparr>fc_open = defaultFakeOpenID, fc_union = ''fake-unionid'',
     fc_key = ''fake-session-key'', fc_err = None\<rparr>"

definition NewFakeClientWithError :: "string \<Rightarrow> fake_client" where
  "NewFakeClientWithError e = NewFakeClient\<lparr>fc_err := Some e\<rparr>"

definition NewFakeClientWithSession :: "string \<Rightarrow> string \<Rightarrow> string \<Rightarrow> fake_client" where
  "NewFakeClientWithSession openID unionID sessionKey =
     \<lparr>fc_open = openID, fc_union = unionID, fc_key = sessionKey, fc_err = None\<rparr>"

definition Fake_Code2Session :: "fake_client \<Rightarrow> string option \<Rightarrow> string \<Rightarrow> wx_error + session" where
  "Fake_Code2Session c ctx code =
     (case ctx of
        Some e \<Rightarrow> Inl (WxContext e)
      | None \<Rightarrow>
        if trim_space code = [] then Inl (WxText ''WeChat login code is required'')
        else case fc_err c of
            Some e \<Rightarrow> Inl (WxInjected e)
          | None \<Rightarrow> Inr \<lparr>ss_open = fc_open c, ss_union = fc_union c, ss_key = fc_key c\<rparr>)"

definition NewWeChatClient ::
  "net_env \<Rightarrow> string \<Rightarrow> string \<Rightarrow> string \<Rightarrow> wx_error + wechat_client" where
  "NewWeChatClient net appID secret endpoint =
     (if trim_space appID = [] then Inl (WxText ''WeChat app ID is required'')
      else if trim_space secret = [] then Inl (WxText ''WeChat app secret is required'')
      else
        let invalid = Inl (WxText ''WeChat endpoint must be an HTTP or HTTPS URL'') in
        case ne_parse net (trim_space endpoint) of
          None \<Rightarrow> invalid
        | Some (parsed, canonical) \<Rightarrow>
          if url_scheme parsed = [] \<or> url_host parsed = [] \<or> url_user parsed \<noteq> None
             \<or> url_scheme parsed \<noteq> ''http'' \<and> url_scheme parsed \<noteq> ''https''
          then invalid
          else Inr \<lparr>wx_app_id = appID, wx_secret = secret, wx_endpoint = canonical\<rparr>)"

definition NewClient :: "net_env \<Rightarrow> wechat_config \<Rightarrow> wx_error + client" where
  "NewClient net c =
     (if wc_app_id c = [] \<and> wc_secret c = [] \<and> wc_endpoint c = [] then Inr (Fake NewFakeClient)
      else case NewWeChatClient net (wc_app_id c) (wc_secret c) (wc_endpoint c) of
          Inl e \<Rightarrow> Inl e
        | Inr client \<Rightarrow> Inr (Real client))"

definition maxCode2SessionResponseBytes :: nat where
  "maxCode2SessionResponseBytes = 2 ^ 20"

text \<open>\<open>io.ReadAll\<close> of at most \<open>n\<close> bytes: an error behind them is not met.\<close>

definition read_all :: "nat \<Rightarrow> string \<Rightarrow> bool \<Rightarrow> string option" where
  "read_all n bytes fails = (if fails \<and> length bytes < n then None else Some (take n bytes))"

definition code_form :: "wechat_client \<Rightarrow> string \<Rightarrow> (string \<times> string) list" where
  "code_form c code = [(''appid'', wx_app_id c), (''secret'', wx_secret c), (''js_code'', code),
     (''grant_type'', ''authorization_code'')]"

definition read_session :: "net_env \<Rightarrow> int \<Rightarrow> string \<Rightarrow> bool \<Rightarrow> wx_error + session" where
  "read_session net status bytes fails =
     (case read_all (maxCode2SessionResponseBytes + 1) bytes fails of
        None \<Rightarrow> Inl (WxText ''read WeChat code2Session response'')
      | Some body \<Rightarrow>
        if length body > maxCode2SessionResponseBytes
        then Inl (WxText ''WeChat code2Session response is too large'')
        else if status < 200 \<or> status \<ge> 300 then Inl (WxStatus status)
        else case ne_decode net body of
            None \<Rightarrow> Inl (WxText ''decode WeChat code2Session response'')
          | Some payload \<Rightarrow>
            if wp_errcode payload \<noteq> 0 then Inl (WxErrCode (wp_errcode payload))
            else if trim_space (wp_open payload) = []
            then Inl (WxText ''WeChat code2Session response has no openid'')
            else Inr \<lparr>ss_open = wp_open payload, ss_union = wp_union payload, ss_key = wp_key payload\<rparr>)"

definition Real_Code2Session ::
  "net_env \<Rightarrow> wechat_client \<Rightarrow> string option \<Rightarrow> string \<Rightarrow> wx_error + session" where
  "Real_Code2Session net c ctx code =
     (case ctx of
        Some e \<Rightarrow> Inl (WxContext e)
      | None \<Rightarrow>
        if trim_space code = [] then Inl (WxText ''WeChat login code is required'')
        else case ne_request net (wx_endpoint c) of
            Some e \<Rightarrow> Inl (WxCreate e)
          | None \<Rightarrow>
            (case ne_post net (wx_endpoint c) (code_form c code) of
               Inl e \<Rightarrow> Inl (WxCall e)
             | Inr (status, bytes, fails) \<Rightarrow> read_session net status bytes fails))"

definition Code2Session :: "net_env \<Rightarrow> client \<Rightarrow> string option \<Rightarrow> string \<Rightarrow> wx_error + session" where
  "Code2Session net c ctx code = (case c of
     Fake f \<Rightarrow> Fake_Code2Session f ctx code | Real r \<Rightarrow> Real_Code2Session net r ctx code)"

text \<open>The client as the login sees it: the session's key goes no further.\<close>

definition wx_message :: "wx_error \<Rightarrow> string" where
  "wx_message e = (case e of
       WxText m \<Rightarrow> m
     | WxCreate m \<Rightarrow> ''create WeChat request: '' @ m
     | WxCall m \<Rightarrow> ''call WeChat code2Session: '' @ m
     | WxStatus s \<Rightarrow> ''WeChat code2Session returned HTTP status '' @ format_int s
     | WxErrCode c \<Rightarrow> ''WeChat code2Session failed with error code '' @ format_int c
     | WxContext m \<Rightarrow> m
     | WxInjected m \<Rightarrow> m)"

definition login_lookup :: "net_env \<Rightarrow> client \<Rightarrow> string option \<Rightarrow> string \<Rightarrow> err + string \<times> string" where
  "login_lookup net c ctx code = (case Code2Session net c ctx code of
     Inl e \<Rightarrow> Inl (ErrOther (wx_message e)) | Inr s \<Rightarrow> Inr (ss_open s, ss_union s))"

section \<open>What a session comes from\<close>

text \<open>
  A session of the real client is the one the service answered: with a success, within a megabyte,
  without an error code and with an openid.
\<close>

lemma read_session_ok: "read_session net status bytes fails = Inr s \<longleftrightarrow>
    length bytes \<le> maxCode2SessionResponseBytes \<and> \<not> fails \<and> 200 \<le> status \<and> status < 300 \<and>
    (\<exists>p. ne_decode net bytes = Some p \<and> wp_errcode p = 0 \<and> trim_space (wp_open p) \<noteq> [] \<and>
       s = \<lparr>ss_open = wp_open p, ss_union = wp_union p, ss_key = wp_key p\<rparr>)"
  by (cases fails; cases "ne_decode net bytes")
    (auto simp: read_session_def read_all_def)

lemma Real_Code2Session_ok:
  assumes "Real_Code2Session net c ctx code = Inr s"
  obtains status bytes where "ctx = None" "trim_space code \<noteq> []"
    "ne_post net (wx_endpoint c) (code_form c code) = Inr (status, bytes, False)"
    "read_session net status bytes False = Inr s"
proof -
  obtain status bytes fails where "ctx = None" "trim_space code \<noteq> []"
    "ne_post net (wx_endpoint c) (code_form c code) = Inr (status, bytes, fails)"
    "read_session net status bytes fails = Inr s"
    using assms by (auto simp: Real_Code2Session_def split: option.splits sum.splits if_splits)
  moreover from this have "\<not> fails" by (simp add: read_session_ok)
  ultimately show thesis using that by simp
qed

text \<open>
  A refusal tells nothing of the body but the error code: two answers of the same status, as long,
  that decode to payloads with the same error code and an openid both or neither, are refused alike,
  whatever session keys they carry.
\<close>

lemma refusal_hides_body:
  assumes "read_session net status bytes fails = Inl e" and len: "length bytes' = length bytes"
    and pay: "rel_option (\<lambda>p p'. wp_errcode p = wp_errcode p' \<and>
        (trim_space (wp_open p) = [] \<longleftrightarrow> trim_space (wp_open p') = []))
      (ne_decode net bytes) (ne_decode net bytes')"
  shows "read_session net status bytes' fails = Inl e"
proof -
  let ?n = "maxCode2SessionResponseBytes"
  consider "fails" "length bytes < ?n + 1" | "length bytes > ?n"
    | "\<not> fails" "length bytes \<le> ?n" by linarith
  then show ?thesis
  proof cases
    case 3
    then show ?thesis using assms
      by (cases "ne_decode net bytes"; cases "ne_decode net bytes'")
        (auto simp: read_session_def read_all_def split: if_splits)
  qed (use assms(1) len in \<open>simp_all add: read_session_def read_all_def\<close>)
qed

section \<open>Configurations\<close>

text \<open>
  What \<open>url.Parse\<close> makes of the empty text has no scheme. Then a client is made from all three
  settings or from none: nothing is half configured.
\<close>

lemma no_half_client:
  assumes "case ne_parse net [] of None \<Rightarrow> True | Some (u, _) \<Rightarrow> url_scheme u = []"
    and "NewClient net c = Inr cl"
  shows "case cl of
      Fake f \<Rightarrow> f = NewFakeClient \<and> wc_app_id c = [] \<and> wc_secret c = [] \<and> wc_endpoint c = []
    | Real r \<Rightarrow> WeChat_Configured c \<and> trim_space (wc_app_id c) \<noteq> [] \<and> trim_space (wc_secret c) \<noteq> [] \<and>
        trim_space (wc_endpoint c) \<noteq> []"
proof -
  have ne: "trim_space x \<noteq> [] \<Longrightarrow> x \<noteq> []" for x by auto
  show ?thesis
  proof (cases cl)
    case (Fake f)
    then show ?thesis using assms(2) by (auto simp: NewClient_def split: if_splits sum.splits)
  next
    case (Real r)
    then have w: "NewWeChatClient net (wc_app_id c) (wc_secret c) (wc_endpoint c) = Inr r"
      using assms(2) by (auto simp: NewClient_def split: if_splits sum.splits)
    then have "trim_space (wc_app_id c) \<noteq> []" "trim_space (wc_secret c) \<noteq> []"
      by (auto simp: NewWeChatClient_def split: if_splits)
    moreover have "trim_space (wc_endpoint c) \<noteq> []"
      using w assms(1) by (auto simp: NewWeChatClient_def Let_def split: if_splits option.splits prod.splits)
    ultimately show ?thesis using ne Real by (auto simp: WeChat_Configured_def)
  qed
qed

lemma fake_session: "Fake_Code2Session NewFakeClient ctx code = Inr s \<Longrightarrow> ss_open s = defaultFakeOpenID"
  by (auto simp: Fake_Code2Session_def NewFakeClient_def split: option.splits if_splits)

lemma fake_login:
  assumes "LoginExecute (login_lookup net (Fake NewFakeClient) None) issue us fresh lid clock bonus now code d = (r, d')"
  shows "(\<exists>e. r = Inl e) \<and> d' = d \<or> (\<exists>unionID q. UpsertByOpenID us fresh lid clock defaultFakeOpenID unionID
      bonus None now d = (q, d') \<and> (\<forall>v. r = Inr v \<longrightarrow> q = Inr (lr_user v)))"
proof (cases "Fake_Code2Session NewFakeClient None code")
  case (Inl e)
  then show ?thesis using assms
    by (auto simp: LoginExecute_def login_lookup_def Code2Session_def split: if_splits)
next
  case (Inr s)
  then have "login_lookup net (Fake NewFakeClient) None code = Inr (defaultFakeOpenID, ss_union s)"
    by (simp add: login_lookup_def Code2Session_def fake_session)
  moreover have "trim_space defaultFakeOpenID \<noteq> []" by code_simp
  ultimately show ?thesis using assms
    by (auto simp: LoginExecute_def split: if_splits sum.splits prod.splits)
qed

text \<open>
  C29: Without credentials the shop has one buyer. Settings left out pass the validation, in whatever
  environment, and make the fake client; once any code has logged in, any other code logs in to the
  same account, or is refused, and creates none.
\<close>

theorem unset_credentials_share_account:
  assumes client: "NewClient net c = Inr (Fake f)"
    and first: "LoginExecute (login_lookup net (Fake f) None) issue us fresh lid clock bonus now code d = (Inr v, d1)"
    and "users_ok d" and "0 < bonus" and "in64 bonus" and "lid \<notin> l_id ` set (ledger d)"
    and other: "LoginExecute (login_lookup net (Fake f) None) issue us fresh' lid' clock' bonus now' code' d1 = (r, d2)"
  shows "WeChat_Validate c = [] \<and> d2 = d1 \<and>
    (case r of Inl _ \<Rightarrow> True | Inr w \<Rightarrow> uv_id (lr_user w) = uv_id (lr_user v))"
proof -
  have f: "f = NewFakeClient" and unset: "wc_app_id c = []" "wc_secret c = []" "wc_endpoint c = []"
    using client by (auto simp: NewClient_def split: if_splits sum.splits)
  obtain unionID where u: "UpsertByOpenID us fresh lid clock defaultFakeOpenID unionID bonus None now d
      = (Inr (lr_user v), d1)"
    using fake_login[OF first[unfolded f]] by auto
  obtain s where s: "find_openid (trim_space defaultFakeOpenID) d1 = Some s" "uv_id (lr_user v) = u_id s"
    "bonus_spent us (u_id s) d1" "users_ok d1"
    using first_login_spends[OF u assms(3-6)] by blast
  have "WeChat_Validate c = []" by (simp add: WeChat_Validate_def complain_def unset)
  moreover have "d2 = d1 \<and> (case r of Inl _ \<Rightarrow> True | Inr w \<Rightarrow> uv_id (lr_user w) = uv_id (lr_user v))"
    using fake_login[OF other[unfolded f]] spent_login[OF s(1,4,3)] s(2) by (cases r) fastforce+
  ultimately show ?thesis by simp
qed

text \<open>Two strangers, one account.\<close>

definition demo_net :: net_env where
  "demo_net = \<lparr>ne_parse = (\<lambda>_. None), ne_request = (\<lambda>_. None), ne_post = (\<lambda>_ _. Inl ''offline''),
     ne_decode = (\<lambda>_. None)\<rparr>"

definition demo_wx_login :: "uid \<Rightarrow> uid \<Rightarrow> string \<Rightarrow> db \<Rightarrow> (err + login_result) \<times> db" where
  "demo_wx_login fresh lid code = LoginExecute (login_lookup demo_net (Fake NewFakeClient) None)
     (\<lambda>_ _ _. Inr ''token'') (\<lambda>_. ''u'') fresh lid 5 100 5 code"

theorem unset_credentials_share_account_witness:
  "\<exists>v w d1. demo_wx_login 1 2 ''alice'' empty_db = (Inr v, d1) \<and> demo_wx_login 3 4 ''bob'' d1 = (Inr w, d1) \<and>
     uv_id (lr_user w) = uv_id (lr_user v)"
proof -
  have some: "\<not> isl (fst (demo_wx_login 1 2 ''alice'' empty_db))"
      "\<not> isl (fst (demo_wx_login 3 4 ''bob'' (snd (demo_wx_login 1 2 ''alice'' empty_db))))"
    by code_simp+
  then obtain v d1 where v: "demo_wx_login 1 2 ''alice'' empty_db = (Inr v, d1)"
    by (metis prod.collapse sum.collapse(2))
  then obtain w d2 where w: "demo_wx_login 3 4 ''bob'' d1 = (Inr w, d2)"
    using some(2) by (metis prod.collapse snd_conv sum.collapse(2))
  have "NewClient demo_net \<lparr>wc_app_id = [], wc_secret = [], wc_endpoint = []\<rparr> = Inr (Fake NewFakeClient)"
    by (simp add: NewClient_def)
  moreover have "users_ok empty_db" and "in64 100" and "2 \<notin> l_id ` set (ledger empty_db)" by code_simp+
  ultimately have "d2 = d1 \<and> uv_id (lr_user w) = uv_id (lr_user v)"
    using unset_credentials_share_account[OF _ v[unfolded demo_wx_login_def] _ _ _ _ w[unfolded demo_wx_login_def]]
    by simp
  with v w show ?thesis by blast
qed

end
