(* ===== verification/Logging.thy ===== *)
theory Logging
  imports Admins
begin

text \<open>
  What the server may write to its log: \<open>internal/platform/logging/logger.go\<close>. \<open>redactAttr\<close> is the
  \<open>ReplaceAttr\<close> of the handler, which \<open>slog\<close> applies to every attribute of every record.

  Outside the model, the record \<open>log_lib\<close>: \<open>encoding/json\<close> (\<open>decode\<close> is \<open>Decoder.Decode\<close> with
  \<open>UseNumber\<close>, the value and the input left; \<open>encode\<close> is \<open>json.Marshal\<close> of a decoded value and
  \<open>marshal\<close> of any value), \<open>regexp\<close>, to which the patterns go as they are written, and \<open>unicode\<close>
  beyond ASCII. A document is decoded into \<open>json\<close>, its objects without their order. Messages can
  hold JSON documents whose strings are messages again; \<open>redact_message\<close> takes fuel, and
  \<open>redactMessage_returns\<close> shows that the fuel \<open>redactMessage\<close> gives is enough, because a string of a
  document has fewer runes than the document.
\<close>

section \<open>Keys\<close>

definition redactedValue :: string where
  "redactedValue = ''[REDACTED]''"

datatype json = JNull | JBool bool | JNum string | JStr string | JArr "json list"
  | JObj "(string \<times> json) list"

text \<open>
  Go values as \<open>reflect\<close> shows them: pointers, maps and slices carry their type and address, and
  the heap gives what is there; \<open>Scalar\<close> is every kind \<open>walkByteSlice\<close> does not look into.
\<close>

datatype go_value =
    Invalid
  | Interface "go_value option"
  | Pointer string nat
  | MapOf string nat
  | Slice string bool nat nat nat
  | Array "go_value list"
  | Struct "go_value list"
  | Scalar nat

record memory =
  pointee :: "string \<Rightarrow> nat \<Rightarrow> go_value"
  entries :: "string \<Rightarrow> nat \<Rightarrow> (go_value \<times> go_value) list"
  cells :: "string \<Rightarrow> nat \<Rightarrow> nat \<Rightarrow> go_value"

record log_lib =
  rune_class :: "string \<Rightarrow> rune_class"
  lower_rune :: "string \<Rightarrow> string"
  decode :: "string \<Rightarrow> (json \<times> string) option"
  encode :: "json \<Rightarrow> string option"
  marshal :: "memory \<Rightarrow> go_value \<Rightarrow> string option"
  matches :: "string \<Rightarrow> string \<Rightarrow> (string \<times> string) list \<times> string"
  submatches :: "string \<Rightarrow> string \<Rightarrow> (nat \<times> nat) list"
  replace_all :: "string \<Rightarrow> string \<Rightarrow> string \<Rightarrow> string"

text \<open>A byte that starts no rune is read as U+FFFD, a symbol.\<close>

definition bad_rune :: "string \<Rightarrow> bool" where
  "bad_rune r \<longleftrightarrow> length r = 1 \<and> 128 \<le> byte (hd r)"

definition class_of :: "log_lib \<Rightarrow> string \<Rightarrow> rune_class" where
  "class_of lib r = (if bad_rune r then PunctOrSymbol else classify (rune_class lib) r)"

definition lower_of :: "log_lib \<Rightarrow> string \<Rightarrow> string" where
  "lower_of lib r = (if bad_rune r then [CHR 0xEF, CHR 0xBF, CHR 0xBD]
     else if length r = 1 then map lower_char r else lower_rune lib r)"

definition separator :: "string \<Rightarrow> bool" where
  "separator r \<longleftrightarrow> r = ''-'' \<or> r = ''.'' \<or> r = '' '' \<or> r = '':''"

fun normalize_from :: "log_lib \<Rightarrow> string \<Rightarrow> string \<Rightarrow> string list \<Rightarrow> string" where
  "normalize_from lib previous normalized [] = normalized"
| "normalize_from lib previous normalized (current # rs) =
     (if separator current then normalize_from lib ''_'' (normalized @ ''_'') rs
      else let split = class_of lib current = Upper \<and> 0 < length normalized
                 \<and> (class_of lib previous = Lower \<or> class_of lib previous = Digit)
        in normalize_from lib current
             ((if split then normalized @ ''_'' else normalized) @ lower_of lib current) rs)"

definition normalizeKey :: "log_lib \<Rightarrow> string \<Rightarrow> string" where
  "normalizeKey lib key = normalize_from lib [CHR 0x00] [] (runes key)"

definition sensitive_parts :: "string list" where
  "sensitive_parts = [''authorization'', ''password'', ''passwd'', ''secret'', ''session_key'', ''jwt'',
     ''token'', ''phone'', ''address'', ''receiver'', ''detail'', ''cookie'', ''error'', ''err'']"

definition sensitiveKey :: "log_lib \<Rightarrow> string \<Rightarrow> bool" where
  "sensitiveKey lib key \<longleftrightarrow> list_ex (str_contains (normalizeKey lib key)) sensitive_parts"

section \<open>Messages\<close>

text \<open>\<open>value\<close> is rewritten under every key; the flag the code returns besides is always true.\<close>

function redactJSONValue ::
  "(string \<Rightarrow> bool) \<Rightarrow> (string \<Rightarrow> string option) \<Rightarrow> json \<Rightarrow> json option" where
  "redactJSONValue sens msg (JObj kvs) = map_option JObj (those (map (\<lambda>(key, nested).
     if sens key then Some (key, JStr redactedValue)
     else map_option (Pair key) (redactJSONValue sens msg nested)) kvs))"
| "redactJSONValue sens msg (JArr vs) = map_option JArr (those (map (redactJSONValue sens msg) vs))"
| "redactJSONValue sens msg (JStr s) = map_option JStr (msg s)"
| "redactJSONValue sens msg JNull = Some JNull"
| "redactJSONValue sens msg (JBool b) = Some (JBool b)"
| "redactJSONValue sens msg (JNum n) = Some (JNum n)"
  by pat_completeness auto
termination
  by (relation "measure (\<lambda>(_, _, v). size v)")
    (auto simp: size_list_estimation' less_Suc_eq_le dest: size_list_estimation' intro: le_trans)

text \<open>The patterns, as the source has them; in \<open>re\<close> a tilde stands for a backslash, a backquote for a quote.\<close>

definition re :: "string \<Rightarrow> string" where
  "re s = map (\<lambda>c. if c = CHR ''~'' then CHR 0x5C else if c = CHR 0x60 then CHR 0x27 else c) s"

definition sensitiveMessageAssignment :: string where
  "sensitiveMessageAssignment = re (''(?i)([\"`]?)(password|passwd|secret|session[_-]?key|jwt|''
     @ ''access[_-]?token|csrf[_-]?token|token|authorization|cookie|error|err|''
     @ ''phone(?:[_-]?number)?|address|receiver|detail)([\"`]?)~s*(=|:)~s*''
     @ ''(\"(?:~~.|[^\"~~])*\"|`(?:~~.|[^`~~])*`|[^,~s;}~]]+)'')"

definition dsnCredentialPattern :: string where
  "dsnCredentialPattern = re ''(?i)~b([a-z][a-z0-9+.-]*://[^/~s:@]*:)[^@~s]+@''"

definition jwtMessagePattern :: string where
  "jwtMessagePattern = re ''~beyJ[A-Za-z0-9_-]*~.[A-Za-z0-9_-]*~.[A-Za-z0-9_-]+~b''"

definition phoneMessagePattern :: string where
  "phoneMessagePattern = re ''~b1[3-9][0-9]{9}~b''"

text \<open>The end of a quoted value, just after the quote that closes it.\<close>

fun quoted_end :: "char \<Rightarrow> bool \<Rightarrow> nat \<Rightarrow> string \<Rightarrow> nat option" where
  "quoted_end q escaped index [] = None"
| "quoted_end q escaped index (c # cs) =
     (if escaped then quoted_end q False (Suc index) cs
      else if c = CHR 0x5C then quoted_end q True (Suc index) cs
      else if c = q then Some (Suc index)
      else quoted_end q False (Suc index) cs)"

definition quote_char :: "char \<Rightarrow> bool" where
  "quote_char c \<longleftrightarrow> c = CHR 0x22 \<or> c = CHR 0x27"

definition quotedValueEnd :: "string \<Rightarrow> nat option" where
  "quotedValueEnd s = (if length s < 2 \<or> \<not> quote_char (hd s) then None
     else quoted_end (hd s) False 1 (tl s))"

definition redactAssignment :: "log_lib \<Rightarrow> string \<Rightarrow> string" where
  "redactAssignment lib found =
     (let indices = submatches lib sensitiveMessageAssignment found in
      if length indices < 6 then redactedValue
      else case indices ! 5 of (valueStart, valueEnd) \<Rightarrow>
        let val = take (valueEnd - valueStart) (drop valueStart found) in
        if val \<noteq> [] \<and> quote_char (hd val) then
          (case quotedValueEnd val of
             None \<Rightarrow> take valueStart found @ redactedValue
           | Some quotedEnd \<Rightarrow> take valueStart found
               @ ([hd val] @ redactedValue @ [val ! (quotedEnd - 1)])
               @ drop (valueStart + quotedEnd) found)
        else take valueStart found @ redactedValue @ drop valueEnd found)"

text \<open>\<open>ReplaceAllStringFunc\<close>: the matches one after the other, each behind the text before it.\<close>

definition replace_func :: "log_lib \<Rightarrow> string \<Rightarrow> (string \<Rightarrow> string) \<Rightarrow> string \<Rightarrow> string" where
  "replace_func lib pattern f message = (case matches lib pattern message of
     (parts, rest) \<Rightarrow> concat (map (\<lambda>(before, found). before @ f found) parts) @ rest)"

definition redact_text :: "log_lib \<Rightarrow> string \<Rightarrow> string" where
  "redact_text lib message =
     (let m1 = replace_func lib sensitiveMessageAssignment (redactAssignment lib) message;
          m2 = replace_all lib dsnCredentialPattern (''$1'' @ redactedValue @ ''@'') m1;
          m3 = replace_all lib jwtMessagePattern redactedValue m2
      in replace_all lib phoneMessagePattern redactedValue m3)"

text \<open>The document a message is, if it is one: an object or an array and nothing after it but space.\<close>

definition json_space :: "char \<Rightarrow> bool" where
  "json_space c \<longleftrightarrow> c \<in> {CHR '' '', CHR 0x09, CHR 0x0A, CHR 0x0D}"

definition json_message :: "log_lib \<Rightarrow> string \<Rightarrow> json option" where
  "json_message lib message =
     (let trimmed = trim_space message in
      if trimmed = [] \<or> hd trimmed \<noteq> CHR 0x7B \<and> hd trimmed \<noteq> CHR 0x5B then None
      else case decode lib trimmed of
          None \<Rightarrow> None
        | Some (decoded, rest) \<Rightarrow>
          if \<not> list_all json_space rest then None
          else (case decoded of JObj kvs \<Rightarrow> Some decoded | JArr vs \<Rightarrow> Some decoded | _ \<Rightarrow> None))"

fun redact_message :: "log_lib \<Rightarrow> nat \<Rightarrow> string \<Rightarrow> string option" where
  "redact_message lib 0 message = None"
| "redact_message lib (Suc fuel) message =
     (case json_message lib message of
        None \<Rightarrow> Some (redact_text lib message)
      | Some decoded \<Rightarrow>
        (case redactJSONValue (sensitiveKey lib) (redact_message lib fuel) decoded of
           None \<Rightarrow> None
         | Some redacted \<Rightarrow>
           (case encode lib redacted of
              None \<Rightarrow> Some (redact_text lib message)
            | Some encoded \<Rightarrow> Some encoded)))"

definition redactMessage :: "log_lib \<Rightarrow> string \<Rightarrow> string option" where
  "redactMessage lib message = redact_message lib (Suc (rune_count message)) message"

section \<open>Structured values\<close>

definition maxByteSliceTraversalDepth :: nat where
  "maxByteSliceTraversalDepth = 1024"

type_synonym byte_slice_visit = "string \<times> string \<times> nat \<times> nat \<times> nat"

definition alreadyVisitedByteSliceValue ::
  "byte_slice_visit \<Rightarrow> byte_slice_visit set \<Rightarrow> bool \<times> byte_slice_visit set" where
  "alreadyVisitedByteSliceValue visit visited = (visit \<in> visited, insert visit visited)"

text \<open>
  The traversal returns whether it found a byte slice, whether it may be trusted, and the pointers
  it passed. \<open>walk_each\<close> is the loop over the parts of a value.
\<close>

function (sequential) walkByteSlice ::
  "memory \<Rightarrow> go_value \<Rightarrow> byte_slice_visit set \<Rightarrow> nat \<Rightarrow> bool \<times> bool \<times> byte_slice_visit set"
and walk_each ::
  "memory \<Rightarrow> go_value list \<Rightarrow> byte_slice_visit set \<Rightarrow> nat \<Rightarrow> bool \<times> bool \<times> byte_slice_visit set" where
  "walkByteSlice mem v visited depth =
     (if depth > maxByteSliceTraversalDepth then (False, False, visited)
      else case v of
          Invalid \<Rightarrow> (False, True, visited)
        | Interface None \<Rightarrow> (False, True, visited)
        | Interface (Some inner) \<Rightarrow> walkByteSlice mem inner visited (Suc depth)
        | Pointer typ p \<Rightarrow>
            if p = 0 then (False, True, visited)
            else (case alreadyVisitedByteSliceValue (typ, ''ptr'', p, 0, 0) visited of
                (True, visited') \<Rightarrow> (False, False, visited')
              | (False, visited') \<Rightarrow> walkByteSlice mem (pointee mem typ p) visited' (Suc depth))
        | MapOf typ p \<Rightarrow>
            if p = 0 then (False, True, visited)
            else (case alreadyVisitedByteSliceValue (typ, ''map'', p, 0, 0) visited of
                (True, visited') \<Rightarrow> (False, False, visited')
              | (False, visited') \<Rightarrow> walk_each mem (concat (map (\<lambda>(k, x). [k, x]) (entries mem typ p)))
                  visited' (Suc depth))
        | Slice typ bytes p len cap \<Rightarrow>
            if bytes then (True, True, visited)
            else if p = 0 then (False, True, visited)
            else (case alreadyVisitedByteSliceValue (typ, ''slice'', p, len, cap) visited of
                (True, visited') \<Rightarrow> (False, False, visited')
              | (False, visited') \<Rightarrow> walk_each mem (map (cells mem typ p) [0..<len]) visited' (Suc depth))
        | Array vs \<Rightarrow> walk_each mem vs visited (Suc depth)
        | Struct vs \<Rightarrow> walk_each mem vs visited (Suc depth)
        | Scalar _ \<Rightarrow> (False, True, visited))"
| "walk_each mem [] visited depth = (False, True, visited)"
| "walk_each mem (v # vs) visited depth =
     (case walkByteSlice mem v visited depth of (found, safe, visited') \<Rightarrow>
        if found \<or> \<not> safe then (found, safe, visited') else walk_each mem vs visited' depth)"
  by pat_completeness auto
termination
  by (relation "measures [\<lambda>x. case x of Inl (_, _, _, depth) \<Rightarrow> 1026 - depth | Inr (_, _, _, depth) \<Rightarrow> 1026 - depth,
        \<lambda>x. case x of Inl _ \<Rightarrow> 0 | Inr (_, vs, _, _) \<Rightarrow> Suc (length vs)]")
    (auto simp: maxByteSliceTraversalDepth_def)

declare walkByteSlice.simps [simp del]

definition containsByteSlice :: "memory \<Rightarrow> go_value \<Rightarrow> bool \<times> bool" where
  "containsByteSlice mem v = (case walkByteSlice mem v {} 0 of (found, safe, _) \<Rightarrow> (found, safe))"

definition redactStructuredValue :: "log_lib \<Rightarrow> memory \<Rightarrow> go_value \<Rightarrow> json option" where
  "redactStructuredValue lib mem v =
     (case containsByteSlice mem v of (containsBytes, safe) \<Rightarrow>
        if containsBytes \<or> \<not> safe then Some (JStr redactedValue)
        else case marshal lib mem v of
            None \<Rightarrow> Some (JStr redactedValue)
          | Some encoded \<Rightarrow>
            (case decode lib encoded of
               None \<Rightarrow> Some (JStr redactedValue)
             | Some (decoded, rest) \<Rightarrow>
                redactJSONValue (sensitiveKey lib) (redactMessage lib) decoded))"

section \<open>Attributes\<close>

text \<open>
  An attribute's value as the handler gets it: a text, any value of Go, or a number, a time and the
  like. What it writes is again one; \<open>Doc\<close> is a decoded value, written as JSON.
\<close>

datatype attr_value = TextV string | AnyV go_value | Doc json | OtherV nat

record attr =
  at_key :: string
  at_value :: attr_value

definition isByteSlice :: "go_value \<Rightarrow> bool" where
  "isByteSlice v = (case v of Slice _ bytes _ _ _ \<Rightarrow> bytes | _ \<Rightarrow> False)"

definition redactAttr :: "log_lib \<Rightarrow> memory \<Rightarrow> string list \<Rightarrow> attr \<Rightarrow> attr option" where
  "redactAttr lib mem groups a =
     (let k = at_key a; text = (\<lambda>m. \<lparr>at_key = k, at_value = TextV m\<rparr>) in
      if list_ex (sensitiveKey lib) groups then Some (text redactedValue)
      else case at_value a of
          TextV m \<Rightarrow>
            if k = ''msg'' then map_option text (redactMessage lib m)
            else if sensitiveKey lib k then Some (text redactedValue)
            else map_option text (redactMessage lib m)
        | AnyV v \<Rightarrow>
            if sensitiveKey lib k then Some (text redactedValue)
            else if isByteSlice v then Some (text redactedValue)
            else map_option (\<lambda>w. \<lparr>at_key = k, at_value = Doc w\<rparr>) (redactStructuredValue lib mem v)
        | _ \<Rightarrow> if sensitiveKey lib k then Some (text redactedValue) else Some a)"

end
