(* ===== verification/LogFacts.thy ===== *)
theory LogFacts
  imports Logging
begin

text \<open>
  What the log cannot show. \<open>redactMessage\<close> returns on every message; a value in which
  \<open>walkByteSlice\<close> finds nothing reaches no byte slice, through whatever pointers; and two attributes
  that agree outside of what is secret (\<open>same_attr\<close>) are written alike, so nothing of the secret part
  can be read off the log.
\<close>

section \<open>The redaction returns\<close>

text \<open>The strings and the numbers of a document.\<close>

function texts :: "json \<Rightarrow> string set" where
  "texts (JObj kvs) = (\<Union>kv\<in>set kvs. texts (snd kv))"
| "texts (JArr vs) = (\<Union>v\<in>set vs. texts v)"
| "texts (JStr s) = {s}"
| "texts JNull = {}"
| "texts (JBool b) = {}"
| "texts (JNum n) = {}"
  by pat_completeness auto
termination
  by (relation "measure size") (auto simp: size_list_estimation' less_Suc_eq_le intro: le_trans)

function numbers :: "json \<Rightarrow> string set" where
  "numbers (JObj kvs) = (\<Union>kv\<in>set kvs. numbers (snd kv))"
| "numbers (JArr vs) = (\<Union>v\<in>set vs. numbers v)"
| "numbers (JStr s) = {}"
| "numbers JNull = {}"
| "numbers (JBool b) = {}"
| "numbers (JNum n) = {n}"
  by pat_completeness auto
termination
  by (relation "measure size") (auto simp: size_list_estimation' less_Suc_eq_le intro: le_trans)

text \<open>
  What the code relies on of \<open>encoding/json\<close>: a string inside a document is shorter than the
  document, which also has its quotes, and a value whose numbers were read from a document can be
  written.
\<close>

definition json_ok :: "log_lib \<Rightarrow> bool" where
  "json_ok lib \<longleftrightarrow> (\<forall>t v rest. decode lib t = Some (v, rest) \<longrightarrow>
     (\<forall>s\<in>texts v. rune_count s < rune_count t) \<and>
     (\<forall>w. numbers w \<subseteq> numbers v \<longrightarrow> encode lib w \<noteq> None))"

lemma those_map: "those (map f xs) = Some ys \<longleftrightarrow> list_all2 (\<lambda>x y. f x = Some y) xs ys"
proof (induction xs arbitrary: ys)
  case (Cons x xs)
  then show ?case by (cases "f x"; cases ys) auto
qed auto

lemma those_map_None: "those (map f xs) = None \<longleftrightarrow> (\<exists>x\<in>set xs. f x = None)"
  by (induction xs) (auto split: option.splits)

lemma list_all2_right: "list_all2 P xs ys \<Longrightarrow> y \<in> set ys \<Longrightarrow> \<exists>x\<in>set xs. P x y"
  by (induction rule: list_all2_induct) auto

text \<open>Objects and arrays entry by entry.\<close>

definition redacts_entry ::
  "(string \<Rightarrow> bool) \<Rightarrow> (string \<Rightarrow> string option) \<Rightarrow> string \<times> json \<Rightarrow> string \<times> json \<Rightarrow> bool" where
  "redacts_entry sens msg kv kw \<longleftrightarrow> fst kw = fst kv \<and>
     (if sens (fst kv) then snd kw = JStr redactedValue
      else redactJSONValue sens msg (snd kv) = Some (snd kw))"

lemma redact_object: "redactJSONValue sens msg (JObj kvs) = Some w \<longleftrightarrow>
    (\<exists>ws. w = JObj ws \<and> list_all2 (redacts_entry sens msg) kvs ws)"
proof -
  have "(\<lambda>kv kw. (case kv of (key, nested) \<Rightarrow>
      if sens key then Some (key, JStr redactedValue)
      else map_option (Pair key) (redactJSONValue sens msg nested)) = Some kw) = redacts_entry sens msg"
    by (intro ext) (auto simp: redacts_entry_def split: prod.splits)
  then show ?thesis by (auto simp: those_map)
qed

lemma redact_array: "redactJSONValue sens msg (JArr vs) = Some w \<longleftrightarrow>
    (\<exists>ws. w = JArr ws \<and> list_all2 (\<lambda>v x. redactJSONValue sens msg v = Some x) vs ws)"
  by (auto simp: those_map)

lemma redactJSONValue_returns:
  "(\<forall>s\<in>texts v. msg s \<noteq> None) \<Longrightarrow> redactJSONValue sens msg v \<noteq> None"
proof (induction sens msg v rule: redactJSONValue.induct)
  case (1 sens msg kvs)
  have "redactJSONValue sens msg v \<noteq> None" if "(k, v) \<in> set kvs" "\<not> sens k" for k v
    using "1.IH"[OF that(1) refl that(2)] "1.prems" that(1) by force
  then show ?case by (auto simp: those_map_None)
next
  case (2 sens msg vs)
  then show ?case by (simp add: those_map_None)
qed auto

lemma redactJSONValue_numbers:
  "redactJSONValue sens msg v = Some w \<Longrightarrow> numbers w \<subseteq> numbers v"
proof (induction sens msg v arbitrary: w rule: redactJSONValue.induct)
  case (1 sens msg kvs)
  then obtain ws where w: "w = JObj ws" and ws: "list_all2 (redacts_entry sens msg) kvs ws"
    unfolding redact_object by blast
  have "numbers (snd kw) \<subseteq> numbers (JObj kvs)" if kw: "kw \<in> set ws" for kw
  proof -
    obtain kv where kv: "kv \<in> set kvs" "redacts_entry sens msg kv kw"
      using list_all2_right[OF ws kw] by blast
    show ?thesis
    proof (cases "sens (fst kv)")
      case True
      then show ?thesis using kv by (simp add: redacts_entry_def)
    next
      case False
      then have "numbers (snd kw) \<subseteq> numbers (snd kv)"
        using kv "1.IH"[of kv "fst kv" "snd kv" "snd kw"] by (simp add: redacts_entry_def)
      then show ?thesis using kv(1) by auto
    qed
  qed
  then show ?case by (auto simp: w)
next
  case (2 sens msg vs)
  then obtain ws where w: "w = JArr ws"
    and ws: "list_all2 (\<lambda>v x. redactJSONValue sens msg v = Some x) vs ws"
    unfolding redact_array by blast
  have "numbers x \<subseteq> numbers (JArr vs)" if "x \<in> set ws" for x
    using list_all2_right[OF ws that] "2.IH" by auto
  then show ?case by (auto simp: w)
qed auto

lemma json_message_decoded:
  "json_message lib m = Some v \<Longrightarrow> \<exists>rest. decode lib (trim_space m) = Some (v, rest)"
  by (auto simp: json_message_def Let_def split: if_splits option.splits json.splits)

lemma json_message_texts:
  assumes "json_ok lib" and "json_message lib m = Some v" and "s \<in> texts v"
  shows "rune_count s < rune_count m"
  using json_message_decoded[OF assms(2)] assms(1,3) rune_count_trim[of m]
  unfolding json_ok_def by (meson less_le_trans)

lemma json_message_encodes:
  assumes "json_ok lib" and "json_message lib m = Some v" and "redactJSONValue sens msg v = Some w"
  shows "\<exists>t. encode lib w = Some t"
  using json_message_decoded[OF assms(2)] redactJSONValue_numbers[OF assms(3)] assms(1)
  unfolding json_ok_def by blast

lemma redact_message_returns:
  assumes "json_ok lib"
  shows "rune_count m < fuel \<Longrightarrow> redact_message lib fuel m \<noteq> None"
proof (induction fuel arbitrary: m)
  case (Suc fuel)
  have "redactJSONValue (sensitiveKey lib) (redact_message lib fuel) v \<noteq> None"
    if "json_message lib m = Some v" for v
    proof (rule redactJSONValue_returns, rule ballI)
    fix s
    assume "s \<in> texts v"
    then have "rune_count s < rune_count m" by (rule json_message_texts[OF assms that])
    then show "redact_message lib fuel s \<noteq> None" using Suc by simp
  qed
  then show ?case by (auto split: option.splits)
qed simp

section \<open>Fuel does not matter\<close>

lemma redactJSONValue_mono:
  "redactJSONValue sens msg v = Some w \<Longrightarrow> (\<And>s r. msg s = Some r \<Longrightarrow> msg' s = Some r) \<Longrightarrow>
   redactJSONValue sens msg' v = Some w"
proof (induction sens msg v arbitrary: w rule: redactJSONValue.induct)
  case (1 sens msg kvs)
  then obtain ws where w: "w = JObj ws" and ws: "list_all2 (redacts_entry sens msg) kvs ws"
    unfolding redact_object by blast
  have "redacts_entry sens msg' kv kw" if "kv \<in> set kvs" "redacts_entry sens msg kv kw" for kv kw
    using that "1.IH"[of kv "fst kv" "snd kv" "snd kw"] "1.prems"(2)
    by (auto simp: redacts_entry_def split: if_splits)
  then have "list_all2 (redacts_entry sens msg') kvs ws"
    using ws by (auto intro: list_all2_mono elim: list.rel_mono_strong)
  then show ?case unfolding redact_object w by blast
next
  case (2 sens msg vs)
  then obtain ws where w: "w = JArr ws"
    and ws: "list_all2 (\<lambda>v x. redactJSONValue sens msg v = Some x) vs ws"
    unfolding redact_array by blast
  have "list_all2 (\<lambda>v x. redactJSONValue sens msg' v = Some x) vs ws"
    using ws "2.IH" "2.prems"(2) by (auto elim: list.rel_mono_strong)
  then show ?case unfolding redact_array w by blast
qed auto

lemma redact_message_Suc:
  "redact_message lib fuel m = Some r \<Longrightarrow> redact_message lib (Suc fuel) m = Some r"
proof (induction fuel arbitrary: m r)
  case (Suc fuel)
  show ?case
  proof (cases "json_message lib m")
    case (Some v)
    then obtain w where "redactJSONValue (sensitiveKey lib) (redact_message lib fuel) v = Some w"
      using Suc.prems by (auto split: option.splits)
    moreover from this have
      "redactJSONValue (sensitiveKey lib) (redact_message lib (Suc fuel)) v = Some w"
      using Suc.IH by (rule redactJSONValue_mono)
    ultimately show ?thesis using Suc.prems Some by (simp del: redact_message.simps(2) add: redact_message.simps(2)[of lib "Suc fuel"] redact_message.simps(2)[of lib "fuel"])
  qed (use Suc.prems in simp)
qed simp

lemma redact_message_more:
  "redact_message lib fuel m = Some r \<Longrightarrow> fuel \<le> n \<Longrightarrow> redact_message lib n m = Some r"
  by (induction n) (auto simp: le_Suc_eq simp del: redact_message.simps(2) dest: redact_message_Suc)

lemma redact_message_fuel:
  assumes "redact_message lib j m = Some r" and "redact_message lib k m = Some r'"
  shows "r = r'"
  using redact_message_more[OF assms(1), of "max j k"] redact_message_more[OF assms(2), of "max j k"]
  by simp

text \<open>
  Redaction returns on every message, however its documents are nested, and more fuel changes
  nothing.
\<close>

theorem redactMessage_returns:
  assumes "json_ok lib"
  shows "\<exists>r. redactMessage lib m = Some r \<and>
    (\<forall>n. rune_count m < n \<longrightarrow> redact_message lib n m = Some r)"
proof -
  obtain r where r: "redactMessage lib m = Some r"
    using redact_message_returns[OF assms, of m "Suc (rune_count m)"] unfolding redactMessage_def by blast
  have "redact_message lib n m = Some r" if "rune_count m < n" for n
    using r redact_message_more[of lib "Suc (rune_count m)" m r n] that
    unfolding redactMessage_def by simp
  with r show ?thesis by blast
qed

section \<open>Byte slices\<close>

text \<open>The values from which a byte slice is reached, through pointers, maps, slices and fields.\<close>

inductive holds_bytes :: "memory \<Rightarrow> go_value \<Rightarrow> bool" for mem where
  here: "holds_bytes mem (Slice ty True p len cap)"
| inside: "holds_bytes mem v \<Longrightarrow> holds_bytes mem (Interface (Some v))"
| behind: "p \<noteq> 0 \<Longrightarrow> holds_bytes mem (pointee mem ty p) \<Longrightarrow> holds_bytes mem (Pointer ty p)"
| as_key: "p \<noteq> 0 \<Longrightarrow> (k, v) \<in> set (entries mem ty p) \<Longrightarrow> holds_bytes mem k \<Longrightarrow> holds_bytes mem (MapOf ty p)"
| as_value: "p \<noteq> 0 \<Longrightarrow> (k, v) \<in> set (entries mem ty p) \<Longrightarrow> holds_bytes mem v \<Longrightarrow> holds_bytes mem (MapOf ty p)"
| in_slice: "p \<noteq> 0 \<Longrightarrow> i < len \<Longrightarrow> holds_bytes mem (cells mem ty p i) \<Longrightarrow>
    holds_bytes mem (Slice ty bytes p len cap)"
| in_array: "v \<in> set vs \<Longrightarrow> holds_bytes mem v \<Longrightarrow> holds_bytes mem (Array vs)"
| in_struct: "v \<in> set vs \<Longrightarrow> holds_bytes mem v \<Longrightarrow> holds_bytes mem (Struct vs)"

text \<open>A clean answer to a list of values is a clean answer to each, at the same depth.\<close>

definition clean :: "memory \<Rightarrow> go_value \<Rightarrow> byte_slice_visit set \<Rightarrow> nat \<Rightarrow> bool" where
  "clean mem v visited depth \<longleftrightarrow> (\<exists>visited'. walkByteSlice mem v visited depth = (False, True, visited'))"

lemma walk_each_clean:
  "walk_each mem vs visited depth = (False, True, out) \<Longrightarrow> v \<in> set vs \<Longrightarrow>
   \<exists>visited. clean mem v visited depth"
proof (induction vs arbitrary: visited)
  case (Cons x vs)
  obtain found safe visited' where x: "walkByteSlice mem x visited depth = (found, safe, visited')"
    by (cases "walkByteSlice mem x visited depth") auto
  with Cons.prems(1) have "\<not> found" "safe" "walk_each mem vs visited' depth = (False, True, out)"
    by (auto split: if_splits)
  with Cons x show ?case unfolding clean_def by auto
qed simp

lemma clean_step:
  assumes "clean mem v visited depth"
  shows "case v of
      Interface (Some x) \<Rightarrow> \<exists>vis. clean mem x vis (Suc depth)
    | Pointer ty p \<Rightarrow> p \<noteq> 0 \<longrightarrow> (\<exists>vis. clean mem (pointee mem ty p) vis (Suc depth))
    | MapOf ty p \<Rightarrow> p \<noteq> 0 \<longrightarrow> (\<forall>(k, x)\<in>set (entries mem ty p).
        (\<exists>vis. clean mem k vis (Suc depth)) \<and> (\<exists>vis. clean mem x vis (Suc depth)))
    | Slice ty bytes p len cap \<Rightarrow> \<not> bytes \<and>
        (p \<noteq> 0 \<longrightarrow> (\<forall>i<len. \<exists>vis. clean mem (cells mem ty p i) vis (Suc depth)))
    | Array vs \<Rightarrow> \<forall>x\<in>set vs. \<exists>vis. clean mem x vis (Suc depth)
    | Struct vs \<Rightarrow> \<forall>x\<in>set vs. \<exists>vis. clean mem x vis (Suc depth)
    | _ \<Rightarrow> True"
proof -
  obtain out where w: "walkByteSlice mem v visited depth = (False, True, out)"
    using assms unfolding clean_def by blast
  note w = w[unfolded walkByteSlice.simps[of mem v]]
  show ?thesis
  proof (cases v)
    case (Interface x)
    then show ?thesis using w by (cases x) (auto simp: clean_def split: if_splits)
  next
    case (Pointer ty p)
    then show ?thesis using w
      by (auto simp: alreadyVisitedByteSliceValue_def clean_def split: if_splits bool.splits)
  next
    case (MapOf ty p)
    have "\<exists>vis. clean mem x vis (Suc depth)"
      if "p \<noteq> 0" "x \<in> set (concat (map (\<lambda>(k, x). [k, x]) (entries mem ty p)))" for x
      using w MapOf that(1) walk_each_clean[OF _ that(2)]
      by (auto simp: alreadyVisitedByteSliceValue_def split: if_splits bool.splits)
    then show ?thesis unfolding MapOf by fastforce
  next
    case (Slice ty bytes p len cap)
    have "\<exists>vis. clean mem (cells mem ty p i) vis (Suc depth)" if "p \<noteq> 0" "i < len" for i
      using w Slice that walk_each_clean[where v = "cells mem ty p i" and vs = "map (cells mem ty p) [0..<len]"]
      by (auto simp: alreadyVisitedByteSliceValue_def split: if_splits bool.splits)
    moreover have "\<not> bytes" using w Slice by (auto split: if_splits)
    ultimately show ?thesis unfolding Slice by simp
  next
    case (Array vs)
    then show ?thesis using w walk_each_clean[where vs = vs]
      by (auto split: if_splits)
  next
    case (Struct vs)
    then show ?thesis using w walk_each_clean[where vs = vs]
      by (auto split: if_splits)
  qed simp_all
qed

lemma holds_bytes_not_clean: "holds_bytes mem v \<Longrightarrow> \<not> clean mem v visited depth"
proof (induction arbitrary: visited depth rule: holds_bytes.induct)
  case (as_key p k v ty)
  then show ?case using clean_step[of mem "MapOf ty p"] by fastforce
next
  case (as_value p k v ty)
  then show ?case using clean_step[of mem "MapOf ty p"] by fastforce
qed ((fastforce dest: clean_step)+)

text \<open>
  A value the traversal calls clean reaches no byte slice. Where it meets a pointer twice, or goes
  deeper than 1024, it does not call the value clean, so cycles and sharing are no way around.
\<close>

theorem containsByteSlice_sound:
  "containsByteSlice mem v = (False, True) \<Longrightarrow> \<not> holds_bytes mem v"
  using holds_bytes_not_clean[of mem v "{}" 0]
  by (auto simp: containsByteSlice_def clean_def split: prod.splits)

section \<open>Keys\<close>

text \<open>A key of small letters, digits and underscores stays as it is.\<close>

definition plain_char :: "char \<Rightarrow> bool" where
  "plain_char c \<longleftrightarrow> 97 \<le> byte c \<and> byte c \<le> 122 \<or> 48 \<le> byte c \<and> byte c \<le> 57 \<or> byte c = 95"

lemma plain_rune:
  assumes "plain_char c"
  shows "\<not> separator [c]" "class_of lib [c] \<noteq> Upper" "lower_of lib [c] = [c]"
proof -
  have "byte c = byte (CHR ''-'') \<or> byte c = byte (CHR ''.'') \<or> byte c = byte (CHR '' '')
      \<or> byte c = byte (CHR '':'')" if "separator [c]"
    using that by (auto simp: separator_def)
  then show "\<not> separator [c]" using assms by (auto simp: plain_char_def byte_def)
qed (use assms in \<open>auto simp: plain_char_def class_of_def lower_of_def bad_rune_def classify_def lower_char_def Let_def\<close>)

lemma normalizeKey_plain:
  assumes "list_all plain_char key"
  shows "normalizeKey lib key = key"
proof -
  have "normalize_from lib p acc (map (\<lambda>c. [c]) key) = acc @ key" for p acc
    using assms by (induction key arbitrary: p acc) (simp_all add: plain_rune Let_def)
  moreover have "ascii key"
    using assms unfolding ascii_def plain_char_def by (auto simp: list_all_iff)
  ultimately show ?thesis by (simp add: normalizeKey_def runes_ascii)
qed

lemma sensitiveKey_plain:
  "list_all plain_char key \<Longrightarrow> sensitiveKey lib key \<longleftrightarrow> list_ex (str_contains key) sensitive_parts"
  by (simp add: sensitiveKey_def normalizeKey_plain)

lemma msg_not_sensitive: "\<not> sensitiveKey lib ''msg''"
  by (simp add: sensitiveKey_plain plain_char_def byte_def sensitive_parts_def str_contains_def)

text \<open>
  A word with a capital in its middle is split, and then not recognised: \<open>passWord\<close> is logged.
\<close>

lemma camel_word_shown: "\<not> sensitiveKey lib ''passWord''"
proof -
  have "runes ''passWord'' = map (\<lambda>c. [c]) ''passWord''"
    by (rule runes_ascii) (simp add: ascii_code ascii_char_def)
  moreover have "char_of (119 :: nat) = CHR ''w''" by code_simp
  ultimately have "normalizeKey lib ''passWord'' = ''pass_word''"
    unfolding normalizeKey_def by (simp add: separator_def class_of_def bad_rune_def classify_def
        lower_of_def lower_char_def byte_def Let_def)
  then show ?thesis by (simp add: sensitiveKey_def sensitive_parts_def str_contains_def)
qed

section \<open>Secrets\<close>

text \<open>
  Two documents agree in public when they differ only below sensitive keys, and two messages when
  they are the same or are documents that agree; the strings of a document are messages again.
\<close>

inductive same_public :: "log_lib \<Rightarrow> json \<Rightarrow> json \<Rightarrow> bool"
and same_message :: "log_lib \<Rightarrow> string \<Rightarrow> string \<Rightarrow> bool" for lib where
  same: "same_public lib v v"
| strings: "same_message lib m m' \<Longrightarrow> same_public lib (JStr m) (JStr m')"
| array: "list_all2 (same_public lib) vs vs' \<Longrightarrow> same_public lib (JArr vs) (JArr vs')"
| object: "list_all2 (\<lambda>kv kw. fst kv = fst kw \<and>
      (sensitiveKey lib (fst kv) \<or> same_public lib (snd kv) (snd kw))) kvs kvs' \<Longrightarrow>
    same_public lib (JObj kvs) (JObj kvs')"
| same_text: "same_message lib m m"
| documents: "json_message lib m = Some v \<Longrightarrow> json_message lib m' = Some v' \<Longrightarrow>
    same_public lib v v' \<Longrightarrow> same_message lib m m'"

lemma list_all2_join:
  assumes "list_all2 P xs ys" and "list_all2 Q xs us" and "list_all2 R ys ws"
    and "\<And>x y u w. P x y \<Longrightarrow> Q x u \<Longrightarrow> R y w \<Longrightarrow> u = w"
  shows "us = ws"
proof (rule nth_equalityI)
  show "length us = length ws"
    using assms(1-3) by (simp add: list_all2_conv_all_nth)
  fix i
  assume "i < length us"
  then have "P (xs ! i) (ys ! i)" "Q (xs ! i) (us ! i)" "R (ys ! i) (ws ! i)"
    using assms(1-3) by (simp_all add: list_all2_conv_all_nth)
  then show "us ! i = ws ! i" by (rule assms(4))
qed

lemma redact_json_fuel:
  assumes "redactJSONValue sens (redact_message lib j) v = Some w"
    and "redactJSONValue sens (redact_message lib k) v = Some w'"
  shows "w = w'"
proof -
  have "redactJSONValue sens (redact_message lib (max j k)) v = Some w"
    using assms(1) by (rule redactJSONValue_mono) (erule redact_message_more, simp)
  moreover have "redactJSONValue sens (redact_message lib (max j k)) v = Some w'"
    using assms(2) by (rule redactJSONValue_mono) (erule redact_message_more, simp)
  ultimately show ?thesis by simp
qed

lemma redact_message_document:
  assumes "json_ok lib" and "json_message lib m = Some v" and "redact_message lib j m = Some r"
  obtains i w where "redactJSONValue (sensitiveKey lib) (redact_message lib i) v = Some w"
    and "encode lib w = Some r"
proof -
  obtain i where j: "j = Suc i" using assms(3) by (cases j) auto
  then obtain w where w: "redactJSONValue (sensitiveKey lib) (redact_message lib i) v = Some w"
    using assms(2,3) by (auto split: option.splits)
  moreover obtain t where "encode lib w = Some t" using json_message_encodes[OF assms(1,2) w] ..
  ultimately show thesis using that assms(2,3) j by simp
qed

lemma public_determines:
  assumes "json_ok lib"
  shows "same_public lib v v' \<Longrightarrow>
    redactJSONValue (sensitiveKey lib) (redact_message lib j) v = Some w \<Longrightarrow>
    redactJSONValue (sensitiveKey lib) (redact_message lib k) v' = Some w' \<Longrightarrow> w = w'"
  and "same_message lib m m' \<Longrightarrow> redact_message lib j m = Some r \<Longrightarrow>
    redact_message lib k m' = Some r' \<Longrightarrow> r = r'"
proof (induction arbitrary: j k w w' and j k r r' rule: same_public_same_message.inducts)
  case (same v)
  then show ?case by (rule redact_json_fuel)
next
  case (strings m m')
  then show ?case by auto
next
  case (array vs vs')
  then show ?case unfolding redact_array by (auto intro: list_all2_join)
next
  case (object kvs kvs')
  obtain us us' where w: "w = JObj us" "w' = JObj us'"
    and us: "list_all2 (redacts_entry (sensitiveKey lib) (redact_message lib j)) kvs us"
    and us': "list_all2 (redacts_entry (sensitiveKey lib) (redact_message lib k)) kvs' us'"
    using object.prems unfolding redact_object by blast
  have "us = us'"
    by (rule list_all2_join[OF object.IH us us'])
      (auto simp: redacts_entry_def prod_eq_iff split: if_splits)
  then show ?case by (simp add: w)
next
  case (same_text m)
  then show ?case by (rule redact_message_fuel)
next
  case (documents m v m' v')
  obtain i u where "redactJSONValue (sensitiveKey lib) (redact_message lib i) v = Some u"
    and "encode lib u = Some r"
    using redact_message_document[OF assms documents(1) documents.prems(1)] .
  moreover obtain i' u' where "redactJSONValue (sensitiveKey lib) (redact_message lib i') v' = Some u'"
    and "encode lib u' = Some r'"
    using redact_message_document[OF assms documents(2) documents.prems(2)] .
  ultimately show ?case using documents.IH by fastforce
qed

lemma finite_texts: "finite (texts v)"
  by (induction v rule: texts.induct) auto

lemma redact_decoded:
  assumes "json_ok lib"
  obtains j w where "redactJSONValue (sensitiveKey lib) (redactMessage lib) v = Some w"
    and "redactJSONValue (sensitiveKey lib) (redact_message lib j) v = Some w"
proof -
  obtain j where j: "\<forall>n\<in>rune_count ` texts v. n < j"
    using finite_nat_set_iff_bounded finite_imageI[OF finite_texts] by metis
  have "redactJSONValue (sensitiveKey lib) (redact_message lib j) v \<noteq> None"
    using j redact_message_returns[OF assms] by (intro redactJSONValue_returns) simp
  then obtain w where w: "redactJSONValue (sensitiveKey lib) (redact_message lib j) v = Some w"
    by blast
  have "redactMessage lib s = Some r" if "redact_message lib j s = Some r" for s r
    using redactMessage_returns[OF assms, of s] redact_message_fuel[OF that]
    unfolding redactMessage_def by fastforce
  with w have "redactJSONValue (sensitiveKey lib) (redactMessage lib) v = Some w"
    by (rule redactJSONValue_mono)
  with w show thesis using that by blast
qed

text \<open>The document a structured value is written as.\<close>

definition document_of :: "log_lib \<Rightarrow> memory \<Rightarrow> go_value \<Rightarrow> json option" where
  "document_of lib mem v = Option.bind (marshal lib mem v) (\<lambda>t. map_option fst (decode lib t))"

definition same_value :: "log_lib \<Rightarrow> memory \<Rightarrow> go_value \<Rightarrow> go_value \<Rightarrow> bool" where
  "same_value lib mem v v' \<longleftrightarrow> isByteSlice v = isByteSlice v' \<and>
     (isByteSlice v \<or> holds_bytes mem v \<and> holds_bytes mem v'
      \<or> containsByteSlice mem v = containsByteSlice mem v'
        \<and> rel_option (same_public lib) (document_of lib mem v) (document_of lib mem v'))"

lemma redactStructuredValue_document: "redactStructuredValue lib mem v =
    (if containsByteSlice mem v = (False, True) then
       case document_of lib mem v of None \<Rightarrow> Some (JStr redactedValue)
       | Some d \<Rightarrow> redactJSONValue (sensitiveKey lib) (redactMessage lib) d
     else Some (JStr redactedValue))"
  by (auto simp: redactStructuredValue_def document_of_def split: prod.splits option.splits bool.splits)

lemma redactStructuredValue_same:
  assumes "json_ok lib" and "same_value lib mem v v'" and "\<not> isByteSlice v"
  obtains w where "redactStructuredValue lib mem v = Some w" "redactStructuredValue lib mem v' = Some w"
proof -
  consider "holds_bytes mem v" "holds_bytes mem v'"
    | "containsByteSlice mem v = containsByteSlice mem v'"
      "rel_option (same_public lib) (document_of lib mem v) (document_of lib mem v')"
    using assms(2,3) unfolding same_value_def by blast
  then show thesis
  proof cases
    case 1
    then have "containsByteSlice mem v \<noteq> (False, True)" "containsByteSlice mem v' \<noteq> (False, True)"
      using containsByteSlice_sound by blast+
    then show thesis using that by (simp add: redactStructuredValue_document)
  next
    case 2
    show thesis
    proof (cases "document_of lib mem v")
      case None
      then show thesis using 2 that by (simp add: redactStructuredValue_document)
    next
      case (Some d)
      then obtain d' where d': "document_of lib mem v' = Some d'" "same_public lib d d'"
        using 2(2) by (auto simp: option_rel_Some1)
      obtain j w where w: "redactJSONValue (sensitiveKey lib) (redactMessage lib) d = Some w"
        "redactJSONValue (sensitiveKey lib) (redact_message lib j) d = Some w"
        using redact_decoded[OF assms(1)] .
      obtain k w' where w': "redactJSONValue (sensitiveKey lib) (redactMessage lib) d' = Some w'"
        "redactJSONValue (sensitiveKey lib) (redact_message lib k) d' = Some w'"
        using redact_decoded[OF assms(1)] .
      have "w = w'" by (rule public_determines(1)[OF assms(1) d'(2) w(2) w'(2)])
      then show thesis using that 2(1) Some d'(1) w(1) w'(1)
        by (cases "containsByteSlice mem v' = (False, True)") (simp_all add: redactStructuredValue_document)
    qed
  qed
qed

definition same_attr :: "log_lib \<Rightarrow> memory \<Rightarrow> string list \<Rightarrow> attr \<Rightarrow> attr \<Rightarrow> bool" where
  "same_attr lib mem groups a b \<longleftrightarrow> at_key a = at_key b \<and>
     (list_ex (sensitiveKey lib) groups \<or> sensitiveKey lib (at_key a) \<or>
      (case (at_value a, at_value b) of
         (TextV m, TextV m') \<Rightarrow> same_message lib m m'
       | (AnyV v, AnyV v') \<Rightarrow> same_value lib mem v v'
       | (x, y) \<Rightarrow> x = y))"

text \<open>
  C34: Nothing secret is in the log. Two attributes that agree but for what is in a sensitive group or
  under a sensitive key, below sensitive keys of JSON messages and of structured values, or in values
  that hold a byte slice, are both written, and alike.
\<close>

theorem log_hides_secrets:
  assumes "json_ok lib" and "same_attr lib mem groups a b"
  shows "\<exists>c. redactAttr lib mem groups a = Some c \<and> redactAttr lib mem groups b = Some c"
proof -
  have key: "at_key b = at_key a" using assms(2) by (simp add: same_attr_def)
  show ?thesis
  proof (cases "list_ex (sensitiveKey lib) groups \<or> sensitiveKey lib (at_key a)")
    case True
    then show ?thesis using key msg_not_sensitive[of lib]
      by (cases "at_value a"; cases "at_value b"; auto simp: redactAttr_def Let_def)
  next
    case False
    then consider m m' where "at_value a = TextV m" "at_value b = TextV m'" "same_message lib m m'"
      | v v' where "at_value a = AnyV v" "at_value b = AnyV v'" "same_value lib mem v v'"
      | x where "at_value a = x" "at_value b = x" "\<forall>m. x \<noteq> TextV m" "\<forall>v. x \<noteq> AnyV v"
      using assms(2) unfolding same_attr_def by (cases "at_value a"; cases "at_value b"; auto)
    then show ?thesis
    proof cases
      case 1
      obtain r where r: "redactMessage lib m = Some r" using redactMessage_returns[OF assms(1)] by blast
      obtain r' where r': "redactMessage lib m' = Some r'" using redactMessage_returns[OF assms(1)] by blast
      have "r = r'" using public_determines(2)[OF assms(1) 1(3)] r r' unfolding redactMessage_def by blast
      then show ?thesis using False 1 key r r' by (simp add: redactAttr_def Let_def)
    next
      case 2
      then show ?thesis
      proof (cases "isByteSlice v")
        case True
        then show ?thesis using False 2 key by (simp add: redactAttr_def Let_def same_value_def)
      next
        case bytes: False
        obtain w where "redactStructuredValue lib mem v = Some w" "redactStructuredValue lib mem v' = Some w"
          using redactStructuredValue_same[OF assms(1) 2(3) bytes] .
        then show ?thesis using False 2 key bytes by (auto simp: redactAttr_def Let_def same_value_def)
      qed
    next
      case 3
      then show ?thesis using False key by (cases x) (auto simp: redactAttr_def Let_def)
    qed
  qed
qed

section \<open>Assignments\<close>

lemma quoted_end_closes:
  assumes "q \<noteq> CHR 0x5C" and "q \<notin> set body" and "CHR 0x5C \<notin> set body"
  shows "quoted_end q False n (body @ q # rest) = Some (Suc (n + length body))"
  using assms by (induction body arbitrary: n) auto

text \<open>The value of an assignment is gone, with its quotes or without; what is around it stays.\<close>

lemma redactAssignment_quoted:
  assumes "submatches lib sensitiveMessageAssignment (pre @ (q # body @ [q]) @ post) ! 5 =
      (length pre, length pre + length body + 2)"
    and "6 \<le> length (submatches lib sensitiveMessageAssignment (pre @ (q # body @ [q]) @ post))"
    and "quote_char q" "q \<notin> set body" "CHR 0x5C \<notin> set body"
  shows "redactAssignment lib (pre @ (q # body @ [q]) @ post) = pre @ (q # redactedValue @ [q]) @ post"
proof -
  have "q \<noteq> CHR 0x5C" using assms(3) by (auto simp: quote_char_def)
  then have "quotedValueEnd (q # body @ [q]) = Some (length body + 2)"
    using quoted_end_closes[of q body 1 "[]"] assms(3-5) by (simp add: quotedValueEnd_def)
  then show ?thesis using assms(1-3) by (simp add: redactAssignment_def Let_def nth_append)
qed

lemma redactAssignment_bare:
  assumes "submatches lib sensitiveMessageAssignment (pre @ val @ post) ! 5 =
      (length pre, length pre + length val)"
    and "6 \<le> length (submatches lib sensitiveMessageAssignment (pre @ val @ post))"
    and "val = [] \<or> \<not> quote_char (hd val)"
  shows "redactAssignment lib (pre @ val @ post) = pre @ redactedValue @ post"
  using assms by (auto simp: redactAssignment_def Let_def)

section \<open>An instance\<close>

definition demo_document :: "string \<Rightarrow> string" where
  "demo_document secret = ''{\"token\":\"'' @ secret @ ''\",\"n\":1}''"

definition demo_log :: log_lib where
  "demo_log = \<lparr>rune_class = (\<lambda>_. OtherRune), lower_rune = (\<lambda>r. r),
     decode = (\<lambda>t. if t = demo_document ''a'' then Some (JObj [(''token'', JStr ''a''), (''n'', JNum ''1'')], [])
       else if t = demo_document ''bc'' then Some (JObj [(''token'', JStr ''bc''), (''n'', JNum ''1'')], [])
       else None),
     encode = (\<lambda>v. Some ''{...}''), marshal = (\<lambda>_ _. None), matches = (\<lambda>_ m. ([], m)),
     submatches = (\<lambda>_ _. []), replace_all = (\<lambda>_ _ m. m)\<rparr>"

definition demo_memory :: memory where
  "demo_memory = \<lparr>pointee = (\<lambda>ty p. if p = 1 then Struct [Scalar 0, Pointer ''B'' 2] else Slice ''[]byte'' True 3 1 1),
     entries = (\<lambda>_ _. []), cells = (\<lambda>_ _ _. Scalar 0)\<rparr>"

lemma demo_json_ok: "json_ok demo_log"
proof -
  have "rune_count ''a'' < rune_count (demo_document ''a'')"
    and "rune_count ''bc'' < rune_count (demo_document ''bc'')"
    by code_simp+
  then show ?thesis unfolding json_ok_def demo_log_def by simp
qed

lemma demo_documents_agree:
  "same_message demo_log (demo_document ''a'') (demo_document ''bc'')"
proof (rule same_public_same_message.documents)
  show "json_message demo_log (demo_document ''a'') = Some (JObj [(''token'', JStr ''a''), (''n'', JNum ''1'')])"
    and "json_message demo_log (demo_document ''bc'') = Some (JObj [(''token'', JStr ''bc''), (''n'', JNum ''1'')])"
    by code_simp+
  show "same_public demo_log (JObj [(''token'', JStr ''a''), (''n'', JNum ''1'')])
      (JObj [(''token'', JStr ''bc''), (''n'', JNum ''1'')])"
    by (rule same_public_same_message.object)
      (simp add: same sensitiveKey_plain plain_char_def byte_def sensitive_parts_def str_contains_def)
qed

lemma log_hides_secrets_witness:
  "\<exists>c. redactAttr demo_log demo_memory [] \<lparr>at_key = ''msg'', at_value = TextV (demo_document ''a'')\<rparr> = Some c \<and>
     redactAttr demo_log demo_memory [] \<lparr>at_key = ''msg'', at_value = TextV (demo_document ''bc'')\<rparr> = Some c"
  by (rule log_hides_secrets[OF demo_json_ok])
    (simp add: same_attr_def demo_documents_agree)

lemma demo_traversal:
  "\<not> holds_bytes demo_memory (Struct [Scalar 0, Pointer ''A'' 0])
   \<and> containsByteSlice demo_memory (Pointer ''A'' 1) = (True, True)
   \<and> containsByteSlice demo_memory (Array [Pointer ''A'' 1, Pointer ''A'' 1]) = (True, True)"
  using containsByteSlice_sound[of demo_memory "Struct [Scalar 0, Pointer ''A'' 0]"]
  by (simp add: containsByteSlice_def walkByteSlice.simps alreadyVisitedByteSliceValue_def
      maxByteSliceTraversalDepth_def demo_memory_def)

end
