(* ===== verification/Router.thy ===== *)
theory Router
  imports LogFacts Uploads
begin

text \<open>
  What every request passes before its route, and the operational endpoints:
  \<open>platform/http/router.go\<close>, \<open>middleware/trace.go\<close>, \<open>middleware/recover.go\<close>, \<open>RequestLogger\<close> of
  \<open>platform/logging\<close>, and \<open>platform/metrics\<close>.

  The groups of the API are the argument \<open>api\<close>, which answers or panics and changes a state of any
  type (\<open>Server\<close> models them). Outside the model: the Prometheus registry beyond the values of its
  series, \<open>net.SplitHostPort\<close> and \<open>netip.ParseAddr\<close> (\<open>split_host\<close>, \<open>parse_addr\<close>), the random bytes of a
  trace id, and what gin reports as the status when a handler panics after its response has begun
  (\<open>late\<close>). The model's \<open>Metrics\<close> is never nil: \<open>NewRouter\<close> makes one when it is given none.
\<close>

section \<open>Trace ids\<close>

definition TraceHeader :: string where
  "TraceHeader = ''X-Trace-Id''"

definition trace_rune :: "string \<Rightarrow> bool" where
  "trace_rune r \<longleftrightarrow> length r = 1 \<and>
     (let b = byte (hd r) in 97 \<le> b \<and> b \<le> 122 \<or> 65 \<le> b \<and> b \<le> 90 \<or> 48 \<le> b \<and> b \<le> 57
        \<or> hd r \<in> {CHR ''.'', CHR ''_'', CHR '':'', CHR ''-''})"

definition ValidTraceID :: "string \<Rightarrow> bool" where
  "ValidTraceID traceID =
     (if traceID = [] \<or> length traceID > 128 \<or> trim_space traceID \<noteq> traceID then False
      else list_all trace_rune (runes traceID))"

text \<open>\<open>raw\<close> is what \<open>rand.Read\<close> fills the sixteen bytes with.\<close>

definition NewTraceID :: "nat list option \<Rightarrow> string" where
  "NewTraceID raw = (case raw of Some bytes \<Rightarrow> hex_encode (take 16 bytes) | None \<Rightarrow> ''trace-unknown'')"

definition Trace :: "nat list option \<Rightarrow> request \<Rightarrow> string" where
  "Trace raw rq = (let traceID = GetHeader rq TraceHeader in
     if \<not> ValidTraceID traceID then NewTraceID raw else traceID)"

text \<open>Every answer of the handlers passes here; with \<open>Trace\<close> before it the id never changes.\<close>

definition ensureTraceID :: "nat list option \<Rightarrow> string \<Rightarrow> string" where
  "ensureTraceID raw traceID = (if \<not> ValidTraceID traceID then NewTraceID raw else traceID)"

section \<open>Metrics\<close>

definition MetricsPath :: string where
  "MetricsPath = ''/metrics''"

record metrics =
  requestsTotal :: "string \<Rightarrow> nat"
  requestLatency :: nat
  UploadFailures :: "string \<Rightarrow> nat"
  LoginFailures :: "string \<Rightarrow> nat"
  LoginThrottled :: nat
  BackupLastSuccess :: int
  ImageStorageUsed :: int
  ImageStorageCap :: int

definition metrics_New :: metrics where
  "metrics_New = \<lparr>requestsTotal = (\<lambda>_. 0), requestLatency = 0, UploadFailures = (\<lambda>_. 0),
     LoginFailures = (\<lambda>_. 0), LoginThrottled = 0, BackupLastSuccess = 0, ImageStorageUsed = 0,
     ImageStorageCap = 0\<rparr>"

definition inc :: "string \<Rightarrow> (string \<Rightarrow> nat) \<Rightarrow> string \<Rightarrow> nat" where
  "inc label c = c(label := Suc (c label))"

definition StatusClass :: "int \<Rightarrow> string" where
  "StatusClass status = (if status \<ge> 500 then ''5xx'' else if status \<ge> 400 then ''4xx''
     else if status \<ge> 300 then ''3xx'' else ''2xx'')"

definition validUploadReasons :: "string list" where
  "validUploadReasons = [''missing_file'', ''too_large'', ''read_failed'', ''unsupported_format'',
     ''too_many_pixels'', ''invalid_image'', ''invalid_upload'', ''storage_check_failed'',
     ''capacity_exceeded'', ''store_failed'', ''other'']"

definition validUploadReason :: "string \<Rightarrow> bool" where
  "validUploadReason reason \<longleftrightarrow> reason \<in> set validUploadReasons"

definition validLoginReasons :: "string list" where
  "validLoginReasons = [''invalid_credentials'', ''account_disabled'', ''other'']"

definition validLoginReason :: "string \<Rightarrow> bool" where
  "validLoginReason reason \<longleftrightarrow> reason \<in> set validLoginReasons"

definition RecordUploadFailure :: "string \<Rightarrow> metrics \<Rightarrow> metrics" where
  "RecordUploadFailure reason m =
     m\<lparr>UploadFailures := inc (if \<not> validUploadReason reason then ''other'' else reason) (UploadFailures m)\<rparr>"

definition RecordLoginFailure :: "string \<Rightarrow> metrics \<Rightarrow> metrics" where
  "RecordLoginFailure reason m =
     m\<lparr>LoginFailures := inc (if \<not> validLoginReason reason then ''other'' else reason) (LoginFailures m)\<rparr>"

definition RecordLoginThrottled :: "metrics \<Rightarrow> metrics" where
  "RecordLoginThrottled m = m\<lparr>LoginThrottled := Suc (LoginThrottled m)\<rparr>"

text \<open>\<open>None\<close> is the zero time, which stands for now.\<close>

definition SetBackupLastSuccess :: "int \<Rightarrow> int option \<Rightarrow> metrics \<Rightarrow> metrics" where
  "SetBackupLastSuccess now t m = m\<lparr>BackupLastSuccess := (case t of None \<Rightarrow> now | Some unix \<Rightarrow> unix)\<rparr>"

definition SetImageStorageUsage :: "int \<Rightarrow> int \<Rightarrow> metrics \<Rightarrow> metrics" where
  "SetImageStorageUsage usedBytes capacity m = m\<lparr>ImageStorageUsed := usedBytes, ImageStorageCap := capacity\<rparr>"

text \<open>
  The gauges of the connection pool, read at every scrape; \<open>None\<close> is a collector without a pool. The
  time waited is in nanoseconds, which the code divides to seconds.
\<close>

record db_stats =
  st_max_open :: int
  st_open :: int
  st_in_use :: int
  st_idle :: int
  st_wait_count :: int
  st_wait_duration :: int

definition Collect :: "db_stats option \<Rightarrow> (string \<times> int) list" where
  "Collect pool = (let stats = (case pool of Some s \<Rightarrow> s
       | None \<Rightarrow> \<lparr>st_max_open = 0, st_open = 0, st_in_use = 0, st_idle = 0, st_wait_count = 0, st_wait_duration = 0\<rparr>) in
     map (\<lambda>(name, value). (''shop_mall_'' @ name, value))
       [(''db_conn_max_open'', st_max_open stats), (''db_conn_open'', st_open stats),
        (''db_conn_in_use'', st_in_use stats), (''db_conn_idle'', st_idle stats),
        (''db_conn_wait_count_total'', st_wait_count stats),
        (''db_conn_wait_seconds_total'', st_wait_duration stats)])"

section \<open>Who may scrape\<close>

text \<open>An address of \<open>netip\<close>; an IPv6 address has a zone, empty for most.\<close>

datatype addr = V4 "32 word" | V6 "128 word" string

definition Unmap :: "addr \<Rightarrow> addr" where
  "Unmap a = (case a of V4 w \<Rightarrow> V4 w
     | V6 w zone \<Rightarrow> if drop_bit 32 w = 0xFFFF then V4 (ucast w) else V6 w zone)"

definition IsPrivate :: "addr \<Rightarrow> bool" where
  "IsPrivate a = (case Unmap a of
       V4 w \<Rightarrow> drop_bit 24 w = 10 \<or> drop_bit 20 w = 0xAC1 \<or> drop_bit 16 w = 0xC0A8
     | V6 w zone \<Rightarrow> drop_bit 121 w = 0x7E)"

definition IsLoopback :: "addr \<Rightarrow> bool" where
  "IsLoopback a = (case Unmap a of V4 w \<Rightarrow> drop_bit 24 w = 127 | V6 w zone \<Rightarrow> w = 1)"

definition IsLinkLocalUnicast :: "addr \<Rightarrow> bool" where
  "IsLinkLocalUnicast a = (case Unmap a of
       V4 w \<Rightarrow> drop_bit 16 w = 0xA9FE | V6 w zone \<Rightarrow> drop_bit 118 w = 0x3FA)"

definition IsUnspecified :: "addr \<Rightarrow> bool" where
  "IsUnspecified a \<longleftrightarrow> a = V4 0 \<or> a = V6 0 []"

record net_lib =
  split_host :: "string \<Rightarrow> string option"
  parse_addr :: "string \<Rightarrow> addr option"

definition PrivateSource :: "net_lib \<Rightarrow> string \<Rightarrow> bool" where
  "PrivateSource net remoteAddr =
     (let host = (case split_host net remoteAddr of Some parsed \<Rightarrow> parsed | None \<Rightarrow> remoteAddr);
          host = strip (\<lambda>c. c = CHR 0x5B \<or> c = CHR 0x5D) host
      in case parse_addr net host of
           None \<Rightarrow> False
         | Some addr \<Rightarrow> IsPrivate addr \<or> IsLoopback addr \<or> IsLinkLocalUnicast addr \<or> IsUnspecified addr)"

section \<open>The middleware\<close>

text \<open>
  What a handler does with a request: it answers, or it panics, with the status of its response if
  that had begun. What the client gets is a status, the trace id in the header, and a body.
\<close>

datatype 'b handled = Answers int 'b | Panics "int option"

datatype 'b body = Body 'b | Operational string | Exposition metrics | ErrorBody int string string | Cut

record 'b response =
  rs_status :: int
  rs_trace :: string
  rs_body :: "'b body"

definition Recover :: "(int \<Rightarrow> int) \<Rightarrow> string \<Rightarrow> 'b body handled \<Rightarrow> 'b response" where
  "Recover late traceID h = (case h of
       Answers status b \<Rightarrow> \<lparr>rs_status = status, rs_trace = traceID, rs_body = b\<rparr>
     | Panics None \<Rightarrow> \<lparr>rs_status = 500, rs_trace = traceID,
         rs_body = ErrorBody 5001 ''internal server error'' traceID\<rparr>
     | Panics (Some begun) \<Rightarrow> \<lparr>rs_status = late begun, rs_trace = traceID, rs_body = Cut\<rparr>)"

text \<open>The line of a request, written after its handler; a panic passes by it.\<close>

definition WithTrace :: "string \<Rightarrow> attr list \<Rightarrow> attr list" where
  "WithTrace traceID line = (if traceID = [] then line
     else \<lparr>at_key = ''trace_id'', at_value = TextV traceID\<rparr> # line)"

definition RequestLogger :: "string \<Rightarrow> request \<Rightarrow> 'b handled \<Rightarrow> attr list option" where
  "RequestLogger traceID rq h = (case h of
       Panics _ \<Rightarrow> None
     | Answers status _ \<Rightarrow> Some (\<lparr>at_key = ''msg'', at_value = TextV ''http request''\<rparr> # WithTrace traceID
         [\<lparr>at_key = ''method'', at_value = TextV (rq_method rq)\<rparr>,
          \<lparr>at_key = ''path'', at_value = TextV (rq_path rq)\<rparr>,
          \<lparr>at_key = ''status'', at_value = OtherV (nat status)\<rparr>]))"

definition Middleware :: "request \<Rightarrow> 'b response \<Rightarrow> metrics \<Rightarrow> metrics" where
  "Middleware rq r m =
     (if rq_path rq = MetricsPath then m
      else m\<lparr>requestsTotal := inc (StatusClass (rs_status r)) (requestsTotal m),
             requestLatency := Suc (requestLatency m)\<rparr>)"

definition PrivateNetworkOnly ::
  "net_lib \<Rightarrow> string \<Rightarrow> string \<Rightarrow> 'b body handled \<Rightarrow> 'b body handled" where
  "PrivateNetworkOnly net remoteAddr traceID next_handler =
     (if \<not> PrivateSource net remoteAddr then Answers 403 (ErrorBody 4030 ''metrics access denied'' traceID)
      else next_handler)"

section \<open>The router\<close>

text \<open>
  What the router is built from and what it finds: the settings that decide on serving images, the
  answer of the database and of \<open>deps.Ready\<close>, and the image files.
\<close>

record 'b router_deps =
  rd_environment :: string
  rd_image_dir :: string
  rd_database :: bool
  rd_ready :: "bool option"
  rd_static :: "request \<Rightarrow> 'b handled"
  rd_net :: net_lib
  rd_late :: "int \<Rightarrow> int"

definition health_ready :: "'b router_deps \<Rightarrow> 'b body handled" where
  "health_ready deps =
     (if \<not> rd_database deps then Answers 503 (Operational ''not_ready'')
      else case rd_ready deps of
          Some False \<Rightarrow> Answers 503 (Operational ''not_ready'')
        | _ \<Rightarrow> Answers 200 (Operational ''ok''))"

definition static_route :: "'b router_deps \<Rightarrow> request \<Rightarrow> bool" where
  "static_route deps rq \<longleftrightarrow> rd_environment deps = ''development'' \<and> rd_image_dir deps \<noteq> [] \<and>
     (rq_method rq = ''GET'' \<or> rq_method rq = ''HEAD'') \<and> has_prefix (rq_path rq) ''/static/images/''"

definition router_route ::
  "'b router_deps \<Rightarrow> (request \<Rightarrow> string \<Rightarrow> 's \<Rightarrow> 'b handled \<times> 's) \<Rightarrow> string \<Rightarrow> string \<Rightarrow> request
   \<Rightarrow> metrics \<Rightarrow> 's \<Rightarrow> 'b body handled \<times> 's" where
  "router_route deps api remoteAddr traceID rq m s =
     (if rq_method rq = ''GET'' \<and> rq_path rq = ''/health/live'' then (Answers 200 (Operational ''ok''), s)
      else if rq_method rq = ''GET'' \<and> rq_path rq = ''/health/ready'' then (health_ready deps, s)
      else if rq_method rq = ''GET'' \<and> rq_path rq = MetricsPath then
        (PrivateNetworkOnly (rd_net deps) remoteAddr traceID (Answers 200 (Exposition m)), s)
      else if static_route deps rq then (map_handled Body (rd_static deps rq), s)
      else case api rq traceID s of (h, s') \<Rightarrow> (map_handled Body h, s'))"

definition NewRouter ::
  "'b router_deps \<Rightarrow> (request \<Rightarrow> string \<Rightarrow> 's \<Rightarrow> 'b handled \<times> 's) \<Rightarrow> nat list option \<Rightarrow> string \<Rightarrow> request
   \<Rightarrow> metrics \<times> 's \<Rightarrow> 'b response \<times> attr list option \<times> metrics \<times> 's" where
  "NewRouter deps api raw remoteAddr rq st =
     (case st of (m, s) \<Rightarrow>
        let traceID = Trace raw rq in
        case router_route deps api remoteAddr traceID rq m s of (h, s') \<Rightarrow>
          let line = RequestLogger traceID rq h; r = Recover (rd_late deps) traceID h
          in (r, line, Middleware rq r m, s'))"

section \<open>The reasons of a failed upload\<close>

text \<open>
  What \<open>Upload\<close> reports to \<open>recordUploadFailure\<close> before it answers, path by path, and \<open>None\<close> where it
  stores the image.
\<close>

definition upload_failure ::
  "upload_env \<Rightarrow> string \<Rightarrow> time \<Rightarrow> upload \<Rightarrow> volume \<Rightarrow> string option" where
  "upload_failure env uuid now file v =
     (case file of
        None \<Rightarrow> Some ''missing_file''
      | Some (declared, bytes) \<Rightarrow>
        if ue_limit env < declared then Some ''too_large''
        else case bytes of
            None \<Rightarrow> Some ''read_failed''
          | Some whole \<Rightarrow>
            let content = take (nat (int64 (ue_limit env + 1))) whole in
            case ValidateImage (ue_config env) (ue_image env) content (ue_limit env) (ue_pixels env) of
              Inl e \<Rightarrow> Some (reasonForUploadError e)
            | Inr info \<Rightarrow>
              if ue_metered env \<and> ue_capacity env < int64 (usedBytesLocked v + im_size info)
              then Some ''capacity_exceeded''
              else case Put (uuid @ Extension (im_format info)) (length content) (im_size info) now v of
                  Inl e \<Rightarrow> Some (if e = ErrCapacityExceeded then ''capacity_exceeded'' else ''store_failed'')
                | Inr v' \<Rightarrow> None)"

definition recordUploadFailure :: "string option \<Rightarrow> metrics \<Rightarrow> metrics" where
  "recordUploadFailure reason m = (case reason of None \<Rightarrow> m | Some r \<Rightarrow> RecordUploadFailure r m)"

section \<open>What holds of every request\<close>

lemma trace_hex: "trace_rune [hex_digit n]"
proof -
  have "trace_rune [''0123456789abcdef'' ! k]" if "k < 16" for k
    using that by (simp add: trace_rune_def Let_def byte_def nth_Cons' split: if_splits)
  then show ?thesis by (simp add: hex_digit_def)
qed

lemma trace_runes_valid:
  assumes "s \<noteq> []" "length s \<le> 128" "\<forall>c\<in>set s. trace_rune [c]"
  shows "ValidTraceID s"
proof -
  have range: "byte c < 128 \<and> byte c \<notin> {9, 10, 11, 12, 13, 32}" if "trace_rune [c]" for c
  proof -
    have "c = CHR ''.'' \<or> c = CHR ''_'' \<or> c = CHR '':'' \<or> c = CHR ''-'' \<Longrightarrow> byte c \<in> {46, 95, 58, 45}"
      by (auto simp: byte_def)
    with that show ?thesis by (auto simp: trace_rune_def Let_def)
  qed
  have as: "ascii s" using range assms(3) by (auto simp: ascii_def list_all_iff)
  have "strip (\<lambda>c. byte c \<in> {9, 10, 11, 12, 13, 32}) s = s"
    using range assms(1,3) by (intro strip_id) auto
  then show ?thesis using assms as
    by (simp add: ValidTraceID_def trim_space_ascii runes_ascii list_all_iff)
qed

text \<open>
  The trace id that goes into the header, the body and the log is always a short word of letters,
  digits and four marks, whatever the client sent: it cannot break a header or a line.
\<close>

lemma Trace_valid:
  assumes "\<forall>bytes. raw = Some bytes \<longrightarrow> length bytes = 16"
  shows "ValidTraceID (Trace raw rq)"
proof (cases "ValidTraceID (GetHeader rq TraceHeader)")
  case False
  have "ValidTraceID (NewTraceID raw)"
  proof (cases raw)
    case None
    then show ?thesis by (simp add: NewTraceID_def) code_simp
  next
    case (Some bytes)
    have c: "\<forall>c\<in>set (hex_encode bytes). trace_rune [c]"
      by (auto simp: hex_encode_def trace_hex)
    have len: "length bytes = 16" using assms Some by simp
    then have l: "length (hex_encode bytes) = 32" by simp
    then have "hex_encode bytes \<noteq> []" "length (hex_encode bytes) \<le> 128" by (auto simp del: length_hex_encode)
    then have "ValidTraceID (hex_encode bytes)" using c by (intro trace_runes_valid) auto
    then show ?thesis using Some len by (simp add: NewTraceID_def)
  qed
  then show ?thesis using False by (simp add: Trace_def Let_def)
qed (simp add: Trace_def Let_def)

lemma one_trace_id:
  "\<forall>bytes. raw = Some bytes \<longrightarrow> length bytes = 16 \<Longrightarrow> ensureTraceID raw' (Trace raw rq) = Trace raw rq"
  by (simp add: ensureTraceID_def Trace_valid)

text \<open>A run of the process: the requests it was sent, in the order it finished them.\<close>

type_synonym arrival = "nat list option \<times> string \<times> request"

fun run_router ::
  "'b router_deps \<Rightarrow> (request \<Rightarrow> string \<Rightarrow> 's \<Rightarrow> 'b handled \<times> 's) \<Rightarrow> metrics \<times> 's \<Rightarrow> arrival list
   \<Rightarrow> (request \<times> 'b response) list \<times> metrics \<times> 's" where
  "run_router deps api st [] = ([], st)"
| "run_router deps api st ((raw, remoteAddr, rq) # arrivals) =
     (case NewRouter deps api raw remoteAddr rq st of (r, line, st') \<Rightarrow>
        case run_router deps api st' arrivals of (rs, st'') \<Rightarrow> ((rq, r) # rs, st''))"

definition counted_as :: "string \<Rightarrow> request \<times> 'b response \<Rightarrow> bool" where
  "counted_as class p \<longleftrightarrow> rq_path (fst p) \<noteq> MetricsPath \<and> StatusClass (rs_status (snd p)) = class"

text \<open>
  The counter of a class is the number of responses of that class, scrapes apart: none is missed,
  the ones a panic left among them, and none is counted twice.
\<close>

lemma requests_counted:
  assumes "run_router deps api (m, s) arrivals = (rs, m', s')"
  shows "requestsTotal m' class = requestsTotal m class + length (filter (counted_as class) rs) \<and>
    requestLatency m' = requestLatency m + length (filter (\<lambda>p. rq_path (fst p) \<noteq> MetricsPath) rs)"
  using assms
proof (induction arrivals arbitrary: m s rs)
  case (Cons a arrivals)
  obtain raw remoteAddr rq where a: "a = (raw, remoteAddr, rq)" by (cases a)
  obtain r line m1 s1 where r: "NewRouter deps api raw remoteAddr rq (m, s) = (r, line, m1, s1)"
    by (cases "NewRouter deps api raw remoteAddr rq (m, s)") auto
  obtain rs1 where rs: "run_router deps api (m1, s1) arrivals = (rs1, m', s')" "rs = (rq, r) # rs1"
    using Cons.prems a r by (auto split: prod.splits)
  have m1: "m1 = Middleware rq r m" using r by (auto simp: NewRouter_def Let_def split: prod.splits)
  show ?case using Cons.IH[OF rs(1)]
    by (auto simp: rs(2) m1 Middleware_def inc_def counted_as_def)
qed simp_all

text \<open>A panic before the response began is answered 500 with the request's trace id, and is no line of the log.\<close>

lemma panic_answered:
  assumes "router_route deps api remoteAddr (Trace raw rq) rq m s = (Panics None, s')"
  shows "NewRouter deps api raw remoteAddr rq (m, s) =
    (\<lparr>rs_status = 500, rs_trace = Trace raw rq, rs_body = ErrorBody 5001 ''internal server error'' (Trace raw rq)\<rparr>,
     None, Middleware rq \<lparr>rs_status = 500, rs_trace = Trace raw rq, rs_body = Cut\<rparr> m, s')"
  using assms by (simp add: NewRouter_def Let_def Recover_def RequestLogger_def Middleware_def)

text \<open>The counters are shown to private peers only.\<close>

lemma exposition_private:
  assumes "NewRouter deps api raw remoteAddr rq (m, s) = (r, rest)" and "rs_body r = Exposition m'"
    and "rq_path rq = MetricsPath" "rq_method rq = ''GET''"
  shows "PrivateSource (rd_net deps) remoteAddr" and "m' = m"
  using assms
  by (auto simp: NewRouter_def Let_def router_route_def MetricsPath_def PrivateNetworkOnly_def Recover_def
      split: if_splits)

text \<open>
  The upload counter: a failed upload counts once, under a reason of its own that is never replaced
  by \<open>other\<close>, and a stored image does not count.
\<close>

lemma reasonForUploadError_valid:
  "validUploadReason (reasonForUploadError e)" "reasonForUploadError e \<noteq> ''other''"
  by (simp_all add: validUploadReason_def validUploadReasons_def reasonForUploadError_def split: storage_err.split)

lemma upload_failure_valid:
  assumes "upload_failure env uuid now file v = Some reason"
  shows "validUploadReason reason \<and> reason \<noteq> ''other''"
proof -
  have "reason \<in> {''missing_file'', ''too_large'', ''read_failed'', ''capacity_exceeded'', ''store_failed''}
      \<or> (\<exists>e. reason = reasonForUploadError e)"
    using assms unfolding upload_failure_def Let_def
    by (simp split: option.splits prod.splits if_splits sum.splits) blast+
  then show ?thesis
    using reasonForUploadError_valid by (auto simp: validUploadReason_def validUploadReasons_def)
qed

lemma upload_failure_reply:
  assumes "Upload env up us uuid ai now file cx v d = (r, v', d')"
  shows "upload_failure env uuid now file v = None \<longleftrightarrow> (\<exists>x. r = Inr x)"
proof (cases "read_upload env file")
  case (Inl e)
  then show ?thesis using assms
    by (auto simp: Upload_def read_upload_def upload_failure_def Let_def split: option.splits if_splits)
next
  case (Inr content)
  then obtain declared whole where f: "file = Some (declared, Some whole)" "\<not> ue_limit env < declared"
      "content = take (nat (int64 (ue_limit env + 1))) whole"
    by (auto simp: read_upload_def split: option.splits if_splits)
  show ?thesis
  proof (cases "ValidateImage (ue_config env) (ue_image env) content (ue_limit env) (ue_pixels env)")
    case (Inl e)
    then show ?thesis using assms Inr f by (auto simp: Upload_def upload_failure_def)
  next
    case info: (Inr info)
    show ?thesis using assms Inr f info
      by (auto simp: Upload_def upload_failure_def store_image_def Let_def split: sum.splits if_splits)
  qed
qed

lemma upload_counted:
  assumes "Upload env up us uuid ai now file cx v d = (r, v', d')"
  shows "case upload_failure env uuid now file v of
      None \<Rightarrow> (\<exists>x. r = Inr x) \<and> recordUploadFailure None m = m
    | Some reason \<Rightarrow> (\<exists>e. r = Inl e) \<and> reason \<noteq> ''other'' \<and> UploadFailures (recordUploadFailure (Some reason) m) =
          (UploadFailures m)(reason := Suc (UploadFailures m reason))"
proof (cases "upload_failure env uuid now file v")
  case None
  then show ?thesis using upload_failure_reply[OF assms] by (simp add: recordUploadFailure_def)
next
  case (Some reason)
  then show ?thesis using upload_failure_reply[OF assms] upload_failure_valid[OF Some]
    by (cases r) (simp_all add: recordUploadFailure_def RecordUploadFailure_def inc_def)
qed

end
