(* ===== verification/Composition.thy ===== *)
theory Composition
  imports Server WeChat Router
begin

text \<open>
  The process: \<open>cmd/server/main.go\<close>. \<open>buildRouter\<close> makes the server of \<open>Server\<close> out of the
  configuration, and \<open>api\<close> puts it behind the middleware of \<open>Router\<close>; \<open>runImageCleanupLoop\<close> sweeps the
  volume beside it.

  What third parties provide is the record \<open>platform\<close>: the JWT library, \<open>url.Parse\<close>, the UUID texts,
  the password hash, the digests, the decoders of times and images, the network. The constructors
  only check that what they are given is not nil, which it is not here, besides what is modelled.
\<close>

section \<open>Building the server\<close>

record platform =
  pl_nd :: "time \<Rightarrow> time"
  pl_sign :: "string \<Rightarrow> string \<Rightarrow> claims \<Rightarrow> err + string"
  pl_jwt :: jwt_parser
  pl_jti :: string
  pl_wall :: time
  pl_url :: "string \<Rightarrow> url option"
  pl_lower :: "string \<Rightarrow> string"
  pl_up :: "string \<Rightarrow> uid option"
  pl_us :: "uid \<Rightarrow> string"
  pl_classes :: "string \<Rightarrow> rune_class"
  pl_hash :: "string \<Rightarrow> err + string"
  pl_verify :: "string \<Rightarrow> string \<Rightarrow> bool"
  pl_order_hash :: "hash_payload \<Rightarrow> string"
  pl_points_hash :: "uid \<times> int \<times> string \<Rightarrow> string"
  pl_time :: "string \<Rightarrow> time option"
  pl_col :: "time \<Rightarrow> time"
  pl_ilike :: "string \<Rightarrow> string \<Rightarrow> bool"
  pl_config :: "string \<Rightarrow> image_format \<Rightarrow> (int \<times> int) option"
  pl_image :: "string \<Rightarrow> image_format \<Rightarrow> (int \<times> int) option"
  pl_net :: net_env

definition NewSigner :: "jwt_config \<Rightarrow> err + jwt_config" where
  "NewSigner cfg = (if JWTConfig_Validate ''auth'' 0 cfg \<noteq> [] then Inl (ErrOther ''invalid JWT configuration'')
     else Inr cfg)"

definition realm :: "platform \<Rightarrow> config \<Rightarrow> jwt_config \<Rightarrow> gate_env" where
  "realm pl cfg signer = \<lparr>ge_lower = pl_lower pl, ge_url = pl_url pl, ge_origins = cf_origins cfg,
     ge_cookie = kc_access (cf_cookie cfg), ge_csrf = kc_csrf (cf_cookie cfg), ge_up = pl_up pl,
     ge_us = pl_us pl, ge_service = JWTService_Parse (pl_jwt pl) signer (pl_wall pl)\<rparr>"

definition signer_Issue :: "platform \<Rightarrow> jwt_config \<Rightarrow> string \<Rightarrow> int \<Rightarrow> time \<Rightarrow> err + string" where
  "signer_Issue pl signer = Issue (pl_nd pl) (pl_sign pl) signer (pl_jti pl) (pl_wall pl)"

definition build_console :: "platform \<Rightarrow> config \<Rightarrow> jwt_config \<Rightarrow> console" where
  "build_console pl cfg signer = \<lparr>co_lower = pl_lower pl, co_verify = pl_verify pl,
     co_issue = signer_Issue pl signer, co_us = pl_us pl, co_up = pl_up pl, co_classes = pl_classes pl,
     co_hash = pl_hash pl, co_cookie = cf_cookie cfg\<rparr>"

definition build_login :: "platform \<Rightarrow> config \<Rightarrow> jwt_config \<Rightarrow> client \<Rightarrow> login_env" where
  "build_login pl cfg signer wechat = \<lparr>lg_wechat = login_lookup (pl_net pl) wechat None,
     lg_issue = signer_Issue pl signer, lg_us = pl_us pl, lg_bonus = cf_bonus cfg, lg_limit = 20,
     lg_window = minute\<rparr>"

definition build_uploads :: "platform \<Rightarrow> config \<Rightarrow> upload_env" where
  "build_uploads pl cfg = \<lparr>ue_limit = cf_upload cfg, ue_pixels = cf_pixels cfg, ue_capacity = cf_capacity cfg,
     ue_metered = True, ue_base = cf_base_url cfg, ue_config = pl_config pl, ue_image = pl_image pl\<rparr>"

definition admin_limiter :: login_limiter where
  "admin_limiter = NewLoginRateLimiterConfig 50 minute 5 minute"

definition buildRouter :: "platform \<Rightarrow> config \<Rightarrow> err + server \<times> volume" where
  "buildRouter pl cfg =
     (case NewSigner (cf_admin cfg) of
        Inl e \<Rightarrow> Inl (ErrOther (''admin JWT signer: '' @ err_text e))
      | Inr adminSigner \<Rightarrow>
        case NewLocalVolume (cf_volume cfg) (cf_capacity cfg) of
          Inl e \<Rightarrow> Inl (ErrOther ''image storage'')
        | Inr imageStorage \<Rightarrow>
          case NewSigner (cf_buyer cfg) of
            Inl e \<Rightarrow> Inl (ErrOther (''buyer JWT signer: '' @ err_text e))
          | Inr buyerSigner \<Rightarrow>
            case NewClient (pl_net pl) (cf_wechat cfg) of
              Inl e \<Rightarrow> Inl (ErrOther (''wechat client: '' @ wx_message e))
            | Inr wechatClient \<Rightarrow>
              Inr (\<lparr>sv_buyer = realm pl cfg buyerSigner, sv_admin = realm pl cfg adminSigner,
                 sv_console = build_console pl cfg adminSigner,
                 sv_login = build_login pl cfg buyerSigner wechatClient,
                 sv_base = public_base (cf_base_url cfg), sv_order_hash = pl_order_hash pl,
                 sv_points_hash = pl_points_hash pl, sv_time = pl_time pl, sv_col = pl_col pl,
                 sv_ilike = pl_ilike pl, sv_upload = build_uploads pl cfg\<rparr>, imageStorage))"

section \<open>Serving\<close>

text \<open>
  The API as the router calls it: \<open>read\<close> is the routing and decoding of a request with what its
  processing draws, nothing for a path no group registered, and \<open>reply\<close> what is answered.
\<close>

definition api ::
  "server \<Rightarrow> (request \<Rightarrow> (draw \<times> call) option) \<Rightarrow> (request \<Rightarrow> string \<Rightarrow> db \<Rightarrow> 'b handled)
   \<Rightarrow> request \<Rightarrow> string \<Rightarrow> db \<Rightarrow> 'b handled \<times> db" where
  "api s read reply rq traceID d =
     (reply rq traceID d, case read rq of None \<Rightarrow> d | Some (w, c) \<Rightarrow> serve s w rq c d)"

section \<open>The sweep\<close>

text \<open>
  One turn of the loop: the sweep at its clock, then the gauge. \<open>runImageCleanupLoop\<close> sweeps at once
  and then at every tick, until the context is done; \<open>ticks\<close> are the ticks before that.
\<close>

record tick =
  tk_now :: int
  tk_referenced :: "string \<Rightarrow> storage_err + bool"
  tk_act :: "nat \<Rightarrow> volume \<Rightarrow> volume"

definition refreshStorageMetrics :: "config \<Rightarrow> volume \<Rightarrow> metrics \<Rightarrow> metrics" where
  "refreshStorageMetrics cfg v m = SetImageStorageUsage (usedBytesLocked v) (cf_capacity cfg) m"

definition sweep :: "config \<Rightarrow> tick \<Rightarrow> volume \<times> metrics \<Rightarrow> volume \<times> metrics" where
  "sweep cfg t st = (case st of (v, m) \<Rightarrow>
     case Cleanup (tk_referenced t) True (cf_grace cfg) (tk_now t) (tk_now t) (tk_act t) v of
       (deleted, v') \<Rightarrow> (v', refreshStorageMetrics cfg v' m))"

definition runImageCleanupLoop :: "config \<Rightarrow> tick \<Rightarrow> tick list \<Rightarrow> volume \<times> metrics \<Rightarrow> volume \<times> metrics" where
  "runImageCleanupLoop cfg start ticks st = fold (sweep cfg) ticks (sweep cfg start st)"

section \<open>What holds of the process\<close>

lemma requiredInt64Env_in64: "requiredInt64Env getenv name = Inr n \<Longrightarrow> in64 n"
  by (auto simp: requiredInt64Env_def parse_int64_def Let_def split: if_splits)

lemma Load_bonus: "Load l getenv = Inr cfg \<Longrightarrow> in64 (cf_bonus cfg)"
  unfolding Load_def Let_def by (elim sbind_InrE) (auto dest: requiredInt64Env_in64 split: if_splits)

lemma buildRouter_parts:
  assumes "buildRouter pl cfg = Inr (s, v)"
  shows "sv_buyer s = realm pl cfg (cf_buyer cfg)" "sv_admin s = realm pl cfg (cf_admin cfg)"
    "lg_bonus (sv_login s) = cf_bonus cfg" "sv_upload s = build_uploads pl cfg" "v_capacity v = cf_capacity cfg"
    "\<exists>wechat. NewClient (pl_net pl) (cf_wechat cfg) = Inr wechat \<and>
       sv_login s = build_login pl cfg (cf_buyer cfg) wechat"
  using assms
  by (auto simp: buildRouter_def NewSigner_def NewLocalVolume_def build_login_def split: sum.splits if_splits)

text \<open>The router changes the tables as the API does, or not at all.\<close>

lemma NewRouter_serves:
  assumes "NewRouter deps (api s read reply) raw remoteAddr rq (m, d) = (r, line, m', d')"
  shows "d' = d \<or> (\<exists>w c. read rq = Some (w, c) \<and> d' = serve s w rq c d)"
  using assms
  by (auto simp: NewRouter_def router_route_def api_def Let_def split: if_splits prod.splits option.splits)

lemma run_router_keeps:
  assumes "\<forall>rq w c. read rq = Some (w, c) \<longrightarrow> decoded c" and "in64 (lg_bonus (sv_login s))"
  shows "run_router deps (api s read reply) (m, d) arrivals = (rs, m', d') \<Longrightarrow> shop_ok d \<Longrightarrow>
    shop_ok d' \<and> orders_carried d d'"
proof (induction arrivals arbitrary: m d rs)
  case Nil
  then show ?case by (auto simp: orders_carried_def)
next
  case (Cons a arrivals)
  obtain raw remoteAddr rq where a: "a = (raw, remoteAddr, rq)" by (cases a)
  obtain r line m1 d1 where r: "NewRouter deps (api s read reply) raw remoteAddr rq (m, d) = (r, line, m1, d1)"
    by (cases "NewRouter deps (api s read reply) raw remoteAddr rq (m, d)") auto
  obtain rs1 where rs: "run_router deps (api s read reply) (m1, d1) arrivals = (rs1, m', d')"
    using Cons.prems(1) a r by (auto split: prod.splits)
  have "d1 = d \<or> request_step d d1"
    using NewRouter_serves[OF r] serve_step[OF _ assms(2)] assms(1) by auto
  then show ?case
  proof
    assume "d1 = d"
    then show ?case using Cons.IH[OF rs] Cons.prems(2) by simp
  next
    assume "request_step d d1"
    note step = request_step_keeps[OF this Cons.prems(2)]
    show ?case using Cons.IH[OF rs step(1)] orders_carried_step[OF step(2)] by blast
  qed
qed

text \<open>
  C36: A process that started, under whatever environment it was given, serves any arrivals, those that
  panic among them, and the shop stays in order, no order goes away or moves against its life cycle,
  and every request but the scrapes is counted once, in the class of the status it was answered with.
\<close>

theorem process_in_order:
  assumes "Load l getenv = Inr cfg" and "buildRouter pl cfg = Inr (s, v)"
    and "\<forall>rq w c. read rq = Some (w, c) \<longrightarrow> decoded c" and "shop_ok d"
    and "run_router deps (api s read reply) (metrics_New, d) arrivals = (rs, m', d')"
  shows "shop_ok d' \<and> orders_carried d d' \<and>
    requestsTotal m' = (\<lambda>class. length (filter (counted_as class) rs))"
proof -
  have "in64 (lg_bonus (sv_login s))" using Load_bonus[OF assms(1)] buildRouter_parts(3)[OF assms(2)] by simp
  then have "shop_ok d' \<and> orders_carried d d'" by (rule run_router_keeps[OF assms(3) _ assms(5,4)])
  moreover have "requestsTotal m' cl = length (filter (counted_as cl) rs)" for cl
    using requests_counted[OF assms(5), of cl] by (simp add: metrics_New_def)
  ultimately show ?thesis by blast
qed

text \<open>A buyer's token opens nothing of the console of a server that started.\<close>

lemma buyer_token_no_console:
  assumes "Load l getenv = Inr cfg" and "buildRouter pl cfg = Inr (s, v)"
    and "jwt_library nd sign (pl_jwt pl)" and "claims_of_text (pl_jwt pl)"
    and "ge_service (sv_buyer s) raw now = Inr c"
  shows "\<exists>e. ge_service (sv_admin s) raw now' = Inl e"
proof (rule ccontr)
  note parts = buildRouter_parts[OF assms(2)]
  assume "\<nexists>e. ge_service (sv_admin s) raw now' = Inl e"
  then obtain c' where "ge_service (sv_admin s) raw now' = Inr c'"
    by (cases "ge_service (sv_admin s) raw now'") auto
  then have "JWTService_Parse (pl_jwt pl) (cf_admin cfg) (pl_wall pl) raw now' = Inr c'"
    and "JWTService_Parse (pl_jwt pl) (cf_buyer cfg) (pl_wall pl) raw now = Inr c"
    using assms(5) by (simp_all add: parts realm_def)
  then show False
    using JWTService_Parse_issuer[OF assms(3)] assms(4) Config_Validate_realms(3)[OF Load_valid[OF assms(1)]]
    unfolding claims_of_text_def by metis
qed

text \<open>
  The loop never loses a file that stays referenced, however many sweeps it makes and whatever else
  happens to the volume, if nothing else removes the file.
\<close>

lemma sweep_keeps:
  assumes "find (\<lambda>f. f_name f = k) (v_files v) = Some f" and "tk_referenced t k \<noteq> Inr False"
    and "\<And>i v g. find (\<lambda>f. f_name f = k) (v_files v) = Some g \<Longrightarrow>
      \<exists>g'. find (\<lambda>f. f_name f = k) (v_files (tk_act t i v)) = Some g'"
  shows "\<exists>g. find (\<lambda>f. f_name f = k) (v_files (fst (sweep cfg t (v, m)))) = Some g"
proof -
  have name: "f_name g = k" if "find (\<lambda>f. f_name f = k) fs = Some g" for fs g
    using find_SomeD[OF that] by simp
  have p: "protected (tk_referenced t) grace now g" if "find (\<lambda>f. f_name f = k) fs = Some g" for fs g grace now
    using name[OF that] assms(2) by (simp add: protected_def)
  have "\<exists>g. find (\<lambda>f. f_name f = k) (v_files (snd (cleanup_loop (tk_referenced t) True (cf_grace cfg)
      (if tk_now t = 0 then tk_now t else tk_now t) (tk_act t) 0 (ListObjects v) v))) = Some g \<and>
    protected (tk_referenced t) (cf_grace cfg) (if tk_now t = 0 then tk_now t else tk_now t) g"
    using assms(3) p by (intro cleanup_loop_keeps[OF assms(1) p[OF assms(1)]]) blast
  then show ?thesis by (auto simp: sweep_def Cleanup_def split: prod.splits)
qed

lemma loop_keeps_used:
  assumes "find (\<lambda>f. f_name f = k) (v_files v) = Some f"
    and "\<forall>t\<in>set (start # ticks). tk_referenced t k \<noteq> Inr False \<and> (\<forall>i v g.
      find (\<lambda>f. f_name f = k) (v_files v) = Some g \<longrightarrow> (\<exists>g'. find (\<lambda>f. f_name f = k) (v_files (tk_act t i v)) = Some g'))"
  shows "\<exists>g. find (\<lambda>f. f_name f = k) (v_files (fst (runImageCleanupLoop cfg start ticks (v, m)))) = Some g"
proof -
  have "\<exists>g. find (\<lambda>f. f_name f = k) (v_files (fst (fold (sweep cfg) ts (v, m)))) = Some g"
    if "\<forall>t\<in>set ts. tk_referenced t k \<noteq> Inr False \<and> (\<forall>i v g.
      find (\<lambda>f. f_name f = k) (v_files v) = Some g \<longrightarrow> (\<exists>g'. find (\<lambda>f. f_name f = k) (v_files (tk_act t i v)) = Some g'))"
      and "find (\<lambda>f. f_name f = k) (v_files v) = Some f" for ts v m f
    using that
  proof (induction ts arbitrary: v m f)
    case (Cons t ts)
    obtain v1 m1 where s: "sweep cfg t (v, m) = (v1, m1)" by fastforce
    obtain g where "find (\<lambda>f. f_name f = k) (v_files v1) = Some g"
      using sweep_keeps[OF Cons.prems(2), of t cfg m] Cons.prems(1) s by auto
    then show ?case using Cons.IH[of v1 g m1] Cons.prems(1) s by simp
  qed simp
  from this[of "start # ticks" v f m] assms show ?thesis by (simp add: runImageCleanupLoop_def)
qed

section \<open>An instance\<close>

definition demo_platform :: platform where
  "demo_platform = \<lparr>pl_nd = demo_nd, pl_sign = demo_sign, pl_jwt = demo_parse, pl_jti = ''j'', pl_wall = 1,
     pl_url = ld_url demo_loader, pl_lower = (\<lambda>s. s), pl_up = ge_up buyer_gate, pl_us = buyer_us,
     pl_classes = (\<lambda>_. OtherLetter), pl_hash = Inr, pl_verify = (=), pl_order_hash = (\<lambda>_. ''h''),
     pl_points_hash = (\<lambda>_. ''h''), pl_time = (\<lambda>_. None), pl_col = (\<lambda>t. t), pl_ilike = (\<lambda>_ _. True),
     pl_config = (\<lambda>_ _. None), pl_image = (\<lambda>_ _. None), pl_net = demo_net\<rparr>"

definition demo_deps :: "unit router_deps" where
  "demo_deps = \<lparr>rd_environment = ''production'', rd_image_dir = [], rd_database = True, rd_ready = None,
     rd_static = (\<lambda>_. Answers 404 ()), rd_net = \<lparr>split_host = (\<lambda>_. None), parse_addr = (\<lambda>_. None)\<rparr>,
     rd_late = (\<lambda>s. s)\<rparr>"

definition path_request :: "string \<Rightarrow> string \<Rightarrow> request" where
  "path_request method path = \<lparr>rq_method = method, rq_path = path, rq_headers = [], rq_cookies = [],
     rq_query = [], rq_params = []\<rparr>"

definition demo_decode :: "request \<Rightarrow> (draw \<times> call) option" where
  "demo_decode rq = (if rq_path rq = ''/api/v1/auth/wx-login''
     then Some (demo_draw, BuyerLogin ''10.0.0.1'' (Some ''code'') None 0) else None)"

definition demo_reply :: "request \<Rightarrow> string \<Rightarrow> db \<Rightarrow> unit handled" where
  "demo_reply rq traceID d = (if rq_path rq = ''/boom'' then Panics None else Answers 200 ())"

definition demo_arrivals :: "arrival list" where
  "demo_arrivals = [(None, ''8.8.8.8'', path_request ''POST'' ''/api/v1/auth/wx-login''),
     (None, ''8.8.8.8'', path_request ''GET'' ''/boom''), (None, ''8.8.8.8'', path_request ''GET'' ''/metrics'')]"

text \<open>A login, a panic and a scrape from outside.\<close>

lemma process_in_order_witness:
  "\<exists>s v rs m' d'. buildRouter demo_platform demo_config = Inr (s, v) \<and>
     run_router demo_deps (api s demo_decode demo_reply) (metrics_New, demo_db) demo_arrivals = (rs, m', d') \<and>
     shop_ok d' \<and> length (users d') = Suc (length (users demo_db)) \<and>
     map (\<lambda>p. rs_status (snd p)) rs = [200, 500, 403] \<and> requestsTotal m' ''5xx'' = 1"
proof -
  let ?run = "\<lambda>s. run_router demo_deps (api s demo_decode demo_reply) (metrics_New, demo_db) demo_arrivals"
  let ?s = "fst (projr (buildRouter demo_platform demo_config))"
  have "\<not> isl (buildRouter demo_platform demo_config)" by code_simp
  then obtain s v where s: "buildRouter demo_platform demo_config = Inr (s, v)"
    by (metis isl_def obj_sumE surj_pair)
  have out: "length (users (snd (snd (?run ?s)))) = Suc (length (users demo_db))"
      "map (\<lambda>p. rs_status (snd p)) (fst (?run ?s)) = [200, 500, 403]"
      "requestsTotal (fst (snd (?run ?s))) ''5xx'' = 1"
    by code_simp+
  obtain rs m' d' where r: "?run s = (rs, m', d')" by (metis surj_pair)
  have "\<forall>rq w c. demo_decode rq = Some (w, c) \<longrightarrow> decoded c"
    by (auto simp: demo_decode_def decoded_def)
  then have "shop_ok d'" using process_in_order[OF demo_Load s _ demo_db_ok r] by blast
  then show ?thesis using s r out by (intro exI[of _ s] exI[of _ v] exI[of _ rs] exI[of _ m'] exI[of _ d']) simp
qed

end
