(* ===== verification/Bootstrap.thy ===== *)
theory Bootstrap
  imports Sessions
begin

text \<open>
  The command that makes the first administrator, \<open>cmd/admin-bootstrap\<close>. Its parameters are what
  package \<open>flag\<close> parsed (\<open>Inl\<close> its error), the environment, and how far opening the database and
  running the migrations came (\<open>opened\<close>, \<open>Inl\<close> the error); the tables are those after the migrations.
  The result is the exit, the tables, and the lines written to the two streams; \<open>json\<close> prints the
  payload's fields as \<open>encoding/json\<close> does.
\<close>

section \<open>The command\<close>

record flags =
  fl_username :: string
  fl_password :: string
  fl_role :: string
  fl_format :: string
  fl_actor :: string

definition default_flags :: flags where
  "default_flags = \<lparr>fl_username = [], fl_password = [], fl_role = ''super_admin'',
     fl_format = ''text'', fl_actor = ''cli-bootstrap''\<rparr>"

datatype boot_error =
    FlagError string
  | FlagErrHelp
  | BootstrapWeakPassword
  | BootstrapMissingDatabase
  | BootstrapExists
  | BootstrapFailed err
  | BootstrapOpen string
  | UnsupportedFormat string

text \<open>\<open>%d\<close> prints an id, an array of sixteen bytes, as their decimal values.\<close>

definition uid_bytes :: "uid \<Rightarrow> nat list" where
  "uid_bytes i = map (\<lambda>n. unat (drop_bit (8 * (15 - n)) i) mod 256) [0..<16]"

definition format_uid_d :: "uid \<Rightarrow> string" where
  "format_uid_d i = ''['' @ concat (map (\<lambda>n. format_nat (uid_bytes i ! n) @ (if n < 15 then '' '' else [])) [0..<16]) @ '']''"

definition newline :: string where
  "newline = [CHR 0x0A]"

definition text_output :: "bootstrap_result \<Rightarrow> string" where
  "text_output r = ''admin id: '' @ format_uid_d (br_admin r) @ newline @ ''username: '' @ br_username r @ newline
     @ ''role: '' @ br_role r @ newline @ ''token_version: '' @ format_int (br_version r) @ newline"

definition writeBootstrapOutput ::
  "(string \<Rightarrow> string) \<Rightarrow> (bootstrap_result \<Rightarrow> string \<Rightarrow> string) \<Rightarrow> bootstrap_input \<Rightarrow> bootstrap_result \<Rightarrow> string
   \<Rightarrow> (boot_error + unit) \<times> string" where
  "writeBootstrapOutput lower json input r format =
     (if ToLower lower format = ''json'' then (Inr (), json r (bi_actor input) @ newline)
      else if ToLower lower format = ''text'' \<or> ToLower lower format = [] then (Inr (), text_output r)
      else (Inl (UnsupportedFormat format), []))"

definition runBootstrapService ::
  "(string \<Rightarrow> rune_class) \<Rightarrow> uid \<Rightarrow> uid \<Rightarrow> (string \<Rightarrow> err + string) \<Rightarrow> (string \<Rightarrow> string + unit)
   \<Rightarrow> string \<Rightarrow> bootstrap_input \<Rightarrow> db \<Rightarrow> (boot_error + bootstrap_result) \<times> db" where
  "runBootstrapService uni i ai hashed opened dsn input d =
     (case opened dsn of
        Inl e \<Rightarrow> (Inl (BootstrapOpen e), d)
      | Inr _ \<Rightarrow>
        (case BootstrapAdministrator uni i ai hashed input d of
           (Inl e, d') \<Rightarrow> (Inl (BootstrapFailed e), d')
         | (Inr r, d') \<Rightarrow> (Inr r, d')))"

definition bootstrap_exit :: "boot_error \<Rightarrow> boot_error \<times> string" where
  "bootstrap_exit e = (case e of
       BootstrapFailed ErrAdministratorExists \<Rightarrow> (BootstrapExists, ''administrator already exists'')
     | BootstrapFailed ErrUnknownRole \<Rightarrow> (e, ''unknown role'')
     | BootstrapFailed (ErrWeakPassword _) \<Rightarrow> (BootstrapWeakPassword, ''weak password'')
     | BootstrapFailed (ErrInvalidUsername m) \<Rightarrow> (e, ''invalid username: '' @ err_text (ErrInvalidUsername m))
     | BootstrapFailed e' \<Rightarrow> (e, err_text e')
     | BootstrapOpen m \<Rightarrow> (e, m)
     | _ \<Rightarrow> (e, []))"

definition complain_line :: "string \<Rightarrow> string" where
  "complain_line m = ''admin-bootstrap: '' @ m @ newline"

definition runBootstrap ::
  "(string \<Rightarrow> rune_class) \<Rightarrow> (string \<Rightarrow> string) \<Rightarrow> uid \<Rightarrow> uid \<Rightarrow> (string \<Rightarrow> err + string)
   \<Rightarrow> (bootstrap_result \<Rightarrow> string \<Rightarrow> string) \<Rightarrow> (string \<Rightarrow> string + unit) \<Rightarrow> (string \<Rightarrow> string)
   \<Rightarrow> string + flags \<Rightarrow> db \<Rightarrow> (boot_error + unit) \<times> db \<times> string \<times> string" where
  "runBootstrap uni lower i ai hashed json opened getenv parsed d =
     (case parsed of
        Inl e \<Rightarrow> (Inl (FlagError e), d, [], e)
      | Inr f \<Rightarrow>
        let input = \<lparr>bi_username = trim_space (fl_username f), bi_password = fl_password f,
              bi_role = trim_space (fl_role f), bi_actor = trim_space (fl_actor f)\<rparr> in
        if bi_username input = [] \<or> bi_password input = [] \<or> bi_role input = []
        then (Inl FlagErrHelp, d, [], complain_line ''--username, --password and --role are required'')
        else case ValidateUsername uni (bi_username input) of
            Inl e \<Rightarrow> (Inl (BootstrapFailed e), d, [], complain_line (''invalid username: '' @ err_text e))
          | Inr _ \<Rightarrow>
            (case ValidatePassword uni (bi_password input) of
               Inl e \<Rightarrow> (Inl BootstrapWeakPassword, d, [], complain_line (''weak password: '' @ err_text e))
             | Inr _ \<Rightarrow>
               let databaseURL = trim_space (getenv ''DATABASE_URL'') in
               if databaseURL = []
               then (Inl BootstrapMissingDatabase, d, [], complain_line ''DATABASE_URL is required'')
               else case runBootstrapService uni i ai hashed opened databaseURL input d of
                   (Inl e, d') \<Rightarrow> (case bootstrap_exit e of (e', m) \<Rightarrow> (Inl e', d', [], complain_line m))
                 | (Inr r, d') \<Rightarrow>
                   (case writeBootstrapOutput lower json input r (fl_format f) of
                      (q, out) \<Rightarrow> (q, d', out, []))))"

section \<open>What a run leaves\<close>

text \<open>
  A run that exits well made one administrator, under a name nobody had, enabled and of the role
  asked for; a run that fails changed nothing, but for one case: with a format it does not know the
  command makes the account and then fails.
\<close>

definition exit_ok :: "db \<Rightarrow> (boot_error + unit) \<times> db \<times> string \<times> string \<Rightarrow> bool" where
  "exit_ok d p \<longleftrightarrow> (case p of (q, d', out, msg) \<Rightarrow> (case q of
       Inr _ \<Rightarrow> out \<noteq> [] \<and> msg = []
     | Inl (UnsupportedFormat _) \<Rightarrow> out = [] \<and> msg = []
     | Inl _ \<Rightarrow> d' = d \<and> out = [] \<and> msg \<noteq> []))"

definition one_admin_made :: "string \<Rightarrow> db \<Rightarrow> db \<Rightarrow> bool" where
  "one_admin_made name d d' \<longleftrightarrow> (\<exists>a. admins d' = admins d @ [a] \<and> ad_username a = name \<and>
     name \<notin> ad_username ` set (admins d) \<and> ad_enabled a \<and> ad_version a = 1)"

lemma complain_line_not_Nil [simp]: "complain_line m \<noteq> []"
  by (simp add: complain_line_def)

lemma service_effect:
  assumes "runBootstrapService uni i ai hashed opened dsn input d = (r, d')"
  shows "case r of Inl e \<Rightarrow> d' = d \<and> (\<forall>f. e \<noteq> UnsupportedFormat f)
    | Inr _ \<Rightarrow> one_admin_made (trim_space (bi_username input)) d d'"
proof (cases r)
  case (Inl e)
  then show ?thesis using assms failed_unchanged(1)
    by (auto simp: runBootstrapService_def split: sum.splits prod.splits)
next
  case (Inr x)
  then have "BootstrapAdministrator uni i ai hashed input d = (Inr x, d')"
    using assms by (auto simp: runBootstrapService_def split: sum.splits prod.splits)
  then show ?thesis
    by (rule bootstrap_cases) (auto simp: insert_admin_eq_Inr one_admin_made_def Inr)
qed

lemma bootstrap_exit_known:
  "(\<forall>f. e \<noteq> UnsupportedFormat f) \<Longrightarrow> bootstrap_exit e = (e', m) \<Longrightarrow> (\<forall>f. e' \<noteq> UnsupportedFormat f)"
  by (auto simp: bootstrap_exit_def split: boot_error.splits err.splits)

lemma writeBootstrapOutput_effect:
  "writeBootstrapOutput lower json input r format = (q, out) \<Longrightarrow>
   (case q of Inr _ \<Rightarrow> out \<noteq> [] | Inl e \<Rightarrow> e = UnsupportedFormat format \<and> out = [])"
  by (auto simp: writeBootstrapOutput_def newline_def text_output_def split: if_splits)

lemma runBootstrap_effect:
  assumes "runBootstrap uni lower i ai hashed json opened getenv (Inr f) d = p"
  shows "exit_ok d p \<and> (fst (snd p) \<noteq> d \<longrightarrow> one_admin_made (trim_space (trim_space (fl_username f))) d (fst (snd p)))"
proof -
  let ?input = "\<lparr>bi_username = trim_space (fl_username f), bi_password = fl_password f,
              bi_role = trim_space (fl_role f), bi_actor = trim_space (fl_actor f)\<rparr>"
  let ?url = "trim_space (getenv ''DATABASE_URL'')"
  obtain r d' where s: "runBootstrapService uni i ai hashed opened ?url ?input d = (r, d')" by fastforce
  note effect = service_effect[OF s]
  consider (early) e m where "p = (Inl e, d, [], m)" "m \<noteq> []" "\<forall>f. e \<noteq> UnsupportedFormat f"
    | (service) "p = (case (r, d') of
                   (Inl e, d') \<Rightarrow> (case bootstrap_exit e of (e', m) \<Rightarrow> (Inl e', d', [], complain_line m))
                 | (Inr r, d') \<Rightarrow>
                   (case writeBootstrapOutput lower json ?input r (fl_format f) of
                      (q, out) \<Rightarrow> (q, d', out, [])))"
    using assms unfolding runBootstrap_def Let_def sum.case s
    by (auto split: if_splits sum.splits)
  then show ?thesis
  proof cases
    case early
    then show ?thesis by (cases e) (simp_all add: exit_ok_def)
  next
    case service
    show ?thesis
    proof (cases r)
      case (Inl e)
      obtain e' m where x: "bootstrap_exit e = (e', m)" by fastforce
      have "\<forall>f. e' \<noteq> UnsupportedFormat f" using bootstrap_exit_known[OF _ x] effect Inl by simp
      then show ?thesis using service Inl effect x by (cases e') (simp_all add: exit_ok_def)
    next
      case (Inr x)
      obtain q out where w: "writeBootstrapOutput lower json ?input x (fl_format f) = (q, out)" by fastforce
      show ?thesis using service Inr effect w writeBootstrapOutput_effect[OF w]
        by (cases q) (simp_all add: exit_ok_def)
    qed
  qed
qed

text \<open>
  A run that exits well made one administrator, under a name nobody had, enabled and with the first
  token version; a run that fails says why and changed nothing, but for one case: with a format it
  does not know the command makes the account, and fails then without a word.
\<close>

theorem bootstrap_command:
  assumes "runBootstrap uni lower i ai hashed json opened getenv (Inr f) d = (q, d', out, msg)"
    and "d' \<noteq> d"
  shows "one_admin_made (trim_space (trim_space (fl_username f))) d d' \<and>
    (q = Inr () \<and> out \<noteq> [] \<or> (\<exists>format. q = Inl (UnsupportedFormat format)) \<and> out = []) \<and> msg = []"
  using runBootstrap_effect[OF assms(1)] assms(2)
  by (auto simp: exit_ok_def split: sum.splits boot_error.splits)

definition demo_flags :: flags where
  "demo_flags = default_flags\<lparr>fl_username := ''alice'', fl_password := ''Correct-Horse1'', fl_format := ''xml''\<rparr>"

lemma format_too_late:
  "case runBootstrap (\<lambda>_. OtherRune) (\<lambda>s. s) 42 95 Inr (\<lambda>r a. ''{}'') (\<lambda>_. Inr ()) (\<lambda>_. ''postgres://db'')
     (Inr demo_flags) demo_db of
     (q, d', out, msg) \<Rightarrow> q = Inl (UnsupportedFormat ''xml'') \<and> map ad_username (admins d') = map ad_username (admins demo_db) @ [''alice'']"
  by code_simp

end
