(* ===== verification/Spec2Isabelle.thy ===== *)
theory Spec2Isabelle
  imports World Guards CheckoutFacts RateLimit Passwords Isolation Composition Bootstrap
begin

text \<open>
  The back end of a small shop, \<open>src/backend\<close>. Buyers log in with WeChat, keep a profile, addresses
  and a cart, pay orders with points, confirm their receipt or ask for a refund. Administrators
  manage the catalogue and its images, ship orders, decide on refunds, adjust points, issue coupon
  templates, and hold roles made of permissions. Everything is kept in a PostgreSQL database and,
  for images, in a directory; a request runs a middleware chain, a handler, a usecase or service,
  and at most a few transactions.

  \<^bold>\<open>How the code is modelled.\<close> A value of \<open>db\<close> (\<open>Schema\<close>) is the tables as lists of rows. A
  transaction is a function \<open>db \<Rightarrow> err + 'a \<times> db\<close>; \<open>commit\<close> keeps the tables on an error (\<open>Txn\<close>). A
  statement fails as the constraints of \<open>migrations\<close> make it fail: \<open>22001\<close> for a text too long,
  \<open>23514\<close> for a \<open>CHECK\<close>, \<open>23505\<close> and \<open>23503\<close> for keys. Transactions are serialized by their row locks,
  so one is a step; what another request may do between two transactions of the same request is an
  argument (\<open>early\<close>, the tables an idempotent request read before it took its locks; \<open>act\<close>, what
  happens to the volume during a sweep). Integers are \<open>int\<close> with the wrap-around of \<open>int64\<close> and \<open>int32\<close>
  written where the code computes; ids are words of 128 bits; strings are bytes, with the runes Go
  counts (\<open>GoText\<close>). Errors are constructors of \<open>err\<close>, every branch of the code a branch here.

  \<^bold>\<open>Which theory models what\<close> (packages under \<open>internal/\<close>):
  \<^item> \<open>Prelude\<close>, \<open>GoText\<close>: sums, updates of lists, bounded integers; \<open>strings\<close>, \<open>strconv\<close>, \<open>utf8\<close>.
  \<^item> \<open>Schema\<close>, \<open>Txn\<close>, \<open>AuditLog\<close>: \<open>platform/database\<close> (rows, constraints, retries), \<open>platform/audit\<close>.
  \<^item> \<open>Payment\<close>: \<open>payment\<close> (balances, ledger). \<open>Product\<close>: \<open>product/service.go\<close>, \<open>repository.go\<close>,
    \<open>category.go\<close>. \<open>Storage\<close>: \<open>storage\<close> (keys, validation, the volume, the sweep).
    \<open>Address\<close>, \<open>User\<close>: \<open>user\<close>. \<open>Cart\<close>: \<open>cart\<close>. \<open>OrderDomain\<close>: \<open>order/model.go\<close>, \<open>repository.go\<close>,
    \<open>service.go\<close>.
  \<^item> \<open>Checkout\<close>: \<open>application/order/create.go\<close>. \<open>Fulfillment\<close>: \<open>fulfillment.go\<close>. \<open>Refund\<close>:
    \<open>application/refund\<close>. \<open>Points\<close>: \<open>application/points\<close>. \<open>Access\<close>: \<open>application/access\<close>.
  \<^item> \<open>Roles\<close>, \<open>Admins\<close>, \<open>Passwords\<close>: \<open>admin/service.go\<close>. \<open>RateLimit\<close>: the three limiters.
    \<open>Coupon\<close>: \<open>coupon\<close>.
  \<^item> \<open>Tokens\<close>: \<open>platform/tokens\<close>. \<open>Gate\<close>: \<open>middleware\<close>, \<open>platform/http\<close>, \<open>platform/uid\<close>.
    \<open>Config\<close>: \<open>config\<close>.
  \<^item> \<open>Http\<close>: what the handlers share. \<open>OrderHandlers\<close>: \<open>order/handler.go\<close>. \<open>BuyerHandlers\<close>: the
    handlers of products, cart, addresses, profile and login. \<open>AdminHandlers\<close>: \<open>admin/handler.go\<close>.
    \<open>Uploads\<close>: \<open>admin/image_handler.go\<close>, \<open>user/avatar_handler.go\<close>.
  \<^item> \<open>Server\<close>: the functions that register routes and \<open>cmd/server/main.go buildRouter\<close>; \<open>serve\<close> is what
    one request does to the tables.
  \<^item> \<open>Logging\<close>: \<open>platform/logging\<close>. \<open>Router\<close>: \<open>platform/http/router.go\<close>, \<open>platform/metrics\<close>, \<open>trace.go\<close>
    and \<open>recover.go\<close> of \<open>middleware\<close>. \<open>WeChat\<close>: \<open>platform/wechat\<close>. \<open>Composition\<close>: the rest of
    \<open>cmd/server/main.go\<close>, the server built from its configuration and the loop of sweeps.
    \<open>Bootstrap\<close>: \<open>cmd/admin-bootstrap\<close>.

  \<^bold>\<open>What the lemmas show.\<close> Each component defines the invariant of its tables and shows that its
  operations keep it (\<open>users_ok\<close>, \<open>products_ok\<close>, \<open>carts_ok\<close>, \<open>addresses_ok\<close>, \<open>orders_ok\<close>, \<open>items_ok\<close>,
  \<open>ledger_ok\<close>, \<open>roles_ok\<close>, \<open>admins_ok\<close>, \<open>templates_ok\<close>, \<open>volume_ok\<close>). \<open>Tables\<close> joins those of the shop, and
  \<open>Settlement\<close> adds what an order owes the ledger: \<open>shop_ok\<close>. \<open>World\<close> is the step relation of all
  operations that write; the theorems below follow its runs. \<open>Lifecycle\<close> refines it to the state
  machine of one order. \<open>Effects\<close>, \<open>Guards\<close>, \<open>Replay\<close>, \<open>Progress\<close> and \<open>CheckoutFacts\<close> say what orders
  and refunds do, refuse, repeat and achieve; \<open>Sessions\<close> and \<open>Perimeter\<close> what logins, logouts and
  the gate do; \<open>CouponFacts\<close> the same for templates. \<open>Endpoints\<close> carries results from usecases to
  HTTP, \<open>Server\<close> from operations to requests, and \<open>Isolation\<close> says whose data a request may change and
  what it had to show. \<open>LogFacts\<close> says that nothing secret can be read off the log, as a relation on
  two runs; \<open>Router\<close> that every request is counted and answered, panics included; \<open>Composition\<close>
  carries the invariant of the shop to a process started from its environment. Findings, where the code does not do what it says, are theorems too:
  \<open>single_line_charge\<close>, \<open>conflict_is_lost\<close>, \<open>AdjustPoints_long_key\<close>, \<open>avatar_swept\<close>,
  \<open>logout_misses_csrf_cookie\<close>, \<open>refused_update_half_done\<close>, \<open>long_name_refused\<close>,
  \<open>unset_credentials_share_account\<close>, \<open>camel_word_shown\<close>, \<open>format_too_late\<close>.

  \<^bold>\<open>Interfaces.\<close> \<open>points_account\<close>: what a store of balances and a ledger promise each other;
  \<open>inventory\<close>: taking and returning stock; \<open>recorder\<close>: a log entry in a transaction of its own, which
  changes nothing else; \<open>session_store\<close>: what the gate asks of accounts and roles; \<open>fixed_window\<close>: a
  limiter's bucket. Each is interpreted on the model's definitions where they are defined.

  \<^bold>\<open>Parameters.\<close> What is not under \<open>src/\<close> is an argument: generated ids, order numbers and clocks; the
  text of an id and its parser (\<open>us\<close>, \<open>up\<close>); SHA-256 of a request (\<open>hash\<close>), Argon2, base64, \<open>ILIKE\<close>,
  the letters of \<open>unicode\<close> beyond ASCII; the JWT library, of which \<open>jwt_library\<close> and \<open>claims_of_text\<close>
  state the documented behaviour; the network behind the client of WeChat; \<open>encoding/json\<close> and
  \<open>regexp\<close> where the log is redacted (\<open>json_ok\<close> states what is relied on); the parsers of URLs, durations, times and JSON, so
  that a body is an option of its fields; the image decoders; what a \<open>TIMESTAMPTZ\<close> keeps of a time.
  Hypotheses on them are named and met by a concrete instance in each witness.

  \<^bold>\<open>Bounds.\<close> The retry of a transaction counts to \<open>DefaultTransactionAttempts\<close>, the search for byte
  slices to a depth of 1024, as in the code; both are measures of the recursion. Fuel is used once,
  for messages inside messages: \<open>redactMessage\<close> gives one more than the runes of the message, and
  \<open>redactMessage_returns\<close> shows it enough and more of it without effect. Every other definition is
  structural or terminates by a measure. The theorems on amounts assume nothing about them but what
  the columns allow.

  \<^bold>\<open>Not modelled.\<close> The listener, its timeouts, signals and shutdown; failures of the connection to
  the database or of the file system; the regular expressions as languages, and the registry of
  Prometheus beyond the values of its series; which lines other than those of requests are logged,
  and trace ids and times in the rows of the audit log, which only its list prints; the counters of
  failed logins, besides how they are incremented; the mini program and the administration site,
  which are other programs.
\<close>

section \<open>Any sequence of requests\<close>

text \<open>
  C1: the shop stays in order: from tables that are well formed, with settled accounts and settled
  orders, no sequence of operations, by whomever and with whatever arguments, leaves that state.
\<close>

theorem shop_invariant:
  assumes "shop_step\<^sup>*\<^sup>* d d'" and "shop_ok d"
  shows "shop_ok d'"
  using assms by (induction rule: rtranclp_induct) (auto intro: shop_step_ok)

lemma demo_run: "shop_step\<^sup>*\<^sup>* demo_db demo_requested"
proof -
  have "shop_step demo_db demo_ordered" unfolding demo_ordered_def by (rule checkout)
  moreover have "shop_step demo_ordered demo_requested" unfolding demo_requested_def by (rule refund_request)
  ultimately show ?thesis by simp
qed

lemma shop_invariant_witness: "shop_ok demo_requested"
  by (rule shop_invariant[OF demo_run demo_db_ok])

lemma shop_reachable_ok: "shop_step\<^sup>*\<^sup>* d d' \<Longrightarrow> shop_ok d \<Longrightarrow> shop_ok d'"
  by (induction rule: rtranclp_induct) (auto intro: shop_step_ok)

text \<open>
  C2: the books balance: in every shop that can be reached a buyer's points are not negative and are
  the sum of the deltas of the buyer's ledger entries, each of which records the balance it left.
\<close>

theorem books_balance:
  assumes "shop_step\<^sup>*\<^sup>* d d'" and "shop_ok d" and "balance_of d' u = Some b"
  shows "0 \<le> b \<and> b = sum_list (map l_delta (statement_of d' u)) \<and>
    (statement_of d' u \<noteq> [] \<longrightarrow> l_after (last (statement_of d' u)) = b)"
proof -
  have ok: "shop_ok d'" by (rule shop_reachable_ok[OF assms(1,2)])
  then have s: "settled balance_of statement_of d'" by (simp add: shop_ok_def accounts_settled_def)
  then have "runs 0 (statement_of d' u) = Some b"
    using assms(3) by (auto simp: settled_def split: option.splits)
  moreover have "0 \<le> b"
    using ok assms(3) by (auto simp: shop_ok_def tables_ok_def users_ok_def balance_of_def find_user_def
        dest!: find_SomeD)
  ultimately show ?thesis using acc.nothing_from_nothing[OF s assms(3)] runs_after by blast
qed

lemma books_balance_witness:
  "25 = sum_list (map l_delta (statement_of demo_requested 1))"
proof -
  have "balance_of demo_requested 1 = Some 25" by code_simp
  from books_balance[OF demo_run demo_db_ok this] show ?thesis by blast
qed



lemma filter_unique:
  "distinct xs \<Longrightarrow> l \<in> set xs \<Longrightarrow> P l \<Longrightarrow> (\<And>m. m \<in> set xs \<Longrightarrow> P m \<Longrightarrow> m = l) \<Longrightarrow> filter P xs = [l]"
proof (induction xs)
  case (Cons a xs)
  show ?case
  proof (cases "a = l")
    case True
    then have "m \<noteq> l" if "m \<in> set xs" for m using Cons.prems(1) that by auto
    then have "\<not> P m" if "m \<in> set xs" for m using Cons.prems(4)[of m] that by (metis list.set_intros(2))
    then show ?thesis using True Cons.prems(3) by (simp add: filter_empty_conv)
  next
    case False
    then have "\<not> P a" using Cons.prems(4)[of a] by auto
    moreover have "distinct xs" "l \<in> set xs" using Cons.prems(1,2) False by simp_all
    then have "filter P xs = [l]" using Cons.prems(3) by (rule Cons.IH) (rule Cons.prems(4), simp_all)
    ultimately show ?thesis by simp
  qed
qed simp

lemma sorted_wrt_distinct: "sorted_wrt Q xs \<Longrightarrow> (\<And>x. \<not> Q x x) \<Longrightarrow> distinct xs"
  by (induction xs) auto

lemma ledger_rows_distinct: "ledger_ok d \<Longrightarrow> distinct (ledger d)"
  by (rule sorted_wrt_distinct[of "\<lambda>s r. \<not> ledger_conflict r s"])
    (simp_all add: ledger_ok_def ledger_conflict_def)

text \<open>
  C3: every order of a reachable shop is paid once and refunded at most once: there is exactly one
  payment entry, of its total and by its buyer, and exactly one refund entry, of the same amount,
  when the order is refunded, and none otherwise.
\<close>

theorem refunded_at_most_once:
  assumes "shop_step\<^sup>*\<^sup>* d d'" and "shop_ok d" and "r \<in> set (orders d')"
  shows "\<exists>p. filter (pays r) (ledger d') = [p] \<and> l_user p = o_user r \<and> l_delta p = - o_total r \<and>
    (if o_status r = Refunded
     then \<exists>q. filter (refunds r) (ledger d') = [q] \<and> l_user q = o_user r \<and> l_delta q = o_total r
     else filter (refunds r) (ledger d') = [])"
proof -
  have ok: "shop_ok d'" by (rule shop_reachable_ok[OF assms(1,2)])
  then have lok: "ledger_ok d'" and r: "order_settled d' r"
    using assms(3) by (auto simp: shop_ok_def tables_ok_def orders_settled_def)
  have dist: "distinct (ledger d')" by (rule ledger_rows_distinct[OF lok])
  obtain p where p: "p \<in> set (ledger d')" "pays r p" using r unfolding order_settled_def by blast
  then have "filter (pays r) (ledger d') = [p]"
    by (rule filter_unique[OF dist]) (rule pays_unique[OF lok _ p(1) _ p(2)])
  moreover have "l_user p = o_user r" "l_delta p = - o_total r" using r p by (auto simp: order_settled_def)
  moreover have "\<exists>q. filter (refunds r) (ledger d') = [q] \<and> l_user q = o_user r \<and> l_delta q = o_total r"
    if ref: "o_status r = Refunded"
  proof -
    obtain q where q: "q \<in> set (ledger d')" "refunds r q" using r ref unfolding order_settled_def by blast
    then have "filter (refunds r) (ledger d') = [q]"
      by (rule filter_unique[OF dist]) (rule refunds_unique[OF lok _ q(1) _ q(2)])
    then show ?thesis using r q by (auto simp: order_settled_def)
  qed
  moreover have "filter (refunds r) (ledger d') = []" if "o_status r \<noteq> Refunded"
    using r that by (auto simp: order_settled_def filter_empty_conv)
  ultimately show ?thesis by auto
qed

lemma refunded_at_most_once_witness:
  "filter (refunds (hd (orders demo_requested))) (ledger demo_requested) = []"
proof -
  have "hd (orders demo_requested) \<in> set (orders demo_requested)"
    "o_status (hd (orders demo_requested)) \<noteq> Refunded" by code_simp+
  then show ?thesis using refunded_at_most_once[OF demo_run demo_db_ok] by metis
qed

end
